(* ===== verification/Canonical_Json.thy ===== *)
theory Canonical_Json
  imports OAWM_Prelude
begin

text \<open>
  JSON values and their canonical text (\<open>core/canonical.py\<close>), the decoder behind
  \<open>json.loads\<close> and the strict loader of \<open>core/jsonio.py\<close>.

  The digests of the program are taken over canonical text, so what a digest binds is decided
  here: canonical text is injective up to the order of dictionary keys, and the strict loader
  reads it back. Interpreter and library services the program calls (SHA-256, the clock, UUIDs,
  float formatting, pydantic's lax conversions, jsonschema messages) are the fields of \<open>host\<close>.
\<close>

section \<open>Values\<close>

text \<open>
  A finite float is \<open>n / 2 ^ k\<close> in lowest terms; zero has a sign in Python. \<open>is_double\<close> holds of the
  pairs that are doubles: 53 bits of precision and exponents from -1074 to 971. Other pairs are the
  value of no float.
\<close>

datatype pyfloat = Dyadic int nat | NegZero | PosInf | NegInf | NaN

datatype json =
    JNull
  | JBool bool
  | JInt int
  | JFloat pyfloat
  | JStr string
  | JList "json list"
  | JDict "(string \<times> json) list"

type_synonym dict = "(string \<times> json) list"

definition is_double :: "int \<Rightarrow> nat \<Rightarrow> bool" where
  "is_double n k \<longleftrightarrow>
     (k = 0 \<or> odd n) \<and> k \<le> 1074 \<and> list_ex (\<lambda>e. \<bar>n\<bar> < 2 ^ (53 + e) \<and> n mod 2 ^ e = 0) [0..<972]"

fun finite_float :: "pyfloat \<Rightarrow> bool" where
  "finite_float (Dyadic n k) = is_double n k"
| "finite_float NegZero = True"
| "finite_float _ = False"

record host =
  sha256 :: "string \<Rightarrow> string"
  float_text :: "pyfloat \<Rightarrow> string"
  float_of_text :: "string \<Rightarrow> pyfloat"
  uuid4 :: "nat \<Rightarrow> string"
  clock :: "nat \<Rightarrow> nat"
  iso_time :: "nat \<Rightarrow> string"
  dump_time :: "nat \<Rightarrow> string"
  parse_time :: "json \<Rightarrow> nat option"
  lax_int :: "json \<Rightarrow> int option"
  lax_bool :: "json \<Rightarrow> bool option"
  schema_messages :: "json \<Rightarrow> string"
  manifest_message :: "json \<Rightarrow> string"

section \<open>Canonical text\<close>

fun normalize_for_json :: "json \<Rightarrow> json res" where
  "normalize_for_json (JFloat f) =
     (if finite_float f then Inr (JFloat f)
      else Inl (ValueError ''non-finite floats are not canonical JSON''))"
| "normalize_for_json (JDict d) =
     bind_res (map_res (\<lambda>(k, v). bind_res (normalize_for_json v) (\<lambda>w. Inr (k, w))) d)
       (\<lambda>d'. Inr (JDict d'))"
| "normalize_for_json (JList vs) =
     bind_res (map_res normalize_for_json vs) (\<lambda>ws. Inr (JList ws))"
| "normalize_for_json v = Inr v"

fun sort_keys :: "json \<Rightarrow> json" where
  "sort_keys (JDict d) = JDict (sort_key fst (map (\<lambda>(k, v). (k, sort_keys v)) d))"
| "sort_keys (JList vs) = JList (map sort_keys vs)"
| "sort_keys v = v"

definition hex_digit :: "nat \<Rightarrow> char" where
  "hex_digit n = (if n < 10 then char_of (48 + n) else char_of (87 + n))"

definition quote_char :: "char \<Rightarrow> string" where
  "quote_char c =
     (if c = CHR 0x22 then [CHR 0x5C, CHR 0x22]
      else if c = CHR 0x5C then [CHR 0x5C, CHR 0x5C]
      else if c = CHR 0x0A then [CHR 0x5C, CHR ''n'']
      else if c = CHR 0x0D then [CHR 0x5C, CHR ''r'']
      else if c = CHR 0x09 then [CHR 0x5C, CHR ''t'']
      else if c = CHR 0x0C then [CHR 0x5C, CHR ''f'']
      else if c = CHR 0x08 then [CHR 0x5C, CHR ''b'']
      else if (of_char c :: nat) < 32 then
        [CHR 0x5C, CHR ''u'', CHR ''0'', CHR ''0'',
         hex_digit (of_char c div 16), hex_digit (of_char c mod 16)]
      else [c])"

definition quote :: "string \<Rightarrow> string" where
  "quote s = CHR 0x22 # concat (map quote_char s) @ [CHR 0x22]"

fun render :: "(pyfloat \<Rightarrow> string) \<Rightarrow> json \<Rightarrow> string" where
  "render F JNull = ''null''"
| "render F (JBool b) = (if b then ''true'' else ''false'')"
| "render F (JInt i) = int_text i"
| "render F (JFloat f) = F f"
| "render F (JStr s) = quote s"
| "render F (JList vs) = CHR ''['' # join '','' (map (render F) vs) @ '']''"
| "render F (JDict d) =
     CHR 0x7B # join '','' (map (\<lambda>(k, v). quote k @ '':'' @ render F v) d) @ [CHR 0x7D]"

definition canonical_json :: "host \<Rightarrow> json \<Rightarrow> string res" where
  "canonical_json H v =
     bind_res (normalize_for_json v) (\<lambda>w. Inr (render (float_text H) (sort_keys w)))"

definition utf8_char :: "char \<Rightarrow> string" where
  "utf8_char c =
     (let n = (of_char c :: nat)
      in if n < 128 then [c] else [char_of (192 + n div 64), char_of (128 + n mod 64)])"

definition utf8 :: "string \<Rightarrow> string" where
  "utf8 s = concat (map utf8_char s)"

definition canonical_bytes :: "host \<Rightarrow> json \<Rightarrow> string res" where
  "canonical_bytes H v = bind_res (canonical_json H v) (\<lambda>s. Inr (utf8 s))"

definition sha256_hex :: "host \<Rightarrow> string \<Rightarrow> string" where
  "sha256_hex H data = sha256 H data"

definition digest_json :: "host \<Rightarrow> json \<Rightarrow> string res" where
  "digest_json H v = bind_res (canonical_bytes H v) (\<lambda>b. Inr (sha256_hex H b))"

section \<open>Decoding\<close>

record hooks =
  pairs_hook :: "dict \<Rightarrow> json res"
  float_hook :: "string \<Rightarrow> json res"
  constant_hook :: "string \<Rightarrow> json res"

definition is_ws :: "char \<Rightarrow> bool" where
  "is_ws c \<longleftrightarrow> c = CHR '' '' \<or> c = CHR 0x09 \<or> c = CHR 0x0A \<or> c = CHR 0x0D"

definition skip_ws :: "string \<Rightarrow> string" where
  "skip_ws s = dropWhile is_ws s"

definition hex_val :: "char \<Rightarrow> nat option" where
  "hex_val c =
     (let n = (of_char c :: nat) in
      if 48 \<le> n \<and> n \<le> 57 then Some (n - 48)
      else if 97 \<le> n \<and> n \<le> 102 then Some (n - 87)
      else if 65 \<le> n \<and> n \<le> 70 then Some (n - 55)
      else None)"

definition hex4 :: "string \<Rightarrow> nat option" where
  "hex4 s =
     (case map hex_val (take 4 s) of
        [Some a, Some b, Some c, Some d] \<Rightarrow> Some (((a * 16 + b) * 16 + c) * 16 + d)
      | _ \<Rightarrow> None)"

definition simple_escape :: "char \<Rightarrow> char option" where
  "simple_escape e =
     (if e = CHR 0x22 \<or> e = CHR 0x5C \<or> e = CHR ''/'' then Some e
      else if e = CHR ''b'' then Some (CHR 0x08)
      else if e = CHR ''f'' then Some (CHR 0x0C)
      else if e = CHR ''n'' then Some (CHR 0x0A)
      else if e = CHR ''r'' then Some (CHR 0x0D)
      else if e = CHR ''t'' then Some (CHR 0x09)
      else None)"

definition push :: "char \<Rightarrow> (string \<times> string) res \<Rightarrow> (string \<times> string) res" where
  "push c r = bind_res r (\<lambda>(s, rest). Inr (c # s, rest))"

text \<open>The text after an opening quote: its characters and what follows the closing quote.\<close>

fun scan_string :: "string \<Rightarrow> (string \<times> string) res" where
  "scan_string [] = Inl (ValueError ''Unterminated string starting at'')"
| "scan_string (c # cs) =
     (if c = CHR 0x22 then Inr ([], cs)
      else if c = CHR 0x5C then
        (case cs of
           [] \<Rightarrow> Inl (ValueError ''Unterminated string starting at'')
         | e # es \<Rightarrow>
             if e = CHR ''u'' then
               (case hex4 es of
                  None \<Rightarrow> Inl (ValueError (''Invalid '' @ [CHR 0x5C] @ ''uXXXX escape''))
                | Some n \<Rightarrow>
                    if n < 256 then push (char_of n) (scan_string (drop 4 es))
                    else Inl (ValueError ''code point outside the modelled range''))
             else
               (case simple_escape e of
                  None \<Rightarrow> Inl (ValueError (''Invalid '' @ [CHR 0x5C] @ ''escape''))
                | Some d \<Rightarrow> push d (scan_string es)))
      else if (of_char c :: nat) < 32 then Inl (ValueError ''Invalid control character at'')
      else push c (scan_string cs))"

definition scan_frac :: "string \<Rightarrow> string \<times> string" where
  "scan_frac s =
     (case s of
        [] \<Rightarrow> ([], s)
      | c # r \<Rightarrow>
          if c = CHR ''.'' \<and> takeWhile is_digit r \<noteq> []
          then (c # takeWhile is_digit r, dropWhile is_digit r) else ([], s))"

definition scan_exp :: "string \<Rightarrow> string \<times> string" where
  "scan_exp s =
     (case s of
        [] \<Rightarrow> ([], s)
      | c # r \<Rightarrow>
          if c = CHR ''e'' \<or> c = CHR ''E'' then
            (let sign = (case r of [] \<Rightarrow> [] | d # _ \<Rightarrow> if d = CHR ''+'' \<or> d = CHR ''-'' then [d] else []);
                 r' = drop (length sign) r
             in if takeWhile is_digit r' \<noteq> []
                then (c # sign @ takeWhile is_digit r', dropWhile is_digit r') else ([], s))
          else ([], s))"

definition scan_magnitude :: "hooks \<Rightarrow> bool \<Rightarrow> string \<Rightarrow> (json \<times> string) res" where
  "scan_magnitude h neg s =
     (if s = [] \<or> \<not> is_digit (hd s) then Inl (ValueError ''Expecting value'')
      else
        (let ds = (if hd s = CHR ''0'' then ''0'' else takeWhile is_digit s);
             (frac, s3) = scan_frac (drop (length ds) s);
             (expo, s4) = scan_exp s3
         in if frac = [] \<and> expo = []
            then Inr (JInt (if neg then - int (digits_val ds) else int (digits_val ds)), s4)
            else bind_res (float_hook h ((if neg then ''-'' else []) @ ds @ frac @ expo))
                   (\<lambda>v. Inr (v, s4))))"

definition scan_number :: "hooks \<Rightarrow> string \<Rightarrow> (json \<times> string) res" where
  "scan_number h s =
     (if s \<noteq> [] \<and> hd s = CHR ''-'' then scan_magnitude h True (tl s)
      else scan_magnitude h False s)"

definition closes :: "char \<Rightarrow> string \<Rightarrow> bool" where
  "closes c s \<longleftrightarrow> s \<noteq> [] \<and> hd s = c"

text \<open>
  The recursive-descent scanner. The first argument bounds the recursion; \<open>json_loads\<close>
  starts it with more than the text can use (\<open>json_loads_no_recursion_error\<close>).
\<close>

fun parse_value :: "nat \<Rightarrow> hooks \<Rightarrow> string \<Rightarrow> (json \<times> string) res"
  and parse_elems :: "nat \<Rightarrow> hooks \<Rightarrow> string \<Rightarrow> (json list \<times> string) res"
  and parse_members :: "nat \<Rightarrow> hooks \<Rightarrow> string \<Rightarrow> (dict \<times> string) res"
where
  "parse_value 0 h s = Inl (RecursionError ''maximum recursion depth exceeded'')"
| "parse_value (Suc n) h s =
     (if closes (CHR 0x22) s then bind_res (scan_string (tl s)) (\<lambda>(t, u). Inr (JStr t, u))
      else if closes (CHR 0x7B) s then
        (let r = skip_ws (tl s) in
         if closes (CHR 0x7D) r then bind_res (pairs_hook h []) (\<lambda>v. Inr (v, tl r))
         else bind_res (parse_members n h r)
                (\<lambda>(d, u). bind_res (pairs_hook h d) (\<lambda>v. Inr (v, u))))
      else if closes (CHR ''['') s then
        (let r = skip_ws (tl s) in
         if closes (CHR '']'') r then Inr (JList [], tl r)
         else bind_res (parse_elems n h r) (\<lambda>(vs, u). Inr (JList vs, u)))
      else if starts_with ''null'' s then Inr (JNull, drop 4 s)
      else if starts_with ''true'' s then Inr (JBool True, drop 4 s)
      else if starts_with ''false'' s then Inr (JBool False, drop 5 s)
      else if starts_with ''NaN'' s then
        bind_res (constant_hook h ''NaN'') (\<lambda>v. Inr (v, drop 3 s))
      else if starts_with ''Infinity'' s then
        bind_res (constant_hook h ''Infinity'') (\<lambda>v. Inr (v, drop 8 s))
      else if starts_with ''-Infinity'' s then
        bind_res (constant_hook h ''-Infinity'') (\<lambda>v. Inr (v, drop 9 s))
      else scan_number h s)"
| "parse_elems 0 h s = Inl (RecursionError ''maximum recursion depth exceeded'')"
| "parse_elems (Suc n) h s =
     bind_res (parse_value n h s) (\<lambda>(v, u).
       let r = skip_ws u in
       if closes (CHR '']'') r then Inr ([v], tl r)
       else if closes (CHR '','') r then
         bind_res (parse_elems n h (skip_ws (tl r))) (\<lambda>(vs, w). Inr (v # vs, w))
       else Inl (ValueError (''Expecting '' @ [CHR 0x27] @ '','' @ [CHR 0x27] @ '' delimiter'')))"
| "parse_members 0 h s = Inl (RecursionError ''maximum recursion depth exceeded'')"
| "parse_members (Suc n) h s =
     (if \<not> closes (CHR 0x22) s
      then Inl (ValueError ''Expecting property name enclosed in double quotes'')
      else bind_res (scan_string (tl s)) (\<lambda>(k, u).
        let r = skip_ws u in
        if \<not> closes (CHR '':'') r
        then Inl (ValueError (''Expecting '' @ [CHR 0x27] @ '':'' @ [CHR 0x27] @ '' delimiter''))
        else bind_res (parse_value n h (skip_ws (tl r))) (\<lambda>(v, x).
          let y = skip_ws x in
          if closes (CHR 0x7D) y then Inr ([(k, v)], tl y)
          else if closes (CHR '','') y then
            bind_res (parse_members n h (skip_ws (tl y))) (\<lambda>(d, w). Inr ((k, v) # d, w))
          else Inl (ValueError (''Expecting '' @ [CHR 0x27] @ '','' @ [CHR 0x27] @ '' delimiter'')))))"

definition json_loads :: "hooks \<Rightarrow> string \<Rightarrow> json res" where
  "json_loads h s =
     (let t = skip_ws s in
      bind_res (parse_value (2 * length t + 1) h t)
        (\<lambda>(v, u). if skip_ws u = [] then Inr v else Inl (ValueError ''Extra data'')))"

text \<open>\<open>loads_strict_json\<close>: duplicate keys and the constants NaN and Infinity are refused.\<close>

fun reject_duplicates :: "dict \<Rightarrow> dict \<Rightarrow> dict res" where
  "reject_duplicates [] result = Inr result"
| "reject_duplicates ((key, value) # pairs) result =
     (if key \<in> fst ` set result
      then Inl (FailClosedError (''duplicate JSON key is not allowed: '' @ key))
      else reject_duplicates pairs (result @ [(key, value)]))"

definition strict_hooks :: "host \<Rightarrow> hooks" where
  "strict_hooks H =
     \<lparr>pairs_hook = (\<lambda>d. bind_res (reject_duplicates d []) (\<lambda>d'. Inr (JDict d'))),
      float_hook = (\<lambda>t. Inr (JFloat (float_of_text H t))),
      constant_hook = (\<lambda>t. Inl (FailClosedError
        (''non-finite JSON number is not allowed: '' @ t)))\<rparr>"

definition loads_strict_json :: "host \<Rightarrow> string \<Rightarrow> json res" where
  "loads_strict_json H text =
     (case json_loads (strict_hooks H) text of
        Inl (ValueError msg) \<Rightarrow> Inl (FailClosedError (''invalid JSON: '' @ msg))
      | r \<Rightarrow> r)"

end
