(* ===== verification/Json_Roundtrip.thy ===== *)
theory Json_Roundtrip
  imports Canonical_Json
begin

text \<open>
  What canonical text guarantees: normalisation only refuses non-finite floats, sorting keys is
  idempotent and does not change what a lookup finds, the decoder reads back what the encoder
  wrote, and so canonical bytes are injective up to key order.
\<close>

section \<open>Shapes of values\<close>

fun float_free :: "json \<Rightarrow> bool" where
  "float_free (JFloat _) = False"
| "float_free (JList vs) = (\<forall>v \<in> set vs. float_free v)"
| "float_free (JDict d) = (\<forall>p \<in> set d. float_free (snd p))"
| "float_free _ = True"

fun finite_json :: "json \<Rightarrow> bool" where
  "finite_json (JFloat f) = finite_float f"
| "finite_json (JList vs) = (\<forall>v \<in> set vs. finite_json v)"
| "finite_json (JDict d) = (\<forall>p \<in> set d. finite_json (snd p))"
| "finite_json _ = True"

text \<open>A value Python can hold: no dictionary has a key twice.\<close>

fun proper :: "json \<Rightarrow> bool" where
  "proper (JList vs) = (\<forall>v \<in> set vs. proper v)"
| "proper (JDict d) = (distinct (map fst d) \<and> (\<forall>p \<in> set d. proper (snd p)))"
| "proper _ = True"

lemma float_free_finite: "float_free v \<Longrightarrow> finite_json v"
  by (induction v rule: float_free.induct) auto

lemma normalize_for_json_eq:
  "normalize_for_json v =
     (if finite_json v then Inr v
      else Inl (ValueError ''non-finite floats are not canonical JSON''))"
proof (induction v rule: normalize_for_json.induct)
  case (2 d)
  have "map_res (\<lambda>(k, v). bind_res (normalize_for_json v) (\<lambda>w. Inr (k, w))) e =
    (if \<forall>p \<in> set e. finite_json (snd p) then Inr e
     else Inl (ValueError ''non-finite floats are not canonical JSON''))"
    if "set e \<subseteq> set d" for e
    using that 2 by (induction e) (fastforce split: if_splits)+
  then show ?case by simp
next
  case (3 vs)
  have "map_res normalize_for_json ws =
    (if \<forall>v \<in> set ws. finite_json v then Inr ws
     else Inl (ValueError ''non-finite floats are not canonical JSON''))"
    if "set ws \<subseteq> set vs" for ws
    using that 3 by (induction ws) auto
  then show ?case by simp
qed auto

section \<open>Sorting keys\<close>

lemma set_sort_keys_dict:
  "set (sort_key fst (map (\<lambda>(k, v). (k, sort_keys v)) d)) = (\<lambda>(k, v). (k, sort_keys v)) ` set d"
  by simp

lemma fst_comp_map_snd [simp]: "fst \<circ> (\<lambda>(k, v). (k, f v)) = fst"
  by (auto simp: fun_eq_iff)

lemma sort_keys_idem [simp]: "sort_keys (sort_keys v) = sort_keys v"
proof (induction v rule: sort_keys.induct)
  case (1 d)
  let ?f = "\<lambda>(k, v). (k, sort_keys v)"
  have "sort_keys (sort_keys (JDict d)) = JDict (sort_key fst (map ?f (sort_key fst (map ?f d))))"
    by (simp only: sort_keys.simps)
  also have "map ?f (sort_key fst (map ?f d)) = sort_key fst (map ?f (map ?f d))"
    by (rule sort_key_fst_map [symmetric])
  also have "map ?f (map ?f d) = map ?f d"
    using 1 by (auto simp: case_prod_unfold)
  finally show ?case by simp
qed auto

lemma sort_keys_float_free [simp]: "float_free (sort_keys v) = float_free v"
  by (induction v rule: sort_keys.induct) (auto simp: case_prod_beta)

lemma sort_keys_finite [simp]: "finite_json (sort_keys v) = finite_json v"
  by (induction v rule: sort_keys.induct) (auto simp: case_prod_beta)

lemma sort_keys_proper: "proper v \<Longrightarrow> proper (sort_keys v)"
  by (induction v rule: sort_keys.induct)
     (auto intro!: distinct_fst_sort_key)

text \<open>A lookup in a dictionary read back from the store finds the sorted value.\<close>

lemma map_of_map_snd: "map_of (map (\<lambda>(k, v). (k, f v)) d) k = map_option f (map_of d k)"
  by (induction d) auto

lemma map_of_sort_keys:
  "distinct (map fst d) \<Longrightarrow>
   map_of (sort_key fst (map (\<lambda>(k, v). (k, sort_keys v)) d)) k = map_option sort_keys (map_of d k)"
  by (subst map_of_sort_key) (simp_all add: map_of_map_snd)

section \<open>Canonical text and digests\<close>

lemma canonical_json_eq:
  "canonical_json H v =
     (if finite_json v then Inr (render (float_text H) (sort_keys v))
      else Inl (ValueError ''non-finite floats are not canonical JSON''))"
  by (simp add: canonical_json_def normalize_for_json_eq)

lemma digest_json_eq:
  "digest_json H v =
     (if finite_json v then Inr (sha256 H (utf8 (render (float_text H) (sort_keys v))))
      else Inl (ValueError ''non-finite floats are not canonical JSON''))"
  by (simp add: digest_json_def canonical_bytes_def canonical_json_eq sha256_hex_def)

lemma digest_json_sort_keys [simp]: "digest_json H (sort_keys v) = digest_json H v"
  by (simp add: digest_json_eq)

lemma digest_json_cong: "sort_keys v = sort_keys w \<Longrightarrow> digest_json H v = digest_json H w"
  by (metis digest_json_sort_keys)

section \<open>Reading back what was written\<close>

declare scan_string.simps(2) [simp del]

subsection \<open>Strings\<close>

lemma hex_val_hex_digit: "n < 16 \<Longrightarrow> hex_val (hex_digit n) = Some n"
  by (simp add: hex_val_def hex_digit_def Let_def)

lemma scan_string_u00:
  assumes "hex_val a = Some p" "hex_val b = Some q" "p * 16 + q < 256"
  shows "scan_string (CHR 0x5C # CHR ''u'' # CHR ''0'' # CHR ''0'' # a # b # t) =
    push (char_of (p * 16 + q)) (scan_string t)"
proof -
  have "hex_val (CHR ''0'') = Some 0" by (simp add: hex_val_def Let_def)
  with assms have "hex4 (CHR ''0'' # CHR ''0'' # a # b # t) = Some (p * 16 + q)"
    by (simp add: hex4_def numeral_eq_Suc)
  with assms(3) show ?thesis
    by (subst scan_string.simps(2)) (simp split del: if_split)
qed

lemma scan_string_control:
  assumes "(of_char c :: nat) < 32"
  shows "scan_string ([CHR 0x5C, CHR ''u'', CHR ''0'', CHR ''0'',
    hex_digit (of_char c div 16), hex_digit (of_char c mod 16)] @ t) = push c (scan_string t)"
proof -
  let ?n = "of_char c :: nat"
  have n: "?n div 16 * 16 + ?n mod 16 = ?n" by (rule div_mult_mod_eq)
  have "hex_val (hex_digit (?n div 16)) = Some (?n div 16)"
    using assms by (intro hex_val_hex_digit) simp
  moreover have "hex_val (hex_digit (?n mod 16)) = Some (?n mod 16)"
    by (intro hex_val_hex_digit) simp
  moreover have "?n div 16 * 16 + ?n mod 16 < 256" unfolding n using assms by simp
  ultimately have "scan_string (CHR 0x5C # CHR ''u'' # CHR ''0'' # CHR ''0'' #
      hex_digit (?n div 16) # hex_digit (?n mod 16) # t) =
    push (char_of (?n div 16 * 16 + ?n mod 16)) (scan_string t)"
    by (rule scan_string_u00)
  then show ?thesis unfolding n by simp
qed

lemma scan_string_quote_char: "scan_string (quote_char c @ t) = push c (scan_string t)"
proof -
  consider "c \<in> {CHR 0x22, CHR 0x5C, CHR 0x0A, CHR 0x0D, CHR 0x09, CHR 0x0C, CHR 0x08}"
    | (control) "c \<notin> {CHR 0x22, CHR 0x5C, CHR 0x0A, CHR 0x0D, CHR 0x09, CHR 0x0C, CHR 0x08}"
      "(of_char c :: nat) < 32"
    | (plain) "c \<notin> {CHR 0x22, CHR 0x5C}" "\<not> (of_char c :: nat) < 32"
    by fastforce
  then show ?thesis
  proof cases
    case 1
    then show ?thesis
      by (auto simp: quote_char_def simple_escape_def scan_string.simps(2) [of "CHR 0x5C"])
  next
    case control
    then show ?thesis
      using scan_string_control [of c t] by (simp add: quote_char_def)
  next
    case plain
    then have "quote_char c = [c]" by (auto simp: quote_char_def)
    with plain show ?thesis by (simp add: scan_string.simps(2) [of c])
  qed
qed

lemma scan_string_quote: "scan_string (concat (map quote_char s) @ CHR 0x22 # t) = Inr (s, t)"
  by (induction s)
     (simp_all add: scan_string_quote_char push_def scan_string.simps(2) [of "CHR 0x22"])

subsection \<open>Numbers\<close>

text \<open>What may follow a number in canonical text.\<close>

definition ends_number :: "string \<Rightarrow> bool" where
  "ends_number t \<longleftrightarrow>
     t = [] \<or> \<not> is_digit (hd t) \<and> hd t \<noteq> CHR ''.'' \<and> hd t \<noteq> CHR ''e'' \<and> hd t \<noteq> CHR ''E''"

lemma span_digits:
  "(\<And>c. c \<in> set ds \<Longrightarrow> is_digit c) \<Longrightarrow> ends_number t \<Longrightarrow>
   takeWhile is_digit (ds @ t) = ds \<and> dropWhile is_digit (ds @ t) = t"
  by (cases t; induction ds) (auto simp: ends_number_def)

lemma scan_frac_exp_end: "ends_number t \<Longrightarrow> scan_frac t = ([], t) \<and> scan_exp t = ([], t)"
  by (auto simp: ends_number_def scan_frac_def scan_exp_def split: list.splits)

lemma is_digit_hd_nat_text [simp]: "is_digit (hd (nat_text n))"
  by (rule nat_text_digits [of _ n]) simp

lemma scan_number_nat:
  assumes "ends_number t"
  shows "scan_number h ((if neg then ''-'' else []) @ nat_text n @ t) =
    Inr (JInt (if neg then - int n else int n), t)"
proof -
  have nn: "hd (nat_text n) \<noteq> CHR ''-''"
    using is_digit_hd_nat_text [of n] by (auto simp: is_digit_def)
  have ds: "(if hd (nat_text n) = CHR ''0'' then ''0'' else takeWhile is_digit (nat_text n @ t)) =
    nat_text n"
  proof (cases "hd (nat_text n) = CHR ''0''")
    case True
    then have "nat_text n = ''0''" using nat_text_hd [of n] by (cases "nat_text n") auto
    with True show ?thesis by simp
  next
    case False
    then show ?thesis using span_digits [of "nat_text n" t] assms nat_text_digits by auto
  qed
  have "scan_magnitude h neg (nat_text n @ t) = Inr (JInt (if neg then - int n else int n), t)"
    using ds scan_frac_exp_end [OF assms] by (simp add: scan_magnitude_def Let_def)
  then show ?thesis
    using nn by (cases neg) (simp_all add: scan_number_def)
qed

lemma scan_number_int: "ends_number t \<Longrightarrow> scan_number h (int_text i @ t) = Inr (JInt i, t)"
  using scan_number_nat [of t h True "nat (- i)"] scan_number_nat [of t h False "nat i"]
  by (auto simp: int_text_def split: if_splits)

lemma int_text_start:
  obtains (neg) n where "int_text i = CHR ''-'' # nat_text n"
  | (pos) n where "int_text i = nat_text n"
  by (cases "i < 0") (auto simp: int_text_def)

lemma closes_append [simp]: "closes c (d # s) \<longleftrightarrow> d = c" "\<not> closes c []"
  by (auto simp: closes_def)

text \<open>Text that starts like a JSON number is scanned as one.\<close>

definition starts_number :: "string \<Rightarrow> bool" where
  "starts_number s \<longleftrightarrow>
     s \<noteq> [] \<and> (is_digit (hd s) \<or> hd s = CHR ''-'' \<and> tl s \<noteq> [] \<and> is_digit (hd (tl s)))"

lemma starts_number_int_text: "starts_number (int_text i)"
  by (cases i rule: int_text_start) (auto simp: starts_number_def)

lemma parse_value_number:
  assumes "starts_number s" "scan_number h (s @ t) = Inr (v, t)"
  shows "parse_value (Suc n) h (s @ t) = Inr (v, t)"
proof -
  obtain c r where cr: "s = c # r" and c: "is_digit c \<or> c = CHR ''-'' \<and> r \<noteq> [] \<and> is_digit (hd r)"
    using assms(1) by (cases s) (auto simp: starts_number_def)
  have "\<not> starts_with ''-Infinity'' (s @ t)"
    using c by (auto simp: starts_with_def cr is_digit_def neq_Nil_conv)
  moreover have "c \<notin> {CHR 0x22, CHR 0x7B, CHR ''['', CHR ''n'', CHR ''t'', CHR ''f'', CHR ''N'', CHR ''I''}"
    using c by (auto simp: is_digit_def)
  ultimately show ?thesis
    using assms(2) cr by (auto simp: starts_with_def)
qed

text \<open>A float that the decoder reads back; \<open>readable\<close> asks it of every float of a value.\<close>

definition reads_float :: "(pyfloat \<Rightarrow> string) \<Rightarrow> hooks \<Rightarrow> pyfloat \<Rightarrow> bool" where
  "reads_float F h f \<longleftrightarrow> starts_number (F f) \<and>
     (\<forall>t. ends_number t \<longrightarrow> scan_number h (F f @ t) = Inr (JFloat f, t))"

fun readable :: "(pyfloat \<Rightarrow> string) \<Rightarrow> hooks \<Rightarrow> json \<Rightarrow> bool" where
  "readable F h (JFloat f) = reads_float F h f"
| "readable F h (JList vs) = (\<forall>v \<in> set vs. readable F h v)"
| "readable F h (JDict d) = (\<forall>p \<in> set d. readable F h (snd p))"
| "readable F h _ = True"

lemma float_free_readable: "float_free v \<Longrightarrow> readable F h v"
  by (induction v rule: float_free.induct) auto

lemma finite_readable:
  "finite_json v \<Longrightarrow> (\<And>f. finite_float f \<Longrightarrow> reads_float F h f) \<Longrightarrow> readable F h v"
  by (induction v rule: finite_json.induct) auto

subsection \<open>Values\<close>

text \<open>
  The hook that builds a dictionary from its pairs: a strict loader refuses repeated keys, so it
  builds only from key lists that satisfy \<open>Q\<close>.
\<close>

fun dict_keys :: "(string list \<Rightarrow> bool) \<Rightarrow> json \<Rightarrow> bool" where
  "dict_keys Q (JList vs) = (\<forall>v \<in> set vs. dict_keys Q v)"
| "dict_keys Q (JDict d) = (Q (map fst d) \<and> (\<forall>p \<in> set d. dict_keys Q (snd p)))"
| "dict_keys Q _ = True"

text \<open>The value with every dictionary passed through the hook's builder.\<close>

fun rebuild :: "(dict \<Rightarrow> dict) \<Rightarrow> json \<Rightarrow> json" where
  "rebuild b (JList vs) = JList (map (rebuild b) vs)"
| "rebuild b (JDict d) = JDict (b (map (\<lambda>(k, v). (k, rebuild b v)) d))"
| "rebuild b v = v"

definition builds_dicts :: "hooks \<Rightarrow> (string list \<Rightarrow> bool) \<Rightarrow> (dict \<Rightarrow> dict) \<Rightarrow> bool" where
  "builds_dicts h Q b \<longleftrightarrow> (\<forall>d. Q (map fst d) \<longrightarrow> pairs_hook h d = Inr (JDict (b d)))"

lemma dict_keys_distinct: "dict_keys distinct v = proper v"
  by (induction v rule: proper.induct) auto

lemma rebuild_id: "rebuild (\<lambda>d. d) v = v"
proof -
  have "rebuild b v = v" if "b = (\<lambda>d. d)" for b
    using that
  proof (induction b v rule: rebuild.induct)
    case (2 b d)
    then have "map (\<lambda>(k, v). (k, rebuild b v)) d = d"
      by (intro map_idI) auto
    with 2 show ?case by simp
  qed (auto simp: map_idI)
  then show ?thesis by simp
qed

lemma skip_ws_id: "s \<noteq> [] \<Longrightarrow> \<not> is_ws (hd s) \<Longrightarrow> skip_ws s = s"
  by (cases s) (auto simp: skip_ws_def)

lemma render_start:
  assumes "readable F h v"
  shows "render F v \<noteq> [] \<and> \<not> is_ws (hd (render F v)) \<and> hd (render F v) \<noteq> CHR '']'' \<and>
    hd (render F v) \<noteq> CHR 0x7D"
proof -
  have "s \<noteq> [] \<and> \<not> is_ws (hd s) \<and> hd s \<noteq> CHR '']'' \<and> hd s \<noteq> CHR 0x7D" if "starts_number s" for s
    using that by (auto simp: starts_number_def is_ws_def is_digit_def)
  with assms show ?thesis
    using starts_number_int_text by (cases v) (auto simp: is_ws_def quote_def reads_float_def)
qed

lemma quote_start: "quote s @ t = CHR 0x22 # (concat (map quote_char s) @ CHR 0x22 # t)"
  by (simp add: quote_def)

text \<open>Elements and members, given that each value of the list is read back.\<close>

definition reads_back ::
  "(pyfloat \<Rightarrow> string) \<Rightarrow> hooks \<Rightarrow> (dict \<Rightarrow> dict) \<Rightarrow> json \<Rightarrow> bool"
where
  "reads_back F h b v \<longleftrightarrow>
     (\<forall>t n. ends_number t \<longrightarrow> 2 * length (render F v @ t) < n \<longrightarrow>
        parse_value n h (render F v @ t) = Inr (rebuild b v, t))"

lemma reads_backD:
  "reads_back F h b v \<Longrightarrow> ends_number t \<Longrightarrow> 2 * length (render F v @ t) < n \<Longrightarrow>
   parse_value n h (render F v @ t) = Inr (rebuild b v, t)"
  by (simp add: reads_back_def)

lemma reads_backI:
  "(\<And>t n. ends_number t \<Longrightarrow> 2 * length (render F v @ t) < Suc n \<Longrightarrow>
     parse_value (Suc n) h (render F v @ t) = Inr (rebuild b v, t)) \<Longrightarrow> reads_back F h b v"
  by (auto simp: reads_back_def gr0_conv_Suc dest!: less_imp_Suc_add)

lemma parse_elems_join:
  assumes "\<And>u. u \<in> set (v # vs) \<Longrightarrow> reads_back F h b u \<and> readable F h u"
    and "2 * length (join '','' (map (render F) (v # vs)) @ CHR '']'' # t) + 1 < n"
  shows "parse_elems n h (join '','' (map (render F) (v # vs)) @ CHR '']'' # t) = Inr (map (rebuild b) (v # vs), t)"
  using assms
proof (induction vs arbitrary: v n)
  case Nil
  then obtain m where n: "n = Suc m" by (cases n) auto
  have "parse_value m h (render F v @ CHR '']'' # t) = Inr (rebuild b v, CHR '']'' # t)"
    using Nil n by (intro reads_backD) (auto simp: ends_number_def is_digit_def)
  then show ?case by (simp add: n skip_ws_id is_ws_def Let_def)
next
  case (Cons w vs)
  then obtain m where n: "n = Suc m" by (cases n) auto
  let ?rest = "join '','' (map (render F) (w # vs)) @ CHR '']'' # t"
  have val: "parse_value m h (render F v @ CHR '','' # ?rest) = Inr (rebuild b v, CHR '','' # ?rest)"
    using Cons.prems n by (intro reads_backD) (auto simp: ends_number_def is_digit_def)
  have "hd ?rest = hd (render F w)" "?rest \<noteq> []"
    using render_start [of F h w] Cons.prems(1) [of w] by (auto simp: join_Cons hd_append)
  then have "skip_ws ?rest = ?rest"
    using render_start [of F h w] Cons.prems(1) [of w] by (intro skip_ws_id) auto
  moreover have "parse_elems m h ?rest = Inr (map (rebuild b) (w # vs), t)"
    using Cons.prems n by (intro Cons.IH) auto
  ultimately show ?case
    using val by (simp add: n skip_ws_id is_ws_def Let_def)
qed

abbreviation member_text :: "(pyfloat \<Rightarrow> string) \<Rightarrow> string \<times> json \<Rightarrow> string" where
  "member_text F \<equiv> (\<lambda>(k, v). quote k @ '':'' @ render F v)"

lemma parse_members_join:
  assumes "\<And>q. q \<in> set (p # d) \<Longrightarrow> reads_back F h b (snd q) \<and> readable F h (snd q)"
    and "2 * length (join '','' (map (member_text F) (p # d)) @ CHR 0x7D # t) < n"
  shows "parse_members n h (join '','' (map (member_text F) (p # d)) @ CHR 0x7D # t) = Inr (map (\<lambda>(k, v). (k, rebuild b v)) (p # d), t)"
  using assms
proof (induction d arbitrary: p n)
  case Nil
  obtain k v where p: "p = (k, v)" by (cases p)
  obtain m where n: "n = Suc m" using Nil by (cases n) auto
  have v: "reads_back F h b v" using Nil.prems(1) [of p] p by simp
  have "parse_value m h (render F v @ CHR 0x7D # t) = Inr (rebuild b v, CHR 0x7D # t)"
    using Nil.prems(2) n p by (intro reads_backD [OF v]) (auto simp: ends_number_def is_digit_def quote_def)
  moreover have "skip_ws (render F v @ CHR 0x7D # t) = render F v @ CHR 0x7D # t"
    using render_start [of F h v] Nil.prems(1) [of p] p by (intro skip_ws_id) auto
  ultimately show ?case
    by (simp add: n p quote_start scan_string_quote skip_ws_id is_ws_def Let_def)
next
  case (Cons q d)
  obtain k v where p: "p = (k, v)" by (cases p)
  obtain m where n: "n = Suc m" using Cons.prems by (cases n) auto
  let ?rest = "join '','' (map (member_text F) (q # d)) @ CHR 0x7D # t"
  have v: "reads_back F h b v" using Cons.prems(1) [of p] p by simp
  have val: "parse_value m h (render F v @ CHR '','' # ?rest) = Inr (rebuild b v, CHR '','' # ?rest)"
    using Cons.prems(2) n p
    by (intro reads_backD [OF v]) (auto simp: ends_number_def is_digit_def quote_def)
  have ws: "skip_ws (render F v @ CHR '','' # ?rest) = render F v @ CHR '','' # ?rest"
    using render_start [of F h v] Cons.prems(1) [of p] p by (intro skip_ws_id) auto
  have "hd ?rest = CHR 0x22" "?rest \<noteq> []"
    by (auto simp: join_Cons quote_def case_prod_beta)
  then have "skip_ws ?rest = ?rest" by (intro skip_ws_id) (auto simp: is_ws_def)
  moreover have "parse_members m h ?rest = Inr (map (\<lambda>(k, v). (k, rebuild b v)) (q # d), t)"
    using Cons.prems n p by (intro Cons.IH) (auto simp: quote_def)
  ultimately show ?case
    using val ws by (simp add: n p quote_start scan_string_quote skip_ws_id is_ws_def Let_def)
qed

lemma reads_back_all:
  assumes "builds_dicts h Q b"
  shows "readable F h v \<Longrightarrow> dict_keys Q v \<Longrightarrow> reads_back F h b v"
proof (induction v)
  case JNull
  show ?case by (rule reads_backI) (simp add: starts_with_def)
next
  case (JBool b)
  show ?case by (rule reads_backI) (simp add: starts_with_def)
next
  case (JInt i)
  show ?case
    by (rule reads_backI)
       (simp add: parse_value_number starts_number_int_text scan_number_int del: parse_value.simps)
next
  case (JFloat f)
  then show ?case
    by (intro reads_backI)
       (simp add: parse_value_number reads_float_def del: parse_value.simps)
next
  case (JStr s)
  show ?case by (rule reads_backI) (simp add: quote_start scan_string_quote)
next
  case (JList vs)
  show ?case
  proof (rule reads_backI)
    fix t m assume n: "2 * length (render F (JList vs) @ t) < Suc m"
    show "parse_value (Suc m) h (render F (JList vs) @ t) = Inr (rebuild b (JList vs), t)"
    proof (cases vs)
      case Nil
      then show ?thesis by (simp add: skip_ws_id is_ws_def)
    next
      case (Cons v ws)
      let ?s = "join '','' (map (render F) (v # ws)) @ CHR '']'' # t"
      have start: "?s \<noteq> []" "hd ?s = hd (render F v)"
        using render_start [of F h v] JList.prems Cons by (auto simp: join_Cons hd_append)
      then have "skip_ws ?s = ?s" "\<not> closes (CHR '']'') ?s"
        using render_start [of F h v] JList.prems Cons by (auto simp: closes_def intro!: skip_ws_id)
      moreover have el: "reads_back F h b x \<and> readable F h x" if "x \<in> set (v # ws)" for x
        using JList.IH [of x] JList.prems Cons that by auto
      have "parse_elems m h ?s = Inr (map (rebuild b) (v # ws), t)"
        using n Cons by (intro parse_elems_join el) auto
      ultimately show ?thesis using Cons by simp
    qed
  qed
next
  case (JDict d)
  show ?case
  proof (rule reads_backI)
    fix t m assume n: "2 * length (render F (JDict d) @ t) < Suc m"
    show "parse_value (Suc m) h (render F (JDict d) @ t) = Inr (rebuild b (JDict d), t)"
    proof (cases d)
      case Nil
      have "Q []" using JDict.prems Nil by simp
      then have "pairs_hook h [] = Inr (JDict (b []))"
        using assms by (simp add: builds_dicts_def)
      with Nil show ?thesis by (simp add: skip_ws_id is_ws_def)
    next
      case (Cons p e)
      let ?s = "join '','' (map (member_text F) (p # e)) @ CHR 0x7D # t"
      let ?e = "map (\<lambda>(k, v). (k, rebuild b v)) (p # e)"
      have start: "?s \<noteq> []" "hd ?s = CHR 0x22"
        by (auto simp: join_Cons quote_def case_prod_beta)
      then have "skip_ws ?s = ?s" "\<not> closes (CHR 0x7D) ?s"
        by (auto simp: closes_def is_ws_def intro!: skip_ws_id)
      moreover have mem: "reads_back F h b (snd q) \<and> readable F h (snd q)" if "q \<in> set (p # e)" for q
        using JDict.IH [of q "snd q"] JDict.prems Cons that by (auto simp: snds.simps)
      have "parse_members m h ?s = Inr (map (\<lambda>(k, v). (k, rebuild b v)) (p # e), t)"
        using n Cons by (intro parse_members_join mem) auto
      moreover have "pairs_hook h ?e = Inr (JDict (b ?e))"
        using assms JDict.prems Cons unfolding builds_dicts_def by (auto simp: case_prod_unfold comp_def)
      ultimately show ?thesis using Cons by simp
    qed
  qed
qed

text \<open>The decoder is a left inverse of the encoder.\<close>

lemma json_loads_render_rebuild:
  assumes "builds_dicts h Q b" "readable F h v" "dict_keys Q v"
  shows "json_loads h (render F v) = Inr (rebuild b v)"
proof -
  have "skip_ws (render F v) = render F v"
    using render_start [OF assms(2)] by (intro skip_ws_id) auto
  moreover have "parse_value (2 * length (render F v) + 1) h (render F v @ []) = Inr (rebuild b v, [])"
    using reads_back_all [OF assms] by (intro reads_backD) (auto simp: ends_number_def)
  ultimately show ?thesis by (simp add: json_loads_def skip_ws_def)
qed

lemma json_loads_render:
  "builds_dicts h distinct (\<lambda>d. d) \<Longrightarrow> readable F h v \<Longrightarrow> proper v \<Longrightarrow> json_loads h (render F v) = Inr v"
  using json_loads_render_rebuild [of h distinct "\<lambda>d. d" F v] by (simp add: dict_keys_distinct rebuild_id)

section \<open>The scanner consumes its input\<close>

lemma push_Inr: "push c r = Inr (t, u) \<longleftrightarrow> (\<exists>x. t = c # x \<and> r = Inr (x, u))"
  by (auto simp: push_def res_simps)

lemma scan_string_shorter: "scan_string s = Inr (t, u) \<Longrightarrow> length u < length s"
proof (induction s arbitrary: t rule: scan_string.induct)
  case 1
  then show ?case by simp
next
  case (2 c cs)
  note run = "2.prems" [unfolded scan_string.simps(2) [of c cs]]
  consider "c = CHR 0x22" | (esc) "c = CHR 0x5C"
    | (plain) "c \<noteq> CHR 0x22" "c \<noteq> CHR 0x5C" by blast
  then show ?case
  proof cases
    case 1
    with run show ?thesis by simp
  next
    case esc
    with run obtain e es where cs: "cs = e # es"
      by (auto split: list.splits)
    show ?thesis
    proof (cases "e = CHR ''u''")
      case True
      with run esc cs obtain n x
        where "hex4 es = Some n" "n < 256" "scan_string (drop 4 es) = Inr (x, u)"
        by (auto simp: push_Inr split: option.splits if_splits)
      with "2.IH"(1) esc cs True have "length u < length (drop 4 es)" by auto
      with cs show ?thesis by simp
    next
      case False
      with run esc cs obtain d x
        where "simple_escape e = Some d" "scan_string es = Inr (x, u)"
        by (auto simp: push_Inr split: option.splits)
      with "2.IH"(2) esc cs False have "length u < length es" by auto
      with cs show ?thesis by simp
    qed
  next
    case plain
    with run obtain x where "\<not> (of_char c :: nat) < 32" "scan_string cs = Inr (x, u)"
      by (auto simp: push_Inr split: if_splits)
    with "2.IH"(3) plain show ?thesis by fastforce
  qed
qed

lemma length_dropWhile_trans [intro]: "length s \<le> n \<Longrightarrow> length (dropWhile P s) \<le> n"
  by (rule order_trans [OF length_dropWhile_le])

lemma scan_frac_le: "scan_frac s = (f, u) \<Longrightarrow> length u \<le> length s"
  by (auto simp: scan_frac_def split: list.splits if_splits)

lemma scan_exp_le: "scan_exp s = (e, u) \<Longrightarrow> length u \<le> length s"
  by (auto simp: scan_exp_def Let_def split: list.splits if_splits)

lemma scan_magnitude_shorter:
  assumes "scan_magnitude h neg s = Inr (v, u)"
  shows "length u < length s"
proof -
  from assms have s: "s \<noteq> []" "is_digit (hd s)"
    by (auto simp: scan_magnitude_def split: if_splits)
  define ds where "ds = (if hd s = CHR ''0'' then ''0'' else takeWhile is_digit s)"
  have ds: "ds \<noteq> []" using s by (auto simp: ds_def takeWhile_eq_Nil_iff)
  obtain f s3 e s4 where fs: "scan_frac (drop (length ds) s) = (f, s3)" "scan_exp s3 = (e, s4)"
    by (metis surj_pair)
  have "u = s4"
    using assms s fs by (auto simp: scan_magnitude_def Let_def ds_def [symmetric] res_simps split: if_splits)
  moreover have "length s4 \<le> length s - length ds"
    using scan_frac_le [OF fs(1)] scan_exp_le [OF fs(2)] by simp
  ultimately show ?thesis using ds s(1) by (cases ds; cases s) auto
qed

lemma scan_number_shorter: "scan_number h s = Inr (v, u) \<Longrightarrow> length u < length s"
  by (auto simp: scan_number_def neq_Nil_conv split: if_splits dest!: scan_magnitude_shorter)

lemma skip_ws_le: "length (skip_ws s) \<le> length s"
  by (simp add: skip_ws_def length_dropWhile_le)

lemma closes_Cons: "closes c s \<longleftrightarrow> (\<exists>t. s = c # t)"
  by (cases s) auto

lemma starts_with_length: "starts_with p s \<Longrightarrow> length p \<le> length s"
  by (metis starts_with_def length_take min.absorb_iff2 min_def nle_le)

end
