(* ===== verification/Strict_Json.thy ===== *)
theory Strict_Json
  imports Json_Roundtrip
begin

text \<open>
  The strict loader: the recursion bound of the model is never reached, what it loads has no
  repeated key and is what the text says, and it reads canonical text back. Canonical bytes
  determine the value up to key order, which is what a digest of them binds.
\<close>

section \<open>The recursion bound is enough\<close>

declare parse_value.simps [simp del] parse_elems.simps [simp del] parse_members.simps [simp del]

lemma parse_value_cases:
  assumes "parse_value (Suc n) h s = r"
  obtains (str) "closes (CHR 0x22) s"
      "r = bind_res (scan_string (tl s)) (\<lambda>(t, u). Inr (JStr t, u))"
  | (empty_dict) "closes (CHR 0x7B) s" "closes (CHR 0x7D) (skip_ws (tl s))"
      "r = bind_res (pairs_hook h []) (\<lambda>v. Inr (v, tl (skip_ws (tl s))))"
  | (dict) "closes (CHR 0x7B) s"
      "r = bind_res (parse_members n h (skip_ws (tl s)))
             (\<lambda>(d, u). bind_res (pairs_hook h d) (\<lambda>v. Inr (v, u)))"
  | (empty_list) "closes (CHR ''['') s" "closes (CHR '']'') (skip_ws (tl s))"
      "r = Inr (JList [], tl (skip_ws (tl s)))"
  | (list) "closes (CHR ''['') s"
      "r = bind_res (parse_elems n h (skip_ws (tl s))) (\<lambda>(vs, u). Inr (JList vs, u))"
  | (word) w v where "starts_with w s" "w \<noteq> []" "r = Inr (v, drop (length w) s)" "v \<in> {JNull, JBool True, JBool False}"
  | (const) w where "starts_with w s" "w \<noteq> []"
      "r = bind_res (constant_hook h w) (\<lambda>v. Inr (v, drop (length w) s))"
  | (num) "r = scan_number h s"
proof -
  note words = word [of "''null''" JNull] word [of "''true''" "JBool True"]
    word [of "''false''" "JBool False"]
  note cs = const [of "''NaN''"] const [of "''Infinity''"] const [of "''-Infinity''"]
  show ?thesis
    using assms str empty_dict dict empty_list list words cs num
    unfolding parse_value.simps Let_def by (simp add: numeral_eq_Suc split: if_splits)
qed

lemma shorter_tl_skip: "closes c s \<Longrightarrow> length u < length (skip_ws (tl s)) \<Longrightarrow> length u < length s"
  using skip_ws_le [of "tl s"] by (auto simp: closes_Cons)

lemma shorter_tl_tl: "closes c s \<Longrightarrow> u = tl (skip_ws (tl s)) \<Longrightarrow> length u < length s"
  using skip_ws_le [of "tl s"] by (auto simp: closes_Cons)

lemma shorter_drop:
  "starts_with w s \<Longrightarrow> w \<noteq> [] \<Longrightarrow> u = drop (length w) s \<Longrightarrow> length u < length s"
  using starts_with_length [of w s] by (cases w) auto

lemma parse_shorter:
  "(\<forall>s v u. parse_value n h s = Inr (v, u) \<longrightarrow> length u < length s) \<and>
   (\<forall>s vs u. parse_elems n h s = Inr (vs, u) \<longrightarrow> length u < length s) \<and>
   (\<forall>s d u. parse_members n h s = Inr (d, u) \<longrightarrow> length u < length s)"
proof (induction n)
  case 0
  then show ?case by (simp add: parse_value.simps parse_elems.simps parse_members.simps)
next
  case (Suc n)
  have val: "length u < length s" if "parse_value (Suc n) h s = Inr (v, u)" for s v u
    using that
  proof (cases rule: parse_value_cases)
    case str
    then show ?thesis by (auto simp: res_simps closes_Cons dest!: scan_string_shorter)
  next
    case dict
    with Suc.IH show ?thesis by (auto simp: res_simps intro: shorter_tl_skip)
  next
    case list
    with Suc.IH show ?thesis by (auto simp: res_simps intro: shorter_tl_skip)
  next
    case num
    then show ?thesis by (metis scan_number_shorter)
  qed (auto simp del: length_drop length_tl simp: res_simps shorter_tl_tl shorter_drop)
  have step: "length w < length s"
    if "length u < length s" "closes c (skip_ws u)" "length w < length (skip_ws (tl (skip_ws u))) \<or> w = tl (skip_ws u)"
    for s u w :: string and c
    using that skip_ws_le [of u] skip_ws_le [of "tl (skip_ws u)"] by (auto simp: closes_Cons)
  have elems: "length u < length s" if "parse_elems (Suc n) h s = Inr (vs, u)" for s vs u
  proof -
    from that obtain v x where v: "parse_value n h s = Inr (v, x)"
      and rest: "closes (CHR '']'') (skip_ws x) \<and> u = tl (skip_ws x) \<or>
        closes (CHR '','') (skip_ws x) \<and> (\<exists>e. parse_elems n h (skip_ws (tl (skip_ws x))) = Inr (e, u))"
      by (auto simp: parse_elems.simps res_simps Let_def split: if_splits prod.splits)
    have "length x < length s" using v Suc.IH by blast
    then show ?thesis using step rest Suc.IH by blast
  qed
  have mems: "length w < length s" if "parse_members (Suc n) h s = Inr (d, w)" for s d w
  proof -
    from that obtain k u v x where s: "closes (CHR 0x22) s" and str: "scan_string (tl s) = Inr (k, u)"
      and colon: "closes (CHR '':'') (skip_ws u)"
      and v: "parse_value n h (skip_ws (tl (skip_ws u))) = Inr (v, x)"
      and rest: "closes (CHR 0x7D) (skip_ws x) \<and> w = tl (skip_ws x) \<or>
        closes (CHR '','') (skip_ws x) \<and> (\<exists>e. parse_members n h (skip_ws (tl (skip_ws x))) = Inr (e, w))"
      by (auto simp: parse_members.simps res_simps Let_def split: if_splits prod.splits)
    have "length u < length s"
      using scan_string_shorter [OF str] by simp
    then have "length x < length s" using step colon v Suc.IH by blast
    then show ?thesis using step rest Suc.IH by blast
  qed
  show ?case using val elems mems by blast
qed

text \<open>Hooks that do not themselves fail with a recursion error.\<close>

fun is_recursion_error :: "error \<Rightarrow> bool" where
  "is_recursion_error (RecursionError _) = True"
| "is_recursion_error _ = False"

definition raises_recursion :: "'a res \<Rightarrow> bool" where
  "raises_recursion r \<longleftrightarrow> (case r of Inl e \<Rightarrow> is_recursion_error e | Inr _ \<Rightarrow> False)"

lemma raises_recursion_simps [simp]:
  "raises_recursion (Inl e) = is_recursion_error e" "\<not> raises_recursion (Inr x)"
  by (simp_all add: raises_recursion_def)

lemma raises_recursion_bind:
  "\<not> raises_recursion m \<Longrightarrow> (\<And>x. m = Inr x \<Longrightarrow> \<not> raises_recursion (f x)) \<Longrightarrow>
   \<not> raises_recursion (bind_res m f)"
  by (cases m) auto

lemma raises_recursion_bind_iff:
  "raises_recursion (bind_res m f) \<longleftrightarrow>
   raises_recursion m \<or> (\<exists>x. m = Inr x \<and> raises_recursion (f x))"
  by (cases m) auto

definition hooks_no_recursion :: "hooks \<Rightarrow> bool" where
  "hooks_no_recursion h \<longleftrightarrow>
     (\<forall>d. \<not> raises_recursion (pairs_hook h d)) \<and> (\<forall>t. \<not> raises_recursion (float_hook h t)) \<and>
     (\<forall>t. \<not> raises_recursion (constant_hook h t))"

lemma push_no_recursion: "\<not> raises_recursion r \<Longrightarrow> \<not> raises_recursion (push c r)"
  by (cases r) (auto simp: push_def)

lemma scan_string_no_recursion: "\<not> raises_recursion (scan_string s)"
proof (induction s rule: scan_string.induct)
  case 1
  then show ?case by simp
next
  case (2 c cs)
  show ?case
  proof (cases cs)
    case Nil
    then show ?thesis using "2.IH"(3) by (auto simp: scan_string.simps(2) intro!: push_no_recursion)
  next
    case (Cons e es)
    then show ?thesis
      using "2.IH"
      by (auto simp: scan_string.simps(2) [of c "e # es"] intro!: push_no_recursion split: option.split)
  qed
qed

lemma scan_magnitude_no_recursion:
  "hooks_no_recursion h \<Longrightarrow> \<not> raises_recursion (scan_magnitude h neg s)"
proof -
  assume "hooks_no_recursion h"
  then have "\<not> raises_recursion (bind_res (float_hook h t) (\<lambda>v. Inr (v, u)))"
    for t and u :: string
    by (intro raises_recursion_bind) (auto simp: hooks_no_recursion_def)
  then show ?thesis by (simp add: scan_magnitude_def Let_def split: prod.split)
qed

lemma scan_number_no_recursion: "hooks_no_recursion h \<Longrightarrow> \<not> raises_recursion (scan_number h s)"
  by (simp add: scan_number_def scan_magnitude_no_recursion)

lemma parse_no_recursion:
  assumes h: "hooks_no_recursion h"
  shows "(\<forall>s. 2 * length s < n \<longrightarrow> \<not> raises_recursion (parse_value n h s)) \<and>
    (\<forall>s. 2 * length s + 1 < n \<longrightarrow> \<not> raises_recursion (parse_elems n h s)) \<and>
    (\<forall>s. 2 * length s < n \<longrightarrow> \<not> raises_recursion (parse_members n h s))"
proof (induction n)
  case 0
  then show ?case by simp
next
  case (Suc n)
  have len: "2 * length (skip_ws (tl s)) + 1 < n" if "closes c s" "2 * length s < Suc n" for c s
    using that skip_ws_le [of "tl s"] by (auto simp: closes_Cons)
  have run: "\<not> raises_recursion r" if "parse_value (Suc n) h s = r" and n: "2 * length s < Suc n" for s r
    using that(1)
  proof (cases rule: parse_value_cases)
    case str
    show ?thesis unfolding str(2)
      by (rule raises_recursion_bind) (auto simp: scan_string_no_recursion)
  next
    case empty_dict
    show ?thesis unfolding empty_dict(3)
      by (rule raises_recursion_bind) (use h in \<open>auto simp: hooks_no_recursion_def\<close>)
  next
    case dict
    have "\<not> raises_recursion (parse_members n h (skip_ws (tl s)))"
      using Suc.IH len [OF dict(1) n] by (meson Suc_lessD add_lessD1)
    moreover have "\<not> raises_recursion (bind_res (pairs_hook h d) (\<lambda>v. Inr (v, u)))"
      for d and u :: string
      by (rule raises_recursion_bind) (use h in \<open>auto simp: hooks_no_recursion_def\<close>)
    ultimately show ?thesis unfolding dict(2)
      by (intro raises_recursion_bind) (auto split: prod.splits)
  next
    case list
    have "\<not> raises_recursion (parse_elems n h (skip_ws (tl s)))"
      using Suc.IH len [OF list(1) n] by blast
    then show ?thesis unfolding list(2)
      by (rule raises_recursion_bind) (auto split: prod.splits)
  next
    case num
    then show ?thesis using h by (simp add: scan_number_no_recursion)
  next
    case (const w)
    show ?thesis unfolding const(3)
      by (rule raises_recursion_bind) (use h in \<open>auto simp: hooks_no_recursion_def\<close>)
  qed simp_all
  then have val: "\<not> raises_recursion (parse_value (Suc n) h s)" if "2 * length s < Suc n" for s
    using that by blast
  have after: "2 * length (skip_ws (tl (skip_ws u))) + 1 < n"
    if "length u < length s" "closes c (skip_ws u)" "2 * length s < Suc n" for u s c
    using that skip_ws_le [of u] skip_ws_le [of "tl (skip_ws u)"] by (auto simp: closes_Cons)
  have elems: "\<not> raises_recursion (parse_elems (Suc n) h s)" if n: "2 * length s + 1 < Suc n" for s
  proof -
    have "\<not> raises_recursion (parse_value n h s)" using Suc.IH n by simp
    moreover have "\<not> raises_recursion (parse_elems n h (skip_ws (tl (skip_ws u))))"
      if "parse_value n h s = Inr (v, u)" "closes c (skip_ws u)" for v u c
      using Suc.IH after [of u s c] that n parse_shorter [of n h] by auto
    ultimately show ?thesis
      by (auto simp: parse_elems.simps Let_def raises_recursion_bind_iff split: prod.splits if_splits)
  qed
  have mems: "\<not> raises_recursion (parse_members (Suc n) h s)" if n: "2 * length s < Suc n" for s
  proof (cases "closes (CHR 0x22) s")
    case True
    have "\<not> raises_recursion (parse_value n h (skip_ws (tl (skip_ws u))))"
      if "scan_string (tl s) = Inr (k, u)" "closes c (skip_ws u)" for k u c
    proof -
      have "length u < length s" using scan_string_shorter [OF that(1)] by simp
      from after [OF this that(2) n] show ?thesis using Suc.IH by simp
    qed
    moreover have "\<not> raises_recursion (parse_members n h (skip_ws (tl (skip_ws x))))"
      if "scan_string (tl s) = Inr (k, u)" "closes c (skip_ws u)"
        "parse_value n h (skip_ws (tl (skip_ws u))) = Inr (v, x)" "closes c' (skip_ws x)" for k u v x c c'
    proof -
      have "length u < length s" using scan_string_shorter [OF that(1)] by simp
      moreover have "length x < length (skip_ws (tl (skip_ws u)))" using parse_shorter that(3) by blast
      ultimately have "length x < length s"
        using that(2) skip_ws_le [of u] skip_ws_le [of "tl (skip_ws u)"] by (auto simp: closes_Cons)
      from after [OF this that(4) n] show ?thesis using Suc.IH by auto
    qed
    ultimately show ?thesis
      using True
      by (auto simp: parse_members.simps Let_def raises_recursion_bind_iff scan_string_no_recursion
          split: prod.splits if_splits)
  qed (simp add: parse_members.simps)
  show ?case using val elems mems by blast
qed

lemma json_loads_no_recursion_error:
  assumes "hooks_no_recursion h"
  shows "\<not> raises_recursion (json_loads h s)"
proof -
  have "\<not> raises_recursion (parse_value (2 * length (skip_ws s) + 1) h (skip_ws s))"
    using parse_no_recursion [OF assms, of "2 * length (skip_ws s) + 1"] by simp
  then show ?thesis
    unfolding json_loads_def Let_def
    by (rule raises_recursion_bind) (auto split: prod.splits if_splits)
qed

section \<open>Repeated keys\<close>

text \<open>
  A property of values that atoms have and that lists and the hooks preserve holds of all that is
  loaded.
\<close>

definition closed_values :: "(json \<Rightarrow> bool) \<Rightarrow> bool" where
  "closed_values Q \<longleftrightarrow>
     Q JNull \<and> (\<forall>b. Q (JBool b)) \<and> (\<forall>i. Q (JInt i)) \<and> (\<forall>s. Q (JStr s)) \<and>
     (\<forall>vs. (\<forall>v \<in> set vs. Q v) \<longrightarrow> Q (JList vs))"

definition hooks_give :: "(json \<Rightarrow> bool) \<Rightarrow> hooks \<Rightarrow> bool" where
  "hooks_give Q h \<longleftrightarrow>
     closed_values Q \<and>
     (\<forall>d v. (\<forall>p \<in> set d. Q (snd p)) \<longrightarrow> pairs_hook h d = Inr v \<longrightarrow> Q v) \<and>
     (\<forall>t v. float_hook h t = Inr v \<longrightarrow> Q v) \<and>
     (\<forall>t v. constant_hook h t = Inr v \<longrightarrow> Q v)"

lemma closed_proper [simp]: "closed_values proper"
  by (simp add: closed_values_def)

lemma scan_number_gives: "hooks_give Q h \<Longrightarrow> scan_number h s = Inr (v, u) \<Longrightarrow> Q v"
  by (auto simp: scan_number_def scan_magnitude_def Let_def res_simps hooks_give_def closed_values_def
      split: if_splits prod.splits)

lemma parse_gives:
  assumes h: "hooks_give Q h"
  shows "(\<forall>s v u. parse_value n h s = Inr (v, u) \<longrightarrow> Q v) \<and>
    (\<forall>s vs u. parse_elems n h s = Inr (vs, u) \<longrightarrow> (\<forall>v \<in> set vs. Q v)) \<and>
    (\<forall>s d u. parse_members n h s = Inr (d, u) \<longrightarrow> (\<forall>p \<in> set d. Q (snd p)))"
proof (induction n)
  case 0
  then show ?case by (simp add: parse_value.simps parse_elems.simps parse_members.simps)
next
  case (Suc n)
  have val: "Q v" if "parse_value (Suc n) h s = Inr (v, u)" for s v u
    using that
  proof (cases rule: parse_value_cases)
    case dict
    then obtain d w where "parse_members n h (skip_ws (tl s)) = Inr (d, w)" "pairs_hook h d = Inr v"
      by (auto simp: res_simps)
    moreover from this have "\<forall>p \<in> set d. Q (snd p)" using Suc.IH by blast
    ultimately show ?thesis using h unfolding hooks_give_def closed_values_def by blast
  next
    case list
    then obtain vs w where "parse_elems n h (skip_ws (tl s)) = Inr (vs, w)" "v = JList vs"
      by (auto simp: res_simps)
    moreover from this have "\<forall>v \<in> set vs. Q v" using Suc.IH by blast
    ultimately show ?thesis using h unfolding hooks_give_def closed_values_def by blast
  next
    case num
    then show ?thesis by (metis scan_number_gives h)
  next
    case empty_dict
    then have "pairs_hook h [] = Inr v" by (auto simp: res_simps)
    with h show ?thesis unfolding hooks_give_def closed_values_def by (metis empty_iff list.set(1))
  qed (use h in \<open>auto simp: res_simps hooks_give_def closed_values_def\<close>)
  have elems: "\<forall>v \<in> set vs. Q v" if "parse_elems (Suc n) h s = Inr (vs, w)" for s vs w
  proof -
    from that obtain v x where v: "parse_value n h s = Inr (v, x)"
      and rest: "vs = [v] \<or> (\<exists>e y. vs = v # e \<and> parse_elems n h y = Inr (e, w))"
      by (auto simp: parse_elems.simps res_simps Let_def split: if_splits prod.splits)
    have "Q v" using v Suc.IH by blast
    moreover have "\<forall>v \<in> set e. Q v" if "parse_elems n h y = Inr (e, w)" for e y
      using that Suc.IH by blast
    ultimately show ?thesis using rest by fastforce
  qed
  have mems: "\<forall>p \<in> set d. Q (snd p)" if "parse_members (Suc n) h s = Inr (d, w)" for s d w
  proof -
    have "\<exists>k v t x. parse_value n h t = Inr (v, x) \<and>
        (d = [(k, v)] \<or> (\<exists>e y. d = (k, v) # e \<and> parse_members n h y = Inr (e, w)))"
      using that
      by (simp add: parse_members.simps res_simps Let_def split: if_splits prod.splits) blast+
    then obtain k v t x where v: "parse_value n h t = Inr (v, x)"
      and rest: "d = [(k, v)] \<or> (\<exists>e y. d = (k, v) # e \<and> parse_members n h y = Inr (e, w))"
      by blast
    have "Q v" using v Suc.IH by blast
    moreover have "\<forall>p \<in> set e. Q (snd p)" if "parse_members n h y = Inr (e, w)" for e y
      using that Suc.IH by blast
    ultimately show ?thesis using rest by fastforce
  qed
  show ?case using val elems mems by blast
qed

lemma json_loads_gives: "hooks_give Q h \<Longrightarrow> json_loads h s = Inr v \<Longrightarrow> Q v"
  using parse_gives [of Q h "2 * length (skip_ws s) + 1"]
  by (auto simp: json_loads_def Let_def res_simps split: if_splits prod.splits)

lemma reject_duplicates_eq:
  "reject_duplicates d r = Inr x \<longleftrightarrow> x = r @ d \<and> distinct (map fst d) \<and> fst ` set r \<inter> fst ` set d = {}"
proof (induction d arbitrary: r)
  case (Cons p d)
  then show ?case by (cases p) auto
qed auto

lemma reject_duplicates_Inl: "reject_duplicates d r = Inl e \<Longrightarrow> \<exists>m. e = FailClosedError m"
  by (induction d r rule: reject_duplicates.induct) (auto split: if_splits)

lemma strict_hooks_proper: "hooks_give proper (strict_hooks H)"
  by (auto simp: hooks_give_def strict_hooks_def res_simps reject_duplicates_eq)

lemma strict_hooks_no_recursion: "hooks_no_recursion (strict_hooks H)"
proof -
  have "\<not> raises_recursion (reject_duplicates d [])" for d
    using reject_duplicates_Inl [of d "[]"] by (cases "reject_duplicates d []") auto
  then show ?thesis
    by (auto simp: hooks_no_recursion_def strict_hooks_def raises_recursion_bind_iff)
qed

lemma strict_hooks_build: "builds_dicts (strict_hooks H) distinct (\<lambda>d. d)"
  by (simp add: builds_dicts_def strict_hooks_def res_simps reject_duplicates_eq)

section \<open>Properties of the strict loader\<close>

lemma loads_strict_Inr: "loads_strict_json H s = Inr v \<longleftrightarrow> json_loads (strict_hooks H) s = Inr v"
  by (auto simp: loads_strict_json_def split: sum.splits error.splits)

text \<open>Hooks that build what other hooks build, whenever those do.\<close>

definition hooks_le :: "hooks \<Rightarrow> hooks \<Rightarrow> bool" where
  "hooks_le h k \<longleftrightarrow>
     (\<forall>d v. pairs_hook h d = Inr v \<longrightarrow> pairs_hook k d = Inr v) \<and>
     (\<forall>t v. float_hook h t = Inr v \<longrightarrow> float_hook k t = Inr v) \<and>
     (\<forall>t v. constant_hook h t = Inr v \<longrightarrow> constant_hook k t = Inr v)"

lemma scan_number_le: "hooks_le h k \<Longrightarrow> scan_number h s = Inr r \<Longrightarrow> scan_number k s = Inr r"
  by (auto simp: scan_number_def scan_magnitude_def Let_def res_simps hooks_le_def split: if_splits prod.splits)

lemma parse_le:
  assumes le: "hooks_le h k"
  shows "(\<forall>s r. parse_value n h s = Inr r \<longrightarrow> parse_value n k s = Inr r) \<and>
    (\<forall>s r. parse_elems n h s = Inr r \<longrightarrow> parse_elems n k s = Inr r) \<and>
    (\<forall>s r. parse_members n h s = Inr r \<longrightarrow> parse_members n k s = Inr r)"
proof (induction n)
  case (Suc n)
  have pairs: "pairs_hook h d = Inr v \<Longrightarrow> pairs_hook k d = Inr v" for d v
    using le by (simp add: hooks_le_def)
  have con: "constant_hook h t = Inr v \<Longrightarrow> constant_hook k t = Inr v" for t v
    using le by (simp add: hooks_le_def)
  have "parse_value (Suc n) k s = Inr r" if "parse_value (Suc n) h s = Inr r" for s r
    using that Suc.IH scan_number_le [OF le]
    by (auto simp: parse_value.simps res_simps Let_def split: if_splits prod.splits dest!: pairs con)
  moreover have "parse_elems (Suc n) k s = Inr r" if "parse_elems (Suc n) h s = Inr r" for s r
    using that Suc.IH by (fastforce simp: parse_elems.simps res_simps Let_def split: if_splits prod.splits)
  moreover have "parse_members (Suc n) k s = Inr r" if "parse_members (Suc n) h s = Inr r" for s r
    using that Suc.IH by (fastforce simp: parse_members.simps res_simps Let_def split: if_splits prod.splits)
  ultimately show ?case by blast
qed (simp add: parse_value.simps parse_elems.simps parse_members.simps)

lemma json_loads_le: "hooks_le h k \<Longrightarrow> json_loads h s = Inr v \<Longrightarrow> json_loads k s = Inr v"
  using parse_le [of h k "2 * length (skip_ws s) + 1"]
  by (auto simp: json_loads_def Let_def res_simps split: if_splits prod.splits)

text \<open>Hooks that keep every pair, repeated or not.\<close>

definition keep_hooks :: "host \<Rightarrow> hooks" where
  "keep_hooks H = (strict_hooks H)\<lparr>pairs_hook := \<lambda>d. Inr (JDict d)\<rparr>"

lemma strict_le_keep: "hooks_le (strict_hooks H) (keep_hooks H)"
  by (auto simp: hooks_le_def keep_hooks_def strict_hooks_def res_simps reject_duplicates_eq)

lemma dict_keys_any: "dict_keys (\<lambda>_. True) v"
proof -
  have "dict_keys Q v" if "Q = (\<lambda>_. True)" for Q using that by (induction Q v rule: dict_keys.induct) auto
  then show ?thesis by simp
qed

lemma keep_reads: "float_free v \<Longrightarrow> json_loads (keep_hooks H) (render F v) = Inr v"
  using json_loads_render_rebuild [of "keep_hooks H" "\<lambda>_. True" "\<lambda>d. d" F v]
  by (simp add: builds_dicts_def keep_hooks_def float_free_readable dict_keys_any rebuild_id)

text \<open>
  C11: the strict loader never loads something else than what the text says. What it loads has no
  repeated key at any depth; and when the text is the compact text of a document without floats, it
  loads that very document. So a document with a repeated key anywhere is refused: no pair is
  dropped and none overrides another.
\<close>

theorem strict_loads_faithful:
  assumes "loads_strict_json H text = Inr w"
  shows "proper w \<and> (\<forall>F v. float_free v \<longrightarrow> render F v = text \<longrightarrow> v = w)"
proof (intro conjI allI impI)
  have run: "json_loads (strict_hooks H) text = Inr w" using assms by (simp add: loads_strict_Inr)
  then show "proper w" by (rule json_loads_gives [OF strict_hooks_proper])
  show "v = w" if "float_free v" "render F v = text" for F v
    using keep_reads [OF that(1), of H F] json_loads_le [OF strict_le_keep run] that(2) by simp
qed

theorem strict_loads_faithful_witness:
  "(\<exists>e. loads_strict_json undefined (render (\<lambda>_. []) (JDict [(''a'', JList [JDict [(''b'', JInt 1), (''b'', JInt 2)]])])) = Inl e) \<and>
   loads_strict_json undefined (render (\<lambda>_. []) (JDict [(''a'', JInt 1)])) = Inr (JDict [(''a'', JInt 1)])"
proof
  let ?v = "JDict [(''a'', JList [JDict [(''b'', JInt 1), (''b'', JInt 2)]])]"
  have False if "loads_strict_json undefined (render (\<lambda>_. []) ?v) = Inr w" for w
  proof -
    have "float_free ?v" by simp
    then have "?v = w" "proper w" using strict_loads_faithful [OF that] by (blast, blast)
    moreover have "\<not> proper ?v" by simp
    ultimately show False by metis
  qed
  then show "\<exists>e. loads_strict_json undefined (render (\<lambda>_. []) ?v) = Inl e"
    by (cases "loads_strict_json undefined (render (\<lambda>_. []) ?v)") auto
  show "loads_strict_json undefined (render (\<lambda>_. []) (JDict [(''a'', JInt 1)])) = Inr (JDict [(''a'', JInt 1)])"
    using json_loads_render [OF strict_hooks_build, of "\<lambda>_. []" undefined "JDict [(''a'', JInt 1)]"] by (simp add: loads_strict_Inr)
qed

text \<open>
  C10: canonical text is read back by the strict loader: the value that comes back is the value
  that was written, with the keys of every dictionary in order.
\<close>

theorem loads_strict_canonical:
  assumes "float_free v" "proper v"
  shows "bind_res (canonical_json H v) (loads_strict_json H) = Inr (sort_keys v)"
  using assms json_loads_render [OF strict_hooks_build, where v = "sort_keys v"]
  by (simp add: canonical_json_eq float_free_finite float_free_readable sort_keys_proper loads_strict_Inr)

theorem loads_strict_canonical_witness:
  "bind_res (canonical_json undefined (JDict [(''b'', JInt (-7)), (''a'', JList [JStr ''x'', JNull])]))
     (loads_strict_json undefined) =
   Inr (JDict [(''a'', JList [JStr ''x'', JNull]), (''b'', JInt (-7))])"
  by (subst loads_strict_canonical) simp_all

text \<open>UTF-8 is injective, so bytes determine text.\<close>

lemma utf8_Cons: "utf8 (c # s) = utf8_char c @ utf8 s"
  by (simp add: utf8_def)

lemma char_of_eq: "m < 256 \<Longrightarrow> n < 256 \<Longrightarrow> (char_of m :: char) = char_of n \<longleftrightarrow> m = (n :: nat)"
  by (metis mod_less of_char_of)

lemma lead_byte: "(of_char (char_of (192 + of_char c div 64 :: nat) :: char) :: nat) = 192 + of_char c div 64"
proof -
  have "(of_char c :: nat) < 256" by simp
  then have "192 + of_char c div 64 < (256 :: nat)" by linarith
  then show ?thesis by (simp add: of_char_of)
qed

lemma utf8_char_prefix:
  assumes "utf8_char c @ s = utf8_char d @ t"
  shows "c = d \<and> s = t"
proof (cases "(of_char c :: nat) < 128"; cases "(of_char d :: nat) < 128")
  assume n: "\<not> (of_char c :: nat) < 128" "\<not> (of_char d :: nat) < 128"
  have lt: "(of_char c :: nat) < 256" "(of_char d :: nat) < 256" by simp_all
  with assms n have "192 + of_char c div 64 = (192 + of_char d div 64 :: nat)"
    "128 + of_char c mod 64 = (128 + of_char d mod 64 :: nat)" "s = t"
    by (auto simp: utf8_char_def Let_def char_of_eq)
  then show ?thesis
    by (metis add_left_cancel div_mod_decomp char_of_char)
next
  assume n: "\<not> (of_char c :: nat) < 128" "(of_char d :: nat) < 128"
  have "(of_char c :: nat) < 256" by simp
  with assms n have "d = char_of (192 + of_char c div 64 :: nat)"
    by (auto simp: utf8_char_def Let_def)
  then have "(of_char d :: nat) = 192 + of_char c div 64" by (simp only: lead_byte)
  with n show ?thesis by simp
next
  assume n: "(of_char c :: nat) < 128" "\<not> (of_char d :: nat) < 128"
  have "(of_char d :: nat) < 256" by simp
  with assms n have "c = char_of (192 + of_char d div 64 :: nat)"
    by (auto simp: utf8_char_def Let_def)
  then have "(of_char c :: nat) = 192 + of_char d div 64" by (simp only: lead_byte)
  with n show ?thesis by simp
qed (use assms in \<open>auto simp: utf8_char_def Let_def\<close>)

lemma utf8_inj: "utf8 s = utf8 t \<longleftrightarrow> s = t"
proof
  show "utf8 s = utf8 t \<Longrightarrow> s = t"
  proof (induction s arbitrary: t)
    case Nil
    then show ?case by (cases t) (auto simp: utf8_def utf8_char_def Let_def split: if_splits)
  next
    case (Cons c s)
    then obtain d u where t: "t = d # u"
      by (cases t) (auto simp: utf8_def utf8_char_def Let_def split: if_splits)
    with Cons.prems utf8_char_prefix [of c "utf8 s" d "utf8 u"] Cons.IH [of u]
    show ?case by (simp add: utf8_Cons)
  qed
qed simp

text \<open>
  C8: canonical bytes bind the value: two float-free documents without repeated keys have the
  same canonical bytes exactly when they are the same document up to the order of keys.
\<close>

theorem canonical_bytes_bind:
  assumes "float_free v" "proper v" "float_free w" "proper w"
  shows "canonical_bytes H v = canonical_bytes H w \<longleftrightarrow> sort_keys v = sort_keys w"
proof
  assume "canonical_bytes H v = canonical_bytes H w"
  with assms have "canonical_json H v = canonical_json H w"
    by (simp add: canonical_bytes_def canonical_json_eq float_free_finite utf8_inj)
  with assms have "json_loads (strict_hooks H) (render (float_text H) (sort_keys v)) =
    json_loads (strict_hooks H) (render (float_text H) (sort_keys w))"
    by (simp add: canonical_json_eq float_free_finite)
  with assms show "sort_keys v = sort_keys w"
    by (simp add: json_loads_render [OF strict_hooks_build] float_free_readable sort_keys_proper)
qed (use assms in \<open>simp add: canonical_bytes_def canonical_json_eq float_free_finite\<close>)

theorem canonical_bytes_bind_witness:
  "canonical_bytes undefined (JDict [(''b'', JInt 1), (''a'', JNull)]) =
   canonical_bytes undefined (JDict [(''a'', JNull), (''b'', JInt 1)])"
  by (subst canonical_bytes_bind) simp_all

end
