(* ===== verification/Python_Values.thy ===== *)
theory Python_Values
  imports Json_Roundtrip
begin

text \<open>
  The Python operations the program applies to decoded JSON: \<open>str\<close>, \<open>repr\<close>,
  \<open>==\<close>, \<open>bool\<close>, \<open>list(...)\<close>, \<open>dict(...)\<close>, \<open>str.strip\<close>; the lenient
  \<open>json.loads\<close>; and pydantic's field validation, as readers of a keyword dictionary.
\<close>

section \<open>Text\<close>

text \<open>The white space \<open>str.strip\<close> removes, among the code points below 256.\<close>

definition is_space :: "char \<Rightarrow> bool" where
  "is_space c \<longleftrightarrow>
     (let n = (of_char c :: nat)
      in 9 \<le> n \<and> n \<le> 13 \<or> 28 \<le> n \<and> n \<le> 32 \<or> n = 133 \<or> n = 160)"

definition strip :: "string \<Rightarrow> string" where
  "strip s = rev (dropWhile is_space (rev (dropWhile is_space s)))"

text \<open>\<open>repr\<close> of one character inside a string delimited by \<open>q\<close>.\<close>

definition repr_char :: "char \<Rightarrow> char \<Rightarrow> string" where
  "repr_char q c =
     (let n = (of_char c :: nat) in
      if c = q \<or> c = CHR 0x5C then [CHR 0x5C, c]
      else if n = 10 then [CHR 0x5C, CHR ''n'']
      else if n = 13 then [CHR 0x5C, CHR ''r'']
      else if n = 9 then [CHR 0x5C, CHR ''t'']
      else if n < 32 \<or> 127 \<le> n \<and> n \<le> 160 \<or> n = 173 then
        [CHR 0x5C, CHR ''x'', hex_digit (n div 16), hex_digit (n mod 16)]
      else [c])"

definition repr_str :: "string \<Rightarrow> string" where
  "repr_str s =
     (let q = (if CHR 0x27 \<in> set s \<and> CHR 0x22 \<notin> set s then CHR 0x22 else CHR 0x27)
      in q # concat (map (repr_char q) s) @ [q])"

fun py_repr :: "host \<Rightarrow> json \<Rightarrow> string" where
  "py_repr H JNull = ''None''"
| "py_repr H (JBool b) = (if b then ''True'' else ''False'')"
| "py_repr H (JInt i) = int_text i"
| "py_repr H (JFloat f) = float_text H f"
| "py_repr H (JStr s) = repr_str s"
| "py_repr H (JList vs) = CHR ''['' # join '', '' (map (py_repr H) vs) @ '']''"
| "py_repr H (JDict d) =
     CHR 0x7B # join '', '' (map (\<lambda>(k, v). repr_str k @ '': '' @ py_repr H v) d) @ [CHR 0x7D]"

fun py_str :: "host \<Rightarrow> json \<Rightarrow> string" where
  "py_str H (JStr s) = s"
| "py_str H v = py_repr H v"

text \<open>\<open>repr\<close> of a list of strings, as f-strings print it.\<close>

definition repr_strs :: "string list \<Rightarrow> string" where
  "repr_strs xs = CHR ''['' # join '', '' (map repr_str xs) @ '']''"

lemma strip_idem [simp]: "strip (strip s) = strip s"
proof -
  have keep: "dropWhile is_space (dropWhile is_space t) = dropWhile is_space t" for t by simp
  have "dropWhile is_space (rev (dropWhile is_space t)) = rev (dropWhile is_space t)"
    if "t = [] \<or> \<not> is_space (last t)" for t :: string
  proof (cases "dropWhile is_space t")
    case (Cons a u)
    then have "last (dropWhile is_space t) = last t"
      by (metis last_appendR takeWhile_dropWhile_id list.distinct(1))
    moreover from this have "t \<noteq> []" using Cons by auto
    ultimately have "\<not> is_space (hd (rev (dropWhile is_space t)))"
      using that by (metis hd_rev)
    then show ?thesis using Cons by (metis dropWhile_eq_self_iff)
  next
    case Nil
    then show ?thesis by (simp only: rev.simps dropWhile.simps)
  qed
  moreover let ?u = "rev (dropWhile is_space s)"
  have "dropWhile is_space (rev (dropWhile is_space ?u)) = rev (dropWhile is_space ?u)"
  proof (cases "dropWhile is_space s")
    case (Cons a u)
    then have "\<not> is_space a" by (metis hd_dropWhile list.distinct(1) list.sel(1))
    then have "?u = [] \<or> \<not> is_space (last ?u)" using Cons by simp
    with calculation show ?thesis by blast
  next
    case Nil
    then show ?thesis by (simp only: rev.simps dropWhile.simps)
  qed
  ultimately show ?thesis by (simp add: strip_def)
qed

section \<open>Values\<close>

text \<open>\<open>bool(value)\<close>.\<close>

fun truthy :: "json \<Rightarrow> bool" where
  "truthy JNull = False"
| "truthy (JBool b) = b"
| "truthy (JInt i) = (i \<noteq> 0)"
| "truthy (JFloat (Dyadic n _)) = (n \<noteq> 0)"
| "truthy (JFloat NegZero) = False"
| "truthy (JFloat _) = True"
| "truthy (JStr s) = (s \<noteq> [])"
| "truthy (JList vs) = (vs \<noteq> [])"
| "truthy (JDict d) = (d \<noteq> [])"

text \<open>A number as \<open>n / 2 ^ k\<close>: booleans and integers compare with floats by value.\<close>

fun number_parts :: "json \<Rightarrow> (int \<times> nat) option" where
  "number_parts (JBool b) = Some (if b then 1 else 0, 0)"
| "number_parts (JInt i) = Some (i, 0)"
| "number_parts (JFloat (Dyadic n k)) = Some (n, k)"
| "number_parts (JFloat NegZero) = Some (0, 0)"
| "number_parts _ = None"

definition number_eq :: "json \<Rightarrow> json \<Rightarrow> bool" where
  "number_eq v w =
     (case (number_parts v, number_parts w) of
        (Some (m, j), Some (n, k)) \<Rightarrow> m * 2 ^ k = n * 2 ^ j
      | _ \<Rightarrow> (v = JFloat PosInf \<and> w = JFloat PosInf) \<or> (v = JFloat NegInf \<and> w = JFloat NegInf))"

text \<open>\<open>value == other\<close>; dictionaries compare without their order.\<close>

function (sequential) py_eq :: "json \<Rightarrow> json \<Rightarrow> bool" where
  "py_eq JNull w = (w = JNull)"
| "py_eq (JStr s) w = (w = JStr s)"
| "py_eq (JList vs) w =
     (case w of
        JList ws \<Rightarrow> length vs = length ws \<and> list_all (\<lambda>(v, u). py_eq v u) (zip vs ws)
      | _ \<Rightarrow> False)"
| "py_eq (JDict d) w =
     (case w of
        JDict e \<Rightarrow> length d = length e \<and>
          list_all (\<lambda>(k, v). case map_of e k of None \<Rightarrow> False | Some u \<Rightarrow> py_eq v u) d
      | _ \<Rightarrow> False)"
| "py_eq v w = number_eq v w"
  by pat_completeness auto

termination
proof (relation "measure (\<lambda>(v, w). size v)")
  show "((x, y), JList vs, w) \<in> measure (\<lambda>(v, w). size v)"
    if "(x, y) = z" "w = JList ws" "z \<in> set (zip vs ws)" for vs ws w z x y
    using that size_list_estimation' [of x vs "size x" size] by (auto dest: set_zip_leftD simp: less_Suc_eq_le)
  show "((y, u), JDict d, w) \<in> measure (\<lambda>(v, w). size v)"
    if "z \<in> set d" "(x, y) = z" for d w z x y u
    using that by (auto simp: less_Suc_eq_le intro!: size_list_estimation' [of z])
qed auto

definition is_dict :: "json \<Rightarrow> bool" where
  "is_dict v \<longleftrightarrow> (case v of JDict _ \<Rightarrow> True | _ \<Rightarrow> False)"

definition is_list :: "json \<Rightarrow> bool" where
  "is_list v \<longleftrightarrow> (case v of JList _ \<Rightarrow> True | _ \<Rightarrow> False)"

definition is_str :: "json \<Rightarrow> bool" where
  "is_str v \<longleftrightarrow> (case v of JStr _ \<Rightarrow> True | _ \<Rightarrow> False)"

text \<open>\<open>d.get(k, default)\<close>.\<close>

definition get_or :: "dict \<Rightarrow> string \<Rightarrow> json \<Rightarrow> json" where
  "get_or d k v = (case map_of d k of None \<Rightarrow> v | Some w \<Rightarrow> w)"

text \<open>\<open>d[k] = v\<close> and \<open>d.setdefault(k, v)\<close>.\<close>

definition put :: "string \<Rightarrow> 'a \<Rightarrow> (string \<times> 'a) list \<Rightarrow> (string \<times> 'a) list" where
  "put k v d = AList.update k v d"

definition set_default :: "string \<Rightarrow> json \<Rightarrow> dict \<Rightarrow> dict" where
  "set_default k v d = (if k \<in> fst ` set d then d else d @ [(k, v)])"

lemma map_of_put [simp]: "map_of (put k v d) = (map_of d)(k \<mapsto> v)"
  by (simp add: put_def update_conv')

lemma distinct_put [simp]: "distinct (map fst d) \<Longrightarrow> distinct (map fst (put k v d))"
  by (simp add: put_def distinct_update)

lemma map_of_set_default: "map_of (set_default k v d) k' =
    (if k' = k \<and> map_of d k = None then Some v else map_of d k')"
proof (cases "map_of d k")
  case None
  then have "k \<notin> fst ` set d" by (simp add: map_of_eq_None_iff)
  with None show ?thesis by (simp add: set_default_def map_add_def split: option.splits)
next
  case (Some w)
  then have "k \<in> fst ` set d" by (metis map_of_eq_None_iff option.distinct(1))
  with Some show ?thesis by (simp add: set_default_def)
qed

lemma distinct_set_default [simp]: "distinct (map fst d) \<Longrightarrow> distinct (map fst (set_default k v d))"
  by (auto simp: set_default_def)

text \<open>\<open>list(value)\<close>: a string gives its characters, a dictionary its keys.\<close>

definition not_iterable :: "string \<Rightarrow> error" where
  "not_iterable t = TypeError ([CHR 0x27] @ t @ [CHR 0x27] @ '' object is not iterable'')"

fun type_name :: "json \<Rightarrow> string" where
  "type_name JNull = ''NoneType''"
| "type_name (JBool _) = ''bool''"
| "type_name (JInt _) = ''int''"
| "type_name (JFloat _) = ''float''"
| "type_name (JStr _) = ''str''"
| "type_name (JList _) = ''list''"
| "type_name (JDict _) = ''dict''"

fun py_list :: "json \<Rightarrow> json list res" where
  "py_list (JList vs) = Inr vs"
| "py_list (JStr s) = Inr (map (\<lambda>c. JStr [c]) s)"
| "py_list (JDict d) = Inr (map (\<lambda>(k, _). JStr k) d)"
| "py_list v = Inl (not_iterable (type_name v))"

text \<open>
  \<open>dict(value)\<close> where the keys must be strings, as the field that receives it requires: a
  dictionary, or a sequence of pairs in which a later pair overrides an earlier one.
\<close>

fun dict_pair :: "nat \<Rightarrow> json \<Rightarrow> (string \<times> json) res" where
  "dict_pair n v =
     bind_res (case py_list v of
         Inl _ \<Rightarrow> Inl (TypeError (''cannot convert dictionary update sequence element #'' @
                   nat_text n @ '' to a sequence''))
       | Inr xs \<Rightarrow> Inr xs)
       (\<lambda>xs. case xs of
           [JStr k, w] \<Rightarrow> Inr (k, w)
         | [_, _] \<Rightarrow> Inl (ValidationError ''Input should be a valid string'')
         | _ \<Rightarrow> Inl (ValueError (''dictionary update sequence element #'' @ nat_text n @
                   '' has length '' @ nat_text (length xs) @ ''; 2 is required'')))"

fun dict_pairs :: "nat \<Rightarrow> json list \<Rightarrow> dict res" where
  "dict_pairs n [] = Inr []"
| "dict_pairs n (v # vs) =
     bind_res (dict_pair n v) (\<lambda>p. bind_res (dict_pairs (Suc n) vs) (\<lambda>ps. Inr (p # ps)))"

definition dict_of_pairs :: "(string \<times> 'a) list \<Rightarrow> (string \<times> 'a) list" where
  "dict_of_pairs ps = fold (\<lambda>(k, v). put k v) ps []"

fun py_dict :: "json \<Rightarrow> dict res" where
  "py_dict (JDict d) = Inr d"
| "py_dict v =
     bind_res (py_list v) (\<lambda>vs. bind_res (dict_pairs 0 vs) (\<lambda>ps. Inr (dict_of_pairs ps)))"

lemma put_absent: "k \<notin> fst ` set e \<Longrightarrow> put k v e = e @ [(k, v)]"
  unfolding put_def by (induction e) auto

lemma map_fst_put: "k \<in> fst ` set e \<Longrightarrow> map fst (put k v e) = map fst e"
  unfolding put_def by (induction e) auto

lemma dict_of_pairs_acc:
  "distinct (map fst (e @ d)) \<Longrightarrow> fold (\<lambda>(k, v). put k v) d e = e @ d"
proof (induction d arbitrary: e)
  case (Cons p d)
  obtain k v where p: "p = (k, v)" by (cases p)
  with Cons.prems have "put k v e = e @ [p]"
    by (simp add: put_absent)
  with Cons p show ?case by simp
qed simp

lemma dict_of_pairs_id: "distinct (map fst d) \<Longrightarrow> dict_of_pairs d = d"
  using dict_of_pairs_acc [of "[]" d] by (simp add: dict_of_pairs_def)

lemma distinct_fold_put:
  "distinct (map fst e) \<Longrightarrow> distinct (map fst (fold (\<lambda>(k, v). put k v) d e))"
  by (induction d arbitrary: e) auto

lemma distinct_dict_of_pairs [simp]: "distinct (map fst (dict_of_pairs d))"
  by (simp add: dict_of_pairs_def distinct_fold_put)

lemma sorted_fold_put:
  "sorted (map fst (e @ d)) \<Longrightarrow> sorted (map fst (fold (\<lambda>(k, v). put k v) d e))"
proof (induction d arbitrary: e)
  case (Cons p d)
  obtain k v where p: "p = (k, v)" by (cases p)
  have "sorted (map fst (put k v e @ d))"
  proof (cases "k \<in> fst ` set e")
    case True
    with Cons.prems show ?thesis by (simp add: map_fst_put sorted_append)
  next
    case False
    with Cons.prems p show ?thesis by (simp add: put_absent)
  qed
  with Cons.IH p show ?case by simp
qed simp

lemma sorted_dict_of_pairs: "sorted (map fst d) \<Longrightarrow> sorted (map fst (dict_of_pairs d))"
  unfolding dict_of_pairs_def using sorted_fold_put [of "[]" d] by simp

lemma put_map: "put k (f v) (map (\<lambda>(k, v). (k, f v)) e) = map (\<lambda>(k, v). (k, f v)) (put k v e)"
  unfolding put_def by (induction e) auto

lemma dict_of_pairs_map:
  "dict_of_pairs (map (\<lambda>(k, v). (k, f v)) d) = map (\<lambda>(k, v). (k, f v)) (dict_of_pairs d)"
proof -
  have "fold (\<lambda>(k, v). put k v) (map (\<lambda>(k, v). (k, f v)) d) (map (\<lambda>(k, v). (k, f v)) e) =
      map (\<lambda>(k, v). (k, f v)) (fold (\<lambda>(k, v). put k v) d e)" for e
    by (induction d arbitrary: e) (auto simp: put_map)
  from this [of "[]"] show ?thesis by (simp add: dict_of_pairs_def)
qed

lemma set_fst_dict_of_pairs [simp]: "fst ` set (dict_of_pairs d) = fst ` set d"
proof -
  have *: "fst ` set (put k v e) = insert k (fst ` set e)" for k and v :: 'a and e
  proof (cases "k \<in> fst ` set e")
    case True
    then have "set (map fst (put k v e)) = set (map fst e)" by (simp only: map_fst_put)
    with True show ?thesis by auto
  qed (simp add: put_absent)
  then have "fst ` set (fold (\<lambda>(k, v). put k v) d e) = fst ` set e \<union> fst ` set d" for e
  proof (induction d arbitrary: e)
    case (Cons p d)
    then show ?case by (cases p) (simp only: fold_Cons o_apply case_prod_conv *, simp)
  qed simp
  then show ?thesis by (simp add: dict_of_pairs_def)
qed

section \<open>Lenient decoding\<close>

text \<open>\<open>json.loads(text)\<close> with its default hooks, as the store reads its rows.\<close>

definition plain_hooks :: "host \<Rightarrow> hooks" where
  "plain_hooks H =
     \<lparr>pairs_hook = (\<lambda>d. Inr (JDict (dict_of_pairs d))),
      float_hook = (\<lambda>t. Inr (JFloat (float_of_text H t))),
      constant_hook = (\<lambda>t. Inr (JFloat (if t = ''NaN'' then NaN else if t = ''Infinity'' then PosInf else NegInf)))\<rparr>"

definition loads_json :: "host \<Rightarrow> string \<Rightarrow> json res" where
  "loads_json H text = json_loads (plain_hooks H) text"

lemma plain_hooks_build: "builds_dicts (plain_hooks H) (\<lambda>_. True) dict_of_pairs"
  by (simp add: builds_dicts_def plain_hooks_def)

text \<open>
  What the program relies on from the interpreter and from pydantic: a finite float's
  \<open>repr\<close> is a JSON number that reads back, and a printed date reads back.
\<close>

definition host_ok :: "host \<Rightarrow> bool" where
  "host_ok H \<longleftrightarrow>
     (\<forall>f. finite_float f \<longrightarrow> reads_float (float_text H) (plain_hooks H) f) \<and>
     (\<forall>t. parse_time H (JStr (dump_time H t)) = Some t) \<and>
     (\<forall>t. parse_time H (JStr (iso_time H t)) = Some t)"

lemma host_ok_times [simp]:
  "host_ok H \<Longrightarrow> parse_time H (JStr (dump_time H t)) = Some t"
  "host_ok H \<Longrightarrow> parse_time H (JStr (iso_time H t)) = Some t"
  by (simp_all add: host_ok_def)

section \<open>What the store hands back\<close>

text \<open>
  A value written as canonical text and read back: keys in order at every depth. On a value with
  repeated keys, which Python cannot hold, the last one counts.
\<close>

definition stored_json :: "json \<Rightarrow> json" where
  "stored_json v = rebuild dict_of_pairs (sort_keys v)"

definition stored_map :: "(string \<times> 'a) list \<Rightarrow> (string \<times> 'a) list" where
  "stored_map d = dict_of_pairs (sort_key fst d)"

definition stored_dict :: "dict \<Rightarrow> dict" where
  "stored_dict d = stored_map (map (\<lambda>(k, v). (k, stored_json v)) d)"

lemma stored_json_atoms [simp]:
  "stored_json JNull = JNull" "stored_json (JBool b) = JBool b" "stored_json (JInt i) = JInt i"
  "stored_json (JFloat f) = JFloat f" "stored_json (JStr s) = JStr s"
  "stored_json (JList vs) = JList (map stored_json vs)"
  by (simp_all add: stored_json_def)

lemma stored_json_JDict [simp]: "stored_json (JDict d) = JDict (stored_dict d)"
proof -
  have "(\<lambda>(k, v). (k, rebuild dict_of_pairs v)) \<circ> (\<lambda>(k, v). (k, sort_keys v)) =
      (\<lambda>(k, v). (k :: string, stored_json v))"
    by (auto simp: fun_eq_iff stored_json_def)
  then show ?thesis
    by (simp add: stored_json_def [of "JDict d"] stored_dict_def stored_map_def
        sort_key_fst_map [symmetric])
qed

lemma rebuild_proper: "proper v \<Longrightarrow> rebuild dict_of_pairs v = v"
proof (induction v rule: proper.induct)
  case (2 d)
  then have "map (\<lambda>(k, v). (k, rebuild dict_of_pairs v)) d = d"
    by (intro map_idI) auto
  with 2 show ?case by (simp add: dict_of_pairs_id)
qed (auto simp: map_idI)

lemma stored_json_proper: "proper v \<Longrightarrow> stored_json v = sort_keys v"
  by (simp add: stored_json_def rebuild_proper sort_keys_proper)

lemma set_dict_of_pairs: "set (dict_of_pairs d) \<subseteq> set d"
proof -
  have "set (put k v e) \<subseteq> insert (k, v) (set e)" for k v and e :: "(string \<times> 'a) list"
    unfolding put_def by (induction e) auto
  then have "set (fold (\<lambda>(k, v). put k v) d e) \<subseteq> set e \<union> set d" for e :: "(string \<times> 'a) list"
    by (induction d arbitrary: e) fastforce+
  from this [of "[]"] show ?thesis by (simp add: dict_of_pairs_def)
qed

lemma proper_stored_json [simp]: "proper (stored_json v)"
proof -
  have "proper (rebuild dict_of_pairs w)" for w
  proof (induction w)
    case (JDict d)
    then show ?case
      using set_dict_of_pairs [of "map (\<lambda>(k, v). (k, rebuild dict_of_pairs v)) d"] by fastforce
  qed auto
  then show ?thesis by (simp add: stored_json_def)
qed

lemma finite_stored_json: "finite_json v \<Longrightarrow> finite_json (stored_json v)"
proof -
  have "finite_json w \<Longrightarrow> finite_json (rebuild dict_of_pairs w)" for w
  proof (induction w)
    case (JDict d)
    then show ?case
      using set_dict_of_pairs [of "map (\<lambda>(k, v). (k, rebuild dict_of_pairs v)) d"] by fastforce
  qed auto
  then show "finite_json v \<Longrightarrow> finite_json (stored_json v)" by (simp add: stored_json_def)
qed

lemma proper_stored_dict [simp]: "proper (JDict (stored_dict d))"
  using proper_stored_json [of "JDict d"] by (simp only: stored_json_JDict)

lemma sort_keys_stored [simp]: "sort_keys (stored_json v) = stored_json v"
proof (induction v)
  case (JDict d)
  have "map (\<lambda>(k, v). (k, sort_keys v)) (stored_dict d) = stored_dict d"
  proof (rule map_idI)
    fix p assume "p \<in> set (stored_dict d)"
    then obtain k v where "p = (k, stored_json v)" "(k, v) \<in> set d"
      using set_dict_of_pairs by (fastforce simp: stored_dict_def stored_map_def)
    then show "(\<lambda>(k, v). (k, sort_keys v)) p = p" using JDict by (auto simp: snds.simps)
  qed
  moreover have "sorted (map fst (stored_dict d))"
    unfolding stored_dict_def stored_map_def by (rule sorted_dict_of_pairs) simp
  ultimately show ?case by (simp add: sort_key_id_if_sorted)
qed auto

lemma stored_json_idem [simp]: "stored_json (stored_json v) = stored_json v"
  by (simp add: stored_json_proper)

lemma stored_dict_idem [simp]: "stored_dict (stored_dict d) = stored_dict d"
  using stored_json_idem [of "JDict d"] by (simp only: stored_json_JDict json.inject)

lemma stored_map_idem [simp]: "stored_map (stored_map d) = stored_map d"
  unfolding stored_map_def
  by (subst sort_key_id_if_sorted) (simp_all add: sorted_dict_of_pairs dict_of_pairs_id)

lemma distinct_stored_map [simp]: "distinct (map fst (stored_map d))"
  by (simp add: stored_map_def)

lemma distinct_stored_dict [simp]: "distinct (map fst (stored_dict d))"
  by (simp add: stored_dict_def)

lemma stored_map_distinct: "distinct (map fst d) \<Longrightarrow> stored_map d = sort_key fst d"
  by (simp add: stored_map_def dict_of_pairs_id distinct_fst_sort_key)

lemma map_of_stored_map: "distinct (map fst d) \<Longrightarrow> map_of (stored_map d) = map_of d"
  by (simp add: stored_map_distinct map_of_sort_key)

lemma map_of_stored_dict:
  "distinct (map fst d) \<Longrightarrow> map_of (stored_dict d) k = map_option stored_json (map_of d k)"
  by (simp add: stored_dict_def map_of_stored_map map_of_map_snd)

lemma set_fst_stored_map [simp]: "fst ` set (stored_map d) = fst ` set d"
  by (simp add: stored_map_def)

lemma set_fst_stored_dict [simp]: "fst ` set (stored_dict d) = fst ` set d"
  by (force simp: stored_dict_def)

lemma loads_canonical:
  assumes "host_ok H" "canonical_json H v = Inr raw"
  shows "loads_json H raw = Inr (stored_json v)"
proof -
  have fin: "finite_json v" and raw: "raw = render (float_text H) (sort_keys v)"
    using assms(2) by (auto simp: canonical_json_eq split: if_splits)
  have "readable (float_text H) (plain_hooks H) (sort_keys v)"
  proof (rule finite_readable)
    show "finite_json (sort_keys v)" using fin by (simp only: sort_keys_finite)
    show "reads_float (float_text H) (plain_hooks H) f" if "finite_float f" for f
      using assms(1) that unfolding host_ok_def by blast
  qed
  moreover have "dict_keys (\<lambda>_. True) w" for w by (induction w) auto
  ultimately have "json_loads (plain_hooks H) (render (float_text H) (sort_keys v)) =
      Inr (rebuild dict_of_pairs (sort_keys v))"
    by (intro json_loads_render_rebuild [OF plain_hooks_build])
  then show ?thesis by (simp only: loads_json_def raw stored_json_def)
qed

end
