(* ===== verification/Model_Fields.thy ===== *)
theory Model_Fields
  imports Python_Values
begin

text \<open>
  The base class of the models (\<open>StrictModel\<close> in \<open>core/models.py\<close>): unknown keys are
  refused, a missing field takes its default, and every field is read by the reader of its
  annotation. Writers are the JSON dump of the same types; each reader is a left inverse of its
  writer, also after keys have been sorted in the store.
\<close>

section \<open>Readers\<close>

definition only_fields :: "string list \<Rightarrow> dict \<Rightarrow> unit res" where
  "only_fields names d =
     ensure (list_all (\<lambda>p. fst p \<in> set names) d)
       (ValidationError ''Extra inputs are not permitted'')"

definition required :: "(json \<Rightarrow> 'a res) \<Rightarrow> dict \<Rightarrow> string \<Rightarrow> 'a res" where
  "required rd d k =
     (case map_of d k of None \<Rightarrow> Inl (ValidationError ''Field required'') | Some v \<Rightarrow> rd v)"

definition optional :: "(json \<Rightarrow> 'a res) \<Rightarrow> 'a \<Rightarrow> dict \<Rightarrow> string \<Rightarrow> 'a res" where
  "optional rd x d k = (case map_of d k of None \<Rightarrow> Inr x | Some v \<Rightarrow> rd v)"

fun str_value :: "json \<Rightarrow> string res" where
  "str_value (JStr s) = Inr s"
| "str_value _ = Inl (ValidationError ''Input should be a valid string'')"

fun strs_value :: "json \<Rightarrow> string list res" where
  "strs_value (JList vs) = map_res str_value vs"
| "strs_value _ = Inl (ValidationError ''Input should be a valid list'')"

fun dict_value :: "json \<Rightarrow> dict res" where
  "dict_value (JDict d) = Inr d"
| "dict_value _ = Inl (ValidationError ''Input should be a valid dictionary'')"

fun int_value :: "host \<Rightarrow> json \<Rightarrow> int res" where
  "int_value H (JInt i) = Inr i"
| "int_value H v = of_option (ValidationError ''Input should be a valid integer'') (lax_int H v)"

fun bool_value :: "host \<Rightarrow> json \<Rightarrow> bool res" where
  "bool_value H (JBool b) = Inr b"
| "bool_value H v = of_option (ValidationError ''Input should be a valid boolean'') (lax_bool H v)"

definition map_value :: "(json \<Rightarrow> 'a res) \<Rightarrow> json \<Rightarrow> (string \<times> 'a) list res" where
  "map_value rd v =
     bind_res (dict_value v) (map_res (\<lambda>(k, w). bind_res (rd w) (\<lambda>x. Inr (k, x))))"

definition ints_value :: "host \<Rightarrow> json \<Rightarrow> (string \<times> int) list res" where
  "ints_value H = map_value (int_value H)"

definition str_map_value :: "json \<Rightarrow> (string \<times> string) list res" where
  "str_map_value = map_value str_value"

definition time_value :: "host \<Rightarrow> json \<Rightarrow> nat res" where
  "time_value H v = of_option (ValidationError ''Input should be a valid datetime'') (parse_time H v)"

fun option_value :: "(json \<Rightarrow> 'a res) \<Rightarrow> json \<Rightarrow> 'a option res" where
  "option_value rd JNull = Inr None"
| "option_value rd v = bind_res (rd v) (\<lambda>x. Inr (Some x))"

definition list_value :: "(json \<Rightarrow> 'a res) \<Rightarrow> json \<Rightarrow> 'a list res" where
  "list_value rd v =
     (case v of JList vs \<Rightarrow> map_res rd vs
      | _ \<Rightarrow> Inl (ValidationError ''Input should be a valid list''))"

section \<open>Writers\<close>

definition strs_json :: "string list \<Rightarrow> json" where
  "strs_json xs = JList (map JStr xs)"

definition ints_json :: "(string \<times> int) list \<Rightarrow> json" where
  "ints_json d = JDict (map (\<lambda>(k, i). (k, JInt i)) d)"

definition str_map_json :: "(string \<times> string) list \<Rightarrow> json" where
  "str_map_json d = JDict (map (\<lambda>(k, s). (k, JStr s)) d)"

definition time_json :: "host \<Rightarrow> nat \<Rightarrow> json" where
  "time_json H t = JStr (dump_time H t)"

definition opt_str_json :: "string option \<Rightarrow> json" where
  "opt_str_json x = (case x of None \<Rightarrow> JNull | Some s \<Rightarrow> JStr s)"

section \<open>Reading back\<close>

lemma only_fields_stored [simp]: "only_fields names (stored_dict d) = only_fields names d"
proof -
  have "list_all (\<lambda>p. fst p \<in> set names) e \<longleftrightarrow> fst ` set e \<subseteq> set names" for e :: dict
    by (auto simp: list_all_iff)
  then show ?thesis by (simp add: only_fields_def)
qed

lemma only_fieldsD: "only_fields names d = Inr () \<Longrightarrow> k \<notin> set names \<Longrightarrow> map_of d k = None"
  by (force simp: only_fields_def list_all_iff map_of_eq_None_iff)

lemma required_stored:
  "distinct (map fst d) \<Longrightarrow> map_of d k = Some v \<Longrightarrow> required rd (stored_dict d) k = rd (stored_json v)"
  by (simp add: required_def map_of_stored_dict)

lemma optional_stored:
  "distinct (map fst d) \<Longrightarrow> map_of d k = Some v \<Longrightarrow>
   optional rd x (stored_dict d) k = rd (stored_json v)"
  by (simp add: optional_def map_of_stored_dict)

lemma stored_strs_json [simp]: "stored_json (strs_json xs) = strs_json xs"
  by (simp add: strs_json_def)

lemma strs_value_strs_json [simp]: "strs_value (strs_json xs) = Inr xs"
  by (induction xs) (auto simp: strs_json_def)

lemma option_value_opt_str [simp]: "option_value str_value (opt_str_json x) = Inr x"
  by (cases x) (auto simp: opt_str_json_def)

lemma stored_opt_str [simp]: "stored_json (opt_str_json x) = opt_str_json x"
  by (cases x) (auto simp: opt_str_json_def)

lemma stored_time [simp]: "stored_json (time_json H t) = time_json H t"
  by (simp add: time_json_def)

lemma time_value_time [simp]: "host_ok H \<Longrightarrow> time_value H (time_json H t) = Inr t"
  by (simp add: time_value_def time_json_def)

lemma stored_ints_json [simp]: "stored_json (ints_json d) = ints_json (stored_map d)"
proof -
  have "(\<lambda>(k, v). (k, stored_json v)) \<circ> (\<lambda>(k, i). (k, JInt i)) = (\<lambda>(k, i). (k :: string, JInt i))"
    by (auto simp: fun_eq_iff)
  then show ?thesis
    by (simp add: ints_json_def stored_dict_def stored_map_def sort_key_fst_map dict_of_pairs_map)
qed
lemma stored_str_map_json [simp]: "stored_json (str_map_json d) = str_map_json (stored_map d)"
proof -
  have "(\<lambda>(k, v). (k, stored_json v)) \<circ> (\<lambda>(k, s). (k, JStr s)) = (\<lambda>(k, s). (k :: string, JStr s))"
    by (auto simp: fun_eq_iff)
  then show ?thesis
    by (simp add: str_map_json_def stored_dict_def stored_map_def sort_key_fst_map dict_of_pairs_map)
qed
lemma map_value_Inr:
  "(\<And>x. rd (w x) = Inr x) \<Longrightarrow> map_value rd (JDict (map (\<lambda>(k, x). (k, w x)) d)) = Inr d"
  unfolding map_value_def by (induction d) auto

lemma ints_value_ints_json [simp]: "ints_value H (ints_json d) = Inr d"
  unfolding ints_value_def ints_json_def by (rule map_value_Inr) simp

lemma str_map_value_json [simp]: "str_map_value (str_map_json d) = Inr d"
  unfolding str_map_value_def str_map_json_def by (rule map_value_Inr) simp

lemma proper_writers [simp]:
  "proper (strs_json xs)" "proper (opt_str_json o')" "proper (time_json H t)"
  "proper (ints_json d) \<longleftrightarrow> distinct (map fst d)"
  "proper (str_map_json e) \<longleftrightarrow> distinct (map fst e)"
  by (auto simp: strs_json_def opt_str_json_def time_json_def ints_json_def str_map_json_def
      split: option.split)

lemma float_free_writers [simp]:
  "float_free (strs_json xs)" "float_free (opt_str_json o')" "float_free (time_json H t)"
  "float_free (ints_json d)" "float_free (str_map_json e)"
  by (auto simp: strs_json_def opt_str_json_def time_json_def ints_json_def str_map_json_def
      split: option.split)

lemmas finite_writers [simp] = float_free_writers [THEN float_free_finite]

end
