(* ===== verification/Core_Models.thy ===== *)
theory Core_Models
  imports Model_Fields
begin

text \<open>
  The persisted objects of \<open>core/models.py\<close>: their records, the constructors that derive
  identifiers from digests, and the JSON dump and validation of each. A constructor that draws a
  time or a random identifier takes the number of the draw.
\<close>

section \<open>Enumerations\<close>

definition SCHEMA_VERSION :: string where
  "SCHEMA_VERSION = ''1.1''"

text \<open>\<open>now_utc()\<close> at the \<open>n\<close>-th reading of the clock.\<close>

definition now_utc :: "host \<Rightarrow> nat \<Rightarrow> nat" where
  "now_utc H n = clock H n"

datatype lane = RAW | CANDIDATE | SHADOW | CERTIFIED | SUPERSEDED | QUARANTINE | TOMBSTONE | CONTRADICTION

fun lane_value :: "lane \<Rightarrow> string" where
  "lane_value RAW = ''raw''"
| "lane_value CANDIDATE = ''candidate''"
| "lane_value SHADOW = ''shadow''"
| "lane_value CERTIFIED = ''certified''"
| "lane_value SUPERSEDED = ''superseded''"
| "lane_value QUARANTINE = ''quarantine''"
| "lane_value TOMBSTONE = ''tombstone''"
| "lane_value CONTRADICTION = ''contradiction''"

definition all_lanes :: "lane list" where
  "all_lanes = [RAW, CANDIDATE, SHADOW, CERTIFIED, SUPERSEDED, QUARANTINE, TOMBSTONE, CONTRADICTION]"

text \<open>\<open>Lane(text)\<close>.\<close>

definition lane_of_text :: "string \<Rightarrow> lane res" where
  "lane_of_text s =
     of_option (ValueError (repr_str s @ '' is not a valid Lane''))
       (find (\<lambda>l. lane_value l = s) all_lanes)"

datatype memory_operation = WRITE | REPLACE | DELETE | READ | USE | VERIFY | CORRECT | PROMOTE

fun operation_value :: "memory_operation \<Rightarrow> string" where
  "operation_value WRITE = ''write''"
| "operation_value REPLACE = ''replace''"
| "operation_value DELETE = ''delete''"
| "operation_value READ = ''read''"
| "operation_value USE = ''use''"
| "operation_value VERIFY = ''verify''"
| "operation_value CORRECT = ''correct''"
| "operation_value PROMOTE = ''promote''"

definition all_operations :: "memory_operation list" where
  "all_operations = [WRITE, REPLACE, DELETE, READ, USE, VERIFY, CORRECT, PROMOTE]"

datatype profile = Strict | Warn

fun profile_value :: "profile \<Rightarrow> string" where
  "profile_value Strict = ''strict''"
| "profile_value Warn = ''warn''"

datatype outcome = Passed | Failed

fun outcome_value :: "outcome \<Rightarrow> string" where
  "outcome_value Passed = ''passed''"
| "outcome_value Failed = ''failed''"

text \<open>A field whose annotation is an enumeration or a \<open>Literal\<close>.\<close>

definition choice_value :: "('a \<Rightarrow> string) \<Rightarrow> 'a list \<Rightarrow> json \<Rightarrow> 'a res" where
  "choice_value nm xs v =
     of_option (ValidationError ''Input is not one of the permitted values'')
       (case v of JStr s \<Rightarrow> find (\<lambda>x. nm x = s) xs | _ \<Rightarrow> None)"

definition lane_field :: "json \<Rightarrow> lane res" where
  "lane_field = choice_value lane_value all_lanes"

definition operation_field :: "json \<Rightarrow> memory_operation res" where
  "operation_field = choice_value operation_value all_operations"

definition profile_field :: "json \<Rightarrow> profile res" where
  "profile_field = choice_value profile_value [Strict, Warn]"

definition outcome_field :: "json \<Rightarrow> outcome res" where
  "outcome_field = choice_value outcome_value [Passed, Failed]"

lemma lane_value_inj [simp]: "lane_value l = lane_value m \<longleftrightarrow> l = m"
  by (cases l; cases m) simp_all

lemma lane_of_text_value [simp]: "lane_of_text (lane_value l) = Inr l"
  by (cases l) (simp_all add: lane_of_text_def all_lanes_def)

lemma lane_of_text_iff: "lane_of_text s = Inr l \<longleftrightarrow> s = lane_value l"
proof
  assume "lane_of_text s = Inr l"
  then show "s = lane_value l"
    unfolding lane_of_text_def of_option_Inr_iff find_Some_iff by metis
qed simp

lemma lane_field_value [simp]: "lane_field (JStr (lane_value l)) = Inr l"
  by (cases l) (simp_all add: lane_field_def choice_value_def all_lanes_def)

lemma operation_field_value [simp]: "operation_field (JStr (operation_value p)) = Inr p"
  by (cases p) (simp_all add: operation_field_def choice_value_def all_operations_def)

lemma profile_field_value [simp]: "profile_field (JStr (profile_value f)) = Inr f"
  by (cases f) (simp_all add: profile_field_def choice_value_def)

lemma outcome_field_value [simp]: "outcome_field (JStr (outcome_value r)) = Inr r"
  by (cases r) (simp_all add: outcome_field_def choice_value_def)

section \<open>Records\<close>

record event =
  ev_schema :: string
  ev_id :: string
  ev_nonce :: string
  ev_run :: string
  ev_agent :: string
  ev_kind :: string
  ev_payload :: dict
  ev_digest :: string
  ev_parents :: "string list"
  ev_created :: nat

record stored_event = event +
  se_seq :: int
  se_time :: nat
  se_collector :: string
  se_collector_seq :: int

record memory =
  mem_schema :: string
  mem_id :: string
  mem_update :: string
  mem_lane :: lane
  mem_claim :: string
  mem_sources :: "string list"
  mem_evidence :: "string list"
  mem_supersedes :: "string list"
  mem_contradicts :: "string list"
  mem_contract :: "string option"
  mem_receipt :: "string option"
  mem_reason :: string
  mem_metadata :: dict
  mem_created :: nat
  mem_updated :: nat

record check =
  chk_schema :: string
  chk_name :: string
  chk_passed :: bool
  chk_reason :: string
  chk_refs :: "string list"
  chk_metrics :: dict

record manifest =
  evm_schema :: string
  evm_id :: string
  evm_candidate :: string
  evm_update :: string
  evm_events :: "string list"
  evm_digests :: "(string \<times> string) list"
  evm_content :: string
  evm_replay :: string
  evm_tools :: "string list"
  evm_caps :: "(string \<times> int) list"
  evm_created :: nat

record intent =
  act_schema :: string
  act_id :: string
  act_tool :: string
  act_effect :: string
  act_args :: string
  act_contract :: "string option"
  act_receipt :: "string option"
  act_caps :: "(string \<times> int) list"

record receipt =
  rcp_schema :: string
  rcp_id :: string
  rcp_verification :: string
  rcp_digest :: string
  rcp_candidate :: string
  rcp_update :: string
  rcp_action :: "string option"
  rcp_profile :: profile
  rcp_checks :: "check list"
  rcp_result :: outcome
  rcp_refs :: "string list"
  rcp_created :: nat

record contract =
  wfc_schema :: string
  wfc_id :: string
  wfc_name :: string
  wfc_description :: string
  wfc_interface :: string
  wfc_pre :: "string list"
  wfc_steps :: "string list"
  wfc_post :: "string list"
  wfc_tools :: "string list"
  wfc_checkers :: "string list"
  wfc_replay :: dict
  wfc_caps :: "(string \<times> int) list"
  wfc_version :: string
  wfc_memory :: "string option"
  wfc_update :: "string option"
  wfc_created :: nat

record revision =
  rev_schema :: string
  rev_id :: string
  rev_memory :: string
  rev_update :: string
  rev_content :: string
  rev_operation :: memory_operation
  rev_before :: "lane option"
  rev_after :: lane
  rev_reason :: string
  rev_receipt :: "string option"
  rev_event :: "string option"
  rev_record :: dict
  rev_created :: nat

record retrieved =
  ret_id :: string
  ret_update :: "string option"
  ret_content :: "string option"
  ret_lane :: lane
  ret_claim :: string
  ret_score :: pyfloat
  ret_contract :: "string option"
  ret_receipt :: "string option"
  ret_sources :: "string list"

section \<open>Dumps\<close>

definition event_dump :: "host \<Rightarrow> 'a event_scheme \<Rightarrow> dict" where
  "event_dump H e =
     [(''schema_version'', JStr (ev_schema e)), (''event_id'', JStr (ev_id e)),
      (''event_nonce'', JStr (ev_nonce e)), (''run_id'', JStr (ev_run e)),
      (''agent_id'', JStr (ev_agent e)), (''kind'', JStr (ev_kind e)),
      (''payload'', JDict (ev_payload e)), (''payload_digest'', JStr (ev_digest e)),
      (''parents'', strs_json (ev_parents e)), (''created_at'', time_json H (ev_created e))]"

definition memory_dump :: "host \<Rightarrow> memory \<Rightarrow> dict" where
  "memory_dump H r =
     [(''schema_version'', JStr (mem_schema r)), (''memory_id'', JStr (mem_id r)),
      (''update_id'', JStr (mem_update r)), (''lane'', JStr (lane_value (mem_lane r))),
      (''claim'', JStr (mem_claim r)), (''source_event_ids'', strs_json (mem_sources r)),
      (''evidence_refs'', strs_json (mem_evidence r)),
      (''supersedes'', strs_json (mem_supersedes r)),
      (''contradicts'', strs_json (mem_contradicts r)),
      (''workflow_contract_id'', opt_str_json (mem_contract r)),
      (''receipt_id'', opt_str_json (mem_receipt r)), (''status_reason'', JStr (mem_reason r)),
      (''metadata'', JDict (mem_metadata r)), (''created_at'', time_json H (mem_created r)),
      (''updated_at'', time_json H (mem_updated r))]"

definition check_dump :: "check \<Rightarrow> dict" where
  "check_dump c =
     [(''schema_version'', JStr (chk_schema c)), (''checker_name'', JStr (chk_name c)),
      (''passed'', JBool (chk_passed c)), (''reason'', JStr (chk_reason c)),
      (''evidence_refs'', strs_json (chk_refs c)), (''metrics'', JDict (chk_metrics c))]"

definition manifest_dump :: "host \<Rightarrow> manifest \<Rightarrow> dict" where
  "manifest_dump H m =
     [(''schema_version'', JStr (evm_schema m)), (''manifest_id'', JStr (evm_id m)),
      (''candidate_id'', JStr (evm_candidate m)), (''candidate_update_id'', JStr (evm_update m)),
      (''input_event_ids'', strs_json (evm_events m)),
      (''input_event_digests'', str_map_json (evm_digests m)),
      (''candidate_digest'', JStr (evm_content m)), (''replay_digest'', JStr (evm_replay m)),
      (''declared_tools'', strs_json (evm_tools m)), (''resource_caps'', ints_json (evm_caps m)),
      (''created_at'', time_json H (evm_created m))]"

definition intent_dump :: "intent \<Rightarrow> dict" where
  "intent_dump a =
     [(''schema_version'', JStr (act_schema a)), (''action_id'', JStr (act_id a)),
      (''tool_name'', JStr (act_tool a)), (''effect_class'', JStr (act_effect a)),
      (''args_digest'', JStr (act_args a)),
      (''required_contract_id'', opt_str_json (act_contract a)),
      (''required_receipt_id'', opt_str_json (act_receipt a)),
      (''resource_caps'', ints_json (act_caps a))]"

definition receipt_dump :: "host \<Rightarrow> receipt \<Rightarrow> dict" where
  "receipt_dump H r =
     [(''schema_version'', JStr (rcp_schema r)), (''receipt_id'', JStr (rcp_id r)),
      (''verification_id'', JStr (rcp_verification r)), (''receipt_digest'', JStr (rcp_digest r)),
      (''candidate_id'', JStr (rcp_candidate r)), (''candidate_update_id'', JStr (rcp_update r)),
      (''bound_action_id'', opt_str_json (rcp_action r)),
      (''profile'', JStr (profile_value (rcp_profile r))),
      (''checks'', JList (map (\<lambda>c. JDict (check_dump c)) (rcp_checks r))),
      (''result'', JStr (outcome_value (rcp_result r))), (''evidence_refs'', strs_json (rcp_refs r)),
      (''created_at'', time_json H (rcp_created r))]"

definition contract_dump :: "host \<Rightarrow> contract \<Rightarrow> dict" where
  "contract_dump H c =
     [(''schema_version'', JStr (wfc_schema c)), (''contract_id'', JStr (wfc_id c)),
      (''name'', JStr (wfc_name c)), (''description'', JStr (wfc_description c)),
      (''interface_signature'', JStr (wfc_interface c)), (''preconditions'', strs_json (wfc_pre c)),
      (''steps'', strs_json (wfc_steps c)), (''postconditions'', strs_json (wfc_post c)),
      (''tools'', strs_json (wfc_tools c)), (''checkers'', strs_json (wfc_checkers c)),
      (''replay_spec'', JDict (wfc_replay c)), (''resource_caps'', ints_json (wfc_caps c)),
      (''version'', JStr (wfc_version c)), (''source_memory_id'', opt_str_json (wfc_memory c)),
      (''source_update_id'', opt_str_json (wfc_update c)), (''created_at'', time_json H (wfc_created c))]"

definition opt_lane_json :: "lane option \<Rightarrow> json" where
  "opt_lane_json l = opt_str_json (map_option lane_value l)"

definition revision_dump :: "host \<Rightarrow> revision \<Rightarrow> dict" where
  "revision_dump H r =
     [(''schema_version'', JStr (rev_schema r)), (''revision_id'', JStr (rev_id r)),
      (''memory_id'', JStr (rev_memory r)), (''update_id'', JStr (rev_update r)),
      (''content_digest'', JStr (rev_content r)),
      (''operation'', JStr (operation_value (rev_operation r))),
      (''before_lane'', opt_lane_json (rev_before r)),
      (''after_lane'', JStr (lane_value (rev_after r))), (''reason'', JStr (rev_reason r)),
      (''receipt_id'', opt_str_json (rev_receipt r)), (''event_id'', opt_str_json (rev_event r)),
      (''record'', JDict (rev_record r)), (''created_at'', time_json H (rev_created r))]"

section \<open>Validation\<close>

text \<open>\<open>claim_must_not_be_empty\<close> strips the claim and refuses an empty one.\<close>

definition claim_must_not_be_empty :: "string \<Rightarrow> string res" where
  "claim_must_not_be_empty value =
     (let s = strip value
      in if s = [] then Inl (ValidationError ''Value error, claim must not be empty'') else Inr s)"

definition mk_memory :: "memory \<Rightarrow> memory res" where
  "mk_memory r = bind_res (claim_must_not_be_empty (mem_claim r)) (\<lambda>c. Inr (r\<lparr>mem_claim := c\<rparr>))"

definition max_steps_32 :: "(string \<times> int) list" where
  "max_steps_32 = [(''max_steps'', 32)]"

text \<open>\<open>Event(...)\<close> and \<open>StoredEvent(...)\<close> on keyword dictionaries; \<open>n\<close> is the draw defaults use.\<close>

definition event_fields :: "string list" where
  "event_fields = [''schema_version'', ''event_id'', ''event_nonce'', ''run_id'', ''agent_id'',
     ''kind'', ''payload'', ''payload_digest'', ''parents'', ''created_at'']"

definition event_of_dict :: "host \<Rightarrow> nat \<Rightarrow> dict \<Rightarrow> event res" where
  "event_of_dict H n d =
     bind_res (only_fields event_fields d) (\<lambda>_.
     bind_res (optional str_value SCHEMA_VERSION d ''schema_version'') (\<lambda>schema.
     bind_res (required str_value d ''event_id'') (\<lambda>i.
     bind_res (optional str_value (uuid4 H n) d ''event_nonce'') (\<lambda>nonce.
     bind_res (required str_value d ''run_id'') (\<lambda>run.
     bind_res (optional str_value ''default'' d ''agent_id'') (\<lambda>agent.
     bind_res (required str_value d ''kind'') (\<lambda>kind.
     bind_res (required dict_value d ''payload'') (\<lambda>payload.
     bind_res (required str_value d ''payload_digest'') (\<lambda>digest.
     bind_res (optional strs_value [] d ''parents'') (\<lambda>parents.
     bind_res (optional (time_value H) (now_utc H n) d ''created_at'') (\<lambda>created.
     Inr \<lparr>ev_schema = schema, ev_id = i, ev_nonce = nonce, ev_run = run, ev_agent = agent,
       ev_kind = kind, ev_payload = payload, ev_digest = digest, ev_parents = parents,
       ev_created = created\<rparr>)))))))))))"

definition stored_event_of :: "event \<Rightarrow> int \<Rightarrow> nat \<Rightarrow> stored_event" where
  "stored_event_of e obs_seq obs_time =
     \<lparr>ev_schema = ev_schema e, ev_id = ev_id e, ev_nonce = ev_nonce e, ev_run = ev_run e,
      ev_agent = ev_agent e, ev_kind = ev_kind e, ev_payload = ev_payload e,
      ev_digest = ev_digest e, ev_parents = ev_parents e, ev_created = ev_created e,
      se_seq = obs_seq, se_time = obs_time, se_collector = ''local'', se_collector_seq = obs_seq\<rparr>"

definition memory_fields :: "string list" where
  "memory_fields = [''schema_version'', ''memory_id'', ''update_id'', ''lane'', ''claim'',
     ''source_event_ids'', ''evidence_refs'', ''supersedes'', ''contradicts'',
     ''workflow_contract_id'', ''receipt_id'', ''status_reason'', ''metadata'',
     ''created_at'', ''updated_at'']"

definition memory_of_dict :: "host \<Rightarrow> nat \<Rightarrow> dict \<Rightarrow> memory res" where
  "memory_of_dict H n d =
     bind_res (only_fields memory_fields d) (\<lambda>_.
     bind_res (optional str_value SCHEMA_VERSION d ''schema_version'') (\<lambda>schema.
     bind_res (required str_value d ''memory_id'') (\<lambda>i.
     bind_res (required str_value d ''update_id'') (\<lambda>update.
     bind_res (required lane_field d ''lane'') (\<lambda>l.
     bind_res (required str_value d ''claim'') (\<lambda>claim.
     bind_res (optional strs_value [] d ''source_event_ids'') (\<lambda>sources.
     bind_res (optional strs_value [] d ''evidence_refs'') (\<lambda>refs.
     bind_res (optional strs_value [] d ''supersedes'') (\<lambda>supersedes.
     bind_res (optional strs_value [] d ''contradicts'') (\<lambda>contradicts.
     bind_res (optional (option_value str_value) None d ''workflow_contract_id'') (\<lambda>contract.
     bind_res (optional (option_value str_value) None d ''receipt_id'') (\<lambda>receipt.
     bind_res (optional str_value [] d ''status_reason'') (\<lambda>reason.
     bind_res (optional dict_value [] d ''metadata'') (\<lambda>metadata.
     bind_res (optional (time_value H) (now_utc H n) d ''created_at'') (\<lambda>created.
     bind_res (optional (time_value H) (now_utc H (Suc n)) d ''updated_at'') (\<lambda>updated.
     mk_memory \<lparr>mem_schema = schema, mem_id = i, mem_update = update, mem_lane = l,
       mem_claim = claim, mem_sources = sources, mem_evidence = refs,
       mem_supersedes = supersedes, mem_contradicts = contradicts, mem_contract = contract,
       mem_receipt = receipt, mem_reason = reason, mem_metadata = metadata,
       mem_created = created, mem_updated = updated\<rparr>))))))))))))))))"

definition check_of_dict :: "host \<Rightarrow> dict \<Rightarrow> check res" where
  "check_of_dict H d =
     bind_res (only_fields [''schema_version'', ''checker_name'', ''passed'', ''reason'',
       ''evidence_refs'', ''metrics''] d) (\<lambda>_.
     bind_res (optional str_value SCHEMA_VERSION d ''schema_version'') (\<lambda>schema.
     bind_res (required str_value d ''checker_name'') (\<lambda>nm.
     bind_res (required (bool_value H) d ''passed'') (\<lambda>passed.
     bind_res (optional str_value [] d ''reason'') (\<lambda>reason.
     bind_res (optional strs_value [] d ''evidence_refs'') (\<lambda>refs.
     bind_res (optional dict_value [] d ''metrics'') (\<lambda>metrics.
     Inr \<lparr>chk_schema = schema, chk_name = nm, chk_passed = passed, chk_reason = reason,
       chk_refs = refs, chk_metrics = metrics\<rparr>)))))))"

definition check_value :: "host \<Rightarrow> json \<Rightarrow> check res" where
  "check_value H v = bind_res (dict_value v) (check_of_dict H)"

definition manifest_fields :: "string list" where
  "manifest_fields = [''schema_version'', ''manifest_id'', ''candidate_id'', ''candidate_update_id'',
     ''input_event_ids'', ''input_event_digests'', ''candidate_digest'', ''replay_digest'',
     ''declared_tools'', ''resource_caps'', ''created_at'']"

definition manifest_of_dict :: "host \<Rightarrow> nat \<Rightarrow> dict \<Rightarrow> manifest res" where
  "manifest_of_dict H n d =
     bind_res (only_fields manifest_fields d) (\<lambda>_.
     bind_res (optional str_value SCHEMA_VERSION d ''schema_version'') (\<lambda>schema.
     bind_res (required str_value d ''manifest_id'') (\<lambda>i.
     bind_res (required str_value d ''candidate_id'') (\<lambda>candidate.
     bind_res (required str_value d ''candidate_update_id'') (\<lambda>update.
     bind_res (required strs_value d ''input_event_ids'') (\<lambda>events.
     bind_res (optional str_map_value [] d ''input_event_digests'') (\<lambda>digests.
     bind_res (required str_value d ''candidate_digest'') (\<lambda>content.
     bind_res (required str_value d ''replay_digest'') (\<lambda>replay.
     bind_res (optional strs_value [] d ''declared_tools'') (\<lambda>tools.
     bind_res (optional (ints_value H) [] d ''resource_caps'') (\<lambda>caps.
     bind_res (optional (time_value H) (now_utc H n) d ''created_at'') (\<lambda>created.
     Inr \<lparr>evm_schema = schema, evm_id = i, evm_candidate = candidate, evm_update = update,
       evm_events = events, evm_digests = digests, evm_content = content, evm_replay = replay,
       evm_tools = tools, evm_caps = caps, evm_created = created\<rparr>))))))))))))"

definition intent_of_dict :: "host \<Rightarrow> dict \<Rightarrow> intent res" where
  "intent_of_dict H d =
     bind_res (only_fields [''schema_version'', ''action_id'', ''tool_name'', ''effect_class'',
       ''args_digest'', ''required_contract_id'', ''required_receipt_id'', ''resource_caps''] d) (\<lambda>_.
     bind_res (optional str_value SCHEMA_VERSION d ''schema_version'') (\<lambda>schema.
     bind_res (required str_value d ''action_id'') (\<lambda>i.
     bind_res (required str_value d ''tool_name'') (\<lambda>tool.
     bind_res (required str_value d ''effect_class'') (\<lambda>effect.
     bind_res (required str_value d ''args_digest'') (\<lambda>args.
     bind_res (optional (option_value str_value) None d ''required_contract_id'') (\<lambda>contract.
     bind_res (optional (option_value str_value) None d ''required_receipt_id'') (\<lambda>receipt.
     bind_res (optional (ints_value H) max_steps_32 d ''resource_caps'') (\<lambda>caps.
     Inr \<lparr>act_schema = schema, act_id = i, act_tool = tool, act_effect = effect,
       act_args = args, act_contract = contract, act_receipt = receipt, act_caps = caps\<rparr>)))))))))"

definition receipt_fields :: "string list" where
  "receipt_fields = [''schema_version'', ''receipt_id'', ''verification_id'', ''receipt_digest'',
     ''candidate_id'', ''candidate_update_id'', ''bound_action_id'', ''profile'', ''checks'',
     ''result'', ''evidence_refs'', ''created_at'']"

definition receipt_of_dict :: "host \<Rightarrow> nat \<Rightarrow> dict \<Rightarrow> receipt res" where
  "receipt_of_dict H n d =
     bind_res (only_fields receipt_fields d) (\<lambda>_.
     bind_res (optional str_value SCHEMA_VERSION d ''schema_version'') (\<lambda>schema.
     bind_res (required str_value d ''receipt_id'') (\<lambda>i.
     bind_res (required str_value d ''verification_id'') (\<lambda>verification.
     bind_res (required str_value d ''receipt_digest'') (\<lambda>digest.
     bind_res (required str_value d ''candidate_id'') (\<lambda>candidate.
     bind_res (required str_value d ''candidate_update_id'') (\<lambda>update.
     bind_res (optional (option_value str_value) None d ''bound_action_id'') (\<lambda>action.
     bind_res (optional profile_field Strict d ''profile'') (\<lambda>prof.
     bind_res (required (list_value (check_value H)) d ''checks'') (\<lambda>checks.
     bind_res (required outcome_field d ''result'') (\<lambda>outcome.
     bind_res (optional strs_value [] d ''evidence_refs'') (\<lambda>refs.
     bind_res (optional (time_value H) (now_utc H n) d ''created_at'') (\<lambda>created.
     Inr \<lparr>rcp_schema = schema, rcp_id = i, rcp_verification = verification, rcp_digest = digest,
       rcp_candidate = candidate, rcp_update = update, rcp_action = action, rcp_profile = prof,
       rcp_checks = checks, rcp_result = outcome, rcp_refs = refs, rcp_created = created\<rparr>)))))))))))))"

definition contract_of_dict :: "host \<Rightarrow> nat \<Rightarrow> dict \<Rightarrow> contract res" where
  "contract_of_dict H n d =
     bind_res (only_fields [''schema_version'', ''contract_id'', ''name'', ''description'',
       ''interface_signature'', ''preconditions'', ''steps'', ''postconditions'', ''tools'',
       ''checkers'', ''replay_spec'', ''resource_caps'', ''version'', ''source_memory_id'',
       ''source_update_id'', ''created_at''] d) (\<lambda>_.
     bind_res (optional str_value SCHEMA_VERSION d ''schema_version'') (\<lambda>schema.
     bind_res (required str_value d ''contract_id'') (\<lambda>i.
     bind_res (required str_value d ''name'') (\<lambda>nm.
     bind_res (optional str_value [] d ''description'') (\<lambda>description.
     bind_res (required str_value d ''interface_signature'') (\<lambda>interface.
     bind_res (optional strs_value [] d ''preconditions'') (\<lambda>pre.
     bind_res (optional strs_value [] d ''steps'') (\<lambda>steps.
     bind_res (optional strs_value [] d ''postconditions'') (\<lambda>post.
     bind_res (optional strs_value [] d ''tools'') (\<lambda>tools.
     bind_res (optional strs_value [] d ''checkers'') (\<lambda>checkers.
     bind_res (optional dict_value [] d ''replay_spec'') (\<lambda>replay.
     bind_res (optional (ints_value H) max_steps_32 d ''resource_caps'') (\<lambda>caps.
     bind_res (optional str_value ''0.1.0'' d ''version'') (\<lambda>version.
     bind_res (optional (option_value str_value) None d ''source_memory_id'') (\<lambda>memory_id.
     bind_res (optional (option_value str_value) None d ''source_update_id'') (\<lambda>update_id.
     bind_res (optional (time_value H) (now_utc H n) d ''created_at'') (\<lambda>created.
     Inr \<lparr>wfc_schema = schema, wfc_id = i, wfc_name = nm, wfc_description = description,
       wfc_interface = interface, wfc_pre = pre, wfc_steps = steps, wfc_post = post,
       wfc_tools = tools, wfc_checkers = checkers, wfc_replay = replay, wfc_caps = caps,
       wfc_version = version, wfc_memory = memory_id, wfc_update = update_id,
       wfc_created = created\<rparr>)))))))))))))))))"

definition revision_of_dict :: "host \<Rightarrow> nat \<Rightarrow> dict \<Rightarrow> revision res" where
  "revision_of_dict H n d =
     bind_res (only_fields [''schema_version'', ''revision_id'', ''memory_id'', ''update_id'',
       ''content_digest'', ''operation'', ''before_lane'', ''after_lane'', ''reason'',
       ''receipt_id'', ''event_id'', ''record'', ''created_at''] d) (\<lambda>_.
     bind_res (optional str_value SCHEMA_VERSION d ''schema_version'') (\<lambda>schema.
     bind_res (required str_value d ''revision_id'') (\<lambda>i.
     bind_res (required str_value d ''memory_id'') (\<lambda>memory_id.
     bind_res (required str_value d ''update_id'') (\<lambda>update.
     bind_res (required str_value d ''content_digest'') (\<lambda>content.
     bind_res (required operation_field d ''operation'') (\<lambda>operation.
     bind_res (optional (option_value lane_field) None d ''before_lane'') (\<lambda>before.
     bind_res (required lane_field d ''after_lane'') (\<lambda>after.
     bind_res (optional str_value [] d ''reason'') (\<lambda>reason.
     bind_res (optional (option_value str_value) None d ''receipt_id'') (\<lambda>receipt.
     bind_res (optional (option_value str_value) None d ''event_id'') (\<lambda>event.
     bind_res (optional dict_value [] d ''record'') (\<lambda>rec.
     bind_res (optional (time_value H) (now_utc H n) d ''created_at'') (\<lambda>created.
     Inr \<lparr>rev_schema = schema, rev_id = i, rev_memory = memory_id, rev_update = update,
       rev_content = content, rev_operation = operation, rev_before = before,
       rev_after = after, rev_reason = reason, rev_receipt = receipt, rev_event = event,
       rev_record = rec, rev_created = created\<rparr>))))))))))))))"

end
