(* ===== verification/Model_Roundtrip.thy ===== *)
theory Model_Roundtrip
  imports Core_Models
begin

text \<open>
  Dump, sort and validate again: reading a dumped object gives the object back, and reading it
  from the store, whose text has sorted keys, gives its canonical form, in which the open
  dictionaries (payload, metadata, metrics, caps) are sorted and nothing else changes.
\<close>

section \<open>Fields of the dumps\<close>

lemma map_of_event_dump:
  "map_of (event_dump H e) ''schema_version'' = Some (JStr (ev_schema e))"
  "map_of (event_dump H e) ''event_id'' = Some (JStr (ev_id e))"
  "map_of (event_dump H e) ''event_nonce'' = Some (JStr (ev_nonce e))"
  "map_of (event_dump H e) ''run_id'' = Some (JStr (ev_run e))"
  "map_of (event_dump H e) ''agent_id'' = Some (JStr (ev_agent e))"
  "map_of (event_dump H e) ''kind'' = Some (JStr (ev_kind e))"
  "map_of (event_dump H e) ''payload'' = Some (JDict (ev_payload e))"
  "map_of (event_dump H e) ''payload_digest'' = Some (JStr (ev_digest e))"
  "map_of (event_dump H e) ''parents'' = Some (strs_json (ev_parents e))"
  "map_of (event_dump H e) ''created_at'' = Some (time_json H (ev_created e))"
  by (simp_all add: event_dump_def)

lemma distinct_event_dump [simp]: "distinct (map fst (event_dump H e))"
  by (simp add: event_dump_def)

lemma map_of_memory_dump:
  "map_of (memory_dump H r) ''schema_version'' = Some (JStr (mem_schema r))"
  "map_of (memory_dump H r) ''memory_id'' = Some (JStr (mem_id r))"
  "map_of (memory_dump H r) ''update_id'' = Some (JStr (mem_update r))"
  "map_of (memory_dump H r) ''lane'' = Some (JStr (lane_value (mem_lane r)))"
  "map_of (memory_dump H r) ''claim'' = Some (JStr (mem_claim r))"
  "map_of (memory_dump H r) ''source_event_ids'' = Some (strs_json (mem_sources r))"
  "map_of (memory_dump H r) ''evidence_refs'' = Some (strs_json (mem_evidence r))"
  "map_of (memory_dump H r) ''supersedes'' = Some (strs_json (mem_supersedes r))"
  "map_of (memory_dump H r) ''contradicts'' = Some (strs_json (mem_contradicts r))"
  "map_of (memory_dump H r) ''workflow_contract_id'' = Some (opt_str_json (mem_contract r))"
  "map_of (memory_dump H r) ''receipt_id'' = Some (opt_str_json (mem_receipt r))"
  "map_of (memory_dump H r) ''status_reason'' = Some (JStr (mem_reason r))"
  "map_of (memory_dump H r) ''metadata'' = Some (JDict (mem_metadata r))"
  "map_of (memory_dump H r) ''created_at'' = Some (time_json H (mem_created r))"
  "map_of (memory_dump H r) ''updated_at'' = Some (time_json H (mem_updated r))"
  by (simp_all add: memory_dump_def)

lemma distinct_memory_dump [simp]: "distinct (map fst (memory_dump H r))"
  by (simp add: memory_dump_def)

lemma map_of_check_dump:
  "map_of (check_dump c) ''schema_version'' = Some (JStr (chk_schema c))"
  "map_of (check_dump c) ''checker_name'' = Some (JStr (chk_name c))"
  "map_of (check_dump c) ''passed'' = Some (JBool (chk_passed c))"
  "map_of (check_dump c) ''reason'' = Some (JStr (chk_reason c))"
  "map_of (check_dump c) ''evidence_refs'' = Some (strs_json (chk_refs c))"
  "map_of (check_dump c) ''metrics'' = Some (JDict (chk_metrics c))"
  by (simp_all add: check_dump_def)

lemma distinct_check_dump [simp]: "distinct (map fst (check_dump c))"
  by (simp add: check_dump_def)

lemma map_of_manifest_dump:
  "map_of (manifest_dump H m) ''schema_version'' = Some (JStr (evm_schema m))"
  "map_of (manifest_dump H m) ''manifest_id'' = Some (JStr (evm_id m))"
  "map_of (manifest_dump H m) ''candidate_id'' = Some (JStr (evm_candidate m))"
  "map_of (manifest_dump H m) ''candidate_update_id'' = Some (JStr (evm_update m))"
  "map_of (manifest_dump H m) ''input_event_ids'' = Some (strs_json (evm_events m))"
  "map_of (manifest_dump H m) ''input_event_digests'' = Some (str_map_json (evm_digests m))"
  "map_of (manifest_dump H m) ''candidate_digest'' = Some (JStr (evm_content m))"
  "map_of (manifest_dump H m) ''replay_digest'' = Some (JStr (evm_replay m))"
  "map_of (manifest_dump H m) ''declared_tools'' = Some (strs_json (evm_tools m))"
  "map_of (manifest_dump H m) ''resource_caps'' = Some (ints_json (evm_caps m))"
  "map_of (manifest_dump H m) ''created_at'' = Some (time_json H (evm_created m))"
  by (simp_all add: manifest_dump_def)

lemma distinct_manifest_dump [simp]: "distinct (map fst (manifest_dump H m))"
  by (simp add: manifest_dump_def)

lemma map_of_intent_dump:
  "map_of (intent_dump a) ''schema_version'' = Some (JStr (act_schema a))"
  "map_of (intent_dump a) ''action_id'' = Some (JStr (act_id a))"
  "map_of (intent_dump a) ''tool_name'' = Some (JStr (act_tool a))"
  "map_of (intent_dump a) ''effect_class'' = Some (JStr (act_effect a))"
  "map_of (intent_dump a) ''args_digest'' = Some (JStr (act_args a))"
  "map_of (intent_dump a) ''required_contract_id'' = Some (opt_str_json (act_contract a))"
  "map_of (intent_dump a) ''required_receipt_id'' = Some (opt_str_json (act_receipt a))"
  "map_of (intent_dump a) ''resource_caps'' = Some (ints_json (act_caps a))"
  by (simp_all add: intent_dump_def)

lemma distinct_intent_dump [simp]: "distinct (map fst (intent_dump a))"
  by (simp add: intent_dump_def)

lemma map_of_receipt_dump:
  "map_of (receipt_dump H r) ''schema_version'' = Some (JStr (rcp_schema r))"
  "map_of (receipt_dump H r) ''receipt_id'' = Some (JStr (rcp_id r))"
  "map_of (receipt_dump H r) ''verification_id'' = Some (JStr (rcp_verification r))"
  "map_of (receipt_dump H r) ''receipt_digest'' = Some (JStr (rcp_digest r))"
  "map_of (receipt_dump H r) ''candidate_id'' = Some (JStr (rcp_candidate r))"
  "map_of (receipt_dump H r) ''candidate_update_id'' = Some (JStr (rcp_update r))"
  "map_of (receipt_dump H r) ''bound_action_id'' = Some (opt_str_json (rcp_action r))"
  "map_of (receipt_dump H r) ''profile'' = Some (JStr (profile_value (rcp_profile r)))"
  "map_of (receipt_dump H r) ''checks'' = Some (JList (map (\<lambda>c. JDict (check_dump c)) (rcp_checks r)))"
  "map_of (receipt_dump H r) ''result'' = Some (JStr (outcome_value (rcp_result r)))"
  "map_of (receipt_dump H r) ''evidence_refs'' = Some (strs_json (rcp_refs r))"
  "map_of (receipt_dump H r) ''created_at'' = Some (time_json H (rcp_created r))"
  by (simp_all add: receipt_dump_def)

lemma distinct_receipt_dump [simp]: "distinct (map fst (receipt_dump H r))"
  by (simp add: receipt_dump_def)

lemma map_of_contract_dump:
  "map_of (contract_dump H c) ''schema_version'' = Some (JStr (wfc_schema c))"
  "map_of (contract_dump H c) ''contract_id'' = Some (JStr (wfc_id c))"
  "map_of (contract_dump H c) ''name'' = Some (JStr (wfc_name c))"
  "map_of (contract_dump H c) ''description'' = Some (JStr (wfc_description c))"
  "map_of (contract_dump H c) ''interface_signature'' = Some (JStr (wfc_interface c))"
  "map_of (contract_dump H c) ''preconditions'' = Some (strs_json (wfc_pre c))"
  "map_of (contract_dump H c) ''steps'' = Some (strs_json (wfc_steps c))"
  "map_of (contract_dump H c) ''postconditions'' = Some (strs_json (wfc_post c))"
  "map_of (contract_dump H c) ''tools'' = Some (strs_json (wfc_tools c))"
  "map_of (contract_dump H c) ''checkers'' = Some (strs_json (wfc_checkers c))"
  "map_of (contract_dump H c) ''replay_spec'' = Some (JDict (wfc_replay c))"
  "map_of (contract_dump H c) ''resource_caps'' = Some (ints_json (wfc_caps c))"
  "map_of (contract_dump H c) ''version'' = Some (JStr (wfc_version c))"
  "map_of (contract_dump H c) ''source_memory_id'' = Some (opt_str_json (wfc_memory c))"
  "map_of (contract_dump H c) ''source_update_id'' = Some (opt_str_json (wfc_update c))"
  "map_of (contract_dump H c) ''created_at'' = Some (time_json H (wfc_created c))"
  by (simp_all add: contract_dump_def)

lemma distinct_contract_dump [simp]: "distinct (map fst (contract_dump H c))"
  by (simp add: contract_dump_def)

lemma map_of_revision_dump:
  "map_of (revision_dump H r) ''schema_version'' = Some (JStr (rev_schema r))"
  "map_of (revision_dump H r) ''revision_id'' = Some (JStr (rev_id r))"
  "map_of (revision_dump H r) ''memory_id'' = Some (JStr (rev_memory r))"
  "map_of (revision_dump H r) ''update_id'' = Some (JStr (rev_update r))"
  "map_of (revision_dump H r) ''content_digest'' = Some (JStr (rev_content r))"
  "map_of (revision_dump H r) ''operation'' = Some (JStr (operation_value (rev_operation r)))"
  "map_of (revision_dump H r) ''before_lane'' = Some (opt_lane_json (rev_before r))"
  "map_of (revision_dump H r) ''after_lane'' = Some (JStr (lane_value (rev_after r)))"
  "map_of (revision_dump H r) ''reason'' = Some (JStr (rev_reason r))"
  "map_of (revision_dump H r) ''receipt_id'' = Some (opt_str_json (rev_receipt r))"
  "map_of (revision_dump H r) ''event_id'' = Some (opt_str_json (rev_event r))"
  "map_of (revision_dump H r) ''record'' = Some (JDict (rev_record r))"
  "map_of (revision_dump H r) ''created_at'' = Some (time_json H (rev_created r))"
  by (simp_all add: revision_dump_def)

lemma distinct_revision_dump [simp]: "distinct (map fst (revision_dump H r))"
  by (simp add: revision_dump_def)


section \<open>Canonical forms\<close>

definition event_canon :: "'a event_scheme \<Rightarrow> 'a event_scheme" where
  "event_canon e = e\<lparr>ev_payload := stored_dict (ev_payload e)\<rparr>"

definition memory_canon :: "memory \<Rightarrow> memory" where
  "memory_canon r = r\<lparr>mem_metadata := stored_dict (mem_metadata r)\<rparr>"

definition check_canon :: "check \<Rightarrow> check" where
  "check_canon c = c\<lparr>chk_metrics := stored_dict (chk_metrics c)\<rparr>"

definition manifest_canon :: "manifest \<Rightarrow> manifest" where
  "manifest_canon m =
     m\<lparr>evm_digests := stored_map (evm_digests m), evm_caps := stored_map (evm_caps m)\<rparr>"

definition receipt_canon :: "receipt \<Rightarrow> receipt" where
  "receipt_canon r = r\<lparr>rcp_checks := map check_canon (rcp_checks r)\<rparr>"

definition contract_canon :: "contract \<Rightarrow> contract" where
  "contract_canon c =
     c\<lparr>wfc_replay := stored_dict (wfc_replay c), wfc_caps := stored_map (wfc_caps c)\<rparr>"

definition revision_canon :: "revision \<Rightarrow> revision" where
  "revision_canon r = r\<lparr>rev_record := stored_dict (rev_record r)\<rparr>"

text \<open>A claim that validation leaves as it is.\<close>

definition claim_ok :: "memory \<Rightarrow> bool" where
  "claim_ok r \<longleftrightarrow> mem_claim r \<noteq> [] \<and> strip (mem_claim r) = mem_claim r"

lemma mk_memory_claim_ok: "claim_ok r \<Longrightarrow> mk_memory r = Inr r"
  by (simp add: mk_memory_def claim_must_not_be_empty_def claim_ok_def Let_def)

lemma mk_memory_Inr: "mk_memory r = Inr s \<Longrightarrow> claim_ok s \<and> (\<exists>c. s = r\<lparr>mem_claim := c\<rparr>)"
  by (auto simp: mk_memory_def claim_must_not_be_empty_def claim_ok_def Let_def split: if_splits)

lemma mk_memory_eq:
  "mk_memory r = Inr s \<longleftrightarrow> strip (mem_claim r) \<noteq> [] \<and> s = r\<lparr>mem_claim := strip (mem_claim r)\<rparr>"
  by (auto simp: mk_memory_def claim_must_not_be_empty_def Let_def split: if_splits)

section \<open>Validation of a dump\<close>

lemmas field_reads = required_def optional_def map_of_stored_dict opt_lane_json_def

lemma option_value_lane [simp]:
  "option_value lane_field (opt_str_json (map_option lane_value l)) = Inr l"
  by (cases l) (simp_all add: opt_str_json_def)

lemma only_fields_event:
  "only_fields event_fields (event_dump H e) = Inr ()"
  by (simp add: only_fields_def event_fields_def event_dump_def)

lemma event_read: "host_ok H \<Longrightarrow> event_of_dict H n (event_dump H e) = Inr e"
  by (simp add: event_of_dict_def only_fields_event field_reads map_of_event_dump)

lemma event_read_stored:
  "host_ok H \<Longrightarrow> event_of_dict H n (stored_dict (event_dump H e)) = Inr (event_canon e)"
  by (simp add: event_of_dict_def only_fields_event field_reads map_of_event_dump
      event_canon_def)

lemma only_fields_memory:
  "only_fields memory_fields (memory_dump H r) = Inr ()"
  by (simp add: only_fields_def memory_fields_def memory_dump_def)

lemma memory_read: "host_ok H \<Longrightarrow> claim_ok r \<Longrightarrow> memory_of_dict H n (memory_dump H r) = Inr r"
  by (simp add: memory_of_dict_def only_fields_memory field_reads map_of_memory_dump mk_memory_def
      claim_must_not_be_empty_def claim_ok_def)

lemma memory_read_stored:
  "host_ok H \<Longrightarrow> claim_ok r \<Longrightarrow> memory_of_dict H n (stored_dict (memory_dump H r)) = Inr (memory_canon r)"
  by (simp add: memory_of_dict_def only_fields_memory field_reads map_of_memory_dump mk_memory_def
      claim_must_not_be_empty_def claim_ok_def memory_canon_def)

lemma only_fields_check:
  "only_fields [''schema_version'', ''checker_name'', ''passed'', ''reason'', ''evidence_refs'',
     ''metrics''] (check_dump c) = Inr ()"
  by (simp add: only_fields_def check_dump_def)

lemma check_read: "check_of_dict H (check_dump c) = Inr c"
  by (simp add: check_of_dict_def only_fields_check field_reads map_of_check_dump)

lemma check_read_stored:
  "check_of_dict H (stored_dict (check_dump c)) = Inr (check_canon c)"
  by (simp add: check_of_dict_def only_fields_check field_reads map_of_check_dump
      check_canon_def)

lemma only_fields_manifest:
  "only_fields manifest_fields (manifest_dump H m) = Inr ()"
  by (simp add: only_fields_def manifest_fields_def manifest_dump_def)

lemma manifest_read: "host_ok H \<Longrightarrow> manifest_of_dict H n (manifest_dump H m) = Inr m"
  by (simp add: manifest_of_dict_def only_fields_manifest field_reads map_of_manifest_dump)

lemma manifest_read_stored:
  "host_ok H \<Longrightarrow> manifest_of_dict H n (stored_dict (manifest_dump H m)) = Inr (manifest_canon m)"
  by (simp add: manifest_of_dict_def only_fields_manifest field_reads map_of_manifest_dump
      manifest_canon_def)

lemma only_fields_intent:
  "only_fields [''schema_version'', ''action_id'', ''tool_name'', ''effect_class'', ''args_digest'',
     ''required_contract_id'', ''required_receipt_id'', ''resource_caps''] (intent_dump a) = Inr ()"
  by (simp add: only_fields_def intent_dump_def)

lemma intent_read: "intent_of_dict H (intent_dump a) = Inr a"
  by (simp add: intent_of_dict_def only_fields_intent field_reads map_of_intent_dump)

lemma only_fields_receipt:
  "only_fields receipt_fields (receipt_dump H r) = Inr ()"
  by (simp add: only_fields_def receipt_fields_def receipt_dump_def)

lemma list_value_checks:
  "list_value (check_value H) (JList (map (\<lambda>c. JDict (check_dump c)) cs)) = Inr cs"
  unfolding list_value_def
  by (induction cs) (auto simp: check_value_def check_read)

lemma list_value_checks_stored:
  "list_value (check_value H) (JList (map (stored_json \<circ> (\<lambda>c. JDict (check_dump c))) cs)) =
     Inr (map check_canon cs)"
  unfolding list_value_def json.case
  by (induction cs) (auto simp: check_value_def check_read_stored)

lemma receipt_read: "host_ok H \<Longrightarrow> receipt_of_dict H n (receipt_dump H r) = Inr r"
  by (simp add: receipt_of_dict_def only_fields_receipt field_reads map_of_receipt_dump
      list_value_checks)

lemma receipt_read_stored:
  "host_ok H \<Longrightarrow> receipt_of_dict H n (stored_dict (receipt_dump H r)) = Inr (receipt_canon r)"
  by (simp add: receipt_of_dict_def only_fields_receipt field_reads map_of_receipt_dump list_value_checks list_value_checks_stored
      receipt_canon_def)

lemma only_fields_contract:
  "only_fields [''schema_version'', ''contract_id'', ''name'', ''description'', ''interface_signature'',
     ''preconditions'', ''steps'', ''postconditions'', ''tools'', ''checkers'',
     ''replay_spec'', ''resource_caps'', ''version'', ''source_memory_id'',
     ''source_update_id'', ''created_at''] (contract_dump H c) = Inr ()"
  by (simp add: only_fields_def contract_dump_def)

lemma contract_read: "host_ok H \<Longrightarrow> contract_of_dict H n (contract_dump H c) = Inr c"
  by (simp add: contract_of_dict_def only_fields_contract field_reads map_of_contract_dump)

lemma contract_read_stored:
  "host_ok H \<Longrightarrow> contract_of_dict H n (stored_dict (contract_dump H c)) = Inr (contract_canon c)"
  by (simp add: contract_of_dict_def only_fields_contract field_reads map_of_contract_dump
      contract_canon_def)

lemma only_fields_revision:
  "only_fields [''schema_version'', ''revision_id'', ''memory_id'', ''update_id'', ''content_digest'',
     ''operation'', ''before_lane'', ''after_lane'', ''reason'', ''receipt_id'',
     ''event_id'', ''record'', ''created_at''] (revision_dump H r) = Inr ()"
  by (simp add: only_fields_def revision_dump_def)

lemma revision_read: "host_ok H \<Longrightarrow> revision_of_dict H n (revision_dump H r) = Inr r"
  by (simp add: revision_of_dict_def only_fields_revision field_reads map_of_revision_dump)

lemma revision_read_stored:
  "host_ok H \<Longrightarrow> revision_of_dict H n (stored_dict (revision_dump H r)) = Inr (revision_canon r)"
  by (simp add: revision_of_dict_def only_fields_revision field_reads map_of_revision_dump
      revision_canon_def)

section \<open>Values of the open dictionaries\<close>

text \<open>
  The open dictionaries of an object are what Python can hold and what canonical text can print.
\<close>

definition dict_ok :: "dict \<Rightarrow> bool" where
  "dict_ok d \<longleftrightarrow> proper (JDict d) \<and> finite_json (JDict d)"

lemma proper_dumps:
  "proper (JDict (event_dump H e)) \<longleftrightarrow> proper (JDict (ev_payload e))"
  "proper (JDict (memory_dump H r)) \<longleftrightarrow> proper (JDict (mem_metadata r))"
  "proper (JDict (check_dump c)) \<longleftrightarrow> proper (JDict (chk_metrics c))"
  "proper (JDict (manifest_dump H m)) \<longleftrightarrow>
     distinct (map fst (evm_digests m)) \<and> distinct (map fst (evm_caps m))"
  "proper (JDict (contract_dump H w)) \<longleftrightarrow>
     proper (JDict (wfc_replay w)) \<and> distinct (map fst (wfc_caps w))"
  "proper (JDict (revision_dump H v)) \<longleftrightarrow> proper (JDict (rev_record v))"
  by (auto simp: event_dump_def memory_dump_def check_dump_def manifest_dump_def contract_dump_def
      revision_dump_def opt_lane_json_def simp del: proper.simps(2) simp: proper.simps(2) [of "_ # _"])

lemma finite_dumps:
  "finite_json (JDict (event_dump H e)) \<longleftrightarrow> finite_json (JDict (ev_payload e))"
  "finite_json (JDict (memory_dump H r)) \<longleftrightarrow> finite_json (JDict (mem_metadata r))"
  "finite_json (JDict (check_dump c)) \<longleftrightarrow> finite_json (JDict (chk_metrics c))"
  "finite_json (JDict (manifest_dump H m))"
  "finite_json (JDict (contract_dump H w)) \<longleftrightarrow> finite_json (JDict (wfc_replay w))"
  "finite_json (JDict (revision_dump H v)) \<longleftrightarrow> finite_json (JDict (rev_record v))"
  by (simp_all add: event_dump_def memory_dump_def check_dump_def manifest_dump_def
      contract_dump_def revision_dump_def opt_lane_json_def)

lemma receipt_dump_ok:
  "proper (JDict (receipt_dump H r)) \<longleftrightarrow> (\<forall>c \<in> set (rcp_checks r). proper (JDict (chk_metrics c)))"
  "finite_json (JDict (receipt_dump H r)) \<longleftrightarrow>
     (\<forall>c \<in> set (rcp_checks r). finite_json (JDict (chk_metrics c)))"
proof -
  show "proper (JDict (receipt_dump H r)) \<longleftrightarrow> (\<forall>c \<in> set (rcp_checks r). proper (JDict (chk_metrics c)))"
    unfolding proper_dumps(3) [symmetric]
    by (simp add: receipt_dump_def proper.simps(2) [of "_ # _"] del: proper.simps(2))
  show "finite_json (JDict (receipt_dump H r)) \<longleftrightarrow>
     (\<forall>c \<in> set (rcp_checks r). finite_json (JDict (chk_metrics c)))"
    unfolding finite_dumps(3) [symmetric]
    by (simp add: receipt_dump_def finite_json.simps(3) [of "_ # _"] del: finite_json.simps(3))
qed

end
