(* ===== verification/Core_Create.thy ===== *)
theory Core_Create
  imports Model_Roundtrip
begin

text \<open>
  The class methods of \<open>core/models.py\<close> that build objects: every identifier is a prefix of
  the digest of a seed, and the seeds name what the identifier binds. Also the lane machine of
  \<open>core/transitions.py\<close>.
\<close>

section \<open>Identifiers\<close>

text \<open>\<open>f"{prefix}{digest_json(seed)[:32]}"\<close>.\<close>

definition id32 :: "host \<Rightarrow> string \<Rightarrow> json \<Rightarrow> string res" where
  "id32 H prefix seed = bind_res (digest_json H seed) (\<lambda>d. Inr (prefix @ take 32 d))"

text \<open>\<open>value or default\<close> on an optional string.\<close>

definition or_opt :: "string option \<Rightarrow> string option \<Rightarrow> string option" where
  "or_opt x y = (case x of Some s \<Rightarrow> if s = [] then y else Some s | None \<Rightarrow> y)"

definition or_str :: "string option \<Rightarrow> string \<Rightarrow> string" where
  "or_str x y = (case x of Some s \<Rightarrow> if s = [] then y else s | None \<Rightarrow> y)"

section \<open>Events\<close>

definition event_create :: "host \<Rightarrow> nat \<Rightarrow> string \<Rightarrow> dict \<Rightarrow> string \<Rightarrow> string list \<Rightarrow> event res" where
  "event_create H n kind payload run_id parents =
     (let created_at = now_utc H n; event_nonce = uuid4 H n in
      bind_res (digest_json H (JDict payload)) (\<lambda>payload_digest.
      bind_res (id32 H ''evt_'' (JDict
        [(''schema_version'', JStr SCHEMA_VERSION), (''event_nonce'', JStr event_nonce),
         (''run_id'', JStr run_id), (''agent_id'', JStr ''default''), (''kind'', JStr kind),
         (''payload_digest'', JStr payload_digest), (''parents'', strs_json parents),
         (''created_at'', JStr (iso_time H created_at))])) (\<lambda>event_id.
      Inr \<lparr>ev_schema = SCHEMA_VERSION, ev_id = event_id, ev_nonce = event_nonce, ev_run = run_id,
        ev_agent = ''default'', ev_kind = kind, ev_payload = payload, ev_digest = payload_digest,
        ev_parents = parents, ev_created = created_at\<rparr>)))"

section \<open>Memory records\<close>

definition content_seed :: "string \<Rightarrow> string list \<Rightarrow> dict \<Rightarrow> string list \<Rightarrow> string list \<Rightarrow> dict" where
  "content_seed claim source_event_ids metadata supersedes contradicts =
     [(''claim'', JStr claim), (''source_event_ids'', strs_json source_event_ids),
      (''metadata'', JDict metadata), (''supersedes'', strs_json supersedes),
      (''contradicts'', strs_json contradicts)]"

definition compute_update_id :: "host \<Rightarrow> string \<Rightarrow> string \<Rightarrow> string res" where
  "compute_update_id H memory_id content =
     id32 H ''upd_'' (JDict [(''memory_id'', JStr memory_id), (''content_digest'', JStr content)])"

definition content_digest :: "host \<Rightarrow> memory \<Rightarrow> string res" where
  "content_digest H r =
     digest_json H (JDict (content_seed (mem_claim r) (mem_sources r) (mem_metadata r)
       (mem_supersedes r) (mem_contradicts r)))"

definition memory_create ::
  "host \<Rightarrow> nat \<Rightarrow> lane \<Rightarrow> string \<Rightarrow> string list \<Rightarrow> dict \<Rightarrow> string list \<Rightarrow> string list \<Rightarrow> string list \<Rightarrow> memory res"
where
  "memory_create H n l claim source_event_ids metadata evidence_refs supersedes contradicts =
     (let seed = content_seed claim source_event_ids metadata supersedes contradicts in
      bind_res (id32 H ''mem_'' (JDict ((''lane'', JStr (lane_value l)) # seed))) (\<lambda>memory_id.
      bind_res (digest_json H (JDict seed)) (\<lambda>content.
      bind_res (compute_update_id H memory_id content) (\<lambda>update_id.
      mk_memory \<lparr>mem_schema = SCHEMA_VERSION, mem_id = memory_id, mem_update = update_id,
        mem_lane = l, mem_claim = claim, mem_sources = source_event_ids,
        mem_evidence = evidence_refs, mem_supersedes = supersedes, mem_contradicts = contradicts,
        mem_contract = None, mem_receipt = None, mem_reason = [], mem_metadata = metadata,
        mem_created = now_utc H n, mem_updated = now_utc H (Suc n)\<rparr>))))"

definition moved :: "host \<Rightarrow> nat \<Rightarrow> lane \<Rightarrow> string \<Rightarrow> string option \<Rightarrow> memory \<Rightarrow> memory res" where
  "moved H n l reason receipt_id r =
     mk_memory (r\<lparr>mem_lane := l, mem_reason := reason,
       mem_receipt := or_opt receipt_id (mem_receipt r), mem_updated := now_utc H n\<rparr>)"

section \<open>Checks, manifests, intents\<close>

definition check_result :: "string \<Rightarrow> bool \<Rightarrow> string \<Rightarrow> dict \<Rightarrow> check" where
  "check_result nm passed reason metrics =
     \<lparr>chk_schema = SCHEMA_VERSION, chk_name = nm, chk_passed = passed, chk_reason = reason,
      chk_refs = [], chk_metrics = metrics\<rparr>"

definition replay_seed ::
  "memory \<Rightarrow> json \<Rightarrow> json \<Rightarrow> string \<Rightarrow> json \<Rightarrow> json \<Rightarrow> dict" where
  "replay_seed candidate input_event_ids input_event_digests content declared_tools resource_caps =
     [(''candidate_id'', JStr (mem_id candidate)), (''candidate_update_id'', JStr (mem_update candidate)),
      (''claim'', JStr (mem_claim candidate)), (''input_event_ids'', input_event_ids),
      (''input_event_digests'', input_event_digests), (''candidate_digest'', JStr content),
      (''declared_tools'', declared_tools), (''resource_caps'', resource_caps)]"

definition manifest_seed :: "memory \<Rightarrow> json \<Rightarrow> json \<Rightarrow> string \<Rightarrow> string \<Rightarrow> dict" where
  "manifest_seed candidate input_event_ids input_event_digests content replay =
     [(''candidate_id'', JStr (mem_id candidate)), (''candidate_update_id'', JStr (mem_update candidate)),
      (''input_event_ids'', input_event_ids), (''input_event_digests'', input_event_digests),
      (''candidate_digest'', JStr content), (''replay_digest'', JStr replay)]"

text \<open>
  \<open>EvidenceManifest.create\<close>: the digests are taken over the tools and caps as given; the
  fields are validated only when the manifest is built.
\<close>

definition manifest_create ::
  "host \<Rightarrow> nat \<Rightarrow> memory \<Rightarrow> string list \<Rightarrow> (string \<times> string) list \<Rightarrow> json list \<Rightarrow> dict \<Rightarrow> manifest res"
where
  "manifest_create H n candidate input_event_ids input_event_digests declared_tools resource_caps =
     (let events = strs_json input_event_ids; digests = str_map_json input_event_digests in
      bind_res (content_digest H candidate) (\<lambda>content.
      bind_res (digest_json H (JDict (replay_seed candidate events digests content
        (JList declared_tools) (JDict resource_caps)))) (\<lambda>replay.
      bind_res (id32 H ''evm_'' (JDict (manifest_seed candidate events digests content replay)))
        (\<lambda>manifest_id.
      bind_res (strs_value (JList declared_tools)) (\<lambda>tools.
      bind_res (ints_value H (JDict resource_caps)) (\<lambda>caps.
      Inr \<lparr>evm_schema = SCHEMA_VERSION, evm_id = manifest_id, evm_candidate = mem_id candidate,
        evm_update = mem_update candidate, evm_events = input_event_ids,
        evm_digests = input_event_digests, evm_content = content, evm_replay = replay,
        evm_tools = tools, evm_caps = caps, evm_created = now_utc H n\<rparr>))))))"

definition action_seed :: "string \<Rightarrow> string \<Rightarrow> string \<Rightarrow> (string \<times> int) list \<Rightarrow> dict" where
  "action_seed tool_name effect_class args_digest caps =
     [(''tool_name'', JStr tool_name), (''effect_class'', JStr effect_class),
      (''args_digest'', JStr args_digest), (''resource_caps'', ints_json caps)]"

definition intent_create ::
  "host \<Rightarrow> string \<Rightarrow> string \<Rightarrow> dict \<Rightarrow> string option \<Rightarrow> string option \<Rightarrow> (string \<times> int) list \<Rightarrow> intent res"
where
  "intent_create H tool_name effect_class arguments required_contract_id required_receipt_id resource_caps =
     (let caps = (if resource_caps = [] then max_steps_32 else resource_caps) in
      bind_res (digest_json H (JDict arguments)) (\<lambda>args_digest.
      bind_res (id32 H ''act_'' (JDict (action_seed tool_name effect_class args_digest caps)))
        (\<lambda>action_id.
      Inr \<lparr>act_schema = SCHEMA_VERSION, act_id = action_id, act_tool = tool_name,
        act_effect = effect_class, act_args = args_digest, act_contract = required_contract_id,
        act_receipt = required_receipt_id, act_caps = caps\<rparr>)))"

definition intent_from_json_text :: "host \<Rightarrow> string \<Rightarrow> intent res" where
  "intent_from_json_text H s =
     bind_res (loads_strict_json H s) (\<lambda>payload.
       case payload of
         JDict d \<Rightarrow> intent_of_dict H d
       | _ \<Rightarrow> Inl (ValueError ''ActionIntent JSON must be an object''))"

section \<open>Receipts\<close>

definition receipt_seed ::
  "string \<Rightarrow> string \<Rightarrow> string option \<Rightarrow> profile \<Rightarrow> check list \<Rightarrow> outcome \<Rightarrow> string list \<Rightarrow> dict"
where
  "receipt_seed candidate_id candidate_update_id bound_action_id prof checks outcome refs =
     [(''candidate_id'', JStr candidate_id), (''candidate_update_id'', JStr candidate_update_id),
      (''bound_action_id'', opt_str_json bound_action_id), (''profile'', JStr (profile_value prof)),
      (''checks'', JList (map (\<lambda>c. JDict (check_dump c)) checks)),
      (''result'', JStr (outcome_value outcome)), (''evidence_refs'', strs_json refs)]"

definition compute_receipt_digest ::
  "host \<Rightarrow> string \<Rightarrow> string \<Rightarrow> string option \<Rightarrow> profile \<Rightarrow> check list \<Rightarrow> outcome \<Rightarrow> string list \<Rightarrow> string res"
where
  "compute_receipt_digest H candidate_id candidate_update_id bound_action_id prof checks outcome refs =
     digest_json H (JDict (receipt_seed candidate_id candidate_update_id bound_action_id prof
       checks outcome refs))"

definition receipt_create ::
  "host \<Rightarrow> nat \<Rightarrow> memory \<Rightarrow> profile \<Rightarrow> check list \<Rightarrow> string list \<Rightarrow> string option \<Rightarrow> receipt res"
where
  "receipt_create H n candidate prof checks evidence_refs bound_action_id =
     (let outcome = (if list_all chk_passed checks then Passed else Failed) in
      bind_res (compute_receipt_digest H (mem_id candidate) (mem_update candidate) bound_action_id
        prof checks outcome evidence_refs) (\<lambda>digest.
      let verification_id = ''ver_'' @ uuid4 H n in
      bind_res (id32 H ''rcp_'' (JDict [(''verification_id'', JStr verification_id),
        (''receipt_digest'', JStr digest)])) (\<lambda>receipt_id.
      Inr \<lparr>rcp_schema = SCHEMA_VERSION, rcp_id = receipt_id, rcp_verification = verification_id,
        rcp_digest = digest, rcp_candidate = mem_id candidate, rcp_update = mem_update candidate,
        rcp_action = bound_action_id, rcp_profile = prof, rcp_checks = checks,
        rcp_result = outcome, rcp_refs = evidence_refs, rcp_created = now_utc H n\<rparr>)))"

section \<open>Contracts\<close>

definition contract_seed :: "memory \<Rightarrow> receipt \<Rightarrow> dict" where
  "contract_seed candidate rcp =
     [(''candidate_id'', JStr (mem_id candidate)),
      (''candidate_update_id'', JStr (mem_update candidate)), (''claim'', JStr (mem_claim candidate)),
      (''source_event_ids'', strs_json (mem_sources candidate)),
      (''receipt_id'', JStr (rcp_id rcp)), (''receipt_digest'', JStr (rcp_digest rcp))]"

definition candidate_steps :: "memory \<Rightarrow> json list" where
  "candidate_steps candidate =
     (case map_of (mem_metadata candidate) ''steps'' of
        Some (JList vs) \<Rightarrow> if vs = [] then [JStr (mem_claim candidate)] else vs
      | _ \<Rightarrow> [JStr (mem_claim candidate)])"

text \<open>\<open>list(candidate.metadata.get(key, []))\<close>.\<close>

definition metadata_list :: "memory \<Rightarrow> string \<Rightarrow> json list res" where
  "metadata_list candidate k = py_list (get_or (mem_metadata candidate) k (JList []))"

definition contract_from_candidate :: "host \<Rightarrow> nat \<Rightarrow> memory \<Rightarrow> receipt \<Rightarrow> contract res" where
  "contract_from_candidate H n candidate rcp =
     bind_res (id32 H ''wfc_'' (JDict (contract_seed candidate rcp))) (\<lambda>contract_id.
     bind_res (metadata_list candidate ''preconditions'') (\<lambda>pre_items.
     bind_res (metadata_list candidate ''postconditions'') (\<lambda>post_items.
     bind_res (metadata_list candidate ''tools'') (\<lambda>tool_items.
     bind_res (content_digest H candidate) (\<lambda>content.
     bind_res (py_dict (get_or (mem_metadata candidate) ''resource_caps''
       (ints_json max_steps_32))) (\<lambda>raw_caps.
     bind_res (strs_value (JList pre_items)) (\<lambda>pre.
     bind_res (strs_value (JList post_items)) (\<lambda>post.
     bind_res (strs_value (JList tool_items)) (\<lambda>tools.
     bind_res (ints_value H (JDict raw_caps)) (\<lambda>caps.
     Inr \<lparr>wfc_schema = SCHEMA_VERSION, wfc_id = contract_id,
       wfc_name = (if take 96 (mem_claim candidate) = [] then ''certified-workflow''
                   else take 96 (mem_claim candidate)),
       wfc_description = ''Promoted from verified memory candidate.'',
       wfc_interface = py_str H (get_or (mem_metadata candidate) ''interface_signature'' (JStr ''default'')),
       wfc_pre = pre, wfc_steps = map (py_str H) (candidate_steps candidate), wfc_post = post,
       wfc_tools = tools, wfc_checkers = map chk_name (rcp_checks rcp),
       wfc_replay = [(''source_event_ids'', strs_json (mem_sources candidate)),
         (''candidate_update_id'', JStr (mem_update candidate)), (''candidate_digest'', JStr content),
         (''receipt_id'', JStr (rcp_id rcp)), (''receipt_digest'', JStr (rcp_digest rcp))],
       wfc_caps = caps, wfc_version = ''0.1.0'', wfc_memory = Some (mem_id candidate),
       wfc_update = Some (mem_update candidate), wfc_created = now_utc H n\<rparr>))))))))))"

section \<open>Revisions\<close>

definition revision_seed ::
  "host \<Rightarrow> string \<Rightarrow> memory \<Rightarrow> string \<Rightarrow> memory_operation \<Rightarrow> lane option \<Rightarrow> string option \<Rightarrow> string option \<Rightarrow> nat \<Rightarrow> dict"
where
  "revision_seed H nonce r content operation before_lane receipt_id event_id created_at =
     [(''nonce'', JStr nonce), (''memory_id'', JStr (mem_id r)), (''update_id'', JStr (mem_update r)),
      (''content_digest'', JStr content), (''operation'', JStr (operation_value operation)),
      (''before_lane'', opt_lane_json before_lane), (''after_lane'', JStr (lane_value (mem_lane r))),
      (''receipt_id'', opt_str_json receipt_id), (''event_id'', opt_str_json event_id),
      (''created_at'', JStr (iso_time H created_at))]"

definition revision_create ::
  "host \<Rightarrow> nat \<Rightarrow> memory \<Rightarrow> memory_operation \<Rightarrow> lane option \<Rightarrow> string \<Rightarrow> string option \<Rightarrow> string option \<Rightarrow> revision res"
where
  "revision_create H n r operation before_lane reason receipt_id event_id =
     (let created_at = now_utc H n in
      bind_res (content_digest H r) (\<lambda>content.
      bind_res (id32 H ''rev_'' (JDict (revision_seed H (uuid4 H n) r content operation before_lane
        receipt_id event_id created_at))) (\<lambda>revision_id.
      Inr \<lparr>rev_schema = SCHEMA_VERSION, rev_id = revision_id, rev_memory = mem_id r,
        rev_update = mem_update r, rev_content = content, rev_operation = operation,
        rev_before = before_lane, rev_after = mem_lane r, rev_reason = reason,
        rev_receipt = receipt_id, rev_event = event_id, rev_record = memory_dump H r,
        rev_created = created_at\<rparr>)))"

section \<open>Lane transitions\<close>

fun ALLOWED_TRANSITIONS :: "lane \<Rightarrow> lane list" where
  "ALLOWED_TRANSITIONS RAW = [CANDIDATE, CONTRADICTION, TOMBSTONE]"
| "ALLOWED_TRANSITIONS CANDIDATE = [SHADOW, QUARANTINE, CONTRADICTION, TOMBSTONE]"
| "ALLOWED_TRANSITIONS SHADOW = [CERTIFIED, QUARANTINE, CONTRADICTION, TOMBSTONE]"
| "ALLOWED_TRANSITIONS CERTIFIED = [SUPERSEDED, CONTRADICTION, TOMBSTONE]"
| "ALLOWED_TRANSITIONS SUPERSEDED = [CONTRADICTION, TOMBSTONE]"
| "ALLOWED_TRANSITIONS QUARANTINE = [CANDIDATE, TOMBSTONE]"
| "ALLOWED_TRANSITIONS CONTRADICTION = [CANDIDATE, TOMBSTONE]"
| "ALLOWED_TRANSITIONS TOMBSTONE = []"

definition assert_transition_allowed :: "lane \<Rightarrow> lane \<Rightarrow> unit res" where
  "assert_transition_allowed source target =
     (if source = target then Inr ()
      else ensure (target \<in> set (ALLOWED_TRANSITIONS source))
        (TransitionError (''invalid memory lane transition: '' @ lane_value source @ '' -> '' @
          lane_value target)))"

definition move_memory :: "host \<Rightarrow> nat \<Rightarrow> memory \<Rightarrow> lane \<Rightarrow> string \<Rightarrow> memory res" where
  "move_memory H n r target reason =
     bind_res (assert_transition_allowed (mem_lane r) target) (\<lambda>_. moved H n target reason None r)"

definition admissible_lanes_for_mode :: "string \<Rightarrow> lane list res" where
  "admissible_lanes_for_mode mode =
     (if mode = ''admissible'' then Inr [CERTIFIED]
      else if mode = ''raw'' then Inr [RAW]
      else if mode = ''candidate'' then Inr [CANDIDATE, SHADOW]
      else if mode = ''audit'' then
        Inr [RAW, CANDIDATE, SHADOW, CERTIFIED, SUPERSEDED, QUARANTINE, TOMBSTONE, CONTRADICTION]
      else Inl (TransitionError (''unknown retrieval mode: '' @ mode)))"

end
