(* ===== verification/Sqlite_Storage.thy ===== *)
theory Sqlite_Storage
  imports Core_Create
begin

text \<open>
  The SQLite adapter (\<open>adapters/sqlite_storage.py\<close>): its tables as lists of rows, each row
  with its columns and the canonical text of the object in \<open>raw_json\<close>. A method is one
  transaction: an exception inside it leaves the tables as they were. The full-text engine is a
  parameter (\<open>fts_engine\<close>): what it matches and in which order is SQLite's.
\<close>

section \<open>Tables\<close>

record event_row =
  er_seq :: int
  er_id :: string
  er_time :: string
  er_run :: string
  er_kind :: string
  er_digest :: string
  er_raw :: string

record memory_row =
  mr_id :: string
  mr_lane :: string
  mr_claim :: string
  mr_contract :: "string option"
  mr_receipt :: "string option"
  mr_raw :: string

record revision_row =
  vr_seq :: int
  vr_id :: string
  vr_memory :: string
  vr_update :: string
  vr_content :: string
  vr_operation :: string
  vr_before :: "string option"
  vr_after :: string
  vr_receipt :: "string option"
  vr_event :: "string option"
  vr_raw :: string

record fts_row =
  fr_id :: string
  fr_lane :: string
  fr_claim :: string
  fr_body :: string

record contract_row =
  cr_id :: string
  cr_raw :: string

record receipt_row =
  pr_seq :: int
  pr_id :: string
  pr_candidate :: string
  pr_update :: string
  pr_result :: string
  pr_raw :: string

record manifest_row =
  nr_seq :: int
  nr_id :: string
  nr_candidate :: string
  nr_update :: string
  nr_raw :: string

text \<open>The \<open>AUTOINCREMENT\<close> tables keep the last number they handed out.\<close>

record db =
  db_events :: "event_row list"
  db_event_seq :: int
  db_memory :: "memory_row list"
  db_revisions :: "revision_row list"
  db_revision_seq :: int
  db_fts :: "fts_row list"
  db_contracts :: "contract_row list"
  db_receipts :: "receipt_row list"
  db_receipt_seq :: int
  db_manifests :: "manifest_row list"
  db_manifest_seq :: int

text \<open>
  \<open>fts_rank q rows\<close>: the rows that match a query with their scores, in score order, or
  \<open>None\<close> when the engine refuses the query; \<open>scan_rows\<close>: the order an unordered
  \<open>SELECT\<close> returns.
\<close>

record fts_engine =
  fts_rank :: "string \<Rightarrow> fts_row list \<Rightarrow> (fts_row \<times> pyfloat) list option"
  scan_rows :: "memory_row list \<Rightarrow> memory_row list"

definition unique_failed :: "string \<Rightarrow> error" where
  "unique_failed col = IntegrityError (''UNIQUE constraint failed: '' @ col)"

text \<open>\<open>LIMIT n\<close>: a negative limit is no limit.\<close>

definition sql_limit :: "int \<Rightarrow> 'a list \<Rightarrow> 'a list" where
  "sql_limit n xs = (if n < 0 then xs else take (nat n) xs)"

section \<open>Creating and migrating the tables\<close>

definition empty_db :: db where
  "empty_db =
     \<lparr>db_events = [], db_event_seq = 0, db_memory = [], db_revisions = [], db_revision_seq = 0,
      db_fts = [], db_contracts = [], db_receipts = [], db_receipt_seq = 0, db_manifests = [],
      db_manifest_seq = 0\<rparr>"

record receipt_row_v10 =
  pr10_id :: string
  pr10_candidate :: string
  pr10_result :: string
  pr10_raw :: string

record manifest_row_v10 =
  nr10_id :: string
  nr10_candidate :: string
  nr10_raw :: string

text \<open>\<open>INSERT ... SELECT ... ORDER BY receipt_id\<close> from the version 10 table into a new one.\<close>

definition migrate_receipts :: "receipt_row_v10 list \<Rightarrow> receipt_row list" where
  "migrate_receipts rows =
     map (\<lambda>(i, r). \<lparr>pr_seq = int i + 1, pr_id = pr10_id r, pr_candidate = pr10_candidate r,
        pr_update = [], pr_result = pr10_result r, pr_raw = pr10_raw r\<rparr>)
       (enumerate 0 (sort_key pr10_id rows))"

definition migrate_manifests :: "manifest_row_v10 list \<Rightarrow> manifest_row list" where
  "migrate_manifests rows =
     map (\<lambda>(i, r). \<lparr>nr_seq = int i + 1, nr_id = nr10_id r, nr_candidate = nr10_candidate r,
        nr_update = [], nr_raw = nr10_raw r\<rparr>)
       (enumerate 0 (sort_key nr10_id rows))"

text \<open>
  \<open>initialize()\<close> on a file whose receipt and manifest tables may still have the old columns.
\<close>

datatype ('old, 'new) table = Missing | Old "'old list" | Current "'new list"

record db_file =
  f_db :: db
  f_receipts :: "(receipt_row_v10, receipt_row) table"
  f_manifests :: "(manifest_row_v10, manifest_row) table"

definition migrate_append_only_tables :: "db_file \<Rightarrow> db_file" where
  "migrate_append_only_tables f =
     (let f1 = (case f_receipts f of
            Old rows \<Rightarrow> f\<lparr>f_receipts := Current (migrate_receipts rows),
              f_db := (f_db f)\<lparr>db_receipt_seq := int (length rows)\<rparr>\<rparr>
          | _ \<Rightarrow> f)
      in case f_manifests f1 of
           Old rows \<Rightarrow> f1\<lparr>f_manifests := Current (migrate_manifests rows),
             f_db := (f_db f1)\<lparr>db_manifest_seq := int (length rows)\<rparr>\<rparr>
         | _ \<Rightarrow> f1)"

definition create_missing :: "('old, 'new) table \<Rightarrow> ('old, 'new) table" where
  "create_missing t = (case t of Missing \<Rightarrow> Current [] | _ \<Rightarrow> t)"

definition sqlite_initialize :: "db_file \<Rightarrow> db_file" where
  "sqlite_initialize f =
     migrate_append_only_tables
       (f\<lparr>f_receipts := create_missing (f_receipts f), f_manifests := create_missing (f_manifests f)\<rparr>)"

section \<open>Events\<close>

definition append_event_row :: "host \<Rightarrow> nat \<Rightarrow> event \<Rightarrow> db \<Rightarrow> db res" where
  "append_event_row H n e s =
     bind_res (digest_json H (JDict (ev_payload e))) (\<lambda>observed_digest.
     bind_res (ensure (ev_digest e = observed_digest)
       (FailClosedError ''event payload_digest does not match canonical payload digest'')) (\<lambda>_.
     bind_res (canonical_json H (JDict (event_dump H e))) (\<lambda>raw.
     bind_res (ensure (ev_id e \<notin> er_id ` set (db_events s)) (unique_failed ''events.event_id'')) (\<lambda>_.
     Inr (s\<lparr>db_event_seq := db_event_seq s + 1,
       db_events := db_events s @
         [\<lparr>er_seq = db_event_seq s + 1, er_id = ev_id e, er_time = iso_time H (now_utc H n),
           er_run = ev_run e, er_kind = ev_kind e, er_digest = ev_digest e, er_raw = raw\<rparr>]\<rparr>)))))"

definition sqlite_append_event :: "host \<Rightarrow> nat \<Rightarrow> event \<Rightarrow> (db, stored_event) io" where
  "sqlite_append_event H n e s =
     (case append_event_row H n e s of
        Inl err \<Rightarrow> (Inl err, s)
      | Inr s' \<Rightarrow>
          (bind_res (event_of_dict H n (event_dump H e))
             (\<lambda>e'. Inr (stored_event_of e' (db_event_seq s') (now_utc H n))), s'))"

text \<open>\<open>StoredEvent(**raw, obs_seq=..., obs_time=..., collector_seq=...)\<close>.\<close>

definition stored_event_of_row :: "host \<Rightarrow> nat \<Rightarrow> event_row \<Rightarrow> stored_event res" where
  "stored_event_of_row H n row =
     bind_res (loads_json H (er_raw row)) (\<lambda>v.
       case v of
         JDict d \<Rightarrow>
           bind_res (ensure (list_all (\<lambda>k. k \<notin> fst ` set d) [''obs_seq'', ''obs_time'', ''collector_seq''])
             (TypeError ''StoredEvent() got multiple values for keyword argument'')) (\<lambda>_.
           bind_res (event_of_dict H n (filter (\<lambda>p. fst p \<noteq> ''collector_id'') d)) (\<lambda>e.
           bind_res (optional str_value ''local'' d ''collector_id'') (\<lambda>collector.
           bind_res (time_value H (JStr (er_time row))) (\<lambda>t.
           Inr ((stored_event_of e (er_seq row) t)\<lparr>se_collector := collector\<rparr>)))))
       | _ \<Rightarrow> Inl (TypeError ''argument after ** must be a mapping''))"

definition sqlite_list_events :: "host \<Rightarrow> nat \<Rightarrow> string option \<Rightarrow> int option \<Rightarrow> db \<Rightarrow> stored_event list res" where
  "sqlite_list_events H n run_id limit s =
     (let rows = sort_key er_seq
        (filter (\<lambda>r. case run_id of None \<Rightarrow> True | Some x \<Rightarrow> er_run r = x) (db_events s))
      in map_res (stored_event_of_row H n)
           (case limit of None \<Rightarrow> rows | Some k \<Rightarrow> sql_limit k rows))"

definition sqlite_get_event :: "host \<Rightarrow> nat \<Rightarrow> string \<Rightarrow> db \<Rightarrow> stored_event res" where
  "sqlite_get_event H n event_id s =
     (case find (\<lambda>r. er_id r = event_id) (db_events s) of
        None \<Rightarrow> Inl (NotFoundError (''event not found: '' @ event_id))
      | Some row \<Rightarrow> stored_event_of_row H n row)"

section \<open>Memory records and revisions\<close>

text \<open>\<open>_memory_record_from_json\<close>: rows written before update ids existed get one.\<close>

definition required_key :: "dict \<Rightarrow> string \<Rightarrow> json res" where
  "required_key d k = of_option (KeyError (repr_str k)) (map_of d k)"

definition memory_record_from_json :: "host \<Rightarrow> nat \<Rightarrow> string \<Rightarrow> memory res" where
  "memory_record_from_json H n raw_json =
     bind_res (loads_json H raw_json) (\<lambda>v.
       case v of
         JDict raw \<Rightarrow>
           (if ''update_id'' \<in> fst ` set raw then memory_of_dict H n raw
            else
              bind_res (required_key raw ''claim'') (\<lambda>claim.
              bind_res (required_key raw ''memory_id'') (\<lambda>memory_id.
              bind_res (digest_json H (JDict
                [(''claim'', claim), (''source_event_ids'', get_or raw ''source_event_ids'' (JList [])),
                 (''metadata'', get_or raw ''metadata'' (JDict [])),
                 (''supersedes'', get_or raw ''supersedes'' (JList [])),
                 (''contradicts'', get_or raw ''contradicts'' (JList []))])) (\<lambda>content.
              bind_res (compute_update_id H (py_str H memory_id) content) (\<lambda>update_id.
              memory_of_dict H n (put ''update_id'' (JStr update_id) raw))))))
       | _ \<Rightarrow> Inl (TypeError ''argument after ** must be a mapping''))"

definition memory_body :: "memory \<Rightarrow> dict" where
  "memory_body r =
     [(''claim'', JStr (mem_claim r)), (''metadata'', JDict (mem_metadata r)),
      (''source_event_ids'', strs_json (mem_sources r)),
      (''workflow_contract_id'', opt_str_json (mem_contract r)),
      (''receipt_id'', opt_str_json (mem_receipt r))]"

definition memory_row_of :: "memory \<Rightarrow> string \<Rightarrow> memory_row" where
  "memory_row_of r raw =
     \<lparr>mr_id = mem_id r, mr_lane = lane_value (mem_lane r), mr_claim = mem_claim r,
      mr_contract = mem_contract r, mr_receipt = mem_receipt r, mr_raw = raw\<rparr>"

text \<open>\<open>INSERT ... ON CONFLICT(memory_id) DO UPDATE\<close>.\<close>

fun upsert_row :: "memory_row \<Rightarrow> memory_row list \<Rightarrow> memory_row list" where
  "upsert_row row [] = [row]"
| "upsert_row row (r # rs) = (if mr_id r = mr_id row then row # rs else r # upsert_row row rs)"

definition revision_row_of :: "int \<Rightarrow> revision \<Rightarrow> string \<Rightarrow> revision_row" where
  "revision_row_of seq v raw =
     \<lparr>vr_seq = seq, vr_id = rev_id v, vr_memory = rev_memory v, vr_update = rev_update v,
      vr_content = rev_content v, vr_operation = operation_value (rev_operation v),
      vr_before = map_option lane_value (rev_before v), vr_after = lane_value (rev_after v),
      vr_receipt = rev_receipt v, vr_event = rev_event v, vr_raw = raw\<rparr>"

definition existing_lane :: "string \<Rightarrow> db \<Rightarrow> lane option res" where
  "existing_lane memory_id s =
     (case find (\<lambda>r. mr_id r = memory_id) (db_memory s) of
        None \<Rightarrow> Inr None
      | Some row \<Rightarrow> bind_res (lane_of_text (mr_lane row)) (\<lambda>l. Inr (Some l)))"

definition upsert_memory_rows ::
  "host \<Rightarrow> nat \<Rightarrow> memory \<Rightarrow> memory_operation \<Rightarrow> string \<Rightarrow> string option \<Rightarrow> string option \<Rightarrow> db \<Rightarrow> db res"
where
  "upsert_memory_rows H n r operation reason receipt_id event_id s =
     bind_res (canonical_json H (JDict (memory_body r))) (\<lambda>body.
     bind_res (existing_lane (mem_id r) s) (\<lambda>before_lane.
     bind_res (canonical_json H (JDict (memory_dump H r))) (\<lambda>raw.
     bind_res (revision_create H n r operation before_lane reason (or_opt receipt_id (mem_receipt r))
       event_id) (\<lambda>v.
     bind_res (canonical_json H (JDict (revision_dump H v))) (\<lambda>rev_raw.
     bind_res (ensure (rev_id v \<notin> vr_id ` set (db_revisions s))
       (unique_failed ''memory_revisions.revision_id'')) (\<lambda>_.
     Inr (s\<lparr>db_memory := upsert_row (memory_row_of r raw) (db_memory s),
       db_revision_seq := db_revision_seq s + 1,
       db_revisions := db_revisions s @ [revision_row_of (db_revision_seq s + 1) v rev_raw],
       db_fts := filter (\<lambda>f. fr_id f \<noteq> mem_id r) (db_fts s) @
         [\<lparr>fr_id = mem_id r, fr_lane = lane_value (mem_lane r), fr_claim = mem_claim r,
           fr_body = body\<rparr>]\<rparr>)))))))"

definition sqlite_upsert_memory_record ::
  "host \<Rightarrow> nat \<Rightarrow> memory \<Rightarrow> memory_operation \<Rightarrow> string \<Rightarrow> string option \<Rightarrow> string option \<Rightarrow> (db, memory) io"
where
  "sqlite_upsert_memory_record H n r operation reason receipt_id event_id s =
     (case upsert_memory_rows H n r operation reason receipt_id event_id s of
        Inl err \<Rightarrow> (Inl err, s)
      | Inr s' \<Rightarrow> (Inr r, s'))"

definition sqlite_get_memory_record :: "host \<Rightarrow> nat \<Rightarrow> string \<Rightarrow> db \<Rightarrow> memory res" where
  "sqlite_get_memory_record H n memory_id s =
     (case find (\<lambda>r. mr_id r = memory_id) (db_memory s) of
        None \<Rightarrow> Inl (NotFoundError (''memory record not found: '' @ memory_id))
      | Some row \<Rightarrow> memory_record_from_json H n (mr_raw row))"

definition sqlite_list_memory_records :: "host \<Rightarrow> nat \<Rightarrow> lane option \<Rightarrow> db \<Rightarrow> memory list res" where
  "sqlite_list_memory_records H n l s =
     map_res (\<lambda>row. memory_record_from_json H n (mr_raw row))
       (sort_key mr_id
         (filter (\<lambda>r. case l of None \<Rightarrow> True | Some x \<Rightarrow> mr_lane r = lane_value x) (db_memory s)))"

definition revision_from_json :: "host \<Rightarrow> nat \<Rightarrow> string \<Rightarrow> revision res" where
  "revision_from_json H n raw_json =
     bind_res (loads_json H raw_json) (\<lambda>v.
       case v of
         JDict raw \<Rightarrow> revision_of_dict H n raw
       | _ \<Rightarrow> Inl (TypeError ''argument after ** must be a mapping''))"

definition sqlite_list_memory_revisions :: "host \<Rightarrow> nat \<Rightarrow> string option \<Rightarrow> db \<Rightarrow> revision list res" where
  "sqlite_list_memory_revisions H n memory_id s =
     map_res (\<lambda>row. revision_from_json H n (vr_raw row))
       (sort_key vr_seq
         (filter (\<lambda>r. case memory_id of None \<Rightarrow> True | Some x \<Rightarrow> vr_memory r = x) (db_revisions s)))"

section \<open>Contracts, receipts, manifests\<close>

definition create_contract_rows :: "host \<Rightarrow> contract \<Rightarrow> db \<Rightarrow> db res" where
  "create_contract_rows H c s =
     bind_res (canonical_json H (JDict (contract_dump H c))) (\<lambda>raw_json.
       case find (\<lambda>r. cr_id r = wfc_id c) (db_contracts s) of
         Some existing \<Rightarrow>
           (if cr_raw existing \<noteq> raw_json
            then Inl (FailClosedError (''workflow contract conflict for id: '' @ wfc_id c))
            else Inr s)
       | None \<Rightarrow> Inr (s\<lparr>db_contracts := db_contracts s @ [\<lparr>cr_id = wfc_id c, cr_raw = raw_json\<rparr>]\<rparr>))"

definition sqlite_create_contract :: "host \<Rightarrow> contract \<Rightarrow> (db, contract) io" where
  "sqlite_create_contract H c s =
     (case create_contract_rows H c s of Inl err \<Rightarrow> (Inl err, s) | Inr s' \<Rightarrow> (Inr c, s'))"

definition contract_from_json :: "host \<Rightarrow> nat \<Rightarrow> string \<Rightarrow> contract res" where
  "contract_from_json H n raw_json =
     bind_res (loads_json H raw_json) (\<lambda>v.
       case v of
         JDict raw \<Rightarrow> contract_of_dict H n raw
       | _ \<Rightarrow> Inl (TypeError ''argument after ** must be a mapping''))"

definition sqlite_get_contract :: "host \<Rightarrow> nat \<Rightarrow> string \<Rightarrow> db \<Rightarrow> contract res" where
  "sqlite_get_contract H n contract_id s =
     (case find (\<lambda>r. cr_id r = contract_id) (db_contracts s) of
        None \<Rightarrow> Inl (NotFoundError (''workflow contract not found: '' @ contract_id))
      | Some row \<Rightarrow> contract_from_json H n (cr_raw row))"

definition create_receipt_rows :: "host \<Rightarrow> receipt \<Rightarrow> db \<Rightarrow> db res" where
  "create_receipt_rows H r s =
     bind_res (canonical_json H (JDict (receipt_dump H r))) (\<lambda>raw.
     bind_res (ensure (rcp_id r \<notin> pr_id ` set (db_receipts s))
       (unique_failed ''promotion_receipts.receipt_id'')) (\<lambda>_.
     Inr (s\<lparr>db_receipt_seq := db_receipt_seq s + 1,
       db_receipts := db_receipts s @
         [\<lparr>pr_seq = db_receipt_seq s + 1, pr_id = rcp_id r, pr_candidate = rcp_candidate r,
           pr_update = rcp_update r, pr_result = outcome_value (rcp_result r), pr_raw = raw\<rparr>]\<rparr>)))"

definition sqlite_create_receipt :: "host \<Rightarrow> receipt \<Rightarrow> (db, receipt) io" where
  "sqlite_create_receipt H r s =
     (case create_receipt_rows H r s of Inl err \<Rightarrow> (Inl err, s) | Inr s' \<Rightarrow> (Inr r, s'))"

text \<open>\<open>_receipt_from_json\<close>: rows of older versions get legacy identifiers.\<close>

definition remove_prefix :: "string \<Rightarrow> string \<Rightarrow> string" where
  "remove_prefix p s = (if starts_with p s then drop (length p) s else s)"

definition with_verification :: "host \<Rightarrow> dict \<Rightarrow> dict res" where
  "with_verification H raw =
     (if ''verification_id'' \<in> fst ` set raw then Inr raw
      else bind_res (required_key raw ''receipt_id'') (\<lambda>i.
        Inr (put ''verification_id'' (JStr (''ver_legacy_'' @ remove_prefix ''rcp_'' (py_str H i))) raw)))"

definition with_receipt_digest :: "host \<Rightarrow> dict \<Rightarrow> dict res" where
  "with_receipt_digest H raw =
     (if ''receipt_digest'' \<in> fst ` set raw then Inr raw
      else bind_res (digest_json H (JDict
          [(''candidate_id'', get_or raw ''candidate_id'' JNull),
           (''candidate_update_id'', get_or raw ''candidate_update_id'' JNull),
           (''profile'', get_or raw ''profile'' JNull), (''checks'', get_or raw ''checks'' (JList [])),
           (''result'', get_or raw ''result'' JNull),
           (''evidence_refs'', get_or raw ''evidence_refs'' (JList []))]))
        (\<lambda>digest. Inr (put ''receipt_digest'' (JStr digest) raw)))"

definition receipt_from_json :: "host \<Rightarrow> nat \<Rightarrow> string \<Rightarrow> receipt res" where
  "receipt_from_json H n raw_json =
     bind_res (loads_json H raw_json) (\<lambda>v.
       case v of
         JDict raw0 \<Rightarrow>
           bind_res (with_verification H
             (set_default ''candidate_update_id'' (JStr ''upd_legacy'') raw0)) (\<lambda>raw1.
           bind_res (with_receipt_digest H raw1) (\<lambda>raw2.
           receipt_of_dict H n (set_default ''bound_action_id'' JNull raw2)))
       | _ \<Rightarrow> Inl (TypeError ''argument after ** must be a mapping''))"

definition sqlite_get_receipt :: "host \<Rightarrow> nat \<Rightarrow> string \<Rightarrow> db \<Rightarrow> receipt res" where
  "sqlite_get_receipt H n receipt_id s =
     (case find (\<lambda>r. pr_id r = receipt_id) (db_receipts s) of
        None \<Rightarrow> Inl (NotFoundError (''receipt not found: '' @ receipt_id))
      | Some row \<Rightarrow> receipt_from_json H n (pr_raw row))"

definition sqlite_list_receipts :: "host \<Rightarrow> nat \<Rightarrow> string option \<Rightarrow> db \<Rightarrow> receipt list res" where
  "sqlite_list_receipts H n candidate_id s =
     map_res (\<lambda>row. receipt_from_json H n (pr_raw row))
       (sort_key pr_seq
         (filter (\<lambda>r. case candidate_id of None \<Rightarrow> True | Some x \<Rightarrow> pr_candidate r = x) (db_receipts s)))"

definition create_manifest_rows :: "host \<Rightarrow> manifest \<Rightarrow> db \<Rightarrow> db res" where
  "create_manifest_rows H m s =
     bind_res (canonical_json H (JDict (manifest_dump H m))) (\<lambda>raw.
     Inr (s\<lparr>db_manifest_seq := db_manifest_seq s + 1,
       db_manifests := db_manifests s @
         [\<lparr>nr_seq = db_manifest_seq s + 1, nr_id = evm_id m, nr_candidate = evm_candidate m,
           nr_update = evm_update m, nr_raw = raw\<rparr>]\<rparr>))"

definition sqlite_create_evidence_manifest :: "host \<Rightarrow> manifest \<Rightarrow> (db, manifest) io" where
  "sqlite_create_evidence_manifest H m s =
     (case create_manifest_rows H m s of Inl err \<Rightarrow> (Inl err, s) | Inr s' \<Rightarrow> (Inr m, s'))"

definition manifest_from_json :: "host \<Rightarrow> nat \<Rightarrow> string \<Rightarrow> manifest res" where
  "manifest_from_json H n raw_json =
     bind_res (loads_json H raw_json) (\<lambda>v.
       case v of
         JDict raw \<Rightarrow> manifest_of_dict H n (set_default ''candidate_update_id'' (JStr ''upd_legacy'') raw)
       | _ \<Rightarrow> Inl (TypeError ''argument after ** must be a mapping''))"

text \<open>\<open>ORDER BY manifest_seq DESC LIMIT 1\<close>.\<close>

definition sqlite_get_evidence_manifest :: "host \<Rightarrow> nat \<Rightarrow> string \<Rightarrow> db \<Rightarrow> manifest res" where
  "sqlite_get_evidence_manifest H n manifest_id s =
     (case rev (sort_key nr_seq (filter (\<lambda>r. nr_id r = manifest_id) (db_manifests s))) of
        [] \<Rightarrow> Inl (NotFoundError (''evidence manifest not found: '' @ manifest_id))
      | row # _ \<Rightarrow> manifest_from_json H n (nr_raw row))"

section \<open>Counts\<close>

definition sqlite_audit_counts :: "db \<Rightarrow> (string \<times> int) list" where
  "sqlite_audit_counts s =
     fold (\<lambda>(k, n). put k n)
       [(''events'', int (length (db_events s))), (''receipts'', int (length (db_receipts s))),
        (''contracts'', int (length (db_contracts s))),
        (''evidence_manifests'', int (length (db_manifests s))),
        (''memory_revisions'', int (length (db_revisions s)))]
       (map (\<lambda>l. (l, int (length (filter (\<lambda>r. mr_lane r = l) (db_memory s)))))
         (remdups (sort (map mr_lane (db_memory s)))))"

section \<open>Search\<close>

text \<open>\<open>re.findall(r"[\w\-]+", query)\<close>.\<close>

definition is_word_char :: "char \<Rightarrow> bool" where
  "is_word_char c \<longleftrightarrow>
     (let n = (of_char c :: nat)
      in 48 \<le> n \<and> n \<le> 57 \<or> 65 \<le> n \<and> n \<le> 90 \<or> n = 95 \<or> 97 \<le> n \<and> n \<le> 122 \<or>
         n \<in> {170, 178, 179, 181, 185, 186, 188, 189, 190} \<or>
         192 \<le> n \<and> n \<noteq> 215 \<and> n \<noteq> 247 \<or> n = 45)"

function word_runs :: "string \<Rightarrow> string list" where
  "word_runs s =
     (let t = dropWhile (\<lambda>c. \<not> is_word_char c) s
      in if t = [] then [] else takeWhile is_word_char t # word_runs (dropWhile is_word_char t))"
  by pat_completeness auto

termination
proof (relation "measure length")
  show "(dropWhile is_word_char t, s) \<in> measure length"
    if t: "t = dropWhile (\<lambda>c. \<not> is_word_char c) s" "t \<noteq> []" for t s
  proof -
    have "is_word_char (hd t)" using t hd_dropWhile [of "\<lambda>c. \<not> is_word_char c" s] by simp
    then have "length (dropWhile is_word_char t) < length t"
      using t(2) by (cases t) (auto simp: length_dropWhile_le le_imp_less_Suc)
    also have "length t \<le> length s" using t(1) by (simp add: length_dropWhile_le)
    finally show ?thesis by simp
  qed
qed simp

definition to_fts_query :: "string \<Rightarrow> string" where
  "to_fts_query query =
     (let tokens = word_runs query
      in if tokens = [] then [CHR 0x22, CHR 0x22]
         else join '' '' (map (\<lambda>t. CHR 0x22 #
           concat (map (\<lambda>c. if c = CHR 0x22 then [c, c] else [c]) t) @ [CHR 0x22]) (take 16 tokens)))"

text \<open>\<open>LIKE\<close>: \<open>%\<close> matches any text, \<open>_\<close> any character, ASCII letters match either case.\<close>

definition ascii_lower :: "char \<Rightarrow> char" where
  "ascii_lower c =
     (let n = (of_char c :: nat) in if 65 \<le> n \<and> n \<le> 90 then char_of (n + 32) else c)"

fun sql_like :: "string \<Rightarrow> string \<Rightarrow> bool" where
  "sql_like [] s = (s = [])"
| "sql_like (p # ps) s =
     (if p = CHR ''%'' then sql_like ps s \<or> (case s of [] \<Rightarrow> False | _ # cs \<Rightarrow> sql_like (p # ps) cs)
      else case s of
        [] \<Rightarrow> False
      | c # cs \<Rightarrow> (p = CHR ''_'' \<or> ascii_lower p = ascii_lower c) \<and> sql_like ps cs)"

definition in_lanes :: "lane list \<Rightarrow> string \<Rightarrow> bool" where
  "in_lanes ls l \<longleftrightarrow> l \<in> lane_value ` set ls"

definition search_like :: "fts_engine \<Rightarrow> string \<Rightarrow> lane list \<Rightarrow> int \<Rightarrow> db \<Rightarrow> (memory_row \<times> pyfloat) list" where
  "search_like E query ls limit s =
     map (\<lambda>r. (r, Dyadic 0 0))
       (sql_limit limit
         (filter (\<lambda>r. in_lanes ls (mr_lane r) \<and> sql_like (CHR ''%'' # query @ ''%'') (mr_claim r))
           (scan_rows E (db_memory s))))"

text \<open>\<open>-raw_score if raw_score < 0 else raw_score\<close>.\<close>

fun positive_score :: "pyfloat \<Rightarrow> pyfloat" where
  "positive_score (Dyadic n k) = Dyadic (if n < 0 then - n else n) k"
| "positive_score NegInf = PosInf"
| "positive_score f = f"

definition row_to_retrieved :: "host \<Rightarrow> nat \<Rightarrow> memory_row \<times> pyfloat \<Rightarrow> retrieved res" where
  "row_to_retrieved H n row =
     bind_res (memory_record_from_json H n (mr_raw (fst row))) (\<lambda>r.
     bind_res (content_digest H r) (\<lambda>content.
     Inr \<lparr>ret_id = mem_id r, ret_update = Some (mem_update r), ret_content = Some content,
       ret_lane = mem_lane r, ret_claim = mem_claim r, ret_score = positive_score (snd row),
       ret_contract = mem_contract r, ret_receipt = mem_receipt r, ret_sources = mem_sources r\<rparr>))"

text \<open>The join of the matching index rows with the record table, on the record's id.\<close>

definition join_records :: "db \<Rightarrow> (fts_row \<times> pyfloat) list \<Rightarrow> (memory_row \<times> pyfloat) list" where
  "join_records s ms =
     concat (map (\<lambda>(f, score). map (\<lambda>r. (r, score)) (filter (\<lambda>r. mr_id r = fr_id f) (db_memory s))) ms)"

definition search_rows :: "fts_engine \<Rightarrow> string \<Rightarrow> lane list \<Rightarrow> int \<Rightarrow> db \<Rightarrow> (memory_row \<times> pyfloat) list" where
  "search_rows E query ls limit s =
     (if strip query \<noteq> [] then
        (case fts_rank E (to_fts_query query) (db_fts s) of
           Some ms \<Rightarrow>
             sql_limit limit (join_records s (filter (\<lambda>(f, _). in_lanes ls (fr_lane f)) ms))
         | None \<Rightarrow> search_like E query ls limit s)
      else
        map (\<lambda>r. (r, Dyadic 0 0))
          (sql_limit limit (filter (\<lambda>r. in_lanes ls (mr_lane r)) (scan_rows E (db_memory s)))))"

definition sqlite_search_memory ::
  "fts_engine \<Rightarrow> host \<Rightarrow> nat \<Rightarrow> string \<Rightarrow> lane list \<Rightarrow> int \<Rightarrow> db \<Rightarrow> retrieved list res"
where
  "sqlite_search_memory E H n query lane_filter limit s =
     (if lane_filter = [] then Inr []
      else map_res (row_to_retrieved H n) (search_rows E query lane_filter limit s))"

end
