(* ===== verification/Storage_Port.thy ===== *)
theory Storage_Port
  imports Core_Create
begin

text \<open>
  The storage interface (\<open>ports/storage.py\<close>) and its contract. A backend is a record of
  operations on its own state; the contract says what each does to an abstract store of typed
  objects. Writes take the number of the draw for the clock and the random source; an operation
  that raises leaves the store as it was.
\<close>

section \<open>The port\<close>

record 's storage_port =
  append_event :: "nat \<Rightarrow> event \<Rightarrow> ('s, stored_event) io"
  list_events :: "nat \<Rightarrow> string option \<Rightarrow> int option \<Rightarrow> 's \<Rightarrow> stored_event list res"
  get_event :: "nat \<Rightarrow> string \<Rightarrow> 's \<Rightarrow> stored_event res"
  upsert_memory_record ::
    "nat \<Rightarrow> memory \<Rightarrow> memory_operation \<Rightarrow> string \<Rightarrow> string option \<Rightarrow> string option \<Rightarrow> ('s, memory) io"
  get_memory_record :: "nat \<Rightarrow> string \<Rightarrow> 's \<Rightarrow> memory res"
  list_memory_records :: "nat \<Rightarrow> lane option \<Rightarrow> 's \<Rightarrow> memory list res"
  list_memory_revisions :: "nat \<Rightarrow> string option \<Rightarrow> 's \<Rightarrow> revision list res"
  create_contract :: "contract \<Rightarrow> ('s, contract) io"
  get_contract :: "nat \<Rightarrow> string \<Rightarrow> 's \<Rightarrow> contract res"
  create_receipt :: "receipt \<Rightarrow> ('s, receipt) io"
  get_receipt :: "nat \<Rightarrow> string \<Rightarrow> 's \<Rightarrow> receipt res"
  list_receipts :: "nat \<Rightarrow> string option \<Rightarrow> 's \<Rightarrow> receipt list res"
  create_evidence_manifest :: "manifest \<Rightarrow> ('s, manifest) io"
  get_evidence_manifest :: "nat \<Rightarrow> string \<Rightarrow> 's \<Rightarrow> manifest res"
  audit_counts :: "'s \<Rightarrow> (string \<times> int) list"
  search_memory :: "nat \<Rightarrow> string \<Rightarrow> lane list \<Rightarrow> int \<Rightarrow> 's \<Rightarrow> retrieved list res"

section \<open>The abstract store\<close>

record store =
  st_events :: "stored_event list"
  st_memory :: "string \<rightharpoonup> memory"
  st_revisions :: "revision list"
  st_contracts :: "string \<rightharpoonup> contract"
  st_receipts :: "receipt list"
  st_manifests :: "manifest list"

definition empty_store :: store where
  "empty_store =
     \<lparr>st_events = [], st_memory = Map.empty, st_revisions = [], st_contracts = Map.empty,
      st_receipts = [], st_manifests = []\<rparr>"

text \<open>The first receipt of an id, and the latest manifest of an id.\<close>

definition find_receipt :: "string \<Rightarrow> store \<Rightarrow> receipt option" where
  "find_receipt i st = find (\<lambda>r. rcp_id r = i) (st_receipts st)"

definition find_event :: "string \<Rightarrow> store \<Rightarrow> stored_event option" where
  "find_event i st = find (\<lambda>e. ev_id e = i) (st_events st)"

definition find_manifest :: "string \<Rightarrow> store \<Rightarrow> manifest option" where
  "find_manifest i st = find (\<lambda>m. evm_id m = i) (rev (st_manifests st))"

definition select :: "('a \<Rightarrow> string) \<Rightarrow> string option \<Rightarrow> 'a list \<Rightarrow> 'a list" where
  "select f k xs = filter (\<lambda>x. case k of None \<Rightarrow> True | Some s \<Rightarrow> f x = s) xs"

definition first_rows :: "int option \<Rightarrow> 'a list \<Rightarrow> 'a list" where
  "first_rows limit xs =
     (case limit of None \<Rightarrow> xs | Some n \<Rightarrow> if n < 0 then xs else take (nat n) xs)"

text \<open>What a retrieved item says of the record it was read from.\<close>

definition retrieved_from :: "host \<Rightarrow> memory \<Rightarrow> retrieved \<Rightarrow> bool" where
  "retrieved_from H r item \<longleftrightarrow>
     ret_id item = mem_id r \<and> ret_update item = Some (mem_update r) \<and>
     map_option Inr (ret_content item) = Some (content_digest H r) \<and>
     ret_lane item = mem_lane r \<and> ret_claim item = mem_claim r \<and>
     ret_contract item = mem_contract r \<and> ret_receipt item = mem_receipt r \<and>
     ret_sources item = mem_sources r"

text \<open>The revision a write records.\<close>

definition revises :: "host \<Rightarrow> memory \<Rightarrow> memory_operation \<Rightarrow> lane option \<Rightarrow> string \<Rightarrow>
    string option \<Rightarrow> string option \<Rightarrow> revision \<Rightarrow> bool" where
  "revises H r operation before reason receipt_id event_id v \<longleftrightarrow>
     rev_memory v = mem_id r \<and> rev_update v = mem_update r \<and> rev_operation v = operation \<and>
     rev_before v = before \<and> rev_after v = mem_lane r \<and> rev_reason v = reason \<and>
     rev_receipt v = or_opt receipt_id (mem_receipt r) \<and> rev_event v = event_id \<and>
     Inr (rev_content v) = content_digest H r \<and> rev_record v = stored_dict (memory_dump H r)"

section \<open>The contract\<close>

locale event_log =
  fixes P :: "'s storage_port" and H :: host and view :: "'s \<Rightarrow> store" and ok :: "'s \<Rightarrow> bool"
  assumes append_ok:
      "ok s \<Longrightarrow> append_event P n e s = (Inr se, s') \<Longrightarrow>
       ok s' \<and> find_event (ev_id e) (view s) = None \<and>
       digest_json H (JDict (ev_payload e)) = Inr (ev_digest e) \<and>
       se = stored_event_of e (se_seq se) (now_utc H n) \<and>
       list_all (\<lambda>x. se_seq x < se_seq se) (st_events (view s)) \<and>
       view s' = (view s)\<lparr>st_events := st_events (view s) @ [event_canon se]\<rparr>"
    and append_error: "ok s \<Longrightarrow> append_event P n e s = (Inl err, s') \<Longrightarrow> s' = s"
    and list_events_eq:
      "ok s \<Longrightarrow> list_events P n run_id limit s =
         Inr (first_rows limit (select ev_run run_id (st_events (view s))))"
    and get_event_eq:
      "ok s \<Longrightarrow> get_event P n i s =
         of_option (NotFoundError (''event not found: '' @ i)) (find_event i (view s))"

locale memory_table =
  fixes P :: "'s storage_port" and H :: host and view :: "'s \<Rightarrow> store" and ok :: "'s \<Rightarrow> bool"
  assumes upsert_ok:
      "ok s \<Longrightarrow> claim_ok r \<Longrightarrow>
       upsert_memory_record P n r operation reason receipt_id event_id s = (Inr r', s') \<Longrightarrow>
       ok s' \<and> r' = r \<and>
       (\<exists>v. revises H r operation (map_option mem_lane (st_memory (view s) (mem_id r))) reason
              receipt_id event_id v \<and>
          view s' = (view s)\<lparr>st_memory := (st_memory (view s))(mem_id r \<mapsto> memory_canon r),
             st_revisions := st_revisions (view s) @ [v]\<rparr>)"
    and upsert_error:
      "ok s \<Longrightarrow> upsert_memory_record P n r operation reason receipt_id event_id s = (Inl err, s') \<Longrightarrow>
       s' = s"
    and get_memory_eq:
      "ok s \<Longrightarrow> get_memory_record P n i s =
         of_option (NotFoundError (''memory record not found: '' @ i)) (st_memory (view s) i)"
    and memory_wf:
      "ok s \<Longrightarrow> st_memory (view s) i = Some r \<Longrightarrow>
       mem_id r = i \<and> claim_ok r \<and> proper (JDict (mem_metadata r)) \<and>
       finite_json (JDict (mem_metadata r))"
    and list_memory_set:
      "ok s \<Longrightarrow> list_memory_records P n l s = Inr rs \<Longrightarrow>
       set rs = {r \<in> ran (st_memory (view s)). case l of None \<Rightarrow> True | Some x \<Rightarrow> mem_lane r = x}"
    and list_revisions_eq:
      "ok s \<Longrightarrow> list_memory_revisions P n memory_id s =
         Inr (select rev_memory memory_id (st_revisions (view s)))"
    and search_sound:
      "ok s \<Longrightarrow> search_memory P n query ls limit s = Inr items \<Longrightarrow>
       (0 \<le> limit \<longrightarrow> length items \<le> nat limit) \<and>
       (\<forall>item \<in> set items. \<exists>r. st_memory (view s) (mem_id r) = Some r \<and> mem_lane r \<in> set ls \<and>
          retrieved_from H r item)"

locale receipt_log =
  fixes P :: "'s storage_port" and H :: host and view :: "'s \<Rightarrow> store" and ok :: "'s \<Rightarrow> bool"
  assumes create_receipt_ok:
      "ok s \<Longrightarrow> create_receipt P r s = (Inr r', s') \<Longrightarrow>
       ok s' \<and> r' = r \<and> find_receipt (rcp_id r) (view s) = None \<and>
       view s' = (view s)\<lparr>st_receipts := st_receipts (view s) @ [receipt_canon r]\<rparr>"
    and create_receipt_error: "ok s \<Longrightarrow> create_receipt P r s = (Inl err, s') \<Longrightarrow> s' = s"
    and get_receipt_eq:
      "ok s \<Longrightarrow> get_receipt P n i s =
         of_option (NotFoundError (''receipt not found: '' @ i)) (find_receipt i (view s))"
    and list_receipts_eq:
      "ok s \<Longrightarrow> list_receipts P n candidate s =
         Inr (select rcp_candidate candidate (st_receipts (view s)))"

locale contract_store =
  fixes P :: "'s storage_port" and H :: host and view :: "'s \<Rightarrow> store" and ok :: "'s \<Rightarrow> bool"
  assumes create_contract_ok:
      "ok s \<Longrightarrow> create_contract P c s = (Inr c', s') \<Longrightarrow>
       ok s' \<and> c' = c \<and> (case st_contracts (view s) (wfc_id c) of
           None \<Rightarrow> True | Some d \<Rightarrow> d = contract_canon c) \<and>
       view s' = (view s)\<lparr>st_contracts := (st_contracts (view s))(wfc_id c \<mapsto> contract_canon c)\<rparr>"
    and create_contract_error: "ok s \<Longrightarrow> create_contract P c s = (Inl err, s') \<Longrightarrow> s' = s"
    and get_contract_eq:
      "ok s \<Longrightarrow> get_contract P n i s =
         of_option (NotFoundError (''workflow contract not found: '' @ i)) (st_contracts (view s) i)"
    and contract_wf: "ok s \<Longrightarrow> st_contracts (view s) i = Some c \<Longrightarrow> wfc_id c = i"
    and create_manifest_ok:
      "ok s \<Longrightarrow> create_evidence_manifest P m s = (Inr m', s') \<Longrightarrow>
       ok s' \<and> m' = m \<and>
       view s' = (view s)\<lparr>st_manifests := st_manifests (view s) @ [manifest_canon m]\<rparr>"
    and create_manifest_error: "ok s \<Longrightarrow> create_evidence_manifest P m s = (Inl err, s') \<Longrightarrow> s' = s"
    and get_manifest_eq:
      "ok s \<Longrightarrow> get_evidence_manifest P n i s =
         of_option (NotFoundError (''evidence manifest not found: '' @ i)) (find_manifest i (view s))"

text \<open>A backend keeps all four contracts over the same state.\<close>

locale storage_backend =
  event_log P H view ok + memory_table P H view ok + receipt_log P H view ok + contract_store P H view ok
  for P :: "'s storage_port" and H :: host and view :: "'s \<Rightarrow> store" and ok :: "'s \<Rightarrow> bool"

section \<open>Lemmas on the abstract store\<close>

lemma find_SomeD: "find Q xs = Some x \<Longrightarrow> x \<in> set xs \<and> Q x"
  by (induction xs) (auto split: if_splits)

lemma find_receipt_SomeD: "find_receipt i st = Some r \<Longrightarrow> r \<in> set (st_receipts st) \<and> rcp_id r = i"
  unfolding find_receipt_def by (drule find_SomeD) simp

lemma find_event_SomeD: "find_event i st = Some e \<Longrightarrow> e \<in> set (st_events st) \<and> ev_id e = i"
  unfolding find_event_def by (drule find_SomeD) simp

lemma find_manifest_SomeD: "find_manifest i st = Some m \<Longrightarrow> m \<in> set (st_manifests st) \<and> evm_id m = i"
  unfolding find_manifest_def by (drule find_SomeD) simp

lemma find_append: "find Q (xs @ ys) = (case find Q xs of None \<Rightarrow> find Q ys | Some x \<Rightarrow> Some x)"
  by (induction xs) auto

lemma set_select: "set (select f k xs) = {x \<in> set xs. case k of None \<Rightarrow> True | Some s \<Rightarrow> f x = s}"
  by (auto simp: select_def)

lemma set_first_rows: "set (first_rows limit xs) \<subseteq> set xs"
  by (auto simp: first_rows_def dest: in_set_takeD split: option.splits)

text \<open>Canonical forms keep every typed field.\<close>

lemma memory_canon_fields [simp]:
  "mem_id (memory_canon r) = mem_id r" "mem_update (memory_canon r) = mem_update r"
  "mem_lane (memory_canon r) = mem_lane r" "mem_claim (memory_canon r) = mem_claim r"
  "mem_sources (memory_canon r) = mem_sources r" "mem_contract (memory_canon r) = mem_contract r"
  "mem_receipt (memory_canon r) = mem_receipt r" "mem_supersedes (memory_canon r) = mem_supersedes r"
  "mem_contradicts (memory_canon r) = mem_contradicts r"
  "mem_metadata (memory_canon r) = stored_dict (mem_metadata r)"
  "claim_ok (memory_canon r) = claim_ok r"
  by (simp_all add: memory_canon_def claim_ok_def)

lemma check_canon_fields [simp]:
  "chk_passed (check_canon c) = chk_passed c" "chk_name (check_canon c) = chk_name c"
  "chk_reason (check_canon c) = chk_reason c"
  by (simp_all add: check_canon_def)

lemma receipt_canon_fields [simp]:
  "rcp_id (receipt_canon r) = rcp_id r" "rcp_candidate (receipt_canon r) = rcp_candidate r"
  "rcp_update (receipt_canon r) = rcp_update r" "rcp_result (receipt_canon r) = rcp_result r"
  "rcp_action (receipt_canon r) = rcp_action r" "rcp_refs (receipt_canon r) = rcp_refs r"
  "rcp_digest (receipt_canon r) = rcp_digest r" "rcp_profile (receipt_canon r) = rcp_profile r"
  "rcp_checks (receipt_canon r) = map check_canon (rcp_checks r)"
  by (simp_all add: receipt_canon_def)

lemma contract_canon_fields [simp]:
  "wfc_id (contract_canon c) = wfc_id c" "wfc_memory (contract_canon c) = wfc_memory c"
  "wfc_update (contract_canon c) = wfc_update c"
  "wfc_replay (contract_canon c) = stored_dict (wfc_replay c)"
  by (simp_all add: contract_canon_def)

lemma event_canon_fields [simp]:
  "ev_id (event_canon e) = ev_id e" "ev_run (event_canon e) = ev_run e"
  "ev_kind (event_canon e) = ev_kind e" "ev_digest (event_canon e) = ev_digest e"
  "ev_payload (event_canon e) = stored_dict (ev_payload e)"
  by (simp_all add: event_canon_def)

lemma stored_event_of_fields [simp]:
  "ev_id (stored_event_of e n t) = ev_id e" "ev_digest (stored_event_of e n t) = ev_digest e"
  "ev_payload (stored_event_of e n t) = ev_payload e" "ev_run (stored_event_of e n t) = ev_run e"
  "se_seq (stored_event_of e n t) = n" "ev_kind (stored_event_of e n t) = ev_kind e"
  by (simp_all add: stored_event_of_def)

lemma manifest_canon_fields [simp]:
  "evm_id (manifest_canon m) = evm_id m" "evm_candidate (manifest_canon m) = evm_candidate m"
  "evm_update (manifest_canon m) = evm_update m"
  by (simp_all add: manifest_canon_def)

end
