(* ===== verification/Sqlite_Refinement.thy ===== *)
theory Sqlite_Refinement
  imports Sqlite_Storage Storage_Port
begin

text \<open>
  The SQLite adapter meets the storage contract. The abstraction decodes the rows; the invariant
  says that every row decodes to an object its columns agree with, that identifiers are unique,
  that the numbered tables are in order, and that the search index mirrors the record table.
\<close>

section \<open>Decoding rows\<close>

definition decoded :: "(nat \<Rightarrow> 'row \<Rightarrow> 'a res) \<Rightarrow> 'row \<Rightarrow> 'a" where
  "decoded f row = projr (f 0 row)"

definition rows_decode :: "(nat \<Rightarrow> 'row \<Rightarrow> 'a res) \<Rightarrow> ('row \<Rightarrow> 'a \<Rightarrow> bool) \<Rightarrow> 'row list \<Rightarrow> bool" where
  "rows_decode f R rows \<longleftrightarrow> (\<forall>row \<in> set rows. \<exists>x. (\<forall>n. f n row = Inr x) \<and> R row x)"

lemma rows_decodeD:
  "rows_decode f R rows \<Longrightarrow> row \<in> set rows \<Longrightarrow>
   f n row = Inr (decoded f row) \<and> R row (decoded f row)"
  by (fastforce simp: rows_decode_def decoded_def)

lemma rows_decode_map_res:
  "rows_decode f R rows \<Longrightarrow> set rows' \<subseteq> set rows \<Longrightarrow>
   map_res (f n) rows' = Inr (map (decoded f) rows')"
  by (rule map_res_Inr_map) (meson rows_decodeD subsetD)

lemma rows_decode_append:
  "rows_decode f R (rows @ [row]) \<longleftrightarrow> rows_decode f R rows \<and> (\<exists>x. (\<forall>n. f n row = Inr x) \<and> R row x)"
  by (auto simp: rows_decode_def)

lemma decoded_eq: "(\<And>n. f n row = Inr x) \<Longrightarrow> decoded f row = x"
  by (simp add: decoded_def)

lemma find_map: "find Q (map f xs) = map_option f (find (\<lambda>x. Q (f x)) xs)"
  by (induction xs) auto

lemma find_cong_set: "(\<And>x. x \<in> set xs \<Longrightarrow> Q x = R x) \<Longrightarrow> find Q xs = find R xs"
  by (induction xs) auto

text \<open>Numbered rows are in order.\<close>

definition numbered :: "('row \<Rightarrow> int) \<Rightarrow> int \<Rightarrow> 'row list \<Rightarrow> bool" where
  "numbered f m rows \<longleftrightarrow> sorted_wrt (<) (map f rows) \<and> (\<forall>row \<in> set rows. f row \<le> m)"

lemma numbered_append:
  "numbered f m rows \<Longrightarrow> f row = m + 1 \<Longrightarrow> numbered f (m + 1) (rows @ [row])"
  by (fastforce simp: numbered_def sorted_wrt_append)

lemma numbered_filter_sorted:
  assumes "numbered f m rows"
  shows "sort_key f (filter Q rows) = filter Q rows"
proof (rule sort_key_id_if_sorted)
  have "sorted_wrt (\<lambda>x y. f x < f y) rows"
    using assms by (simp add: numbered_def sorted_wrt_map)
  then have "sorted_wrt (\<lambda>x y. f x < f y) (filter Q rows)" by (rule sorted_wrt_filter)
  then have "sorted_wrt (\<lambda>x y. f x \<le> f y) (filter Q rows)"
    by (rule sorted_wrt_mono_rel [rotated]) simp
  then show "sorted (map f (filter Q rows))" by (simp add: sorted_wrt_map)
qed

text \<open>A \<open>SELECT ... WHERE col = ? ORDER BY seq\<close> reads the selected objects, in order.\<close>

lemma select_rows:
  assumes "rows_decode f R rows" "numbered seq m rows"
    and col: "\<And>row x. R row x \<Longrightarrow> col row = fld x"
  shows "map_res (f n) (first_rows limit
      (sort_key seq (filter (\<lambda>r. case k of None \<Rightarrow> True | Some x \<Rightarrow> col r = x) rows))) =
    Inr (first_rows limit (select fld k (map (decoded f) rows)))"
proof -
  let ?Q = "\<lambda>r. case k of None \<Rightarrow> True | Some x \<Rightarrow> col r = x"
  have "filter ?Q rows = filter ((\<lambda>x. case k of None \<Rightarrow> True | Some s \<Rightarrow> fld x = s) \<circ> decoded f) rows"
  proof (rule filter_cong)
    fix row assume "row \<in> set rows"
    then have "col row = fld (decoded f row)" using rows_decodeD [OF assms(1)] col by blast
    then show "?Q row = ((\<lambda>x. case k of None \<Rightarrow> True | Some s \<Rightarrow> fld x = s) \<circ> decoded f) row"
      by (simp split: option.split)
  qed simp
  then have sel: "map (decoded f) (filter ?Q rows) = select fld k (map (decoded f) rows)"
    by (simp add: select_def filter_map)
  have "map (decoded f) (first_rows limit (filter ?Q rows)) =
      first_rows limit (map (decoded f) (filter ?Q rows))"
    by (simp add: first_rows_def take_map split: option.split)
  moreover have "set (first_rows limit (filter ?Q rows)) \<subseteq> set rows"
    using set_first_rows by fastforce
  ultimately show ?thesis
    using rows_decode_map_res [OF assms(1)]
    by (simp add: numbered_filter_sorted [OF assms(2)] sel)
qed

lemma find_row:
  assumes "rows_decode f R rows" and key: "\<And>row x. R row x \<Longrightarrow> col row = fld x"
  shows "(case find (\<lambda>r. col r = i) rows of None \<Rightarrow> Inl e | Some row \<Rightarrow> f n row) =
    of_option e (find (\<lambda>x. fld x = i) (map (decoded f) rows))"
proof -
  have "find (\<lambda>row. fld (decoded f row) = i) rows = find (\<lambda>r. col r = i) rows"
  proof (rule find_cong_set)
    fix row assume "row \<in> set rows"
    then have "col row = fld (decoded f row)" using rows_decodeD [OF assms(1)] key by blast
    then show "(fld (decoded f row) = i) = (col row = i)" by simp
  qed
  moreover have "f n row = Inr (decoded f row)" if "find (\<lambda>r. col r = i) rows = Some row" for row
    using rows_decodeD [OF assms(1)] find_SomeD [OF that] by blast
  ultimately show ?thesis by (simp add: find_map split: option.split)
qed

section \<open>The decoders of the tables\<close>

definition memory_row_value :: "host \<Rightarrow> nat \<Rightarrow> memory_row \<Rightarrow> memory res" where
  "memory_row_value H n row = memory_record_from_json H n (mr_raw row)"

definition revision_row_value :: "host \<Rightarrow> nat \<Rightarrow> revision_row \<Rightarrow> revision res" where
  "revision_row_value H n row = revision_from_json H n (vr_raw row)"

definition contract_row_value :: "host \<Rightarrow> nat \<Rightarrow> contract_row \<Rightarrow> contract res" where
  "contract_row_value H n row = contract_from_json H n (cr_raw row)"

definition receipt_row_value :: "host \<Rightarrow> nat \<Rightarrow> receipt_row \<Rightarrow> receipt res" where
  "receipt_row_value H n row = receipt_from_json H n (pr_raw row)"

definition manifest_row_value :: "host \<Rightarrow> nat \<Rightarrow> manifest_row \<Rightarrow> manifest res" where
  "manifest_row_value H n row = manifest_from_json H n (nr_raw row)"

definition event_agrees :: "event_row \<Rightarrow> stored_event \<Rightarrow> bool" where
  "event_agrees row e \<longleftrightarrow> ev_id e = er_id row \<and> ev_run e = er_run row \<and> se_seq e = er_seq row"

definition memory_agrees :: "memory_row \<Rightarrow> memory \<Rightarrow> bool" where
  "memory_agrees row r \<longleftrightarrow>
     mem_id r = mr_id row \<and> lane_value (mem_lane r) = mr_lane row \<and> claim_ok r \<and>
     proper (JDict (mem_metadata r)) \<and> finite_json (JDict (mem_metadata r))"

definition revision_agrees :: "revision_row \<Rightarrow> revision \<Rightarrow> bool" where
  "revision_agrees row v \<longleftrightarrow> rev_memory v = vr_memory row"

definition receipt_agrees :: "receipt_row \<Rightarrow> receipt \<Rightarrow> bool" where
  "receipt_agrees row r \<longleftrightarrow> rcp_id r = pr_id row \<and> rcp_candidate r = pr_candidate row"

definition manifest_agrees :: "manifest_row \<Rightarrow> manifest \<Rightarrow> bool" where
  "manifest_agrees row m \<longleftrightarrow> evm_id m = nr_id row"

definition contract_agrees :: "contract_row \<Rightarrow> contract \<Rightarrow> bool" where
  "contract_agrees row c \<longleftrightarrow> wfc_id c = cr_id row"

definition engine_ok :: "fts_engine \<Rightarrow> bool" where
  "engine_ok E \<longleftrightarrow>
     (\<forall>q rows ms. fts_rank E q rows = Some ms \<longrightarrow> fst ` set ms \<subseteq> set rows) \<and>
     (\<forall>rows. set (scan_rows E rows) \<subseteq> set rows)"

definition sqlite_ok :: "fts_engine \<Rightarrow> host \<Rightarrow> db \<Rightarrow> bool" where
  "sqlite_ok E H s \<longleftrightarrow>
     host_ok H \<and> engine_ok E \<and>
     numbered er_seq (db_event_seq s) (db_events s) \<and>
     rows_decode (stored_event_of_row H) event_agrees (db_events s) \<and>
     distinct (map mr_id (db_memory s)) \<and>
     rows_decode (memory_row_value H) memory_agrees (db_memory s) \<and>
     (\<forall>f \<in> set (db_fts s). \<forall>r \<in> set (db_memory s). mr_id r = fr_id f \<longrightarrow> mr_lane r = fr_lane f) \<and>
     numbered vr_seq (db_revision_seq s) (db_revisions s) \<and>
     rows_decode (revision_row_value H) revision_agrees (db_revisions s) \<and>
     rows_decode (contract_row_value H) contract_agrees (db_contracts s) \<and>
     numbered pr_seq (db_receipt_seq s) (db_receipts s) \<and>
     rows_decode (receipt_row_value H) receipt_agrees (db_receipts s) \<and>
     numbered nr_seq (db_manifest_seq s) (db_manifests s) \<and>
     rows_decode (manifest_row_value H) manifest_agrees (db_manifests s)"

definition sqlite_view :: "host \<Rightarrow> db \<Rightarrow> store" where
  "sqlite_view H s =
     \<lparr>st_events = map (decoded (stored_event_of_row H)) (db_events s),
      st_memory = map_of (map (\<lambda>row. (mr_id row, decoded (memory_row_value H) row)) (db_memory s)),
      st_revisions = map (decoded (revision_row_value H)) (db_revisions s),
      st_contracts = map_of (map (\<lambda>row. (cr_id row, decoded (contract_row_value H) row)) (db_contracts s)),
      st_receipts = map (decoded (receipt_row_value H)) (db_receipts s),
      st_manifests = map (decoded (manifest_row_value H)) (db_manifests s)\<rparr>"

definition sqlite_port :: "fts_engine \<Rightarrow> host \<Rightarrow> db storage_port" where
  "sqlite_port E H =
     \<lparr>append_event = sqlite_append_event H, list_events = sqlite_list_events H,
      get_event = sqlite_get_event H, upsert_memory_record = sqlite_upsert_memory_record H,
      get_memory_record = sqlite_get_memory_record H,
      list_memory_records = sqlite_list_memory_records H,
      list_memory_revisions = sqlite_list_memory_revisions H,
      create_contract = sqlite_create_contract H, get_contract = sqlite_get_contract H,
      create_receipt = sqlite_create_receipt H, get_receipt = sqlite_get_receipt H,
      list_receipts = sqlite_list_receipts H,
      create_evidence_manifest = sqlite_create_evidence_manifest H,
      get_evidence_manifest = sqlite_get_evidence_manifest H,
      audit_counts = sqlite_audit_counts, search_memory = sqlite_search_memory E H\<rparr>"

section \<open>What a written row decodes to\<close>

lemma loads_dump:
  "host_ok H \<Longrightarrow> canonical_json H (JDict d) = Inr raw \<Longrightarrow> loads_json H raw = Inr (JDict (stored_dict d))"
  using loads_canonical [of H "JDict d" raw] by simp

lemma in_dump: "map_of d k = Some v \<Longrightarrow> k \<in> fst ` set d"
  by (force dest: map_of_SomeD)

lemma event_row_reads:
  assumes "host_ok H" "canonical_json H (JDict (event_dump H e)) = Inr (er_raw row)"
    "er_time row = iso_time H t"
  shows "stored_event_of_row H n row = Inr (stored_event_of (event_canon e) (er_seq row) t)"
proof -
  define d where "d = stored_dict (event_dump H e)"
  have keys: "fst ` set d = set event_fields"
    by (simp add: d_def event_dump_def event_fields_def)
  have none: "k \<notin> fst ` set d" if "k \<in> {''obs_seq'', ''obs_time'', ''collector_seq'', ''collector_id''}" for k
    using that unfolding keys by (auto simp: event_fields_def)
  have "\<forall>p \<in> set d. fst p \<noteq> ''collector_id''"
    using none [of "''collector_id''"] by (metis imageI insertCI)
  then have filter: "filter (\<lambda>p. fst p \<noteq> ''collector_id'') d = d" by (simp add: filter_id_conv)
  have coll: "map_of d ''collector_id'' = None"
    using none [of "''collector_id''"] by (simp add: map_of_eq_None_iff)
  have guard: "list_all (\<lambda>k. k \<notin> fst ` set d) [''obs_seq'', ''obs_time'', ''collector_seq'']"
    using none by simp
  have loads: "loads_json H (er_raw row) = Inr (JDict d)"
    unfolding d_def by (rule loads_dump [OF assms(1,2)])
  have ev: "event_of_dict H n d = Inr (event_canon e)"
    unfolding d_def by (rule event_read_stored [OF assms(1)])
  have time: "time_value H (JStr (er_time row)) = Inr t"
    using assms(1) by (simp add: time_value_def assms(3))
  show ?thesis
    unfolding stored_event_of_row_def
    by (simp only: loads bind_res.simps json.case guard filter ev ensure_True optional_def coll
        option.case time) (simp add: stored_event_of_def)
qed

lemma memory_row_reads:
  assumes "host_ok H" "claim_ok r" "canonical_json H (JDict (memory_dump H r)) = Inr raw"
  shows "memory_record_from_json H n raw = Inr (memory_canon r)"
proof -
  have "''update_id'' \<in> fst ` set (stored_dict (memory_dump H r))"
    by (simp add: in_dump [OF map_of_memory_dump(3)])
  then show ?thesis
    using assms by (simp add: memory_record_from_json_def loads_dump memory_read_stored
        del: set_fst_stored_dict)
qed

lemma set_default_present: "k \<in> fst ` set d \<Longrightarrow> set_default k v d = d"
  by (simp add: set_default_def)

lemma receipt_row_reads:
  assumes "host_ok H" "canonical_json H (JDict (receipt_dump H r)) = Inr raw"
  shows "receipt_from_json H n raw = Inr (receipt_canon r)"
proof -
  have "k \<in> fst ` set (stored_dict (receipt_dump H r))"
    if "k \<in> {''candidate_update_id'', ''verification_id'', ''receipt_digest'', ''bound_action_id''}" for k
    using that by (auto simp: receipt_dump_def)
  then show ?thesis
    using assms by (simp add: receipt_from_json_def loads_dump set_default_present
        with_verification_def with_receipt_digest_def receipt_read_stored del: set_fst_stored_dict)
qed

lemma manifest_row_reads:
  assumes "host_ok H" "canonical_json H (JDict (manifest_dump H m)) = Inr raw"
  shows "manifest_from_json H n raw = Inr (manifest_canon m)"
proof -
  have "''candidate_update_id'' \<in> fst ` set (stored_dict (manifest_dump H m))"
    by (simp add: in_dump [OF map_of_manifest_dump(4)])
  then show ?thesis
    using assms by (simp add: manifest_from_json_def loads_dump set_default_present
        manifest_read_stored del: set_fst_stored_dict)
qed

lemma contract_row_reads:
  "host_ok H \<Longrightarrow> canonical_json H (JDict (contract_dump H c)) = Inr raw \<Longrightarrow>
   contract_from_json H n raw = Inr (contract_canon c)"
  by (simp add: contract_from_json_def loads_dump contract_read_stored)

lemma revision_row_reads:
  "host_ok H \<Longrightarrow> canonical_json H (JDict (revision_dump H v)) = Inr raw \<Longrightarrow>
   revision_from_json H n raw = Inr (revision_canon v)"
  by (simp add: revision_from_json_def loads_dump revision_read_stored)

end
