(* ===== verification/Sqlite_Backend.thy ===== *)
theory Sqlite_Backend
  imports Sqlite_Refinement
begin

text \<open>
  The interpretation of the storage contract on the SQLite adapter: each operation, given the
  invariant, does to the decoded tables what the contract says.
\<close>

section \<open>The empty database\<close>

lemma sqlite_ok_empty: "host_ok H \<Longrightarrow> engine_ok E \<Longrightarrow> sqlite_ok E H empty_db"
  by (simp add: sqlite_ok_def empty_db_def numbered_def rows_decode_def)

lemma sqlite_view_empty: "sqlite_view H empty_db = empty_store"
  by (simp add: sqlite_view_def empty_db_def empty_store_def)

lemma sqlite_ok_host: "sqlite_ok E H s \<Longrightarrow> host_ok H"
  by (simp add: sqlite_ok_def)

section \<open>Events\<close>

lemma append_event_row_Inr:
  assumes "append_event_row H n e s = Inr s'"
  obtains row where "digest_json H (JDict (ev_payload e)) = Inr (ev_digest e)"
    "ev_id e \<notin> er_id ` set (db_events s)"
    "canonical_json H (JDict (event_dump H e)) = Inr (er_raw row)"
    "er_seq row = db_event_seq s + 1" "er_id row = ev_id e" "er_run row = ev_run e"
    "er_time row = iso_time H (now_utc H n)"
    "s' = s\<lparr>db_event_seq := db_event_seq s + 1, db_events := db_events s @ [row]\<rparr>"
proof -
  from assms obtain raw where "digest_json H (JDict (ev_payload e)) = Inr (ev_digest e)"
    "canonical_json H (JDict (event_dump H e)) = Inr raw" "ev_id e \<notin> er_id ` set (db_events s)"
    "s' = s\<lparr>db_event_seq := db_event_seq s + 1, db_events := db_events s @
      [\<lparr>er_seq = db_event_seq s + 1, er_id = ev_id e, er_time = iso_time H (now_utc H n),
        er_run = ev_run e, er_kind = ev_kind e, er_digest = ev_digest e, er_raw = raw\<rparr>]\<rparr>"
    by (auto simp: append_event_row_def res_simps)
  then show thesis by (intro that) simp_all
qed

lemma sqlite_events: "st_events (sqlite_view H s) = map (decoded (stored_event_of_row H)) (db_events s)"
  by (simp add: sqlite_view_def)

lemma sqlite_event_rows:
  "sqlite_ok E H s \<Longrightarrow> row \<in> set (db_events s) \<Longrightarrow>
   stored_event_of_row H n row = Inr (decoded (stored_event_of_row H) row) \<and>
   event_agrees row (decoded (stored_event_of_row H) row)"
  unfolding sqlite_ok_def by (meson rows_decodeD)

lemma sqlite_find_event:
  assumes "sqlite_ok E H s"
  shows "find_event i (sqlite_view H s) = None \<longleftrightarrow> i \<notin> er_id ` set (db_events s)"
  using sqlite_event_rows [OF assms]
  by (auto simp: find_event_def sqlite_events find_None_iff event_agrees_def image_iff)

lemma sqlite_append_ok:
  assumes ok: "sqlite_ok E H s" and run: "sqlite_append_event H n e s = (Inr se, s')"
  shows "sqlite_ok E H s' \<and> find_event (ev_id e) (sqlite_view H s) = None \<and>
    digest_json H (JDict (ev_payload e)) = Inr (ev_digest e) \<and>
    se = stored_event_of e (se_seq se) (now_utc H n) \<and>
    list_all (\<lambda>x. se_seq x < se_seq se) (st_events (sqlite_view H s)) \<and>
    sqlite_view H s' =
      (sqlite_view H s)\<lparr>st_events := st_events (sqlite_view H s) @ [event_canon se]\<rparr>"
proof -
  note H = sqlite_ok_host [OF ok]
  from run obtain t where t: "append_event_row H n e s = Inr t"
    by (auto simp: sqlite_append_event_def split: sum.splits)
  from append_event_row_Inr [OF t] obtain row where
    dig: "digest_json H (JDict (ev_payload e)) = Inr (ev_digest e)"
    and fresh: "ev_id e \<notin> er_id ` set (db_events s)"
    and raw: "canonical_json H (JDict (event_dump H e)) = Inr (er_raw row)"
    and row: "er_seq row = db_event_seq s + 1" "er_id row = ev_id e" "er_run row = ev_run e"
      "er_time row = iso_time H (now_utc H n)"
    and t': "t = s\<lparr>db_event_seq := db_event_seq s + 1, db_events := db_events s @ [row]\<rparr>" .
  have s': "s' = t" and se: "se = stored_event_of e (db_event_seq s + 1) (now_utc H n)"
    using run t t' event_read [OF H] by (simp_all add: sqlite_append_event_def)
  have reads: "stored_event_of_row H n row = Inr (event_canon se)" for n
    using event_row_reads [OF H raw row(4)] by (simp add: se row(1) stored_event_of_def event_canon_def)
  have agrees: "event_agrees row (event_canon se)"
    by (simp add: event_agrees_def se stored_event_of_def event_canon_def row)
  have dec: "decoded (stored_event_of_row H) row = event_canon se"
    by (rule decoded_eq) (rule reads)
  have "sqlite_ok E H t"
    using ok reads agrees unfolding sqlite_ok_def t'
    by (auto simp: rows_decode_append numbered_append row)
  moreover have "list_all (\<lambda>x. se_seq x < se_seq se) (st_events (sqlite_view H s))"
  proof -
    have "se_seq (decoded (stored_event_of_row H) r) < se_seq se" if "r \<in> set (db_events s)" for r
      using that ok sqlite_event_rows [OF ok that]
      by (auto simp: event_agrees_def se stored_event_of_def sqlite_ok_def numbered_def)
    then show ?thesis by (auto simp: sqlite_events list_all_iff)
  qed
  ultimately show ?thesis
    using dig dec fresh sqlite_find_event [OF ok, of "ev_id e"]
    by (simp add: s' t' sqlite_view_def) (simp add: se stored_event_of_def)
qed

lemma sqlite_append_error:
  assumes "sqlite_ok E H s" "sqlite_append_event H n e s = (Inl err, s')"
  shows "s' = s"
  using assms(2) event_read [OF sqlite_ok_host [OF assms(1)]]
  by (auto simp: sqlite_append_event_def split: sum.splits)

lemma sqlite_list_events_eq:
  assumes "sqlite_ok E H s"
  shows "sqlite_list_events H n run_id limit s =
    Inr (first_rows limit (select ev_run run_id (st_events (sqlite_view H s))))"
proof -
  have num: "numbered er_seq (db_event_seq s) (db_events s)"
    and dec: "rows_decode (stored_event_of_row H) event_agrees (db_events s)"
    using assms by (simp_all add: sqlite_ok_def)
  have "first_rows limit rows = (case limit of None \<Rightarrow> rows | Some k \<Rightarrow> sql_limit k rows)"
    for rows :: "event_row list"
    by (simp add: first_rows_def sql_limit_def split: option.split)
  then show ?thesis
    using select_rows [OF dec num, of er_run ev_run n limit run_id]
    by (simp add: sqlite_list_events_def sqlite_events event_agrees_def)
qed

lemma sqlite_get_event_eq:
  assumes "sqlite_ok E H s"
  shows "sqlite_get_event H n i s =
    of_option (NotFoundError (''event not found: '' @ i)) (find_event i (sqlite_view H s))"
proof -
  have dec: "rows_decode (stored_event_of_row H) event_agrees (db_events s)"
    using assms by (simp add: sqlite_ok_def)
  show ?thesis
    unfolding sqlite_get_event_def find_event_def sqlite_events
    by (rule find_row [OF dec]) (simp add: event_agrees_def)
qed

section \<open>Memory records\<close>

lemma map_upsert_row:
  "map_of (map (\<lambda>r. (mr_id r, g r)) (upsert_row row rows)) =
   (map_of (map (\<lambda>r. (mr_id r, g r)) rows))(mr_id row \<mapsto> g row)"
  by (induction rows) (auto simp: fun_eq_iff)

lemma set_upsert_row:
  "distinct (map mr_id rows) \<Longrightarrow>
   set (upsert_row row rows) = insert row {r \<in> set rows. mr_id r \<noteq> mr_id row}"
proof (induction rows)
  case (Cons r rows)
  have "{x \<in> set rows. mr_id x \<noteq> mr_id row} = set rows" if "mr_id r = mr_id row"
    using Cons.prems that by (auto simp: image_iff)
  with Cons show ?case by auto
qed simp

lemma distinct_upsert_row:
  "distinct (map mr_id rows) \<Longrightarrow> distinct (map mr_id (upsert_row row rows))"
proof -
  have "mr_id ` set (upsert_row row rs) = insert (mr_id row) (mr_id ` set rs)" for rs
    by (induction rs) auto
  then show "distinct (map mr_id rows) \<Longrightarrow> distinct (map mr_id (upsert_row row rows))"
    by (induction rows) auto
qed

lemma map_of_find:
  "map_of (map (\<lambda>r. (key r, g r)) rows) i = map_option g (find (\<lambda>r. key r = i) rows)"
  by (induction rows) auto

lemma sqlite_memory:
  "st_memory (sqlite_view H s) i =
   map_option (decoded (memory_row_value H)) (find (\<lambda>r. mr_id r = i) (db_memory s))"
  by (simp add: sqlite_view_def map_of_find)

lemma sqlite_memory_rows:
  "sqlite_ok E H s \<Longrightarrow> row \<in> set (db_memory s) \<Longrightarrow>
   memory_row_value H n row = Inr (decoded (memory_row_value H) row) \<and>
   memory_agrees row (decoded (memory_row_value H) row)"
  unfolding sqlite_ok_def by (meson rows_decodeD)

lemma find_distinct:
  "distinct (map key rows) \<Longrightarrow> row \<in> set rows \<Longrightarrow> find (\<lambda>r. key r = key row) rows = Some row"
  by (induction rows) auto

lemma sqlite_memory_row:
  assumes "sqlite_ok E H s" "row \<in> set (db_memory s)"
  shows "st_memory (sqlite_view H s) (mr_id row) = Some (decoded (memory_row_value H) row)"
  using assms by (simp add: sqlite_memory find_distinct sqlite_ok_def)

lemma sqlite_existing_lane:
  assumes "sqlite_ok E H s"
  shows "existing_lane i s = Inr (map_option mem_lane (st_memory (sqlite_view H s) i))"
proof (cases "find (\<lambda>r. mr_id r = i) (db_memory s)")
  case (Some row)
  then have "row \<in> set (db_memory s)" by (rule find_SomeD [THEN conjunct1])
  then have "memory_agrees row (decoded (memory_row_value H) row)"
    using sqlite_memory_rows [OF assms] by blast
  then have "mr_lane row = lane_value (mem_lane (decoded (memory_row_value H) row))"
    by (simp add: memory_agrees_def)
  with Some show ?thesis by (simp add: existing_lane_def sqlite_memory)
qed (simp add: existing_lane_def sqlite_memory)

lemma sqlite_get_memory_eq:
  assumes "sqlite_ok E H s"
  shows "sqlite_get_memory_record H n i s =
    of_option (NotFoundError (''memory record not found: '' @ i)) (st_memory (sqlite_view H s) i)"
proof (cases "find (\<lambda>r. mr_id r = i) (db_memory s)")
  case (Some row)
  then have "row \<in> set (db_memory s)" by (rule find_SomeD [THEN conjunct1])
  then have "memory_row_value H n row = Inr (decoded (memory_row_value H) row)"
    using sqlite_memory_rows [OF assms] by blast
  with Some show ?thesis
    by (simp add: sqlite_get_memory_record_def sqlite_memory memory_row_value_def [symmetric])
qed (simp add: sqlite_get_memory_record_def sqlite_memory)

lemma sqlite_memory_wf:
  assumes "sqlite_ok E H s" "st_memory (sqlite_view H s) i = Some r"
  shows "mem_id r = i \<and> claim_ok r \<and> proper (JDict (mem_metadata r)) \<and> finite_json (JDict (mem_metadata r))"
proof -
  from assms(2) obtain row where "find (\<lambda>r. mr_id r = i) (db_memory s) = Some row"
    and r: "r = decoded (memory_row_value H) row"
    by (auto simp: sqlite_memory)
  then have "row \<in> set (db_memory s)" and i: "mr_id row = i" by (auto dest: find_SomeD)
  then have "memory_agrees row r" using sqlite_memory_rows [OF assms(1)] r by blast
  then show ?thesis using i by (simp only: memory_agrees_def)
qed

lemma revision_create_Inr:
  "revision_create H n r operation before reason receipt_id event_id = Inr v \<Longrightarrow>
   rev_memory v = mem_id r \<and> rev_update v = mem_update r \<and> rev_operation v = operation \<and>
   rev_before v = before \<and> rev_after v = mem_lane r \<and> rev_reason v = reason \<and>
   rev_receipt v = receipt_id \<and> rev_event v = event_id \<and>
   Inr (rev_content v) = content_digest H r \<and> rev_record v = memory_dump H r"
  by (auto simp: revision_create_def Let_def res_simps)

lemma sqlite_upsert_ok:
  assumes ok: "sqlite_ok E H s" and claim: "claim_ok r"
    and run: "sqlite_upsert_memory_record H n r operation reason receipt_id event_id s = (Inr r', s')"
  shows "sqlite_ok E H s' \<and> r' = r \<and>
    (\<exists>v. revises H r operation (map_option mem_lane (st_memory (sqlite_view H s) (mem_id r))) reason
           receipt_id event_id v \<and>
       sqlite_view H s' = (sqlite_view H s)
         \<lparr>st_memory := (st_memory (sqlite_view H s))(mem_id r \<mapsto> memory_canon r),
          st_revisions := st_revisions (sqlite_view H s) @ [v]\<rparr>)"
proof -
  note H = sqlite_ok_host [OF ok]
  let ?before = "map_option mem_lane (st_memory (sqlite_view H s) (mem_id r))"
  from run have r': "r' = r"
    and rows: "upsert_memory_rows H n r operation reason receipt_id event_id s = Inr s'"
    by (auto simp: sqlite_upsert_memory_record_def split: sum.splits)
  from rows obtain body raw v rev_raw where
    raw: "canonical_json H (JDict (memory_dump H r)) = Inr raw"
    and v: "revision_create H n r operation ?before reason (or_opt receipt_id (mem_receipt r)) event_id = Inr v"
    and rev_raw: "canonical_json H (JDict (revision_dump H v)) = Inr rev_raw"
    and s': "s' = s\<lparr>db_memory := upsert_row (memory_row_of r raw) (db_memory s),
       db_revision_seq := db_revision_seq s + 1,
       db_revisions := db_revisions s @ [revision_row_of (db_revision_seq s + 1) v rev_raw],
       db_fts := filter (\<lambda>f. fr_id f \<noteq> mem_id r) (db_fts s) @
         [\<lparr>fr_id = mem_id r, fr_lane = lane_value (mem_lane r), fr_claim = mem_claim r,
           fr_body = body\<rparr>]\<rparr>"
    by (auto simp: upsert_memory_rows_def res_simps sqlite_existing_lane [OF ok])
  let ?row = "memory_row_of r raw" and ?vrow = "revision_row_of (db_revision_seq s + 1) v rev_raw"
  have reads: "memory_row_value H n ?row = Inr (memory_canon r)" for n
    using memory_row_reads [OF H claim raw] by (simp add: memory_row_of_def memory_row_value_def)
  have fin: "finite_json (JDict (mem_metadata r))"
    using raw unfolding canonical_json_eq finite_dumps by (metis sum.distinct(1))
  have agrees: "memory_agrees ?row (memory_canon r)"
    using claim finite_stored_json [OF fin]
    by (simp add: memory_agrees_def memory_row_of_def del: proper.simps(2) finite_json.simps(3))
  have vreads: "revision_row_value H n ?vrow = Inr (revision_canon v)" for n
    using revision_row_reads [OF H rev_raw] by (simp add: revision_row_of_def revision_row_value_def)
  have vagrees: "revision_agrees ?vrow (revision_canon v)"
    by (simp add: revision_agrees_def revision_row_of_def revision_canon_def)
  have dist: "distinct (map mr_id (db_memory s))" using ok by (simp add: sqlite_ok_def)
  have id: "mr_id ?row = mem_id r" "mr_lane ?row = lane_value (mem_lane r)" "vr_seq ?vrow = db_revision_seq s + 1"
    by (simp_all add: memory_row_of_def revision_row_of_def)
  have "rows_decode (memory_row_value H) memory_agrees (upsert_row ?row (db_memory s))"
    using ok reads agrees by (auto simp: rows_decode_def set_upsert_row [OF dist] sqlite_ok_def)
  moreover have "\<forall>f \<in> set (db_fts s'). \<forall>q \<in> set (db_memory s'). mr_id q = fr_id f \<longrightarrow> mr_lane q = fr_lane f"
    using ok by (auto simp: s' set_upsert_row [OF dist] id sqlite_ok_def)
  ultimately have "sqlite_ok E H s'"
    using ok vreads vagrees distinct_upsert_row [OF dist]
    unfolding sqlite_ok_def by (auto simp: s' rows_decode_append numbered_append id)
  moreover have "revises H r operation ?before reason receipt_id event_id (revision_canon v)"
    using revision_create_Inr [OF v] by (simp add: revises_def revision_canon_def)
  moreover have "sqlite_view H s' = (sqlite_view H s)
         \<lparr>st_memory := (st_memory (sqlite_view H s))(mem_id r \<mapsto> memory_canon r),
          st_revisions := st_revisions (sqlite_view H s) @ [revision_canon v]\<rparr>"
    using decoded_eq [of "memory_row_value H" ?row, OF reads]
      decoded_eq [of "revision_row_value H" ?vrow, OF vreads]
    by (simp add: sqlite_view_def s' map_upsert_row id)
  ultimately show ?thesis using r' by blast
qed

lemma sqlite_upsert_error:
  "sqlite_upsert_memory_record H n r operation reason receipt_id event_id s = (Inl err, s') \<Longrightarrow> s' = s"
  by (auto simp: sqlite_upsert_memory_record_def split: sum.splits)

lemma ran_map_of_distinct:
  "distinct (map key rows) \<Longrightarrow> ran (map_of (map (\<lambda>r. (key r, g r)) rows)) = g ` set rows"
  by (subst ran_distinct) (simp_all add: comp_def image_image)

lemma sqlite_list_memory_set:
  assumes ok: "sqlite_ok E H s" and run: "sqlite_list_memory_records H n l s = Inr rs"
  shows "set rs = {r \<in> ran (st_memory (sqlite_view H s)). case l of None \<Rightarrow> True | Some x \<Rightarrow> mem_lane r = x}"
proof -
  let ?f = "decoded (memory_row_value H)"
  let ?Q = "\<lambda>r. case l of None \<Rightarrow> True | Some x \<Rightarrow> mr_lane r = lane_value x"
  have dec: "rows_decode (memory_row_value H) memory_agrees (db_memory s)"
    and dist: "distinct (map mr_id (db_memory s))"
    using ok by (simp_all add: sqlite_ok_def)
  have "map_res (memory_row_value H n) (sort_key mr_id (filter ?Q (db_memory s))) =
      Inr (map ?f (sort_key mr_id (filter ?Q (db_memory s))))"
    by (rule rows_decode_map_res [OF dec]) auto
  then have "set rs = ?f ` {r \<in> set (db_memory s). ?Q r}"
    using run by (auto simp: sqlite_list_memory_records_def memory_row_value_def [symmetric])
  also have "\<dots> = {r \<in> ?f ` set (db_memory s). case l of None \<Rightarrow> True | Some x \<Rightarrow> mem_lane r = x}"
  proof -
    have "mr_lane r = lane_value (mem_lane (?f r))" if "r \<in> set (db_memory s)" for r
      using sqlite_memory_rows [OF ok that] by (simp add: memory_agrees_def)
    then show ?thesis by (cases l) auto
  qed
  also have "?f ` set (db_memory s) = ran (st_memory (sqlite_view H s))"
    by (simp add: sqlite_view_def ran_map_of_distinct [OF dist])
  finally show ?thesis .
qed

lemma sqlite_list_revisions_eq:
  assumes "sqlite_ok E H s"
  shows "sqlite_list_memory_revisions H n memory_id s =
    Inr (select rev_memory memory_id (st_revisions (sqlite_view H s)))"
proof -
  have num: "numbered vr_seq (db_revision_seq s) (db_revisions s)"
    and dec: "rows_decode (revision_row_value H) revision_agrees (db_revisions s)"
    using assms by (simp_all add: sqlite_ok_def)
  show ?thesis
    using select_rows [OF dec num, of vr_memory rev_memory n None memory_id]
    by (simp add: sqlite_list_memory_revisions_def sqlite_view_def revision_agrees_def first_rows_def
        revision_row_value_def [abs_def])
qed

section \<open>Receipts\<close>

lemma sqlite_create_receipt_ok:
  assumes ok: "sqlite_ok E H s" and run: "sqlite_create_receipt H r s = (Inr r', s')"
  shows "sqlite_ok E H s' \<and> r' = r \<and> find_receipt (rcp_id r) (sqlite_view H s) = None \<and>
    sqlite_view H s' =
      (sqlite_view H s)\<lparr>st_receipts := st_receipts (sqlite_view H s) @ [receipt_canon r]\<rparr>"
proof -
  note H = sqlite_ok_host [OF ok]
  from run have r': "r' = r" and rows: "create_receipt_rows H r s = Inr s'"
    by (auto simp: sqlite_create_receipt_def split: sum.splits)
  define row where "row raw = \<lparr>pr_seq = db_receipt_seq s + 1, pr_id = rcp_id r,
      pr_candidate = rcp_candidate r, pr_update = rcp_update r,
      pr_result = outcome_value (rcp_result r), pr_raw = raw\<rparr>" for raw
  from rows obtain raw where raw: "canonical_json H (JDict (receipt_dump H r)) = Inr raw"
    and fresh: "rcp_id r \<notin> pr_id ` set (db_receipts s)"
    and s': "s' = s\<lparr>db_receipt_seq := db_receipt_seq s + 1, db_receipts := db_receipts s @ [row raw]\<rparr>"
    by (auto simp: create_receipt_rows_def res_simps row_def)
  have reads: "receipt_row_value H n (row raw) = Inr (receipt_canon r)" for n
    using receipt_row_reads [OF H raw] by (simp add: row_def receipt_row_value_def)
  have agrees: "receipt_agrees (row raw) (receipt_canon r)"
    by (simp add: receipt_agrees_def row_def)
  have seq: "pr_seq (row raw) = db_receipt_seq s + 1" by (simp add: row_def)
  have "sqlite_ok E H s'"
    using ok reads agrees unfolding sqlite_ok_def by (auto simp: s' rows_decode_append numbered_append seq)
  moreover have "find_receipt (rcp_id r) (sqlite_view H s) = None"
  proof -
    have "rcp_id (decoded (receipt_row_value H) q) = pr_id q" if "q \<in> set (db_receipts s)" for q
      using ok that rows_decodeD [of "receipt_row_value H" receipt_agrees]
      by (fastforce simp: sqlite_ok_def receipt_agrees_def)
    with fresh show ?thesis by (force simp: find_receipt_def sqlite_view_def find_None_iff)
  qed
  ultimately show ?thesis
    using r' decoded_eq [of "receipt_row_value H" "row raw", OF reads] by (simp add: sqlite_view_def s')
qed

lemma sqlite_create_receipt_error: "sqlite_create_receipt H r s = (Inl err, s') \<Longrightarrow> s' = s"
  by (auto simp: sqlite_create_receipt_def split: sum.splits)

lemma sqlite_receipt_rows:
  "sqlite_ok E H s \<Longrightarrow> rows_decode (receipt_row_value H) receipt_agrees (db_receipts s)"
  by (simp add: sqlite_ok_def)

lemma sqlite_receipts:
  "st_receipts (sqlite_view H s) = map (decoded (receipt_row_value H)) (db_receipts s)"
  by (simp add: sqlite_view_def)

lemma sqlite_get_receipt_eq:
  assumes "sqlite_ok E H s"
  shows "sqlite_get_receipt H n i s =
    of_option (NotFoundError (''receipt not found: '' @ i)) (find_receipt i (sqlite_view H s))"
  unfolding sqlite_get_receipt_def find_receipt_def sqlite_receipts receipt_row_value_def [symmetric]
  by (rule find_row [OF sqlite_receipt_rows [OF assms]]) (simp add: receipt_agrees_def)

lemma sqlite_list_receipts_eq:
  assumes "sqlite_ok E H s"
  shows "sqlite_list_receipts H n candidate s =
    Inr (select rcp_candidate candidate (st_receipts (sqlite_view H s)))"
proof -
  have num: "numbered pr_seq (db_receipt_seq s) (db_receipts s)"
    using assms by (simp add: sqlite_ok_def)
  show ?thesis
    using select_rows [OF sqlite_receipt_rows [OF assms] num, of pr_candidate rcp_candidate n None candidate]
    by (simp add: sqlite_list_receipts_def sqlite_view_def receipt_agrees_def first_rows_def
        receipt_row_value_def [abs_def])
qed

section \<open>Contracts and manifests\<close>

lemma sqlite_contracts:
  "st_contracts (sqlite_view H s) i =
   map_option (decoded (contract_row_value H)) (find (\<lambda>r. cr_id r = i) (db_contracts s))"
  by (simp add: sqlite_view_def map_of_find)

lemma sqlite_contract_rows:
  "sqlite_ok E H s \<Longrightarrow> rows_decode (contract_row_value H) contract_agrees (db_contracts s)"
  by (simp add: sqlite_ok_def)

lemma sqlite_create_contract_ok:
  assumes ok: "sqlite_ok E H s" and run: "sqlite_create_contract H c s = (Inr c', s')"
  shows "sqlite_ok E H s' \<and> c' = c \<and>
    (case st_contracts (sqlite_view H s) (wfc_id c) of None \<Rightarrow> True | Some d \<Rightarrow> d = contract_canon c) \<and>
    sqlite_view H s' = (sqlite_view H s)
      \<lparr>st_contracts := (st_contracts (sqlite_view H s))(wfc_id c \<mapsto> contract_canon c)\<rparr>"
proof -
  note H = sqlite_ok_host [OF ok]
  from run have c': "c' = c" and rows: "create_contract_rows H c s = Inr s'"
    by (auto simp: sqlite_create_contract_def split: sum.splits)
  from rows obtain raw where raw: "canonical_json H (JDict (contract_dump H c)) = Inr raw"
    by (auto simp: create_contract_rows_def res_simps)
  let ?new = "\<lparr>cr_id = wfc_id c, cr_raw = raw\<rparr>"
  have dec: "decoded (contract_row_value H) row = contract_canon c" if "cr_raw row = raw" for row
    using contract_row_reads [OF H raw] that by (intro decoded_eq) (simp add: contract_row_value_def)
  show ?thesis
  proof (cases "find (\<lambda>r. cr_id r = wfc_id c) (db_contracts s)")
    case None
    then have s': "s' = s\<lparr>db_contracts := db_contracts s @ [?new]\<rparr>"
      using rows raw by (simp add: create_contract_rows_def)
    have view: "st_contracts (sqlite_view H s') = (st_contracts (sqlite_view H s))(wfc_id c \<mapsto> contract_canon c)"
      using None dec [of ?new] by (auto simp: fun_eq_iff sqlite_contracts s' find_append split: option.split)
    have "contract_row_value H n ?new = Inr (contract_canon c)" for n
      using contract_row_reads [OF H raw] by (simp add: contract_row_value_def)
    then have "sqlite_ok E H s'"
      using ok unfolding sqlite_ok_def by (auto simp: s' rows_decode_append contract_agrees_def)
    moreover have "sqlite_view H s' = (sqlite_view H s)\<lparr>st_contracts := st_contracts (sqlite_view H s')\<rparr>"
      by (simp add: sqlite_view_def s')
    ultimately show ?thesis using None c' view by (simp add: sqlite_contracts)
  next
    case (Some row)
    then have s': "s' = s" and row: "cr_raw row = raw"
      using rows raw by (auto simp: create_contract_rows_def split: if_splits)
    have here: "st_contracts (sqlite_view H s) (wfc_id c) = Some (contract_canon c)"
      using Some dec [OF row] by (simp add: sqlite_contracts)
    then have "(st_contracts (sqlite_view H s))(wfc_id c \<mapsto> contract_canon c) = st_contracts (sqlite_view H s)"
      by (simp add: fun_upd_idem)
    then show ?thesis using ok s' c' here by simp
  qed
qed

lemma sqlite_create_contract_error: "sqlite_create_contract H c s = (Inl err, s') \<Longrightarrow> s' = s"
  by (auto simp: sqlite_create_contract_def split: sum.splits)

lemma sqlite_get_contract_eq:
  assumes "sqlite_ok E H s"
  shows "sqlite_get_contract H n i s =
    of_option (NotFoundError (''workflow contract not found: '' @ i)) (st_contracts (sqlite_view H s) i)"
proof (cases "find (\<lambda>r. cr_id r = i) (db_contracts s)")
  case (Some row)
  then have "row \<in> set (db_contracts s)" by (rule find_SomeD [THEN conjunct1])
  then have "contract_row_value H n row = Inr (decoded (contract_row_value H) row)"
    using rows_decodeD [OF sqlite_contract_rows [OF assms]] by blast
  with Some show ?thesis
    by (simp add: sqlite_get_contract_def sqlite_contracts contract_row_value_def [symmetric])
qed (simp add: sqlite_get_contract_def sqlite_contracts)

lemma sqlite_contract_wf:
  assumes "sqlite_ok E H s" "st_contracts (sqlite_view H s) i = Some c"
  shows "wfc_id c = i"
proof -
  from assms(2) obtain row where "find (\<lambda>r. cr_id r = i) (db_contracts s) = Some row"
    and c: "c = decoded (contract_row_value H) row"
    by (auto simp: sqlite_contracts)
  then have "row \<in> set (db_contracts s)" "cr_id row = i" by (auto dest: find_SomeD)
  then show ?thesis
    using rows_decodeD [OF sqlite_contract_rows [OF assms(1)], of row] by (simp add: contract_agrees_def c)
qed

lemma sqlite_create_manifest_ok:
  assumes ok: "sqlite_ok E H s" and run: "sqlite_create_evidence_manifest H m s = (Inr m', s')"
  shows "sqlite_ok E H s' \<and> m' = m \<and>
    sqlite_view H s' =
      (sqlite_view H s)\<lparr>st_manifests := st_manifests (sqlite_view H s) @ [manifest_canon m]\<rparr>"
proof -
  note H = sqlite_ok_host [OF ok]
  from run have m': "m' = m" and rows: "create_manifest_rows H m s = Inr s'"
    by (auto simp: sqlite_create_evidence_manifest_def split: sum.splits)
  define row where "row raw = \<lparr>nr_seq = db_manifest_seq s + 1, nr_id = evm_id m,
      nr_candidate = evm_candidate m, nr_update = evm_update m, nr_raw = raw\<rparr>" for raw
  from rows obtain raw where raw: "canonical_json H (JDict (manifest_dump H m)) = Inr raw"
    and s': "s' = s\<lparr>db_manifest_seq := db_manifest_seq s + 1, db_manifests := db_manifests s @ [row raw]\<rparr>"
    by (auto simp: create_manifest_rows_def res_simps row_def)
  have reads: "manifest_row_value H n (row raw) = Inr (manifest_canon m)" for n
    using manifest_row_reads [OF H raw] by (simp add: row_def manifest_row_value_def)
  have agrees: "manifest_agrees (row raw) (manifest_canon m)"
    by (simp add: manifest_agrees_def row_def)
  have seq: "nr_seq (row raw) = db_manifest_seq s + 1" by (simp add: row_def)
  have "sqlite_ok E H s'"
    using ok reads agrees unfolding sqlite_ok_def by (auto simp: s' rows_decode_append numbered_append seq)
  then show ?thesis
    using m' decoded_eq [of "manifest_row_value H" "row raw", OF reads] by (simp add: sqlite_view_def s')
qed

lemma sqlite_create_manifest_error: "sqlite_create_evidence_manifest H m s = (Inl err, s') \<Longrightarrow> s' = s"
  by (auto simp: sqlite_create_evidence_manifest_def split: sum.splits)

lemma find_hd_filter: "find Q xs = (case filter Q xs of [] \<Rightarrow> None | x # _ \<Rightarrow> Some x)"
  by (induction xs) auto

lemma sqlite_get_manifest_eq:
  assumes "sqlite_ok E H s"
  shows "sqlite_get_evidence_manifest H n i s =
    of_option (NotFoundError (''evidence manifest not found: '' @ i)) (find_manifest i (sqlite_view H s))"
proof -
  let ?f = "decoded (manifest_row_value H)"
  let ?e = "NotFoundError (''evidence manifest not found: '' @ i)"
  have num: "numbered nr_seq (db_manifest_seq s) (db_manifests s)"
    and dec: "rows_decode (manifest_row_value H) manifest_agrees (rev (db_manifests s))"
    using assms by (simp_all add: sqlite_ok_def rows_decode_def)
  have "sqlite_get_evidence_manifest H n i s =
      (case find (\<lambda>r. nr_id r = i) (rev (db_manifests s)) of None \<Rightarrow> Inl ?e | Some row \<Rightarrow> manifest_row_value H n row)"
    by (simp add: sqlite_get_evidence_manifest_def numbered_filter_sorted [OF num] find_hd_filter
        rev_filter manifest_row_value_def split: list.split)
  also have "\<dots> = of_option ?e (find (\<lambda>x. evm_id x = i) (map ?f (rev (db_manifests s))))"
    by (rule find_row [OF dec]) (simp add: manifest_agrees_def)
  finally show ?thesis by (simp add: find_manifest_def sqlite_view_def rev_map)
qed

section \<open>Search\<close>

lemma sql_limit_length: "0 \<le> k \<Longrightarrow> length (sql_limit k xs) \<le> nat k"
  by (simp add: sql_limit_def)

lemma set_sql_limit: "set (sql_limit k xs) \<subseteq> set xs"
  by (auto simp: sql_limit_def dest: in_set_takeD)

lemma search_rows_length: "0 \<le> limit \<Longrightarrow> length (search_rows E q ls limit s) \<le> nat limit"
  by (simp add: search_rows_def search_like_def sql_limit_length split: option.split)

lemma search_rows_sound:
  assumes ok: "sqlite_ok E H s" and row: "(r, score) \<in> set (search_rows E q ls limit s)"
  shows "r \<in> set (db_memory s) \<and> in_lanes ls (mr_lane r)"
proof -
  have scan: "set (scan_rows E (db_memory s)) \<subseteq> set (db_memory s)"
    and rank: "\<And>ms. fts_rank E (to_fts_query q) (db_fts s) = Some ms \<Longrightarrow> fst ` set ms \<subseteq> set (db_fts s)"
    using ok by (simp_all add: sqlite_ok_def engine_ok_def)
  have plain: ?thesis if "(r, score) \<in> set (map (\<lambda>r. (r, Dyadic 0 0)) (sql_limit limit
      (filter (\<lambda>r. in_lanes ls (mr_lane r) \<and> X r) (scan_rows E (db_memory s)))))" for X
    using that set_sql_limit scan by fastforce
  show ?thesis
  proof (cases "strip q \<noteq> []")
    case False
    then show ?thesis using row plain [of "\<lambda>_. True"] by (simp add: search_rows_def)
  next
    case True
    show ?thesis
    proof (cases "fts_rank E (to_fts_query q) (db_fts s)")
      case None
      then show ?thesis using row True plain by (simp add: search_rows_def search_like_def)
    next
      case (Some ms)
      then have "(r, score) \<in> set (join_records s (filter (\<lambda>(f, _). in_lanes ls (fr_lane f)) ms))"
        using row True set_sql_limit by (fastforce simp: search_rows_def)
      then obtain f where f: "(f, score) \<in> set ms" "in_lanes ls (fr_lane f)"
        and r: "r \<in> set (db_memory s)" "mr_id r = fr_id f"
        by (auto simp: join_records_def)
      have "f \<in> set (db_fts s)" using rank [OF Some] f by force
      then have "mr_lane r = fr_lane f" using ok r by (auto simp: sqlite_ok_def)
      then show ?thesis using f r by simp
    qed
  qed
qed

lemma row_to_retrieved_sound:
  assumes ok: "sqlite_ok E H s" and row: "r \<in> set (db_memory s)"
    and run: "row_to_retrieved H n (r, score) = Inr item"
  shows "retrieved_from H (decoded (memory_row_value H) r) item"
proof -
  have "memory_record_from_json H n (mr_raw r) = Inr (decoded (memory_row_value H) r)"
    using sqlite_memory_rows [OF ok row] by (simp add: memory_row_value_def)
  with run show ?thesis
    by (auto simp: row_to_retrieved_def res_simps retrieved_from_def)
qed

lemma sqlite_search_sound:
  assumes ok: "sqlite_ok E H s" and run: "sqlite_search_memory E H n query ls limit s = Inr items"
  shows "(0 \<le> limit \<longrightarrow> length items \<le> nat limit) \<and>
    (\<forall>item \<in> set items. \<exists>r. st_memory (sqlite_view H s) (mem_id r) = Some r \<and>
       mem_lane r \<in> set ls \<and> retrieved_from H r item)"
proof (cases "ls = []")
  case True
  then show ?thesis using run by (simp add: sqlite_search_memory_def)
next
  case False
  then have res: "map_res (row_to_retrieved H n) (search_rows E query ls limit s) = Inr items"
    using run by (simp add: sqlite_search_memory_def)
  have "\<exists>r. st_memory (sqlite_view H s) (mem_id r) = Some r \<and> mem_lane r \<in> set ls \<and> retrieved_from H r item"
    if "item \<in> set items" for item
  proof -
    from that obtain i where i: "i < length items" "item = items ! i" by (auto simp: in_set_conv_nth)
    then have i': "i < length (search_rows E query ls limit s)" using map_res_Inr_length [OF res] by simp
    obtain r score where rs: "search_rows E query ls limit s ! i = (r, score)" by fastforce
    then have "(r, score) \<in> set (search_rows E query ls limit s)" using i' nth_mem by metis
    from search_rows_sound [OF ok this] have r: "r \<in> set (db_memory s)" and l: "in_lanes ls (mr_lane r)"
      by blast+
    let ?m = "decoded (memory_row_value H) r"
    have agr: "memory_agrees r ?m" using sqlite_memory_rows [OF ok r] by blast
    then have "mem_lane ?m \<in> set ls" using l by (auto simp: in_lanes_def memory_agrees_def)
    moreover have "row_to_retrieved H n (r, score) = Inr item"
      using map_res_Inr_nth [OF res i'] rs i by simp
    then have "retrieved_from H ?m item" by (rule row_to_retrieved_sound [OF ok r])
    moreover have "st_memory (sqlite_view H s) (mem_id ?m) = Some ?m"
      using sqlite_memory_row [OF ok r] agr by (simp add: memory_agrees_def)
    ultimately show ?thesis by blast
  qed
  moreover have "length items \<le> nat limit" if "0 \<le> limit"
    using map_res_Inr_length [OF res] search_rows_length [OF that] by simp
  ultimately show ?thesis by blast
qed

section \<open>The adapter implements the port\<close>

lemma sqlite_port_ops:
  "append_event (sqlite_port E H) = sqlite_append_event H"
  "list_events (sqlite_port E H) = sqlite_list_events H"
  "get_event (sqlite_port E H) = sqlite_get_event H"
  "upsert_memory_record (sqlite_port E H) = sqlite_upsert_memory_record H"
  "get_memory_record (sqlite_port E H) = sqlite_get_memory_record H"
  "list_memory_records (sqlite_port E H) = sqlite_list_memory_records H"
  "list_memory_revisions (sqlite_port E H) = sqlite_list_memory_revisions H"
  "create_contract (sqlite_port E H) = sqlite_create_contract H"
  "get_contract (sqlite_port E H) = sqlite_get_contract H"
  "create_receipt (sqlite_port E H) = sqlite_create_receipt H"
  "get_receipt (sqlite_port E H) = sqlite_get_receipt H"
  "list_receipts (sqlite_port E H) = sqlite_list_receipts H"
  "create_evidence_manifest (sqlite_port E H) = sqlite_create_evidence_manifest H"
  "get_evidence_manifest (sqlite_port E H) = sqlite_get_evidence_manifest H"
  "audit_counts (sqlite_port E H) = sqlite_audit_counts"
  "search_memory (sqlite_port E H) = sqlite_search_memory E H"
  by (simp_all add: sqlite_port_def)

interpretation sqlite: storage_backend "sqlite_port E H" H "sqlite_view H" "sqlite_ok E H"
  for E H
proof (unfold_locales, unfold sqlite_port_ops, goal_cases)
  case (1 s n e se s') then show ?case by (rule sqlite_append_ok)
next
  case (2 s n e err s') then show ?case by (rule sqlite_append_error)
next
  case 3 then show ?case by (rule sqlite_list_events_eq)
next
  case 4 then show ?case by (rule sqlite_get_event_eq)
next
  case 5 then show ?case by (rule sqlite_upsert_ok)
next
  case 6 then show ?case by (intro sqlite_upsert_error)
next
  case 7 then show ?case by (rule sqlite_get_memory_eq)
next
  case 8 then show ?case by (rule sqlite_memory_wf)
next
  case 9 then show ?case by (rule sqlite_list_memory_set)
next
  case 10 then show ?case by (rule sqlite_list_revisions_eq)
next
  case 11 then show ?case by (rule sqlite_search_sound)
next
  case 12 then show ?case by (rule sqlite_create_receipt_ok)
next
  case 13 then show ?case by (intro sqlite_create_receipt_error)
next
  case 14 then show ?case by (rule sqlite_get_receipt_eq)
next
  case 15 then show ?case by (rule sqlite_list_receipts_eq)
next
  case 16 then show ?case by (rule sqlite_create_contract_ok)
next
  case 17 then show ?case by (intro sqlite_create_contract_error)
next
  case 18 then show ?case by (rule sqlite_get_contract_eq)
next
  case 19 then show ?case by (rule sqlite_contract_wf)
next
  case 20 then show ?case by (rule sqlite_create_manifest_ok)
next
  case 21 then show ?case by (intro sqlite_create_manifest_error)
next
  case 22 then show ?case by (rule sqlite_get_manifest_eq)
qed

end
