(* ===== verification/Concrete_Host.thy ===== *)
theory Concrete_Host
  imports Sqlite_Backend
begin

text \<open>
  A concrete host, so that the hypotheses on the interpreter can be met and the definitions can
  be run: floats print as \<open>m.5ek\<close> numerals that read back, times print as numerals, and
  the digest of a text is the text itself, which binds it without collisions.
\<close>

definition plain_float_text :: "pyfloat \<Rightarrow> string" where
  "plain_float_text f =
     (case f of
        Dyadic n k \<Rightarrow> (if n < 0 then ''-'' else []) @ nat_text (nat \<bar>n\<bar>) @ ''.5e'' @ nat_text k
      | NegZero \<Rightarrow> ''-'' @ nat_text 0 @ ''.5e'' @ nat_text 0
      | PosInf \<Rightarrow> ''inf'' | NegInf \<Rightarrow> ''-inf'' | NaN \<Rightarrow> ''nan'')"

definition plain_float_of_text :: "string \<Rightarrow> pyfloat" where
  "plain_float_of_text s =
     (let neg = (s \<noteq> [] \<and> hd s = CHR ''-'');
          u = (if neg then tl s else s);
          m = digits_val (takeWhile is_digit u);
          k = digits_val (drop 3 (dropWhile is_digit u))
      in if neg \<and> m = 0 then NegZero else Dyadic (if neg then - int m else int m) k)"

definition plain_parse_time :: "json \<Rightarrow> nat option" where
  "plain_parse_time v = (case v of JStr s \<Rightarrow> Some (digits_val s) | _ \<Rightarrow> None)"

definition plain_host :: host where
  "plain_host =
     \<lparr>sha256 = (\<lambda>s. s), float_text = plain_float_text, float_of_text = plain_float_of_text,
      uuid4 = nat_text, clock = (\<lambda>n. n), iso_time = nat_text, dump_time = nat_text,
      parse_time = plain_parse_time, lax_int = (\<lambda>_. None), lax_bool = (\<lambda>_. None),
      schema_messages = (\<lambda>_. ''schema''), manifest_message = (\<lambda>_. ''manifest'')\<rparr>"

lemma plain_host_simps [simp]:
  "sha256 plain_host = (\<lambda>s. s)" "uuid4 plain_host = nat_text" "clock plain_host = (\<lambda>n. n)"
  "iso_time plain_host = nat_text" "dump_time plain_host = nat_text"
  "float_text plain_host = plain_float_text"
  by (simp_all add: plain_host_def)

definition float_literal :: "bool \<Rightarrow> nat \<Rightarrow> nat \<Rightarrow> string" where
  "float_literal neg m k = (if neg then ''-'' else []) @ nat_text m @ ''.5e'' @ nat_text k"

lemma hd_nat_text_digit: "is_digit (hd (nat_text m @ s))"
  by (simp add: hd_append)

lemma scan_float_literal:
  assumes "ends_number t"
  shows "scan_number h (float_literal neg m k @ t) =
    bind_res (float_hook h (float_literal neg m k)) (\<lambda>v. Inr (v, t))"
proof -
  let ?r = "nat_text m @ ''.5e'' @ nat_text k @ t"
  have k: "takeWhile is_digit (nat_text k @ t) = nat_text k" "dropWhile is_digit (nat_text k @ t) = t"
    using span_digits [of "nat_text k" t] assms nat_text_digits by auto
  have "ends_number (''.5e'' @ nat_text k @ t) = False" by (simp add: ends_number_def)
  have m: "takeWhile is_digit ?r = nat_text m"
    using nat_text_digits by (simp add: takeWhile_append is_digit_def)
  have ds: "(if hd ?r = CHR ''0'' then ''0'' else takeWhile is_digit ?r) = nat_text m"
  proof (cases "hd (nat_text m) = CHR ''0''")
    case True
    then have "nat_text m = ''0''" using nat_text_hd [of m] by (cases "nat_text m") auto
    with True show ?thesis by simp
  next
    case False
    then show ?thesis using m by simp
  qed
  have frac: "scan_frac (''.5e'' @ nat_text k @ t) = (''.5'', ''e'' @ nat_text k @ t)"
    by (simp add: scan_frac_def is_digit_def)
  obtain c u where cu: "nat_text k = c # u" by (cases "nat_text k") auto
  then have "is_digit c" using is_digit_hd_nat_text [of k] by simp
  then have sign: "c \<noteq> CHR ''+'' \<and> c \<noteq> CHR ''-''" by (auto simp: is_digit_def)
  have expo: "scan_exp (''e'' @ nat_text k @ t) = (''e'' @ nat_text k, t)"
    using k sign cu by (simp add: scan_exp_def Let_def)
  have start: "\<not> (?r = [] \<or> \<not> is_digit (hd ?r))" by simp
  have "scan_magnitude h neg ?r = bind_res (float_hook h (float_literal neg m k)) (\<lambda>v. Inr (v, t))"
    unfolding scan_magnitude_def Let_def ds
    using start by (simp add: frac [simplified] expo [simplified] float_literal_def)
  moreover have "hd (nat_text m) \<noteq> CHR ''-''"
    using is_digit_hd_nat_text [of m] by (auto simp: is_digit_def)
  ultimately show ?thesis by (cases neg) (simp_all add: scan_number_def float_literal_def)
qed

lemma starts_float_literal: "starts_number (float_literal neg m k)"
  by (cases neg) (simp_all add: starts_number_def float_literal_def)

lemma read_float_literal:
  "plain_float_of_text (float_literal neg m k) =
   (if neg \<and> m = 0 then NegZero else Dyadic (if neg then - int m else int m) k)"
proof -
  have "takeWhile is_digit (nat_text m @ ''.5e'' @ nat_text k) = nat_text m"
    using nat_text_digits by (simp add: takeWhile_append is_digit_def)
  moreover have "dropWhile is_digit (nat_text m @ ''.5e'' @ nat_text k) = ''.5e'' @ nat_text k"
    using nat_text_digits by (simp add: dropWhile_append is_digit_def)
  moreover have "hd (nat_text m) \<noteq> CHR ''-''"
    using is_digit_hd_nat_text [of m] by (auto simp: is_digit_def)
  ultimately show ?thesis
    by (cases neg) (simp_all add: plain_float_of_text_def float_literal_def Let_def)
qed

lemma plain_float_cases:
  assumes "finite_float f"
  obtains neg m k where "plain_float_text f = float_literal neg m k"
    "f = (if neg \<and> m = 0 then NegZero else Dyadic (if neg then - int m else int m) k)"
proof (cases f)
  case (Dyadic n k)
  then show ?thesis
    by (intro that [of "n < 0" "nat \<bar>n\<bar>" k]) (auto simp: plain_float_text_def float_literal_def)
next
  case NegZero
  then show ?thesis
    by (intro that [of True 0 0]) (auto simp: plain_float_text_def float_literal_def)
qed (use assms in auto)

lemma plain_host_ok: "host_ok plain_host"
proof -
  have "reads_float plain_float_text (plain_hooks plain_host) f" if "finite_float f" for f
  proof -
    from plain_float_cases [OF that] obtain neg m k where
      tx: "plain_float_text f = float_literal neg m k"
      and f: "f = (if neg \<and> m = 0 then NegZero else Dyadic (if neg then - int m else int m) k)" .
    have "float_hook (plain_hooks plain_host) (float_literal neg m k) = Inr (JFloat f)"
      by (simp only: plain_hooks_def hooks.simps read_float_literal f plain_host_def host.simps)
    then show ?thesis by (simp add: reads_float_def tx starts_float_literal scan_float_literal)
  qed
  then show ?thesis
    by (simp add: host_ok_def) (simp add: plain_host_def plain_parse_time_def)
qed

text \<open>An engine that matches every row, in order, with equal scores.\<close>

definition plain_engine :: fts_engine where
  "plain_engine =
     \<lparr>fts_rank = (\<lambda>_ rows. Some (map (\<lambda>r. (r, Dyadic 0 0)) rows)), scan_rows = (\<lambda>rows. rows)\<rparr>"

lemma plain_engine_ok: "engine_ok plain_engine"
  by (auto simp: engine_ok_def plain_engine_def)

lemma plain_db_ok [simp]: "sqlite_ok plain_engine plain_host empty_db"
  by (rule sqlite_ok_empty [OF plain_host_ok plain_engine_ok])

end
