(* ===== verification/Storage_Properties.thy ===== *)
theory Storage_Properties
  imports Concrete_Host
begin

text \<open>
  What the SQLite store promises its clients, stated on the adapter's own functions.
\<close>

section \<open>The event log\<close>

lemma find_event_append:
  "find_event i (st\<lparr>st_events := st_events st @ [e]\<rparr>) =
   (case find_event i st of None \<Rightarrow> if ev_id e = i then Some e else None | Some x \<Rightarrow> Some x)"
  by (simp add: find_event_def find_append split: option.split)

lemma sqlite_append_succeeds:
  assumes "host_ok H" "digest_json H (JDict (ev_payload e)) = Inr (ev_digest e)"
    "ev_id e \<notin> er_id ` set (db_events s)"
  shows "sqlite_append_event H n e s =
    (Inr (stored_event_of e (db_event_seq s + 1) (now_utc H n)), snd (sqlite_append_event H n e s))"
proof -
  have "finite_json (JDict (ev_payload e))"
    using assms(2) unfolding digest_json_eq by (metis sum.distinct(1))
  then show ?thesis
    using assms by (simp add: sqlite_append_event_def append_event_row_def canonical_json_eq finite_dumps
        event_read del: finite_json.simps(3))
qed

lemma sqlite_append_again:
  assumes "digest_json H (JDict (ev_payload e)) = Inr (ev_digest e)" "ev_id e \<in> er_id ` set (db_events s)"
  shows "fst (sqlite_append_event H n e s) = Inl (unique_failed ''events.event_id'')"
proof -
  have "finite_json (JDict (ev_payload e))"
    using assms(1) unfolding digest_json_eq by (metis sum.distinct(1))
  then show ?thesis
    using assms by (simp add: sqlite_append_event_def append_event_row_def canonical_json_eq finite_dumps
        ensure_def del: finite_json.simps(3))
qed

text \<open>
  C12: the event log is append-only and faithful. A successful append adds one event at the end,
  under a number above all earlier ones; it is found by its id, with the payload and digest it was
  given; every other lookup is unchanged; and an id that is already there is refused.
\<close>

theorem event_log_append:
  assumes ok: "sqlite_ok E H s" and run: "sqlite_append_event H n e s = (Inr se, s')"
  shows "sqlite_list_events H m None None s' =
      bind_res (sqlite_list_events H m None None s) (\<lambda>old. Inr (old @ [event_canon se])) \<and>
    sqlite_get_event H m (ev_id e) s' = Inr (event_canon se) \<and>
    (\<forall>i. i \<noteq> ev_id e \<longrightarrow> sqlite_get_event H m i s' = sqlite_get_event H m i s) \<and>
    list_all (\<lambda>x. se_seq x < se_seq se) (st_events (sqlite_view H s)) \<and>
    fst (sqlite_append_event H k e s') = Inl (unique_failed ''events.event_id'') \<and>
    ev_digest se = ev_digest e \<and> ev_payload se = ev_payload e \<and>
    digest_json H (JDict (ev_payload e)) = Inr (ev_digest e)"
proof -
  note law = sqlite_append_ok [OF ok run]
  have ok': "sqlite_ok E H s'" and view: "sqlite_view H s' =
      (sqlite_view H s)\<lparr>st_events := st_events (sqlite_view H s) @ [event_canon se]\<rparr>"
    and none: "find_event (ev_id e) (sqlite_view H s) = None"
    and dig: "digest_json H (JDict (ev_payload e)) = Inr (ev_digest e)"
    and seq: "list_all (\<lambda>x. se_seq x < se_seq se) (st_events (sqlite_view H s))"
    using law by blast+
  obtain a t where se: "se = stored_event_of e a t" using law by blast
  have find: "find_event i (sqlite_view H s') =
      (if i = ev_id e then Some (event_canon se) else find_event i (sqlite_view H s))" for i
    by (simp add: view find_event_append none se split: option.split)
  then have "ev_id e \<in> er_id ` set (db_events s')"
    using sqlite_find_event [OF ok'] by (metis option.distinct(1))
  note again = sqlite_append_again [OF dig this]
  have "sqlite_list_events H m None None s' =
      bind_res (sqlite_list_events H m None None s) (\<lambda>old. Inr (old @ [event_canon se]))"
    by (simp add: sqlite_list_events_eq [OF ok] sqlite_list_events_eq [OF ok'] first_rows_def select_def view)
  moreover have "sqlite_get_event H m i s' =
      (if i = ev_id e then Inr (event_canon se) else sqlite_get_event H m i s)" for i
    by (simp add: sqlite_get_event_eq [OF ok] sqlite_get_event_eq [OF ok'] find)
  moreover have "ev_digest se = ev_digest e \<and> ev_payload se = ev_payload e" by (simp add: se)
  ultimately show ?thesis using dig seq again by simp
qed

definition sample_event :: event where
  "sample_event =
     \<lparr>ev_schema = SCHEMA_VERSION, ev_id = ''evt_1'', ev_nonce = ''n'', ev_run = ''r'',
      ev_agent = ''default'', ev_kind = ''note'', ev_payload = [(''b'', JInt 1), (''a'', JNull)],
      ev_digest = projr (digest_json plain_host (JDict [(''b'', JInt 1), (''a'', JNull)])),
      ev_parents = [], ev_created = 0\<rparr>"

lemma sample_event_appends:
  "sqlite_append_event plain_host 5 sample_event empty_db =
     (Inr (stored_event_of sample_event (db_event_seq empty_db + 1) (now_utc plain_host 5)),
      snd (sqlite_append_event plain_host 5 sample_event empty_db))"
  by (rule sqlite_append_succeeds [OF plain_host_ok])
     (simp_all add: sample_event_def digest_json_eq empty_db_def)

theorem event_log_append_witness:
  "sqlite_get_event plain_host 0 ''evt_1'' (snd (sqlite_append_event plain_host 5 sample_event empty_db)) =
   Inr (event_canon (stored_event_of sample_event 1 5))"
  using event_log_append [OF plain_db_ok sample_event_appends, of 0]
  by (simp add: sample_event_def empty_db_def now_utc_def)

section \<open>The record table\<close>

text \<open>
  C13: a stored record is read back as it was written, up to the order of metadata keys, and no
  other record changes. Every write leaves one revision at the end of the trail that names the
  lane the record had before, its lane now, the digest of its content and its full dump; the
  events, receipts and contracts are untouched.
\<close>

theorem memory_upsert_get:
  assumes ok: "sqlite_ok E H s" and claim: "claim_ok r"
    and run: "sqlite_upsert_memory_record H n r operation reason receipt_id event_id s = (Inr r', s')"
  shows "r' = r \<and> sqlite_get_memory_record H m (mem_id r) s' = Inr (memory_canon r) \<and>
    (\<forall>i. i \<noteq> mem_id r \<longrightarrow> sqlite_get_memory_record H m i s' = sqlite_get_memory_record H m i s) \<and>
    (\<exists>v. sqlite_list_memory_revisions H m None s' =
           bind_res (sqlite_list_memory_revisions H m None s) (\<lambda>old. Inr (old @ [v])) \<and>
         revises H r operation
           (case sqlite_get_memory_record H m (mem_id r) s of Inr old \<Rightarrow> Some (mem_lane old) | Inl _ \<Rightarrow> None)
           reason receipt_id event_id v) \<and>
    sqlite_list_events H m None None s' = sqlite_list_events H m None None s \<and>
    sqlite_list_receipts H m None s' = sqlite_list_receipts H m None s \<and>
    sqlite_get_contract H m j s' = sqlite_get_contract H m j s"
proof -
  obtain v where ok': "sqlite_ok E H s'" and r': "r' = r"
    and v: "revises H r operation (map_option mem_lane (st_memory (sqlite_view H s) (mem_id r)))
      reason receipt_id event_id v"
    and view: "sqlite_view H s' = (sqlite_view H s)
      \<lparr>st_memory := (st_memory (sqlite_view H s))(mem_id r \<mapsto> memory_canon r),
       st_revisions := st_revisions (sqlite_view H s) @ [v]\<rparr>"
    using sqlite_upsert_ok [OF ok claim run] by blast
  have before: "(case sqlite_get_memory_record H m (mem_id r) s of Inr old \<Rightarrow> Some (mem_lane old) | Inl _ \<Rightarrow> None) =
      map_option mem_lane (st_memory (sqlite_view H s) (mem_id r))"
    by (cases "st_memory (sqlite_view H s) (mem_id r)") (simp_all add: sqlite_get_memory_eq [OF ok])
  have revs: "sqlite_list_memory_revisions H m None s' =
      bind_res (sqlite_list_memory_revisions H m None s) (\<lambda>old. Inr (old @ [v]))"
    by (simp add: sqlite_list_revisions_eq [OF ok] sqlite_list_revisions_eq [OF ok'] view select_def)
  have "sqlite_list_events H m None None s' = sqlite_list_events H m None None s"
    "sqlite_list_receipts H m None s' = sqlite_list_receipts H m None s"
    "sqlite_get_contract H m j s' = sqlite_get_contract H m j s"
    by (simp_all add: sqlite_list_events_eq [OF ok] sqlite_list_events_eq [OF ok'] view
        sqlite_list_receipts_eq [OF ok] sqlite_list_receipts_eq [OF ok']
        sqlite_get_contract_eq [OF ok] sqlite_get_contract_eq [OF ok'])
  moreover have "sqlite_get_memory_record H m i s' =
      (if i = mem_id r then Inr (memory_canon r) else sqlite_get_memory_record H m i s)" for i
    by (simp add: sqlite_get_memory_eq [OF ok] sqlite_get_memory_eq [OF ok'] view)
  ultimately show ?thesis using r' revs v before by auto
qed

definition sample_memory :: memory where
  "sample_memory =
     \<lparr>mem_schema = SCHEMA_VERSION, mem_id = ''mem_1'', mem_update = ''upd_1'', mem_lane = RAW,
      mem_claim = ''c'', mem_sources = [''evt_1''], mem_evidence = [], mem_supersedes = [],
      mem_contradicts = [], mem_contract = None, mem_receipt = None, mem_reason = [],
      mem_metadata = [(''b'', JInt 1), (''a'', JNull)], mem_created = 3, mem_updated = 4\<rparr>"

lemma sample_memory_ok: "claim_ok sample_memory"
  by (simp add: claim_ok_def sample_memory_def strip_def is_space_def)

lemma sqlite_upsert_succeeds:
  assumes "sqlite_ok E H s" "finite_json (JDict (mem_metadata r))" "db_revisions s = []"
  shows "sqlite_upsert_memory_record H n r operation reason receipt_id event_id s =
    (Inr r, snd (sqlite_upsert_memory_record H n r operation reason receipt_id event_id s))"
proof -
  obtain v where v: "revision_create H n r operation
      (map_option mem_lane (st_memory (sqlite_view H s) (mem_id r))) reason
      (or_opt receipt_id (mem_receipt r)) event_id = Inr v"
    using assms(2) by (simp add: revision_create_def Let_def content_digest_def content_seed_def
        digest_json_eq id32_def revision_seed_def opt_lane_json_def)
  have rec: "rev_record v = memory_dump H r" using revision_create_Inr [OF v] by blast
  have "\<exists>b. canonical_json H (JDict (memory_body r)) = Inr b"
    using assms(2) by (simp add: canonical_json_eq memory_body_def)
  then obtain b where "canonical_json H (JDict (memory_body r)) = Inr b" by blast
  moreover have "\<exists>b. canonical_json H (JDict (memory_dump H r)) = Inr b"
    using assms(2) by (simp only: canonical_json_eq finite_dumps if_True) blast
  then obtain c where "canonical_json H (JDict (memory_dump H r)) = Inr c" by blast
  moreover have "\<exists>b. canonical_json H (JDict (revision_dump H v)) = Inr b"
    using assms(2) by (simp only: canonical_json_eq finite_dumps rec if_True) blast
  then obtain d where "canonical_json H (JDict (revision_dump H v)) = Inr d" by blast
  ultimately show ?thesis
    using v assms(3)
    by (simp add: sqlite_upsert_memory_record_def upsert_memory_rows_def sqlite_existing_lane [OF assms(1)])
qed

theorem memory_upsert_get_witness:
  "sqlite_get_memory_record plain_host 0 ''mem_1''
     (snd (sqlite_upsert_memory_record plain_host 5 sample_memory WRITE [] None None empty_db)) =
   Inr (memory_canon sample_memory)"
proof -
  have "finite_json (JDict (mem_metadata sample_memory))" "db_revisions empty_db = []"
    by (simp_all add: sample_memory_def empty_db_def)
  from memory_upsert_get [OF plain_db_ok sample_memory_ok
      sqlite_upsert_succeeds [OF plain_db_ok this, of 5 WRITE "[]" None None], of 0]
  have "sqlite_get_memory_record plain_host 0 (mem_id sample_memory)
      (snd (sqlite_upsert_memory_record plain_host 5 sample_memory WRITE [] None None empty_db)) =
    Inr (memory_canon sample_memory)" by blast
  then show ?thesis by (simp add: sample_memory_def)
qed

end
