(* ===== verification/Checkers.thy ===== *)
theory Checkers
  imports Storage_Port
begin

text \<open>
  The promotion checkers (\<open>adapters/jsonschema_checker.py\<close>, \<open>adapters/semantic_checkers.py\<close>)
  and the receipt verifier (\<open>adapters/receipt_verifier.py\<close>). A checker looks at a candidate,
  an evidence dictionary and a context and returns a result, or raises.
\<close>

section \<open>The checker port\<close>

text \<open>The \<open>action_intent\<close> entry of a context is an object or raw JSON.\<close>

datatype action_entry = NoIntent | Intent intent | RawIntent json

record check_context =
  ctx_intent :: action_entry
  ctx_values :: dict

type_synonym checker = "nat \<Rightarrow> memory \<Rightarrow> dict \<Rightarrow> check_context \<Rightarrow> check res"

definition context_get :: "check_context \<Rightarrow> string \<Rightarrow> json" where
  "context_get ctx k = get_or (ctx_values ctx) k JNull"

text \<open>\<open>_action_intent_from_context\<close> of the checkers: other JSON is no intent.\<close>

definition checker_intent :: "host \<Rightarrow> check_context \<Rightarrow> intent option res" where
  "checker_intent H ctx =
     (case ctx_intent ctx of
        NoIntent \<Rightarrow> Inr None
      | Intent a \<Rightarrow> Inr (Some a)
      | RawIntent (JDict d) \<Rightarrow> bind_res (intent_of_dict H d) (\<lambda>a. Inr (Some a))
      | RawIntent _ \<Rightarrow> Inr None)"

definition passed_check :: "string \<Rightarrow> check" where
  "passed_check nm = check_result nm True [] []"

definition failed_check :: "string \<Rightarrow> string \<Rightarrow> check" where
  "failed_check nm reason = check_result nm False reason []"

definition mismatch_check :: "string \<Rightarrow> string \<Rightarrow> json \<Rightarrow> json \<Rightarrow> check" where
  "mismatch_check nm reason expected observed =
     check_result nm False reason [(''expected'', expected), (''observed'', observed)]"

section \<open>Candidate schema\<close>

definition candidate_schema_ok :: "memory \<Rightarrow> bool" where
  "candidate_schema_ok r \<longleftrightarrow>
     starts_with ''mem_'' (mem_id r) \<and> starts_with ''upd_'' (mem_update r) \<and>
     mem_lane r \<in> {CANDIDATE, SHADOW} \<and> mem_claim r \<noteq> [] \<and>
     mem_sources r \<noteq> [] \<and> list_all (starts_with ''evt_'') (mem_sources r)"

definition candidate_schema_checker :: "host \<Rightarrow> checker" where
  "candidate_schema_checker H n candidate evidence ctx =
     (let nm = ''candidate-schema'' in
      if \<not> candidate_schema_ok candidate
      then Inr (failed_check nm (schema_messages H (JDict (memory_dump H candidate))))
      else if mem_lane candidate \<notin> {CANDIDATE, SHADOW}
      then Inr (failed_check nm (''candidate lane required, got '' @ lane_value (mem_lane candidate)))
      else Inr (passed_check nm))"

section \<open>Input set\<close>

definition str_values :: "dict \<Rightarrow> bool" where
  "str_values d \<longleftrightarrow> list_all (\<lambda>p. is_str (snd p)) d"

definition input_set_checker :: "host \<Rightarrow> checker" where
  "input_set_checker H n candidate evidence ctx =
     (let nm = ''input-set''; expected = mem_sources candidate in
      if \<not> distinct expected
      then Inr (failed_check nm ''candidate source_event_ids must be unique'')
      else case get_or evidence ''input_event_ids'' JNull of
        JList items \<Rightarrow>
          (if map (py_str H) items \<noteq> expected
           then Inr (failed_check nm ''InputSet event ids must exactly match candidate source_event_ids'')
           else
             let missing = get_or (ctx_values ctx) ''missing_source_event_ids'' (JList []) in
             if truthy missing
             then Inr (failed_check nm (''source events are not available in storage: '' @ py_str H missing))
             else case get_or evidence ''input_event_digests'' JNull of
               JDict digests \<Rightarrow>
                 (if \<not> str_values digests
                  then Inr (failed_check nm ''input_event_digests must map event ids to digest strings'')
                  else if fst ` set digests \<noteq> set expected
                  then Inr (failed_check nm ''InputSet digest ids must exactly match candidate source_event_ids'')
                  else case context_get ctx ''actual_event_digests'' of
                    JDict actual \<Rightarrow>
                      (if \<not> str_values actual
                       then Inr (failed_check nm ''authoritative event digests must map event ids to digest strings'')
                       else if fst ` set actual \<noteq> set expected
                       then Inr (failed_check nm
                         ''authoritative digest ids must exactly match candidate source_event_ids'')
                       else
                         let mismatched = filter (\<lambda>i. map_of digests i \<noteq> map_of actual i) expected in
                         if mismatched \<noteq> []
                         then Inr (failed_check nm
                           (''InputSet digest mismatch for source events: '' @ repr_strs mismatched))
                         else Inr (passed_check nm))
                  | _ \<Rightarrow> Inr (failed_check nm ''missing authoritative event digest context''))
             | _ \<Rightarrow> Inr (failed_check nm ''missing input_event_digests evidence''))
      | _ \<Rightarrow> Inr (failed_check nm ''missing input_event_ids evidence''))"

section \<open>Digests\<close>

definition candidate_digest_checker :: "host \<Rightarrow> checker" where
  "candidate_digest_checker H n candidate evidence ctx =
     (let nm = ''digest''; observed = get_or evidence ''candidate_digest'' JNull in
      bind_res (content_digest H candidate) (\<lambda>expected.
      if observed \<noteq> JStr expected
      then Inr (mismatch_check nm ''candidate_digest mismatch or missing'' (JStr expected) observed)
      else bind_res (compute_update_id H (mem_id candidate) expected) (\<lambda>expected_update_id.
        if mem_update candidate \<noteq> expected_update_id
        then Inr (mismatch_check nm ''candidate update_id mismatch'' (JStr expected_update_id)
          (JStr (mem_update candidate)))
        else Inr (passed_check nm))))"

definition evidence_manifest_checker :: "host \<Rightarrow> checker" where
  "evidence_manifest_checker H n candidate evidence ctx =
     (let nm = ''evidence-manifest'' in
      case manifest_of_dict H n evidence of
        Inl (ValidationError _) \<Rightarrow>
          Inr (failed_check nm (''invalid evidence manifest: '' @ manifest_message H (JDict evidence)))
      | Inl e \<Rightarrow> Inl e
      | Inr m \<Rightarrow>
          if evm_candidate m \<noteq> mem_id candidate
          then Inr (failed_check nm ''evidence manifest candidate_id does not match candidate'')
          else if evm_update m \<noteq> mem_update candidate
          then Inr (failed_check nm ''evidence manifest candidate_update_id does not match candidate'')
          else bind_res (content_digest H candidate) (\<lambda>content.
            if evm_content m \<noteq> content
            then Inr (mismatch_check nm ''evidence manifest candidate_digest mismatch'' (JStr content)
              (JStr (evm_content m)))
            else bind_res (digest_json H (JDict (replay_seed candidate (strs_json (evm_events m))
                (str_map_json (evm_digests m)) content (strs_json (evm_tools m))
                (ints_json (evm_caps m))))) (\<lambda>replay.
              if evm_replay m \<noteq> replay
              then Inr (mismatch_check nm ''evidence manifest replay_digest mismatch'' (JStr replay)
                (JStr (evm_replay m)))
              else bind_res (id32 H ''evm_'' (JDict (manifest_seed candidate (strs_json (evm_events m))
                  (str_map_json (evm_digests m)) content replay))) (\<lambda>i.
                if evm_id m \<noteq> i
                then Inr (mismatch_check nm ''evidence manifest_id mismatch'' (JStr i) (JStr (evm_id m)))
                else Inr (passed_check nm)))))"

section \<open>Resources and tools\<close>

text \<open>\<open>isinstance(value, int)\<close>, which holds of booleans.\<close>

fun int_instance :: "json \<Rightarrow> int option" where
  "int_instance (JInt i) = Some i"
| "int_instance (JBool b) = Some (if b then 1 else 0)"
| "int_instance _ = None"

definition resource_cap_checker :: "int \<Rightarrow> host \<Rightarrow> checker" where
  "resource_cap_checker max_steps H n candidate evidence ctx =
     (let nm = ''resource-caps'';
          evidence_caps = get_or evidence ''resource_caps'' (JDict []) in
      case get_or (mem_metadata candidate) ''resource_caps'' (JDict []) of
        JDict caps \<Rightarrow>
          (if \<not> py_eq evidence_caps (JDict caps)
           then Inr (failed_check nm ''evidence resource_caps must match candidate metadata'')
           else bind_res (checker_intent H ctx) (\<lambda>action.
             if (case action of None \<Rightarrow> False | Some a \<Rightarrow> \<not> py_eq (ints_json (act_caps a)) (JDict caps))
             then Inr (failed_check nm ''action intent resource_caps must match candidate metadata'')
             else
               let contract_caps = context_get ctx ''workflow_contract_resource_caps'';
                   tool_caps = context_get ctx ''tool_resource_caps'' in
               if contract_caps \<noteq> JNull \<and> \<not> py_eq contract_caps (JDict caps)
               then Inr (failed_check nm ''workflow contract resource_caps must match candidate metadata'')
               else if tool_caps \<noteq> JNull \<and> \<not> py_eq tool_caps (JDict caps)
               then Inr (failed_check nm ''tool runtime resource_caps must match candidate metadata'')
               else if (case int_instance (get_or caps ''max_steps'' (JInt 32)) of
                   None \<Rightarrow> True | Some k \<Rightarrow> k < 1 \<or> max_steps < k)
               then Inr (failed_check nm (''max_steps must be between 1 and '' @ int_text max_steps))
               else Inr (passed_check nm)))
      | _ \<Rightarrow> Inr (failed_check nm ''candidate metadata resource_caps must be an object''))"

text \<open>\<open>isinstance(value, list) and all(isinstance(item, str) for item in value)\<close>.\<close>

definition str_list :: "json \<Rightarrow> string list option" where
  "str_list v = (case strs_value v of Inl _ \<Rightarrow> None | Inr xs \<Rightarrow> Some xs)"

definition undeclared_tools :: "host \<Rightarrow> string list \<Rightarrow> json list \<Rightarrow> string list" where
  "undeclared_tools H tools items =
     concat (map (\<lambda>item. case item of
         JDict d \<Rightarrow>
           (let t = get_or d ''tool_name'' JNull
            in if t \<in> JStr ` set tools then [] else [py_str H t])
       | _ \<Rightarrow> []) items)"

definition contract_tools_check :: "string \<Rightarrow> host \<Rightarrow> string list \<Rightarrow> check_context \<Rightarrow> check" where
  "contract_tools_check nm H tools ctx =
     (let contract_tools = context_get ctx ''workflow_contract_tools'' in
      if contract_tools \<noteq> JNull \<and> \<not> py_eq contract_tools (strs_json tools)
      then failed_check nm ''workflow contract tools must match candidate metadata tools''
      else case get_or (ctx_values ctx) ''tool_invocations'' (JList []) of
        JList items \<Rightarrow>
          (let undeclared = undeclared_tools H tools items in
           if undeclared \<noteq> []
           then failed_check nm (''tool invocations are not declared by candidate: '' @ repr_strs undeclared)
           else passed_check nm)
      | _ \<Rightarrow> failed_check nm ''tool_invocations context must be a list'')"

definition declared_tools_checker :: "host \<Rightarrow> checker" where
  "declared_tools_checker H n candidate evidence ctx =
     (let nm = ''declared-tools'' in
      case str_list (get_or (mem_metadata candidate) ''tools'' (JList [])) of
        None \<Rightarrow> Inr (failed_check nm ''candidate metadata tools must be a list of strings'')
      | Some tools \<Rightarrow>
          if \<not> py_eq (get_or evidence ''declared_tools'' JNull) (strs_json tools)
          then Inr (failed_check nm ''evidence declared_tools must match candidate metadata tools'')
          else bind_res (checker_intent H ctx) (\<lambda>action.
            case action of
              Some a \<Rightarrow>
                if act_tool a \<notin> set tools
                then Inr (failed_check nm (''action intent tool is not declared by candidate: '' @ act_tool a))
                else Inr (contract_tools_check nm H tools ctx)
            | None \<Rightarrow> Inr (contract_tools_check nm H tools ctx)))"

section \<open>Deterministic boundary\<close>

lemma size_enumerate [termination_simp]:
  "(i, v) \<in> set (enumerate n vs) \<Longrightarrow> size v < Suc (size_list size vs)"
  by (auto simp: in_set_enumerate_eq less_Suc_eq_le intro!: size_list_estimation' [where x = v])

fun find_float_paths :: "json \<Rightarrow> string \<Rightarrow> string list" where
  "find_float_paths (JFloat f) path = [path @ (if finite_float f then [] else '' (non-finite)'')]"
| "find_float_paths (JDict d) path = concat (map (\<lambda>(k, v). find_float_paths v (path @ ''.'' @ k)) d)"
| "find_float_paths (JList vs) path =
     concat (map (\<lambda>(i, v). find_float_paths v (path @ ''['' @ nat_text i @ '']'')) (enumerate 0 vs))"
| "find_float_paths v path = []"

definition deterministic_boundary_checker :: "host \<Rightarrow> checker" where
  "deterministic_boundary_checker H n candidate evidence ctx =
     (let nm = ''deterministic-boundary'';
          float_paths = find_float_paths (JDict (mem_metadata candidate)) ''candidate.metadata'' @
            find_float_paths (JDict evidence) ''evidence'' in
      if float_paths \<noteq> []
      then Inr (check_result nm False ''decision-critical evidence contains float values''
        [(''float_paths'', strs_json float_paths)])
      else Inr (passed_check nm))"

definition create_default_checkers :: "host \<Rightarrow> checker list" where
  "create_default_checkers H =
     [candidate_schema_checker H, input_set_checker H, evidence_manifest_checker H,
      candidate_digest_checker H, declared_tools_checker H, deterministic_boundary_checker H,
      resource_cap_checker 128 H]"

section \<open>Semantic checkers\<close>

definition evidence_or_context :: "dict \<Rightarrow> check_context \<Rightarrow> string \<Rightarrow> json" where
  "evidence_or_context evidence ctx k =
     (case map_of evidence k of Some v \<Rightarrow> v | None \<Rightarrow> context_get ctx k)"

definition replay_success_checker :: checker where
  "replay_success_checker n candidate evidence ctx =
     (let nm = ''replay-success'' in
      if evidence_or_context evidence ctx ''replay_success'' \<noteq> JBool True
      then Inr (failed_check nm ''replay_success must be explicitly true'')
      else Inr (passed_check nm))"

text \<open>One invocation of the trace: \<open>None\<close> when it is in order.\<close>

definition invocation_failure :: "host \<Rightarrow> string list \<Rightarrow> nat \<Rightarrow> json \<Rightarrow> check option res" where
  "invocation_failure H declared index invocation =
     (let nm = ''tool-trace''; label = ''tool invocation '' @ nat_text index in
      case invocation of
        JDict d \<Rightarrow>
          (let tool_name = get_or d ''tool_name'' JNull in
           if \<not> (is_str tool_name \<and> tool_name \<in> JStr ` set declared)
           then Inr (Some (failed_check nm (label @ '' is undeclared: '' @ py_str H tool_name)))
           else
             let args_digest = get_or d ''args_digest'' JNull in
             if args_digest = JNull then Inr None
             else case (args_digest, get_or d ''arguments'' JNull) of
               (JStr a, JDict arguments) \<Rightarrow>
                 bind_res (digest_json H (JDict arguments)) (\<lambda>observed.
                   if observed \<noteq> a
                   then Inr (Some (mismatch_check nm (label @ '' args_digest mismatch'') (JStr a) (JStr observed)))
                   else Inr None)
             | _ \<Rightarrow> Inr (Some (failed_check nm (label @ '' needs arguments with args_digest''))))
      | _ \<Rightarrow> Inr (Some (failed_check nm (label @ '' must be an object''))))"

fun check_invocations :: "host \<Rightarrow> string list \<Rightarrow> nat \<Rightarrow> json list \<Rightarrow> check res" where
  "check_invocations H declared index [] = Inr (passed_check ''tool-trace'')"
| "check_invocations H declared index (v # vs) =
     bind_res (invocation_failure H declared index v) (\<lambda>failure.
       case failure of
         Some c \<Rightarrow> Inr c
       | None \<Rightarrow> check_invocations H declared (Suc index) vs)"

definition tool_trace_checker :: "host \<Rightarrow> checker" where
  "tool_trace_checker H n candidate evidence ctx =
     (case str_list (get_or (mem_metadata candidate) ''tools'' (JList [])) of
        None \<Rightarrow> Inr (failed_check ''tool-trace'' ''candidate metadata tools must be a list of strings'')
      | Some declared \<Rightarrow>
          (case evidence_or_context evidence ctx ''tool_invocations'' of
             JList invocations \<Rightarrow>
               if invocations = []
               then Inr (failed_check ''tool-trace'' ''tool_invocations evidence must be a non-empty list'')
               else check_invocations H declared 0 invocations
           | _ \<Rightarrow> Inr (failed_check ''tool-trace'' ''tool_invocations evidence must be a non-empty list'')))"

definition domain_invariant_checker :: "string list \<Rightarrow> checker" where
  "domain_invariant_checker required_invariants n candidate evidence ctx =
     (let nm = ''domain-invariant'' in
      case evidence_or_context evidence ctx ''invariant_results'' of
        JDict results \<Rightarrow>
          (let missing = filter (\<lambda>i. get_or results i JNull \<noteq> JBool True) required_invariants in
           if missing \<noteq> []
           then Inr (failed_check nm (''required invariants did not pass: '' @ repr_strs missing))
           else Inr (passed_check nm))
      | _ \<Rightarrow> Inr (failed_check nm ''invariant_results must be an object mapping labels to booleans''))"

section \<open>Receipt verification\<close>

text \<open>
  \<open>DefaultReceiptVerifier.verify_receipt\<close>; the \<open>candidate\<close> entry of its context is
  \<open>None\<close> when it is absent or not a memory record.
\<close>

type_synonym receipt_verifier = "receipt \<Rightarrow> manifest \<Rightarrow> memory option \<Rightarrow> check res"

definition default_receipt_verifier :: "host \<Rightarrow> receipt_verifier" where
  "default_receipt_verifier H rcp evidence context_candidate =
     (let nm = ''default-receipt'' in
      case context_candidate of
        None \<Rightarrow> Inr (failed_check nm ''receipt verification requires candidate context'')
      | Some candidate \<Rightarrow>
          if rcp_candidate rcp \<noteq> mem_id candidate
          then Inr (failed_check nm ''receipt candidate_id does not match candidate'')
          else if rcp_update rcp \<noteq> mem_update candidate
          then Inr (failed_check nm ''receipt candidate_update_id does not match current candidate'')
          else if evm_candidate evidence \<noteq> rcp_candidate rcp
          then Inr (failed_check nm ''manifest candidate_id does not match receipt'')
          else if evm_update evidence \<noteq> rcp_update rcp
          then Inr (failed_check nm ''manifest candidate_update_id does not match receipt'')
          else if evm_id evidence \<notin> set (rcp_refs rcp)
          then Inr (failed_check nm ''receipt does not reference evidence manifest'')
          else if (case rcp_action rcp of None \<Rightarrow> False | Some a \<Rightarrow> a \<notin> set (rcp_refs rcp))
          then Inr (failed_check nm ''receipt does not reference bound action id'')
          else bind_res (compute_receipt_digest H (rcp_candidate rcp) (rcp_update rcp) (rcp_action rcp)
              (rcp_profile rcp) (rcp_checks rcp) (rcp_result rcp) (rcp_refs rcp)) (\<lambda>expected.
            if rcp_digest rcp \<noteq> expected
            then Inr (mismatch_check nm ''receipt_digest mismatch'' (JStr expected) (JStr (rcp_digest rcp)))
            else Inr (passed_check nm)))"

end
