(* ===== verification/Promotion.thy ===== *)
theory Promotion
  imports Checkers
begin

text \<open>
  The promotion pipeline (\<open>runtime/promotion.py\<close>) over any storage port: evidence,
  verification, promotion and the events they append. The state is the store together with the
  number of the next draw from the clock and the random source.
\<close>

section \<open>The state of a running process\<close>

record 's world =
  w_tick :: nat
  w_store :: 's

definition draw :: "('s world, nat) io" where
  "draw w = (Inr (w_tick w), w\<lparr>w_tick := w_tick w + 2\<rparr>)"

definition reads :: "(nat \<Rightarrow> 's \<Rightarrow> 'a res) \<Rightarrow> ('s world, 'a) io" where
  "reads f w = (f (w_tick w) (w_store w), w)"

definition writes :: "(nat \<Rightarrow> ('s, 'a) io) \<Rightarrow> ('s world, 'a) io" where
  "writes f w =
     (case f (w_tick w) (w_store w) of
        (r, s) \<Rightarrow> (r, w\<lparr>w_tick := w_tick w + 2, w_store := s\<rparr>))"

text \<open>\<open>str(value or default)\<close>.\<close>

definition str_or :: "host \<Rightarrow> json \<Rightarrow> string \<Rightarrow> string" where
  "str_or H v d = (if truthy v then py_str H v else d)"

text \<open>\<open>Event.create(...)\<close> followed by \<open>storage.append_event\<close>.\<close>

definition store_event ::
  "'s storage_port \<Rightarrow> host \<Rightarrow> string \<Rightarrow> dict \<Rightarrow> string \<Rightarrow> string list \<Rightarrow> ('s world, stored_event) io"
where
  "store_event P H kind payload run_id parents =
     bind_io draw (\<lambda>n.
     bind_io (lift (event_create H n kind payload run_id parents)) (\<lambda>e.
     writes (\<lambda>n. append_event P n e)))"

definition save_memory ::
  "'s storage_port \<Rightarrow> memory \<Rightarrow> memory_operation \<Rightarrow> string \<Rightarrow> string option \<Rightarrow> string option \<Rightarrow> ('s world, memory) io"
where
  "save_memory P r operation reason receipt_id event_id =
     writes (\<lambda>n. upsert_memory_record P n r operation reason receipt_id event_id)"

definition load_memory :: "'s storage_port \<Rightarrow> string \<Rightarrow> ('s world, memory) io" where
  "load_memory P i = reads (\<lambda>n. get_memory_record P n i)"

text \<open>\<open>record.moved(...)\<close>, which draws the time.\<close>

definition move_to :: "host \<Rightarrow> lane \<Rightarrow> string \<Rightarrow> string option \<Rightarrow> memory \<Rightarrow> ('s world, memory) io" where
  "move_to H l reason receipt_id r = bind_io draw (\<lambda>n. lift (moved H n l reason receipt_id r))"

section \<open>Evidence\<close>

fun collect_event_digests ::
  "'s storage_port \<Rightarrow> string list \<Rightarrow> (string \<times> string) list \<Rightarrow> string list \<Rightarrow>
   ('s world, (string \<times> string) list \<times> string list) io"
where
  "collect_event_digests P [] digests missing = ret (digests, missing)"
| "collect_event_digests P (i # is) digests missing = (\<lambda>w.
     case get_event P (w_tick w) i (w_store w) of
       Inr e \<Rightarrow> collect_event_digests P is (put i (ev_digest e) digests) missing w
     | Inl err \<Rightarrow>
         if is_not_found err then collect_event_digests P is digests (missing @ [i]) w
         else (Inl err, w))"

definition build_evidence :: "'s storage_port \<Rightarrow> host \<Rightarrow> memory \<Rightarrow> ('s world, dict) io" where
  "build_evidence P H candidate =
     bind_io (collect_event_digests P (mem_sources candidate) [] []) (\<lambda>(digests, _).
     bind_io (lift (metadata_list candidate ''tools'')) (\<lambda>tools.
     bind_io (lift (py_dict (get_or (mem_metadata candidate) ''resource_caps'' (JDict [])))) (\<lambda>caps.
     bind_io draw (\<lambda>n.
     bind_io (lift (manifest_create H n candidate (mem_sources candidate) digests tools caps)) (\<lambda>m.
     bind_io (writes (\<lambda>_. create_evidence_manifest P m)) (\<lambda>_.
     ret (manifest_dump H m)))))))"

text \<open>\<open>_action_intent_from_context\<close> of the pipeline: other JSON is refused.\<close>

definition pipeline_intent :: "host \<Rightarrow> check_context \<Rightarrow> intent option res" where
  "pipeline_intent H ctx =
     (case ctx_intent ctx of
        NoIntent \<Rightarrow> Inr None
      | Intent a \<Rightarrow> Inr (Some a)
      | RawIntent (JDict d) \<Rightarrow> bind_res (intent_of_dict H d) (\<lambda>a. Inr (Some a))
      | RawIntent _ \<Rightarrow> Inl (FailClosedError ''action_intent context must be an ActionIntent or mapping''))"

definition memory_ref :: "host \<Rightarrow> memory \<Rightarrow> dict res" where
  "memory_ref H r =
     bind_res (content_digest H r) (\<lambda>content. Inr
       [(''memory_id'', JStr (mem_id r)), (''update_id'', JStr (mem_update r)),
        (''content_digest'', JStr content)])"

definition check_summary :: "check \<Rightarrow> json" where
  "check_summary c = JDict [(''checker_name'', JStr (chk_name c)), (''passed'', JBool (chk_passed c)),
     (''reason'', JStr (chk_reason c))]"

definition evidence_str :: "host \<Rightarrow> dict \<Rightarrow> string \<Rightarrow> string" where
  "evidence_str H evidence k = py_str H (get_or evidence k (JStr []))"

definition append_verify_event ::
  "'s storage_port \<Rightarrow> host \<Rightarrow> memory \<Rightarrow> receipt \<Rightarrow> dict \<Rightarrow> ('s world, unit) io"
where
  "append_verify_event P H candidate rcp evidence =
     bind_io (lift (memory_ref H candidate)) (\<lambda>mref.
     bind_io (store_event P H ''memory_verify''
       [(''operation'', JStr ''verify''), (''memory_ids'', strs_json [mem_id candidate]),
        (''memory_refs'', JList [JDict mref]),
        (''details'', JDict
          [(''receipt_id'', JStr (rcp_id rcp)), (''verification_id'', JStr (rcp_verification rcp)),
           (''receipt_digest'', JStr (rcp_digest rcp)),
           (''result'', JStr (outcome_value (rcp_result rcp))),
           (''checks'', JList (map check_summary (rcp_checks rcp))),
           (''evidence_refs'', strs_json
             [evidence_str H evidence ''manifest_id'', evidence_str H evidence ''replay_digest''])])]
       (str_or H (get_or (mem_metadata candidate) ''run_id'' JNull) ''verification'')
       (mem_sources candidate)) (\<lambda>_. ret ()))"

definition append_promote_event ::
  "'s storage_port \<Rightarrow> host \<Rightarrow> memory \<Rightarrow> receipt \<Rightarrow> contract \<Rightarrow> ('s world, unit) io"
where
  "append_promote_event P H r rcp c =
     bind_io (lift (memory_ref H r)) (\<lambda>mref.
     bind_io (store_event P H ''memory_promote''
       [(''operation'', JStr ''promote''), (''memory_ids'', strs_json [mem_id r]),
        (''memory_refs'', JList [JDict mref]),
        (''details'', JDict
          [(''receipt_id'', JStr (rcp_id rcp)), (''verification_id'', JStr (rcp_verification rcp)),
           (''receipt_digest'', JStr (rcp_digest rcp)), (''workflow_contract_id'', JStr (wfc_id c)),
           (''supersedes'', strs_json (mem_supersedes r))])]
       (str_or H (get_or (mem_metadata r) ''run_id'' JNull) ''promotion'')
       (mem_sources r)) (\<lambda>_. ret ()))"

section \<open>Verification\<close>

definition failure_reasons :: "check list \<Rightarrow> string" where
  "failure_reasons checks = join ''; '' (map chk_reason (filter (\<lambda>c. \<not> chk_passed c) checks))"

definition with_authority ::
  "check_context \<Rightarrow> (string \<times> string) list \<Rightarrow> string list \<Rightarrow> check_context"
where
  "with_authority ctx digests missing =
     ctx\<lparr>ctx_values := put ''missing_source_event_ids'' (strs_json missing)
       (put ''actual_event_digests'' (str_map_json digests) (ctx_values ctx))\<rparr>"

definition run_checkers ::
  "checker list \<Rightarrow> memory \<Rightarrow> dict \<Rightarrow> check_context \<Rightarrow> ('s world, check list) io"
where
  "run_checkers checkers candidate evidence ctx =
     reads (\<lambda>n _. map_res (\<lambda>c. c n candidate evidence ctx) checkers)"

definition shadow_reason :: string where
  "shadow_reason = ''verified in shadow lane; promotion still requires explicit promote''"

text \<open>The move to shadow or quarantine that ends a verification.\<close>

definition settle_candidate ::
  "'s storage_port \<Rightarrow> host \<Rightarrow> memory \<Rightarrow> receipt \<Rightarrow> check list \<Rightarrow> ('s world, memory) io"
where
  "settle_candidate P H candidate rcp checks =
     (let (l, reason) = (if rcp_result rcp \<noteq> Passed then (QUARANTINE, failure_reasons checks)
        else (SHADOW, shadow_reason)) in
      bind_io (move_to H l reason (Some (rcp_id rcp)) candidate) (\<lambda>r.
      save_memory P r VERIFY reason (Some (rcp_id rcp)) None))"

definition verify_candidate ::
  "'s storage_port \<Rightarrow> host \<Rightarrow> checker list \<Rightarrow> profile \<Rightarrow> string \<Rightarrow> dict option \<Rightarrow> check_context \<Rightarrow>
   ('s world, receipt) io"
where
  "verify_candidate P H checkers prof candidate_id evidence context =
     (if checkers = [] then throw (FailClosedError ''verification requires a nonempty checker set'')
      else
        bind_io (load_memory P candidate_id) (\<lambda>candidate.
        bind_io (collect_event_digests P (mem_sources candidate) [] []) (\<lambda>(digests, missing).
        let ctx = with_authority context digests missing in
        bind_io (case evidence of Some d \<Rightarrow> ret d | None \<Rightarrow> build_evidence P H candidate) (\<lambda>supplied.
        bind_io (lift (pipeline_intent H ctx)) (\<lambda>action.
        let bound_action_id = map_option act_id action in
        bind_io (run_checkers checkers candidate supplied ctx) (\<lambda>checks.
        let refs = [evidence_str H supplied ''manifest_id'', evidence_str H supplied ''replay_digest''] @
          (case bound_action_id of None \<Rightarrow> [] | Some a \<Rightarrow> [a]) in
        bind_io draw (\<lambda>n.
        bind_io (lift (receipt_create H n candidate prof checks refs bound_action_id)) (\<lambda>rcp.
        bind_io (writes (\<lambda>_. create_receipt P rcp)) (\<lambda>_.
        bind_io (append_verify_event P H candidate rcp supplied) (\<lambda>_.
        bind_io (settle_candidate P H candidate rcp checks) (\<lambda>_.
        ret rcp)))))))))))"

section \<open>Promotion\<close>

definition passing_receipt :: "memory \<Rightarrow> receipt \<Rightarrow> bool" where
  "passing_receipt candidate rcp \<longleftrightarrow>
     rcp_result rcp = Passed \<and> rcp_checks rcp \<noteq> [] \<and> list_all chk_passed (rcp_checks rcp) \<and>
     rcp_update rcp = mem_update candidate"

definition promoted_reason :: string where
  "promoted_reason = ''promoted with passing receipt''"

definition certified_record :: "host \<Rightarrow> nat \<Rightarrow> memory \<Rightarrow> receipt \<Rightarrow> contract \<Rightarrow> memory res" where
  "certified_record H n candidate rcp c =
     mk_memory (candidate\<lparr>mem_lane := CERTIFIED, mem_contract := Some (wfc_id c),
       mem_receipt := Some (rcp_id rcp), mem_reason := promoted_reason, mem_updated := now_utc H n\<rparr>)"

definition supersede_one ::
  "'s storage_port \<Rightarrow> host \<Rightarrow> memory \<Rightarrow> receipt \<Rightarrow> string \<Rightarrow> ('s world, unit) io"
where
  "supersede_one P H candidate rcp superseded_id =
     (let reason = ''superseded by '' @ mem_id candidate in
      bind_io (load_memory P superseded_id) (\<lambda>old.
      bind_io (lift (assert_transition_allowed (mem_lane old) SUPERSEDED)) (\<lambda>_.
      bind_io (move_to H SUPERSEDED reason (Some (rcp_id rcp)) old) (\<lambda>r.
      bind_io (save_memory P r REPLACE reason (Some (rcp_id rcp)) None) (\<lambda>_. ret ())))))"

text \<open>The rest of \<open>promote\<close> once a passing receipt has been chosen.\<close>

definition promote_with_receipt ::
  "'s storage_port \<Rightarrow> host \<Rightarrow> memory \<Rightarrow> receipt \<Rightarrow> ('s world, memory) io"
where
  "promote_with_receipt P H candidate rcp =
     bind_io (lift (assert_transition_allowed (mem_lane candidate) CERTIFIED)) (\<lambda>_.
     bind_io draw (\<lambda>n.
     bind_io (lift (contract_from_candidate H n candidate rcp)) (\<lambda>c.
     bind_io (writes (\<lambda>_. create_contract P c)) (\<lambda>_.
     bind_io draw (\<lambda>k.
     bind_io (lift (certified_record H k candidate rcp c)) (\<lambda>certified.
     bind_io (save_memory P certified PROMOTE promoted_reason (Some (rcp_id rcp)) None) (\<lambda>stored.
     bind_io (for_each (supersede_one P H candidate rcp) (mem_supersedes candidate)) (\<lambda>_.
     bind_io (append_promote_event P H stored rcp c) (\<lambda>_.
     ret stored)))))))))"

definition promote_candidate :: "'s storage_port \<Rightarrow> host \<Rightarrow> string \<Rightarrow> ('s world, memory) io" where
  "promote_candidate P H candidate_id =
     bind_io (load_memory P candidate_id) (\<lambda>candidate.
     bind_io (reads (\<lambda>n. list_receipts P n (Some candidate_id))) (\<lambda>receipts.
     let passing = filter (passing_receipt candidate) receipts in
     if passing = []
     then throw (FailClosedError ''promotion requires a passing receipt for this candidate update'')
     else promote_with_receipt P H candidate (last passing)))"

end
