(* ===== verification/Action_Gate.thy ===== *)
theory Action_Gate
  imports Promotion
begin

text \<open>
  The action gate (\<open>runtime/action_gate.py\<close>), the tool port with the local adapter
  (\<open>ports/tools.py\<close>, \<open>adapters/local_tools.py\<close>) and the model provider port with
  the mock provider (\<open>ports/llm.py\<close>, \<open>adapters/mock_llm.py\<close>).
\<close>

section \<open>The gate\<close>

definition detail_or :: "string \<Rightarrow> string \<Rightarrow> error" where
  "detail_or reason d = FailClosedError (if reason = [] then d else reason)"

definition receipt_passes :: "receipt \<Rightarrow> bool" where
  "receipt_passes rcp \<longleftrightarrow>
     rcp_result rcp = Passed \<and> rcp_checks rcp \<noteq> [] \<and> list_all chk_passed (rcp_checks rcp)"

definition intent_id :: "host \<Rightarrow> intent \<Rightarrow> string res" where
  "intent_id H a =
     id32 H ''act_'' (JDict (action_seed (act_tool a) (act_effect a) (act_args a) (act_caps a)))"

definition ensure_allowed ::
  "host \<Rightarrow> bool \<Rightarrow> bool \<Rightarrow> receipt list \<Rightarrow> intent option \<Rightarrow> string \<Rightarrow> unit res"
where
  "ensure_allowed H strict external_effects receipts intent_opt reason =
     (if \<not> external_effects then Inr ()
      else if \<not> strict then Inr ()
      else case intent_opt of
        None \<Rightarrow> Inl (detail_or reason ''external effects require an action intent'')
      | Some a \<Rightarrow>
          if receipts = []
          then Inl (detail_or reason ''external effects require action-bound passing receipts'')
          else bind_res (intent_id H a) (\<lambda>expected.
            if act_id a \<noteq> expected
            then Inl (FailClosedError ''action intent identity does not bind its current fields'')
            else case find (\<lambda>r. \<not> receipt_passes r) receipts of
              Some r \<Rightarrow> Inl (detail_or reason (''receipt did not pass: '' @ rcp_id r))
            | None \<Rightarrow>
                let matching = (case act_receipt a of
                    None \<Rightarrow> receipts | Some i \<Rightarrow> filter (\<lambda>r. rcp_id r = i) receipts) in
                if act_receipt a \<noteq> None \<and> matching = []
                then Inl (detail_or reason ''required receipt was not supplied'')
                else if \<exists>r \<in> set matching. rcp_action r = Some (act_id a) then Inr ()
                else Inl (detail_or reason
                  ''external effects require a receipt bound to this action intent'')))"

section \<open>Tools\<close>

record tool_call =
  tc_name :: string
  tc_arguments :: dict
  tc_external :: bool

record tool_result =
  tr_call :: string
  tr_ok :: bool
  tr_output :: dict
  tr_error :: string

text \<open>
  A tool adapter: \<open>authorized_context\<close> is optional. A tool function returns a dictionary or
  raises an exception with a class name and a message.
\<close>

record tool_adapter =
  ta_authorize :: "(dict \<Rightarrow> dict) option"
  ta_invoke :: "tool_call \<Rightarrow> dict \<Rightarrow> tool_result res"

type_synonym tool_fn = "dict \<Rightarrow> dict \<Rightarrow> (string \<times> string) + dict"

record local_tools =
  lt_tools :: "(string \<times> tool_fn) list"
  lt_token :: string

definition local_tools_new :: "host \<Rightarrow> nat \<Rightarrow> local_tools" where
  "local_tools_new H n = \<lparr>lt_tools = [], lt_token = uuid4 H n\<rparr>"

definition register_tool :: "string \<Rightarrow> tool_fn \<Rightarrow> local_tools \<Rightarrow> local_tools" where
  "register_tool nm fn t = t\<lparr>lt_tools := AList.update nm fn (lt_tools t)\<rparr>"

definition authorized_context :: "local_tools \<Rightarrow> dict \<Rightarrow> dict" where
  "authorized_context t context = put ''_oawm_gate_token'' (JStr (lt_token t)) context"

definition local_invoke :: "local_tools \<Rightarrow> tool_call \<Rightarrow> dict \<Rightarrow> tool_result res" where
  "local_invoke t call context =
     (if tc_external call \<and> get_or context ''_oawm_gate_token'' JNull \<noteq> JStr (lt_token t)
      then Inl (FailClosedError ''external-effect tool call blocked by ActionGate'')
      else case map_of (lt_tools t) (tc_name call) of
        None \<Rightarrow> Inr \<lparr>tr_call = tc_name call, tr_ok = False, tr_output = [],
          tr_error = ''unknown tool: '' @ tc_name call\<rparr>
      | Some fn \<Rightarrow>
          (case fn (tc_arguments call) context of
             Inr out \<Rightarrow> Inr \<lparr>tr_call = tc_name call, tr_ok = True, tr_output = out, tr_error = []\<rparr>
           | Inl (cls, msg) \<Rightarrow> Inr \<lparr>tr_call = tc_name call, tr_ok = False, tr_output = [],
               tr_error = cls @ '': '' @ msg\<rparr>))"

definition local_adapter :: "local_tools \<Rightarrow> tool_adapter" where
  "local_adapter t = \<lparr>ta_authorize = Some (authorized_context t), ta_invoke = local_invoke t\<rparr>"

section \<open>Model providers\<close>

record llm_message =
  msg_role :: string
  msg_content :: string

record llm_result =
  llm_content :: string
  llm_model :: "string option"
  llm_usage :: dict
  llm_raw :: dict

type_synonym llm_provider = "llm_message list \<Rightarrow> dict list option \<Rightarrow> string option \<Rightarrow> llm_result res"

definition mock_complete :: "string \<Rightarrow> llm_provider" where
  "mock_complete response_prefix messages tools model =
     (let content = (if messages = [] then [] else msg_content (last messages)) in
      Inr \<lparr>llm_content = response_prefix @ '': '' @ take 500 content,
        llm_model = Some (or_str model ''mock/model''),
        llm_usage = [(''prompt_messages'', JInt (int (length messages)))], llm_raw = []\<rparr>)"

end
