(* ===== verification/Kernel.thy ===== *)
theory Kernel
  imports Action_Gate
begin

text \<open>
  The agent kernel (\<open>runtime/kernel.py\<close>) over its ports: storage, retriever, model
  provider, checkers, proposer, tools and receipt verifier. The default proposer
  (\<open>adapters/deterministic_proposer.py\<close>) and retriever (\<open>adapters/fts_retriever.py\<close>)
  are here too, and the consolidation loop of \<open>runtime/self_improvement.py\<close>.
\<close>

section \<open>Wiring\<close>

record 's kernel =
  k_host :: host
  k_storage :: "'s storage_port"
  k_retriever :: "nat \<Rightarrow> string \<Rightarrow> lane list \<Rightarrow> int \<Rightarrow> 's \<Rightarrow> retrieved list res"
  k_llm :: llm_provider
  k_checkers :: "checker list"
  k_proposer :: "nat \<Rightarrow> stored_event list \<Rightarrow> string \<Rightarrow> memory res"
  k_tools :: tool_adapter
  k_verifier :: receipt_verifier
  k_profile :: string

definition fts_search ::
  "'s storage_port \<Rightarrow> nat \<Rightarrow> string \<Rightarrow> lane list \<Rightarrow> int \<Rightarrow> 's \<Rightarrow> retrieved list res"
where
  "fts_search P n query lane_filter limit s = search_memory P n query lane_filter limit s"

definition strict_profile :: "'s kernel \<Rightarrow> bool" where
  "strict_profile K \<longleftrightarrow> k_profile K = ''strict''"

definition receipt_profile :: "'s kernel \<Rightarrow> profile" where
  "receipt_profile K = (if strict_profile K then Strict else Warn)"

section \<open>The default proposer\<close>

definition event_kinds :: "stored_event list \<Rightarrow> string list" where
  "event_kinds events = remdups (sort (map ev_kind events))"

definition deterministic_propose :: "host \<Rightarrow> nat \<Rightarrow> stored_event list \<Rightarrow> string \<Rightarrow> memory res" where
  "deterministic_propose H n events scope =
     (if events = [] then Inl (ValueError ''cannot propose memory without observable events'')
      else
        let event_ids = map ev_id events; count = length events in
        memory_create H n CANDIDATE
          (''Workflow candidate from '' @ nat_text count @ '' observable event(s): '' @
            join '', '' (event_kinds events))
          event_ids
          [(''scope'', JStr scope), (''steps'', strs_json (map ev_kind events)), (''tools'', JList []),
           (''resource_caps'', JDict [(''max_steps'', JInt (max 1 (min 32 (int count + 1))))]),
           (''input_event_ids'', strs_json event_ids)]
          [] [] [])"

section \<open>Observing\<close>

definition payload_to_claim :: "host \<Rightarrow> string \<Rightarrow> dict \<Rightarrow> string" where
  "payload_to_claim H kind payload =
     kind @ '': '' @
       (case map_of payload ''text'' of Some v \<Rightarrow> py_str H v
        | None \<Rightarrow> case map_of payload ''task'' of Some v \<Rightarrow> py_str H v
        | None \<Rightarrow> case map_of payload ''content'' of Some v \<Rightarrow> py_str H v
        | None \<Rightarrow> py_str H (JDict payload))"

text \<open>\<open>run_id or f"run_{uuid.uuid4().hex[:12]}"\<close>.\<close>

definition actual_run_id :: "'s kernel \<Rightarrow> string option \<Rightarrow> ('s world, string) io" where
  "actual_run_id K run_id =
     bind_io draw (\<lambda>n. ret (or_str run_id (''run_'' @ take 12 (uuid4 (k_host K) n))))"

definition observe ::
  "'s kernel \<Rightarrow> string \<Rightarrow> dict \<Rightarrow> string option \<Rightarrow> string list \<Rightarrow> bool \<Rightarrow> ('s world, stored_event) io"
where
  "observe K kind payload run_id parents index_as_raw =
     bind_io (actual_run_id K run_id) (\<lambda>rid.
     bind_io (store_event (k_storage K) (k_host K) kind payload rid parents) (\<lambda>stored.
     if \<not> index_as_raw then ret stored
     else
       bind_io draw (\<lambda>n.
       bind_io (lift (memory_create (k_host K) n RAW (payload_to_claim (k_host K) kind payload)
         [ev_id stored]
         [(''kind'', JStr kind), (''run_id'', JStr rid), (''obs_seq'', JInt (se_seq stored))]
         [] [] [])) (\<lambda>raw.
       bind_io (save_memory (k_storage K) raw WRITE [] None (Some (ev_id stored))) (\<lambda>_.
       ret stored)))))"

text \<open>\<open>_memory_ref\<close>: an unknown id gets an empty reference.\<close>

definition kernel_memory_ref :: "'s kernel \<Rightarrow> string \<Rightarrow> ('s world, dict) io" where
  "kernel_memory_ref K i = (\<lambda>w.
     case load_memory (k_storage K) i w of
       (Inl e, w') \<Rightarrow>
         (if is_not_found e then Inr [(''memory_id'', JStr i), (''update_id'', JStr []), (''content_digest'', JStr [])]
          else Inl e, w')
     | (Inr r, w') \<Rightarrow> (memory_ref (k_host K) r, w'))"

definition record_memory_operation ::
  "'s kernel \<Rightarrow> memory_operation \<Rightarrow> string \<Rightarrow> string list \<Rightarrow> dict \<Rightarrow> ('s world, stored_event) io"
where
  "record_memory_operation K operation run_id memory_ids details =
     bind_io (map_io (kernel_memory_ref K) memory_ids) (\<lambda>refs.
     observe K (''memory_'' @ operation_value operation)
       [(''operation'', JStr (operation_value operation)), (''memory_ids'', strs_json memory_ids),
        (''memory_refs'', JList (map JDict refs)), (''details'', JDict details)]
       (Some run_id) [] False)"

section \<open>Proposing, verifying, promoting\<close>

definition proposal_tools :: "host \<Rightarrow> string list option \<Rightarrow> json \<Rightarrow> json" where
  "proposal_tools H tools existing =
     (case tools of
        Some ts \<Rightarrow> strs_json ts
      | None \<Rightarrow> (case existing of JList items \<Rightarrow> strs_json (map (py_str H) items) | _ \<Rightarrow> strs_json []))"

definition proposal_caps :: "(string \<times> int) list option \<Rightarrow> json \<Rightarrow> nat \<Rightarrow> json" where
  "proposal_caps resource_caps existing count =
     (case resource_caps of
        Some caps \<Rightarrow> ints_json caps
      | None \<Rightarrow> (case existing of
          JDict d \<Rightarrow> JDict d
        | _ \<Rightarrow> JDict [(''max_steps'', JInt (min 32 (max 1 (int count * 2))))]))"

definition proposal_metadata ::
  "host \<Rightarrow> dict \<Rightarrow> string \<Rightarrow> string \<Rightarrow> string list option \<Rightarrow> (string \<times> int) list option \<Rightarrow>
   string option \<Rightarrow> nat \<Rightarrow> dict"
where
  "proposal_metadata H metadata run_id scope tools resource_caps interface_signature count =
     (let m1 = set_default ''run_id'' (JStr run_id) (set_default ''proposal_scope'' (JStr scope) metadata);
          m2 = put ''interface_signature'' (JStr (or_str interface_signature
                 (py_str H (get_or m1 ''interface_signature'' (JStr ''agent.workflow.v1''))))) m1;
          m3 = put ''tools'' (proposal_tools H tools (get_or m2 ''tools'' (JList []))) m2
      in put ''resource_caps'' (proposal_caps resource_caps (get_or m3 ''resource_caps'' JNull) count) m3)"

definition propose_memory ::
  "'s kernel \<Rightarrow> string \<Rightarrow> string \<Rightarrow> string list option \<Rightarrow> (string \<times> int) list option \<Rightarrow>
   string option \<Rightarrow> ('s world, memory) io"
where
  "propose_memory K run_id scope tools resource_caps interface_signature =
     bind_io (reads (\<lambda>n. list_events (k_storage K) n (Some run_id) None)) (\<lambda>events.
     if events = []
     then throw (FailClosedError (''cannot propose memory without observable events: '' @ run_id))
     else
       bind_io draw (\<lambda>n.
       bind_io (lift (k_proposer K n events scope)) (\<lambda>proposed.
       bind_io draw (\<lambda>k.
       bind_io (lift (memory_create (k_host K) k (mem_lane proposed) (mem_claim proposed)
         (mem_sources proposed)
         (proposal_metadata (k_host K) (mem_metadata proposed) run_id scope tools resource_caps
           interface_signature (length events))
         (mem_evidence proposed) (mem_supersedes proposed) (mem_contradicts proposed))) (\<lambda>candidate.
       save_memory (k_storage K) candidate WRITE (''proposed from run '' @ run_id) None None)))))"

definition verify :: "'s kernel \<Rightarrow> string \<Rightarrow> intent option \<Rightarrow> ('s world, receipt) io" where
  "verify K candidate_id action_intent =
     verify_candidate (k_storage K) (k_host K) (k_checkers K) (receipt_profile K) candidate_id None
       \<lparr>ctx_intent = (case action_intent of None \<Rightarrow> NoIntent | Some a \<Rightarrow> Intent a), ctx_values = []\<rparr>"

definition promote :: "'s kernel \<Rightarrow> string \<Rightarrow> ('s world, memory) io" where
  "promote K candidate_id = promote_candidate (k_storage K) (k_host K) candidate_id"

section \<open>Corrections and contradictions\<close>

definition interface_of :: "host \<Rightarrow> memory \<Rightarrow> json" where
  "interface_of H original =
     JStr (py_str H (get_or (mem_metadata original) ''interface_signature'' (JStr ''agent.workflow.v1'')))"

definition correct_memory ::
  "'s kernel \<Rightarrow> string \<Rightarrow> string \<Rightarrow> string option \<Rightarrow> string list \<Rightarrow> ('s world, memory) io"
where
  "correct_memory K memory_id corrected_claim run_id source_event_ids =
     bind_io (load_memory (k_storage K) memory_id) (\<lambda>original.
     let rid = or_str run_id
       (str_or (k_host K) (get_or (mem_metadata original) ''run_id'' JNull) ''correction'') in
     bind_io (record_memory_operation K CORRECT rid [memory_id]
       [(''corrected_claim'', JStr corrected_claim),
        (''supporting_source_event_ids'', strs_json source_event_ids)]) (\<lambda>event.
     let evidence_event_ids = ev_id event # source_event_ids in
     bind_io draw (\<lambda>n.
     bind_io (lift (memory_create (k_host K) n CANDIDATE corrected_claim evidence_event_ids
       [(''proposal_scope'', JStr ''correction''), (''run_id'', JStr rid),
        (''corrected_from'', JStr memory_id), (''interface_signature'', interface_of (k_host K) original),
        (''resource_caps'', JDict [(''max_steps'',
          JInt (min 32 (max 1 (int (length evidence_event_ids) * 2))))]),
        (''steps'', strs_json [''Correct memory '' @ memory_id,
          ''Verify supporting observable correction events''])]
       [] [memory_id] [])) (\<lambda>candidate.
     save_memory (k_storage K) candidate CORRECT (''correction candidate for '' @ memory_id) None
       (Some (ev_id event))))))"

definition contradict ::
  "'s kernel \<Rightarrow> string \<Rightarrow> string \<Rightarrow> string list \<Rightarrow> string \<Rightarrow> ('s world, memory) io"
where
  "contradict K memory_id claim source_event_ids reason =
     bind_io (load_memory (k_storage K) memory_id) (\<lambda>original.
     bind_io (record_memory_operation K CORRECT
       (str_or (k_host K) (get_or (mem_metadata original) ''run_id'' JNull) ''contradiction'') [memory_id]
       [(''claim'', JStr claim), (''reason'', JStr reason),
        (''source_event_ids'', strs_json source_event_ids)]) (\<lambda>event.
     bind_io draw (\<lambda>n.
     bind_io (lift (memory_create (k_host K) n CONTRADICTION claim (ev_id event # source_event_ids)
       [(''proposal_scope'', JStr ''contradiction''), (''run_id'', JStr (ev_run event)),
        (''reason'', JStr reason), (''interface_signature'', interface_of (k_host K) original),
        (''tools'', JList []), (''resource_caps'', JDict [(''max_steps'', JInt 4)])]
       [] [] [memory_id])) (\<lambda>contradiction.
     save_memory (k_storage K) contradiction CORRECT reason None (Some (ev_id event))))))"

section \<open>Retrieval\<close>

definition retrieve ::
  "'s kernel \<Rightarrow> string \<Rightarrow> string \<Rightarrow> int \<Rightarrow> string option \<Rightarrow> ('s world, retrieved list) io"
where
  "retrieve K query mode limit run_id =
     bind_io (lift (admissible_lanes_for_mode mode)) (\<lambda>lanes.
     bind_io (reads (\<lambda>n. k_retriever K n query lanes limit)) (\<lambda>results.
     bind_io (record_memory_operation K READ (or_str run_id ''retrieval'') (map ret_id results)
       [(''query'', JStr query), (''mode'', JStr mode),
        (''lane_filter'', strs_json (map lane_value lanes))]) (\<lambda>_.
     ret results)))"

section \<open>Running and tools\<close>

definition newline :: string where
  "newline = [CHR 0x0A]"

definition run_messages :: "string \<Rightarrow> retrieved list \<Rightarrow> llm_message list" where
  "run_messages task memories =
     [\<lparr>msg_role = ''system'', msg_content = ''You are connected to observable workflow memory. '' @
        ''Use only certified memories provided in the context.''\<rparr>,
      \<lparr>msg_role = ''user'', msg_content = ''Certified memory:'' @ newline @
        join newline (map (\<lambda>item. ''- '' @ ret_claim item) memories) @ newline @ newline @
        ''Task:'' @ newline @ task\<rparr>]"

definition run_intent_check :: "host \<Rightarrow> bool \<Rightarrow> intent option \<Rightarrow> string \<Rightarrow> unit res" where
  "run_intent_check H external_effects action_intent task =
     (case action_intent of
        Some a \<Rightarrow>
          if external_effects then
            bind_res (ensure (act_tool a = ''kernel.run'') (FailClosedError
              (''kernel.run action intent must use tool_name='' @ repr_str ''kernel.run''))) (\<lambda>_.
            bind_res (digest_json H (JDict [(''task'', JStr task)])) (\<lambda>d.
            ensure (act_args a = d)
              (FailClosedError ''kernel.run task does not match action intent digest'')))
          else Inr ()
      | None \<Rightarrow> Inr ())"

definition load_receipt :: "'s kernel \<Rightarrow> string \<Rightarrow> ('s world, receipt) io" where
  "load_receipt K i = reads (\<lambda>n. get_receipt (k_storage K) n i)"

definition run_task ::
  "'s kernel \<Rightarrow> string \<Rightarrow> dict list option \<Rightarrow> bool \<Rightarrow> string option \<Rightarrow> string option \<Rightarrow> string list \<Rightarrow>
   intent option \<Rightarrow> ('s world, llm_result) io"
where
  "run_task K task tools external_effects model run_id gate_receipt_ids action_intent =
     bind_io (lift (run_intent_check (k_host K) external_effects action_intent task)) (\<lambda>_.
     bind_io (map_io (load_receipt K) gate_receipt_ids) (\<lambda>gate_receipts.
     bind_io (lift (ensure_allowed (k_host K) (strict_profile K) external_effects gate_receipts
       action_intent ''kernel.run external_effects=True requires an explicit gate receipt'')) (\<lambda>_.
     bind_io (actual_run_id K run_id) (\<lambda>rid.
     bind_io (observe K ''task'' [(''task'', JStr task)] (Some rid) [] True) (\<lambda>_.
     bind_io (retrieve K task ''admissible'' 5 (Some rid)) (\<lambda>memories.
     bind_io (record_memory_operation K USE rid (map ret_id memories)
       [(''task'', JStr task), (''mode'', JStr ''admissible'')]) (\<lambda>_.
     bind_io (lift (k_llm K (run_messages task memories) tools model)) (\<lambda>outcome.
     bind_io (observe K ''llm_result'' [(''task'', JStr task), (''content'', JStr (llm_content outcome)),
       (''model'', opt_str_json (llm_model outcome))] (Some rid) [] True) (\<lambda>_.
     ret outcome)))))))))"

definition required_contract_check :: "'s kernel \<Rightarrow> intent \<Rightarrow> ('s world, unit) io" where
  "required_contract_check K a =
     (case act_contract a of
        None \<Rightarrow> ret ()
      | Some cid \<Rightarrow>
          bind_io (reads (\<lambda>n. get_contract (k_storage K) n cid)) (\<lambda>c.
          lift (case act_receipt a of
              None \<Rightarrow> Inr ()
            | Some rid \<Rightarrow>
                ensure (get_or (wfc_replay c) ''receipt_id'' JNull = JStr rid)
                  (FailClosedError ''required contract is not bound to required receipt''))))"

definition invoke_tool ::
  "'s kernel \<Rightarrow> tool_call \<Rightarrow> intent \<Rightarrow> string list \<Rightarrow> ('s world, tool_result) io"
where
  "invoke_tool K call a gate_receipt_ids =
     bind_io (lift (ensure (tc_name call = act_tool a)
       (FailClosedError ''tool call name does not match action intent''))) (\<lambda>_.
     bind_io (lift (digest_json (k_host K) (JDict (tc_arguments call)))) (\<lambda>d.
     bind_io (lift (ensure (d = act_args a)
       (FailClosedError ''tool call arguments do not match action intent digest''))) (\<lambda>_.
     bind_io (required_contract_check K a) (\<lambda>_.
     bind_io (map_io (load_receipt K) gate_receipt_ids) (\<lambda>gate_receipts.
     bind_io (lift (ensure_allowed (k_host K) (strict_profile K) (tc_external call) gate_receipts
       (Some a) [])) (\<lambda>_.
     let context = [(''action_gate_open'', JBool (tc_external call)),
         (''action_intent'', JDict (intent_dump a))];
       context = (case ta_authorize (k_tools K) of None \<Rightarrow> context | Some f \<Rightarrow> f context) in
     lift (ta_invoke (k_tools K) call context)))))))"

section \<open>Retiring and superseding\<close>

definition retire :: "'s kernel \<Rightarrow> string \<Rightarrow> string \<Rightarrow> ('s world, memory) io" where
  "retire K memory_id reason =
     bind_io (load_memory (k_storage K) memory_id) (\<lambda>r.
     bind_io (lift (assert_transition_allowed (mem_lane r) TOMBSTONE)) (\<lambda>_.
     bind_io (move_to (k_host K) TOMBSTONE reason None r) (\<lambda>retired.
     bind_io (save_memory (k_storage K) retired DELETE reason (mem_receipt retired) None) (\<lambda>stored.
     bind_io (record_memory_operation K DELETE
       (str_or (k_host K) (get_or (mem_metadata r) ''run_id'' JNull) ''retire'') [memory_id]
       [(''reason'', JStr reason)]) (\<lambda>_.
     ret stored)))))"

definition supersede :: "'s kernel \<Rightarrow> string \<Rightarrow> string \<Rightarrow> string \<Rightarrow> ('s world, memory) io" where
  "supersede K old_memory_id new_memory_id receipt_id =
     bind_io (load_memory (k_storage K) old_memory_id) (\<lambda>old.
     bind_io (load_memory (k_storage K) new_memory_id) (\<lambda>new.
     bind_io (load_receipt K receipt_id) (\<lambda>rcp.
     bind_io (lift (ensure (mem_lane new = CERTIFIED)
       (FailClosedError ''superseding memory must already be certified''))) (\<lambda>_.
     bind_io (lift (ensure (rcp_result rcp = Passed \<and> rcp_candidate rcp = new_memory_id)
       (FailClosedError ''supersede requires a passing receipt for the new memory''))) (\<lambda>_.
     bind_io (lift (assert_transition_allowed (mem_lane old) SUPERSEDED)) (\<lambda>_.
     let reason = ''superseded by '' @ new_memory_id in
     bind_io (move_to (k_host K) SUPERSEDED reason (Some receipt_id) old) (\<lambda>superseded.
     bind_io (save_memory (k_storage K) superseded REPLACE reason (Some receipt_id) None) (\<lambda>stored.
     bind_io (record_memory_operation K REPLACE
       (str_or (k_host K) (get_or (mem_metadata new) ''run_id'' JNull) ''supersede'')
       [old_memory_id, new_memory_id] [(''receipt_id'', JStr receipt_id)]) (\<lambda>_.
     ret stored)))))))))"

section \<open>Audits\<close>

definition audit :: "'s kernel \<Rightarrow> ('s world, (string \<times> int) list) io" where
  "audit K = reads (\<lambda>_ s. Inr (audit_counts (k_storage K) s))"

definition manifest_ref :: "receipt \<Rightarrow> string" where
  "manifest_ref rcp = (case find (starts_with ''evm_'') (rcp_refs rcp) of None \<Rightarrow> [] | Some i \<Rightarrow> i)"

text \<open>\<open>except NotFoundError\<close> around reads, as a failed check.\<close>

definition or_missing :: "string \<Rightarrow> ('s world, 'a) io \<Rightarrow> ('a \<Rightarrow> ('s world, check) io) \<Rightarrow> ('s world, check) io" where
  "or_missing nm m f = (\<lambda>w.
     case m w of
       (Inl e, w') \<Rightarrow> (if is_not_found e then Inr (failed_check nm (error_text e)) else Inl e, w')
     | (Inr x, w') \<Rightarrow> f x w')"

definition verify_receipt :: "'s kernel \<Rightarrow> string \<Rightarrow> ('s world, check) io" where
  "verify_receipt K receipt_id =
     bind_io (load_receipt K receipt_id) (\<lambda>rcp.
     if manifest_ref rcp = []
     then ret (failed_check ''receipt-reference'' ''receipt has no evidence manifest reference'')
     else
       or_missing ''receipt-reference''
         (bind_io (load_memory (k_storage K) (rcp_candidate rcp)) (\<lambda>candidate.
          bind_io (reads (\<lambda>n. get_evidence_manifest (k_storage K) n (manifest_ref rcp))) (\<lambda>m.
          ret (candidate, m))))
         (\<lambda>(candidate, m). lift (k_verifier K rcp m (Some candidate))))"

definition strict_recheck_receipt :: "'s kernel \<Rightarrow> receipt \<Rightarrow> ('s world, check) io" where
  "strict_recheck_receipt K rcp =
     or_missing ''strict-recheck''
       (bind_io (load_memory (k_storage K) (rcp_candidate rcp)) (\<lambda>candidate.
        if manifest_ref rcp = [] then ret (candidate, None)
        else bind_io (reads (\<lambda>n. get_evidence_manifest (k_storage K) n (manifest_ref rcp))) (\<lambda>m.
          ret (candidate, Some m))))
       (\<lambda>(candidate, found).
         case found of
           None \<Rightarrow> ret (failed_check ''strict-recheck'' ''receipt has no evidence manifest reference'')
         | Some m \<Rightarrow>
             bind_io (collect_event_digests (k_storage K) (mem_sources candidate) [] []) (\<lambda>(digests, missing).
             bind_io (run_checkers (k_checkers K) candidate (manifest_dump (k_host K) m)
               \<lparr>ctx_intent = NoIntent,
                ctx_values = [(''actual_event_digests'', str_map_json digests),
                  (''missing_source_event_ids'', strs_json missing)]\<rparr>) (\<lambda>checks.
             let failed = filter (\<lambda>c. \<not> chk_passed c) checks in
             ret (check_result ''strict-recheck'' (failed = [])
               (join ''; '' (map (\<lambda>c. chk_name c @ '': '' @ chk_reason c) failed))
               [(''failed_checkers'', strs_json (map chk_name failed))]))))"

definition join_reasons :: "string list \<Rightarrow> string" where
  "join_reasons reasons = join ''; '' (filter (\<lambda>r. r \<noteq> []) reasons)"

record audit_row =
  row_receipt :: string
  row_candidate :: string
  row_update :: string
  row_result :: outcome
  row_action :: string
  row_verified :: bool
  row_integrity :: bool
  row_recheck :: "bool option"
  row_reason :: string

definition audit_receipt :: "'s kernel \<Rightarrow> bool \<Rightarrow> receipt \<Rightarrow> ('s world, audit_row) io" where
  "audit_receipt K strict_recheck rcp =
     bind_io (verify_receipt K (rcp_id rcp)) (\<lambda>integrity.
     bind_io (if strict_recheck \<and> chk_passed integrity
       then bind_io (strict_recheck_receipt K rcp) (\<lambda>c. ret (Some c)) else ret None) (\<lambda>recheck.
     ret \<lparr>row_receipt = rcp_id rcp, row_candidate = rcp_candidate rcp, row_update = rcp_update rcp,
       row_result = rcp_result rcp, row_action = or_str (rcp_action rcp) [],
       row_verified = (case recheck of None \<Rightarrow> chk_passed integrity
         | Some c \<Rightarrow> chk_passed integrity \<and> chk_passed c),
       row_integrity = chk_passed integrity, row_recheck = map_option chk_passed recheck,
       row_reason = join_reasons [chk_reason integrity,
         (case recheck of None \<Rightarrow> [] | Some c \<Rightarrow> chk_reason c)]\<rparr>))"

definition audit_receipts :: "'s kernel \<Rightarrow> bool \<Rightarrow> ('s world, audit_row list) io" where
  "audit_receipts K strict_recheck =
     bind_io (reads (\<lambda>n. list_receipts (k_storage K) n None)) (map_io (audit_receipt K strict_recheck))"

section \<open>Consolidation\<close>

definition consolidate_run :: "'s kernel \<Rightarrow> string \<Rightarrow> ('s world, memory) io" where
  "consolidate_run K run_id =
     bind_io (propose_memory K run_id ''session'' None None None) (\<lambda>candidate.
     bind_io (verify K (mem_id candidate) None) (\<lambda>_.
     load_memory (k_storage K) (mem_id candidate)))"

end
