(* ===== verification/Kernel_Safety.thy ===== *)
theory Kernel_Safety
  imports Kernel
begin

text \<open>
  What no sequence of kernel calls can break, over any storage backend that meets the contract:
  the store only grows, a certified record is backed by a passing receipt and a contract bound to
  it, and the revision trail explains every lane.
\<close>

section \<open>Invariants of the abstract store\<close>

definition store_grows :: "store \<Rightarrow> store \<Rightarrow> bool" where
  "store_grows st st' \<longleftrightarrow>
     (\<exists>es. st_events st' = st_events st @ es) \<and> (\<exists>rs. st_receipts st' = st_receipts st @ rs) \<and>
     (\<exists>vs. st_revisions st' = st_revisions st @ vs) \<and> (\<exists>ms. st_manifests st' = st_manifests st @ ms) \<and>
     st_contracts st \<subseteq>\<^sub>m st_contracts st' \<and> dom (st_memory st) \<subseteq> dom (st_memory st')"

definition certified_by :: "store \<Rightarrow> memory \<Rightarrow> bool" where
  "certified_by st r \<longleftrightarrow>
     (\<exists>rcp c. rcp \<in> set (st_receipts st) \<and> mem_receipt r = Some (rcp_id rcp) \<and>
        rcp_candidate rcp = mem_id r \<and> passing_receipt r rcp \<and>
        mem_contract r = Some (wfc_id c) \<and> st_contracts st (wfc_id c) = Some c \<and>
        wfc_memory c = Some (mem_id r) \<and> wfc_update c = Some (mem_update r) \<and>
        map_of (wfc_replay c) ''receipt_id'' = Some (JStr (rcp_id rcp)))"

text \<open>Replaying the revisions, each of which must start from the lane the last one left.\<close>

fun lane_trail :: "(string \<rightharpoonup> lane) \<Rightarrow> revision list \<Rightarrow> (string \<rightharpoonup> lane) option" where
  "lane_trail f [] = Some f"
| "lane_trail f (v # vs) =
     (if rev_before v = f (rev_memory v) then lane_trail (f(rev_memory v \<mapsto> rev_after v)) vs else None)"

definition lanes :: "store \<Rightarrow> string \<rightharpoonup> lane" where
  "lanes st = (\<lambda>i. map_option mem_lane (st_memory st i))"

definition promoted_properly :: "revision \<Rightarrow> bool" where
  "promoted_properly v \<longleftrightarrow>
     (rev_after v = CERTIFIED \<longrightarrow> rev_operation v = PROMOTE \<and> rev_before v \<in> {Some SHADOW, Some CERTIFIED})"

definition store_inv :: "store \<Rightarrow> bool" where
  "store_inv st \<longleftrightarrow>
     (\<forall>i r. st_memory st i = Some r \<longrightarrow> mem_lane r = CERTIFIED \<longrightarrow> certified_by st r) \<and>
     lane_trail Map.empty (st_revisions st) = Some (lanes st) \<and>
     list_all promoted_properly (st_revisions st)"

lemma store_inv_empty: "store_inv empty_store"
  by (simp add: store_inv_def empty_store_def lanes_def)

lemma store_grows_refl [simp]: "store_grows st st"
  by (simp add: store_grows_def)

lemma store_grows_trans: "store_grows a b \<Longrightarrow> store_grows b c \<Longrightarrow> store_grows a c"
  unfolding store_grows_def by (auto intro: map_le_trans)

lemma certified_by_grows: "certified_by st r \<Longrightarrow> store_grows st st' \<Longrightarrow> certified_by st' r"
  unfolding certified_by_def store_grows_def map_le_def by (fastforce simp: dom_def)

lemma lane_trail_append:
  "lane_trail f vs = Some g \<Longrightarrow>
   lane_trail f (vs @ [v]) = (if rev_before v = g (rev_memory v) then Some (g(rev_memory v \<mapsto> rev_after v)) else None)"
  by (induction vs arbitrary: f) (auto split: if_splits)

text \<open>Steps that leave records and revisions alone.\<close>

lemma store_inv_grows:
  assumes "store_inv st" "store_grows st st'" "st_memory st' = st_memory st" "st_revisions st' = st_revisions st"
  shows "store_inv st'"
  using assms certified_by_grows unfolding store_inv_def lanes_def by metis

text \<open>A write of one record, with its revision.\<close>

definition write_record :: "store \<Rightarrow> memory \<Rightarrow> revision \<Rightarrow> store" where
  "write_record st r v =
     st\<lparr>st_memory := (st_memory st)(mem_id r \<mapsto> memory_canon r), st_revisions := st_revisions st @ [v]\<rparr>"

lemma write_record_grows: "store_grows st (write_record st r v)"
  by (auto simp: store_grows_def write_record_def)

lemma passing_receipt_canon [simp]: "passing_receipt (memory_canon r) rcp = passing_receipt r rcp"
  by (simp add: passing_receipt_def)

lemma certified_by_canon [simp]: "certified_by st (memory_canon r) = certified_by st r"
  by (simp add: certified_by_def)

lemma write_record_inv:
  assumes inv: "store_inv st" and v: "revises H r operation (lanes st (mem_id r)) reason rid eid v"
    and lane: "mem_lane r = CERTIFIED \<Longrightarrow> certified_by st r \<and> operation = PROMOTE \<and>
      lanes st (mem_id r) \<in> {Some SHADOW, Some CERTIFIED}"
  shows "store_inv (write_record st r v)"
proof -
  let ?st = "write_record st r v"
  have rev: "rev_memory v = mem_id r" "rev_before v = lanes st (mem_id r)" "rev_after v = mem_lane r"
    "rev_operation v = operation"
    using v by (simp_all add: revises_def)
  have "lanes ?st = (lanes st)(mem_id r \<mapsto> mem_lane r)"
    by (auto simp: lanes_def write_record_def fun_eq_iff)
  moreover have "lane_trail Map.empty (st_revisions st) = Some (lanes st)"
    using inv by (simp add: store_inv_def)
  ultimately have "lane_trail Map.empty (st_revisions ?st) = Some (lanes ?st)"
    by (simp add: write_record_def lane_trail_append rev)
  moreover have "list_all promoted_properly (st_revisions ?st)"
    using inv lane by (auto simp: store_inv_def write_record_def promoted_properly_def rev)
  moreover have "certified_by ?st q" if q: "st_memory ?st i = Some q" "mem_lane q = CERTIFIED" for i q
  proof (cases "i = mem_id r")
    case True
    then have "q = memory_canon r" using q by (simp add: write_record_def)
    then show ?thesis
      using lane q certified_by_grows [OF _ write_record_grows, of st "memory_canon r"] by simp
  next
    case False
    then have "certified_by st q" using inv q by (simp add: store_inv_def write_record_def)
    then show ?thesis by (rule certified_by_grows [OF _ write_record_grows])
  qed
  ultimately show ?thesis by (simp add: store_inv_def)
qed

section \<open>Preservation by the operations of the port\<close>

text \<open>
  The invariant of a running process, relative to the store it started from.
\<close>

definition world_inv :: "('s \<Rightarrow> store) \<Rightarrow> ('s \<Rightarrow> bool) \<Rightarrow> store \<Rightarrow> 's world \<Rightarrow> bool" where
  "world_inv view ok st0 w \<longleftrightarrow>
     ok (w_store w) \<and> store_grows st0 (view (w_store w)) \<and> store_inv (view (w_store w))"

lemma keeps_draw [keeps_intros]: "keeps (world_inv view ok st0) draw"
  by (simp add: keeps_def draw_def world_inv_def)

lemma keeps_reads [keeps_intros]: "keeps I (reads f)"
  by (simp add: keeps_def reads_def)

lemma writes_cases:
  assumes "writes f w = (r, w')"
  obtains s where "f (w_tick w) (w_store w) = (r, s)" "w' = w\<lparr>w_tick := w_tick w + 2, w_store := s\<rparr>"
  using assms by (auto simp: writes_def split: prod.splits)

lemma moved_Inr: "moved H n l reason rid r = Inr s \<Longrightarrow>
   mem_lane s = l \<and> claim_ok s \<and> mem_id s = mem_id r \<and> mem_update s = mem_update r"
  unfolding moved_def by (drule mk_memory_Inr) auto

lemma memory_create_Inr:
  "memory_create H n l claim src md refs sups con = Inr r \<Longrightarrow> mem_lane r = l \<and> claim_ok r"
  by (auto simp: memory_create_def Let_def res_simps dest!: mk_memory_Inr)

lemma contract_from_candidate_Inr:
  "contract_from_candidate H n r rcp = Inr c \<Longrightarrow>
   wfc_memory c = Some (mem_id r) \<and> wfc_update c = Some (mem_update r) \<and>
   map_of (wfc_replay c) ''receipt_id'' = Some (JStr (rcp_id rcp)) \<and> distinct (map fst (wfc_replay c))"
  by (auto simp: contract_from_candidate_def res_simps)

lemma certified_record_Inr:
  assumes "certified_record H k r rcp c = Inr q"
  shows "claim_ok q \<and> mem_lane q = CERTIFIED \<and> mem_id q = mem_id r \<and> mem_update q = mem_update r \<and>
    mem_contract q = Some (wfc_id c) \<and> mem_receipt q = Some (rcp_id rcp)"
  using assms unfolding certified_record_def by (auto dest!: mk_memory_Inr)

context storage_backend
begin

text \<open>A write that only adds to the logs keeps the invariant.\<close>

lemma keeps_log_write:
  assumes "\<And>n s r s'. ok s \<Longrightarrow> f n s = (r, s') \<Longrightarrow> ok s' \<and> store_grows (view s) (view s') \<and>
    st_memory (view s') = st_memory (view s) \<and> st_revisions (view s') = st_revisions (view s)"
  shows "keeps (world_inv view ok st0) (writes f)"
proof (rule keepsI)
  fix w assume I: "world_inv view ok st0 w"
  obtain r w' where run: "writes f w = (r, w')" by fastforce
  from run obtain s where "f (w_tick w) (w_store w) = (r, s)"
    and w': "w' = w\<lparr>w_tick := w_tick w + 2, w_store := s\<rparr>" by (rule writes_cases)
  with assms [of "w_store w" "w_tick w" r s] I have "world_inv view ok st0 w'"
    by (auto simp: world_inv_def intro: store_grows_trans store_inv_grows)
  then show "world_inv view ok st0 (snd (writes f w))" by (simp add: run)
qed

lemma keeps_append [keeps_intros]:
  "keeps (world_inv view ok st0) (writes (\<lambda>n. append_event P n e))"
proof (rule keeps_log_write)
  fix n s r s' assume "ok s" "append_event P n e s = (r, s')"
  then show "ok s' \<and> store_grows (view s) (view s') \<and>
    st_memory (view s') = st_memory (view s) \<and> st_revisions (view s') = st_revisions (view s)"
    using append_ok [of s n e _ s'] append_error [of s n e _ s']
    by (cases r) (auto simp: store_grows_def)
qed

lemma keeps_create_receipt [keeps_intros]:
  "keeps (world_inv view ok st0) (writes (\<lambda>n. create_receipt P rcp))"
proof (rule keeps_log_write)
  fix n s r s' assume "ok s" "create_receipt P rcp s = (r, s')"
  then show "ok s' \<and> store_grows (view s) (view s') \<and>
    st_memory (view s') = st_memory (view s) \<and> st_revisions (view s') = st_revisions (view s)"
    using create_receipt_ok [of s rcp _ s'] create_receipt_error [of s rcp _ s']
    by (cases r) (auto simp: store_grows_def)
qed

lemma keeps_create_manifest [keeps_intros]:
  "keeps (world_inv view ok st0) (writes (\<lambda>n. create_evidence_manifest P m))"
proof (rule keeps_log_write)
  fix n s r s' assume "ok s" "create_evidence_manifest P m s = (r, s')"
  then show "ok s' \<and> store_grows (view s) (view s') \<and>
    st_memory (view s') = st_memory (view s) \<and> st_revisions (view s') = st_revisions (view s)"
    using create_manifest_ok [of s m _ s'] create_manifest_error [of s m _ s']
    by (cases r) (auto simp: store_grows_def)
qed

lemma contract_grows:
  assumes "ok s" "create_contract P c s = (Inr c', s')"
  shows "store_grows (view s) (view s')"
proof -
  have "st_contracts (view s) \<subseteq>\<^sub>m (st_contracts (view s))(wfc_id c \<mapsto> contract_canon c)"
    using create_contract_ok [OF assms] by (auto simp: map_le_def split: option.splits)
  then show ?thesis using create_contract_ok [OF assms] by (simp add: store_grows_def)
qed

lemma keeps_create_contract [keeps_intros]:
  "keeps (world_inv view ok st0) (writes (\<lambda>n. create_contract P c))"
proof (rule keeps_log_write)
  fix n s r s' assume "ok s" "create_contract P c s = (r, s')"
  then show "ok s' \<and> store_grows (view s) (view s') \<and>
    st_memory (view s') = st_memory (view s) \<and> st_revisions (view s') = st_revisions (view s)"
    using create_contract_ok [of s c _ s'] create_contract_error [of s c _ s'] contract_grows [of s c _ s']
    by (cases r) auto
qed

text \<open>A write of a record keeps the invariant when a certified record is backed.\<close>

lemma save_memory_inv:
  assumes I: "world_inv view ok st0 w" and claim: "claim_ok r"
    and lane: "mem_lane r = CERTIFIED \<Longrightarrow> certified_by (view (w_store w)) r \<and> operation = PROMOTE \<and>
      lanes (view (w_store w)) (mem_id r) \<in> {Some SHADOW, Some CERTIFIED}"
    and run: "save_memory P r operation reason rid eid w = (x, w')"
  shows "world_inv view ok st0 w'"
proof -
  from run obtain s where s: "upsert_memory_record P (w_tick w) r operation reason rid eid (w_store w) = (x, s)"
    and w': "w' = w\<lparr>w_tick := w_tick w + 2, w_store := s\<rparr>"
    unfolding save_memory_def by (rule writes_cases)
  have ok: "ok (w_store w)" using I by (simp add: world_inv_def)
  show ?thesis
  proof (cases x)
    case (Inl err)
    then show ?thesis using upsert_error [OF ok] s I by (fastforce simp: world_inv_def w')
  next
    case (Inr y)
    from upsert_ok [OF ok claim s [unfolded Inr]] obtain v where oks: "ok s"
      and v: "revises H r operation (lanes (view (w_store w)) (mem_id r)) reason rid eid v"
      and vs: "view s = write_record (view (w_store w)) r v"
      by (auto simp: lanes_def write_record_def)
    have "store_inv (view s)"
      unfolding vs using I lane by (intro write_record_inv [OF _ v]) (auto simp: world_inv_def)
    then show ?thesis
      using I oks write_record_grows store_grows_trans by (fastforce simp: world_inv_def w' vs)
  qed
qed

lemma keeps_save [keeps_intros]:
  "claim_ok r \<Longrightarrow> mem_lane r \<noteq> CERTIFIED \<Longrightarrow>
   keeps (world_inv view ok st0) (save_memory P r operation reason rid eid)"
  by (rule keepsI) (metis save_memory_inv surjective_pairing)

lemma keeps_load [keeps_intros]: "keeps I (load_memory P i)"
  by (simp add: load_memory_def keeps_reads)

lemma keeps_store_event [keeps_intros]:
  "keeps (world_inv view ok st0) (store_event P H kind payload run_id parents)"
  unfolding store_event_def by (intro keeps_intros)

lemma keeps_move_to: "keeps (world_inv view ok st0) (move_to H l reason rid r)"
  unfolding move_to_def by (intro keeps_intros)

text \<open>Moving a record out of every certified lane and saving it.\<close>

lemma keeps_move_save:
  assumes "l \<noteq> CERTIFIED" "\<And>s. mem_lane s = l \<Longrightarrow> claim_ok s \<Longrightarrow> keeps (world_inv view ok st0) (f s)"
  shows "keeps (world_inv view ok st0) (bind_io (move_to H l reason rid r) f)"
proof -
  have "bind_io (move_to H l reason rid r) f = bind_io draw (\<lambda>n. bind_io (lift (moved H n l reason rid r)) f)"
    by (auto simp: move_to_def bind_io_def fun_eq_iff split: prod.split sum.split)
  moreover have "keeps (world_inv view ok st0) (bind_io draw (\<lambda>n. bind_io (lift (moved H n l reason rid r)) f))"
    using assms(2) moved_Inr by (intro keeps_intros) blast
  ultimately show ?thesis by simp
qed

lemma keeps_collect [keeps_intros]:
  "keeps (world_inv view ok st0) (collect_event_digests P is digests missing)"
proof -
  have "snd (collect_event_digests P is digests missing w) = w" for w
    by (induction "is" arbitrary: digests missing) (auto split: sum.split)
  then show ?thesis by (simp add: keeps_def)
qed

end

end
