(* ===== verification/Identity_Properties.thy ===== *)
theory Identity_Properties
  imports Concrete_Host Checkers Strict_Json "HOL-Library.Sublist"
begin

text \<open>
  What identifiers and digests bind, and the lane machine: two objects with one digest have the
  same content unless the digest function maps two different canonical texts to one value.
\<close>

section \<open>Digests\<close>

text \<open>Two documents whose canonical texts differ and whose digests do not.\<close>

definition collides :: "host \<Rightarrow> json \<Rightarrow> json \<Rightarrow> bool" where
  "collides H v w \<longleftrightarrow> canonical_bytes H v \<noteq> canonical_bytes H w \<and> digest_json H v = digest_json H w"

lemma same_bytes_stored:
  assumes "host_ok H" "canonical_bytes H v = Inr b" "canonical_bytes H w = Inr b"
  shows "stored_json v = stored_json w"
proof -
  obtain s t where s: "canonical_json H v = Inr s" "canonical_json H w = Inr t" "utf8 s = utf8 t"
    using assms(2,3) by (auto simp: canonical_bytes_def res_simps)
  then have "s = t" by (simp add: utf8_inj)
  then show ?thesis using s loads_canonical [OF assms(1)] by (metis sum.inject(2))
qed

lemma digest_binds:
  assumes "host_ok H" "digest_json H v = Inr d" "digest_json H w = Inr d"
  shows "stored_json v = stored_json w \<or> collides H v w"
proof (cases "canonical_bytes H v = canonical_bytes H w")
  case True
  moreover obtain b where "canonical_bytes H v = Inr b"
    using assms(2) by (auto simp: digest_json_def res_simps)
  ultimately show ?thesis using same_bytes_stored [OF assms(1)] by metis
next
  case False
  then show ?thesis using assms(2,3) by (simp add: collides_def)
qed

lemma stored_fields:
  assumes "stored_dict d = stored_dict e" "distinct (map fst d)" "distinct (map fst e)"
  shows "map_option stored_json (map_of d k) = map_option stored_json (map_of e k)"
  using assms by (metis map_of_stored_dict)

lemma strs_json_inj [simp]: "strs_json xs = strs_json ys \<longleftrightarrow> xs = ys"
proof -
  have "inj JStr" by (simp add: inj_def)
  then show ?thesis by (simp add: strs_json_def inj_map_eq_map)
qed

lemma opt_str_json_inj [simp]: "opt_str_json x = opt_str_json y \<longleftrightarrow> x = y"
  by (cases x; cases y) (simp_all add: opt_str_json_def)

section \<open>Content of a record\<close>

text \<open>
  C9: the content digest of a record binds its claim, sources, metadata, and what it supersedes and
  contradicts: two records with one digest agree on all of them, the metadata up to key order, or
  their two seeds are a collision of the digest function.
\<close>

theorem content_digest_binds:
  assumes "host_ok H" "content_digest H r = Inr d" "content_digest H s = Inr d"
  shows "(mem_claim r = mem_claim s \<and> mem_sources r = mem_sources s \<and>
      stored_dict (mem_metadata r) = stored_dict (mem_metadata s) \<and>
      mem_supersedes r = mem_supersedes s \<and> mem_contradicts r = mem_contradicts s) \<or>
    collides H
      (JDict (content_seed (mem_claim r) (mem_sources r) (mem_metadata r) (mem_supersedes r) (mem_contradicts r)))
      (JDict (content_seed (mem_claim s) (mem_sources s) (mem_metadata s) (mem_supersedes s) (mem_contradicts s)))"
  (is "_ \<or> collides H (JDict ?a) (JDict ?b)")
proof -
  have "stored_json (JDict ?a) = stored_json (JDict ?b) \<or> collides H (JDict ?a) (JDict ?b)"
    using assms by (intro digest_binds) (auto simp: content_digest_def)
  moreover have "map_option stored_json (map_of ?a k) = map_option stored_json (map_of ?b k)"
    if "stored_json (JDict ?a) = stored_json (JDict ?b)" for k
    using that by (intro stored_fields) (auto simp: content_seed_def)
  from this [of "''claim''"] this [of "''source_event_ids''"] this [of "''metadata''"]
    this [of "''supersedes''"] this [of "''contradicts''"]
  have "stored_json (JDict ?a) = stored_json (JDict ?b) \<Longrightarrow>
      mem_claim r = mem_claim s \<and> mem_sources r = mem_sources s \<and>
      stored_dict (mem_metadata r) = stored_dict (mem_metadata s) \<and>
      mem_supersedes r = mem_supersedes s \<and> mem_contradicts r = mem_contradicts s"
    by (simp add: content_seed_def)
  ultimately show ?thesis by blast
qed

definition claim_record :: "string \<Rightarrow> dict \<Rightarrow> memory" where
  "claim_record c md =
     \<lparr>mem_schema = SCHEMA_VERSION, mem_id = ''mem_1'', mem_update = ''upd_1'', mem_lane = SHADOW,
      mem_claim = c, mem_sources = [''evt_1''], mem_evidence = [], mem_supersedes = [],
      mem_contradicts = [], mem_contract = None, mem_receipt = None, mem_reason = [],
      mem_metadata = md, mem_created = 3, mem_updated = 4\<rparr>"

theorem content_digest_binds_witness:
  "stored_dict [(''b'', JInt 1), (''a'', JNull)] = stored_dict [(''a'', JNull), (''b'', JInt 1)]"
proof -
  let ?r = "claim_record ''c'' [(''b'', JInt 1), (''a'', JNull)]"
    and ?s = "claim_record ''c'' [(''a'', JNull), (''b'', JInt 1)]"
  obtain d where d: "content_digest plain_host ?r = Inr d"
    by (simp add: content_digest_def content_seed_def claim_record_def digest_json_eq strs_json_def)
  moreover have same: "content_digest plain_host ?s = content_digest plain_host ?r"
    by (simp add: content_digest_def content_seed_def claim_record_def digest_json_eq strs_json_def)
  ultimately show ?thesis
    using content_digest_binds [OF plain_host_ok d, of ?s]
    by (auto simp: claim_record_def collides_def digest_json_def sha256_hex_def content_seed_def
        canonical_bytes_def canonical_json_eq strs_json_def)
qed

section \<open>The lane machine\<close>

text \<open>
  The life of a memory, told by the lane that is entered rather than by the lane that is left, and
  independently of the table: nothing becomes raw again; what was set aside may be nominated anew;
  review leads from candidate over shadow to certified, and may be broken off into quarantine; only
  what was certified can be superseded; everything that is not set aside can be contradicted, and
  everything that is not yet retired can be retired.
\<close>

fun entered_from :: "lane \<Rightarrow> lane set" where
  "entered_from RAW = {}"
| "entered_from CANDIDATE = {RAW, QUARANTINE, CONTRADICTION}"
| "entered_from SHADOW = {CANDIDATE}"
| "entered_from CERTIFIED = {SHADOW}"
| "entered_from SUPERSEDED = {CERTIFIED}"
| "entered_from QUARANTINE = {CANDIDATE, SHADOW}"
| "entered_from CONTRADICTION = - {QUARANTINE, CONTRADICTION, TOMBSTONE}"
| "entered_from TOMBSTONE = - {TOMBSTONE}"

definition lane_step :: "lane \<Rightarrow> lane \<Rightarrow> bool" where
  "lane_step l m \<longleftrightarrow> l = m \<or> l \<in> entered_from m"

lemma transition_allowed_iff: "assert_transition_allowed l m = Inr () \<longleftrightarrow> lane_step l m"
  by (cases l; cases m) (simp_all add: assert_transition_allowed_def lane_step_def ensure_def)

lemma move_memory_eq:
  assumes "claim_ok r"
  shows "move_memory H n r target reason =
    (if lane_step (mem_lane r) target
     then Inr (r\<lparr>mem_lane := target, mem_reason := reason, mem_updated := now_utc H n\<rparr>)
     else Inl (TransitionError (''invalid memory lane transition: '' @ lane_value (mem_lane r) @
       '' -> '' @ lane_value target)))"
proof -
  have "claim_ok (r\<lparr>mem_lane := target, mem_reason := reason, mem_updated := now_utc H n\<rparr>)"
    using assms by (simp add: claim_ok_def)
  from mk_memory_claim_ok [OF this] show ?thesis
    by (auto simp: move_memory_def moved_def or_opt_def assert_transition_allowed_def ensure_def
        transition_allowed_iff [symmetric])
qed

text \<open>A history of moves, each with its draw, its target and its reason.\<close>

fun move_all :: "host \<Rightarrow> (nat \<times> lane \<times> string) list \<Rightarrow> memory \<Rightarrow> memory res" where
  "move_all H [] r = Inr r"
| "move_all H ((n, target, reason) # moves) r = bind_res (move_memory H n r target reason) (move_all H moves)"

abbreviation lanes_of :: "memory \<Rightarrow> (nat \<times> lane \<times> string) list \<Rightarrow> lane list" where
  "lanes_of r moves \<equiv> mem_lane r # map (\<lambda>(_, target, _). target) moves"

abbreviation same_content :: "host \<Rightarrow> memory \<Rightarrow> memory \<Rightarrow> bool" where
  "same_content H r s \<equiv> content_digest H s = content_digest H r \<and> mem_id s = mem_id r \<and>
     mem_update s = mem_update r \<and> mem_receipt s = mem_receipt r"

lemma move_all_cases:
  assumes "claim_ok r"
  shows "case move_all H moves r of
      Inl e \<Rightarrow> (\<exists>m. e = TransitionError m) \<and> \<not> successively lane_step (lanes_of r moves)
    | Inr s \<Rightarrow> successively lane_step (lanes_of r moves) \<and> mem_lane s = last (lanes_of r moves) \<and> same_content H r s"
  using assms
proof (induction moves arbitrary: r)
  case (Cons p moves)
  obtain n target reason where p: "p = (n, target, reason)" by (cases p)
  let ?r = "r\<lparr>mem_lane := target, mem_reason := reason, mem_updated := now_utc H n\<rparr>"
  have "claim_ok ?r" using Cons.prems by (simp add: claim_ok_def)
  note IH = Cons.IH [OF this]
  have "content_digest H ?r = content_digest H r" by (simp add: content_digest_def)
  with IH show ?case
    by (auto simp: p move_memory_eq [OF Cons.prems] split: sum.splits)
qed simp

lemma retired_step: "lane_step TOMBSTONE m \<longleftrightarrow> m = TOMBSTONE"
  by (cases m) (simp_all add: lane_step_def)

lemma walk_retired: "successively lane_step (TOMBSTONE # ls) \<Longrightarrow> last (TOMBSTONE # ls) = TOMBSTONE"
  by (induction ls) (auto simp: retired_step)

lemma certified_step: "lane_step l CERTIFIED \<longleftrightarrow> l \<in> {SHADOW, CERTIFIED}"
  by (auto simp: lane_step_def)

lemma shadow_step: "lane_step l SHADOW \<longleftrightarrow> l \<in> {CANDIDATE, SHADOW}"
  by (auto simp: lane_step_def)

lemma walk_certified:
  "successively lane_step ls \<Longrightarrow> ls \<noteq> [] \<Longrightarrow> last ls = CERTIFIED \<Longrightarrow>
   hd ls = CERTIFIED \<or> hd ls = SHADOW \<and> subseq [SHADOW, CERTIFIED] ls \<or> subseq [CANDIDATE, SHADOW, CERTIFIED] ls"
proof (induction ls)
  case (Cons l ls)
  show ?case
  proof (cases ls)
    case (Cons m ms)
    have step: "lane_step l m" using Cons.prems Cons by simp
    have "m = CERTIFIED \<or> m = SHADOW \<and> subseq [SHADOW, CERTIFIED] ls \<or> subseq [CANDIDATE, SHADOW, CERTIFIED] ls"
      using Cons.IH Cons.prems Cons by auto
    then show ?thesis
    proof (elim disjE conjE)
      assume "m = CERTIFIED"
      then show ?thesis using step Cons by (auto simp: certified_step)
    next
      assume "m = SHADOW" "subseq [SHADOW, CERTIFIED] ls"
      then show ?thesis using step list_emb_Cons [of "(=)" "[SHADOW, CERTIFIED]" ls l] by (auto simp: shadow_step)
    next
      assume "subseq [CANDIDATE, SHADOW, CERTIFIED] ls"
      then have "subseq [CANDIDATE, SHADOW, CERTIFIED] (l # ls)" by (rule list_emb_Cons)
      then show ?thesis by blast
    qed
  qed (use Cons.prems in simp)
qed simp

text \<open>
  C15: the life of a memory. A history of moves goes through exactly when each step is one of the
  life of a memory, as told above, and otherwise it ends in a transition error. Whatever the
  history, the record keeps its content digest, its identity and its receipt and is in the lane of
  the last move; a retired record stays retired; and a record that becomes certified, and was
  neither certified nor in the shadow lane before, has been a candidate and then in the shadow lane
  on the way, also when it had been superseded, contradicted or put into quarantine.
\<close>

theorem lane_history:
  assumes "claim_ok r"
  shows "case move_all H moves r of
      Inl e \<Rightarrow> (\<exists>m. e = TransitionError m) \<and> \<not> successively lane_step (lanes_of r moves)
    | Inr s \<Rightarrow> successively lane_step (lanes_of r moves) \<and> mem_lane s = last (lanes_of r moves) \<and>
        same_content H r s \<and> (mem_lane r = TOMBSTONE \<longrightarrow> mem_lane s = TOMBSTONE) \<and>
        (mem_lane s = CERTIFIED \<longrightarrow> mem_lane r \<in> {SHADOW, CERTIFIED} \<or>
           subseq [CANDIDATE, SHADOW, CERTIFIED] (lanes_of r moves))"
proof (cases "move_all H moves r")
  case (Inr s)
  then have walk: "successively lane_step (lanes_of r moves)" "mem_lane s = last (lanes_of r moves)" "same_content H r s"
    using move_all_cases [OF assms, of moves H] by auto
  have "mem_lane s = TOMBSTONE" if "mem_lane r = TOMBSTONE"
    using walk_retired walk(1,2) that by metis
  moreover have "mem_lane r \<in> {SHADOW, CERTIFIED} \<or> subseq [CANDIDATE, SHADOW, CERTIFIED] (lanes_of r moves)"
    if "mem_lane s = CERTIFIED"
    using walk_certified [OF walk(1)] walk(2) that by auto
  ultimately show ?thesis using walk unfolding Inr sum.case by blast
qed (use move_all_cases [OF assms, of moves H] in simp)

text \<open>A certified record that is contradicted has to be nominated and reviewed again; no shortcut goes through.\<close>

theorem lane_history_witness:
  "\<exists>s m. move_all plain_host [(7, CERTIFIED, ''go''), (8, CONTRADICTION, ''no''), (9, CANDIDATE, ''again'')] (claim_record ''c'' []) =
       Inr s \<and> mem_lane s = CANDIDATE \<and>
     move_all plain_host [(7, CERTIFIED, ''go''), (8, CONTRADICTION, ''no''), (9, CERTIFIED, ''again'')] (claim_record ''c'' []) =
       Inl (TransitionError m)"
proof -
  let ?r = "claim_record ''c'' []"
  have r: "claim_ok ?r" "mem_lane ?r = SHADOW"
    by (simp_all add: claim_record_def claim_ok_def strip_def is_space_def)
  let ?moves = "\<lambda>l. [(7, CERTIFIED, ''go''), (8, CONTRADICTION, ''no''), (9, l, ''again'')]"
  have "successively lane_step (lanes_of ?r (?moves CANDIDATE))" "\<not> successively lane_step (lanes_of ?r (?moves CERTIFIED))"
    by (simp_all add: r(2) lane_step_def)
  then show ?thesis
    using lane_history [OF r(1), of "?moves CANDIDATE" plain_host] lane_history [OF r(1), of "?moves CERTIFIED" plain_host]
    by (auto split: sum.splits)
qed

section \<open>Receipts\<close>

lemma stored_checks:
  assumes "map (\<lambda>c. JDict (stored_dict (check_dump c))) cs = map (\<lambda>c. JDict (stored_dict (check_dump c))) ds"
  shows "map check_canon cs = map check_canon ds"
  using assms
proof (induction cs arbitrary: ds)
  case (Cons c cs)
  then obtain e es where ds: "ds = e # es" by (cases ds) auto
  with Cons.prems have "stored_dict (check_dump c) = stored_dict (check_dump e)" by simp
  then have "check_canon c = check_canon e" by (metis check_read_stored sum.inject(2))
  with Cons ds show ?case by simp
qed simp

lemma profile_value_inj [simp]: "profile_value p = profile_value q \<longleftrightarrow> p = q"
  by (cases p; cases q) simp_all

lemma outcome_value_inj [simp]: "outcome_value p = outcome_value q \<longleftrightarrow> p = q"
  by (cases p; cases q) simp_all

definition receipt_body :: "receipt \<Rightarrow> dict" where
  "receipt_body p = receipt_seed (rcp_candidate p) (rcp_update p) (rcp_action p) (rcp_profile p)
     (rcp_checks p) (rcp_result p) (rcp_refs p)"

lemma verified_digest:
  assumes "default_receipt_verifier H rcp m (Some r) = Inr c" "chk_passed c"
  shows "digest_json H (JDict (receipt_body rcp)) = Inr (rcp_digest rcp)"
  using assms
  by (auto simp: default_receipt_verifier_def Let_def failed_check_def mismatch_check_def check_result_def
      res_simps compute_receipt_digest_def receipt_body_def split: if_splits)

text \<open>
  C6: a receipt cannot be altered unseen. When two receipts with one digest both pass the receipt
  verifier, they say the same: the same candidate and update, the same bound action, profile,
  checks, result and evidence; or their bodies are a collision of the digest function.
\<close>

theorem receipt_tamper_evident:
  assumes "host_ok H"
    and "default_receipt_verifier H p m (Some r) = Inr c" "chk_passed c"
    and "default_receipt_verifier H q m' (Some r') = Inr c'" "chk_passed c'"
    and "rcp_digest p = rcp_digest q"
  shows "(rcp_candidate p = rcp_candidate q \<and> rcp_update p = rcp_update q \<and> rcp_action p = rcp_action q \<and>
      rcp_profile p = rcp_profile q \<and> map check_canon (rcp_checks p) = map check_canon (rcp_checks q) \<and>
      rcp_result p = rcp_result q \<and> rcp_refs p = rcp_refs q) \<or>
    collides H (JDict (receipt_body p)) (JDict (receipt_body q))"
proof -
  let ?a = "receipt_body p" and ?b = "receipt_body q"
  have "stored_json (JDict ?a) = stored_json (JDict ?b) \<or> collides H (JDict ?a) (JDict ?b)"
    using verified_digest [OF assms(2,3)] verified_digest [OF assms(4,5)] assms(1,6)
    by (intro digest_binds) auto
  moreover have "rcp_candidate p = rcp_candidate q \<and> rcp_update p = rcp_update q \<and> rcp_action p = rcp_action q \<and>
      rcp_profile p = rcp_profile q \<and> map check_canon (rcp_checks p) = map check_canon (rcp_checks q) \<and>
      rcp_result p = rcp_result q \<and> rcp_refs p = rcp_refs q"
    if eq: "stored_json (JDict ?a) = stored_json (JDict ?b)"
  proof -
    have f: "map_option stored_json (map_of ?a k) = map_option stored_json (map_of ?b k)" for k
      using eq by (intro stored_fields) (auto simp: receipt_body_def receipt_seed_def)
    note [simp] = receipt_body_def receipt_seed_def comp_def
    have "rcp_candidate p = rcp_candidate q" using f [of "''candidate_id''"] by simp
    moreover have "rcp_update p = rcp_update q" using f [of "''candidate_update_id''"] by simp
    moreover have "rcp_action p = rcp_action q" using f [of "''bound_action_id''"] by simp
    moreover have "rcp_profile p = rcp_profile q" using f [of "''profile''"] by simp
    moreover have "rcp_result p = rcp_result q" using f [of "''result''"] by simp
    moreover have "rcp_refs p = rcp_refs q" using f [of "''evidence_refs''"] by simp
    moreover have "map check_canon (rcp_checks p) = map check_canon (rcp_checks q)"
      by (rule stored_checks) (use f [of "''checks''"] in simp)
    ultimately show ?thesis by blast
  qed
  ultimately show ?thesis by blast
qed

lemma receipt_create_Inr:
  assumes "receipt_create H n r prof checks refs act = Inr p"
  shows "rcp_candidate p = mem_id r \<and> rcp_update p = mem_update r \<and> rcp_action p = act \<and>
    rcp_profile p = prof \<and> rcp_checks p = checks \<and> rcp_refs p = refs \<and>
    rcp_result p = (if list_all chk_passed checks then Passed else Failed) \<and>
    digest_json H (JDict (receipt_body p)) = Inr (rcp_digest p)"
  using assms
  by (auto simp: receipt_create_def Let_def res_simps compute_receipt_digest_def receipt_body_def)

lemma verifier_passes:
  assumes "digest_json H (JDict (receipt_body p)) = Inr (rcp_digest p)"
    "rcp_candidate p = mem_id r" "rcp_update p = mem_update r" "evm_candidate m = mem_id r"
    "evm_update m = mem_update r" "evm_id m \<in> set (rcp_refs p)"
    "case rcp_action p of None \<Rightarrow> True | Some a \<Rightarrow> a \<in> set (rcp_refs p)"
  shows "default_receipt_verifier H p m (Some r) = Inr (passed_check ''default-receipt'')"
  using assms
  by (simp add: default_receipt_verifier_def compute_receipt_digest_def receipt_body_def split: option.splits)

lemma sort_keys_check_canon:
  assumes "proper (JDict (chk_metrics c))"
  shows "sort_keys (JDict (check_dump (check_canon c))) = sort_keys (JDict (check_dump c))"
proof -
  have "sort_keys (JDict (stored_dict (chk_metrics c))) = sort_keys (JDict (chk_metrics c))"
    using stored_json_proper [OF assms] sort_keys_stored [of "JDict (chk_metrics c)"]
    by (simp only: stored_json_JDict)
  then show ?thesis by (simp add: check_dump_def check_canon_def del: sort_keys.simps(1)) simp
qed

lemma receipt_body_canon:
  assumes "list_all (\<lambda>c. proper (JDict (chk_metrics c))) (rcp_checks p)"
  shows "sort_keys (JDict (receipt_body (receipt_canon p))) = sort_keys (JDict (receipt_body p))"
proof -
  have "map (\<lambda>c. sort_keys (JDict (check_dump (check_canon c)))) (rcp_checks p) =
      map (\<lambda>c. sort_keys (JDict (check_dump c))) (rcp_checks p)"
    using assms sort_keys_check_canon by (auto simp: list_all_iff simp del: sort_keys.simps)
  then show ?thesis by (simp add: receipt_body_def receipt_seed_def comp_def)
qed

text \<open>
  C7: a receipt that \<open>PromotionReceipt.create\<close> makes for a record passes the receipt verifier
  against that record and any manifest that names the same candidate and update and is among its
  references; so do the copies of the three that the store hands back; and its result is passed
  exactly when every check passed.
\<close>

theorem created_receipt_verifies:
  assumes create: "receipt_create H n r prof checks refs act = Inr p"
    and m: "evm_candidate m = mem_id r" "evm_update m = mem_update r" "evm_id m \<in> set refs"
    and act: "case act of None \<Rightarrow> True | Some a \<Rightarrow> a \<in> set refs"
    and proper: "list_all (\<lambda>c. proper (JDict (chk_metrics c))) checks"
  shows "default_receipt_verifier H p m (Some r) = Inr (passed_check ''default-receipt'') \<and>
    default_receipt_verifier H (receipt_canon p) (manifest_canon m) (Some (memory_canon r)) =
      Inr (passed_check ''default-receipt'') \<and>
    (rcp_result p = Passed \<longleftrightarrow> list_all chk_passed checks)"
proof -
  note p = receipt_create_Inr [OF create]
  have "sort_keys (JDict (receipt_body (receipt_canon p))) = sort_keys (JDict (receipt_body p))"
    using receipt_body_canon [of p] p proper by blast
  then have "digest_json H (JDict (receipt_body (receipt_canon p))) = Inr (rcp_digest (receipt_canon p))"
    using p digest_json_cong [of "JDict (receipt_body (receipt_canon p))" "JDict (receipt_body p)" H]
    by (simp del: sort_keys.simps)
  moreover have "digest_json H (JDict (receipt_body p)) = Inr (rcp_digest p)" using p by blast
  ultimately show ?thesis
    using p m act by (auto intro!: verifier_passes split: option.splits)
qed

definition small_manifest :: manifest where
  "small_manifest =
     \<lparr>evm_schema = SCHEMA_VERSION, evm_id = ''evm_1'', evm_candidate = ''mem_1'', evm_update = ''upd_1'',
      evm_events = [''evt_1''], evm_digests = [(''evt_1'', ''d'')], evm_content = ''c'', evm_replay = ''r'',
      evm_tools = [], evm_caps = [], evm_created = 0\<rparr>"

definition small_receipt :: "nat \<Rightarrow> receipt" where
  "small_receipt n = projr (receipt_create plain_host n (claim_record ''c'' []) Strict
     [passed_check ''ok''] [''evm_1''] None)"

lemma small_receipt_eq:
  "receipt_create plain_host n (claim_record ''c'' []) Strict [passed_check ''ok''] [''evm_1''] None =
     Inr (small_receipt n)"
  by (simp add: small_receipt_def receipt_create_def Let_def compute_receipt_digest_def receipt_seed_def
      digest_json_eq id32_def check_dump_def passed_check_def check_result_def strs_json_def opt_str_json_def)

theorem created_receipt_verifies_witness:
  "default_receipt_verifier plain_host (receipt_canon (small_receipt 5)) (manifest_canon small_manifest)
     (Some (memory_canon (claim_record ''c'' []))) = Inr (passed_check ''default-receipt'')"
  using created_receipt_verifies [OF small_receipt_eq, of small_manifest 5]
  by (simp add: small_manifest_def claim_record_def passed_check_def check_result_def)

lemma small_receipt_passes:
  "default_receipt_verifier plain_host (small_receipt n) small_manifest (Some (claim_record ''c'' [])) =
     Inr (passed_check ''default-receipt'')"
  using receipt_create_Inr [OF small_receipt_eq [of n]]
  by (intro verifier_passes) (auto simp: small_manifest_def claim_record_def)

theorem receipt_tamper_evident_witness:
  "rcp_candidate (small_receipt 5) = rcp_candidate (small_receipt 8)"
proof -
  have body: "receipt_body (small_receipt n) = receipt_seed ''mem_1'' ''upd_1'' None Strict
      [passed_check ''ok''] Passed [''evm_1'']" for n
    using receipt_create_Inr [OF small_receipt_eq [of n]]
    by (simp add: receipt_body_def claim_record_def passed_check_def check_result_def)
  have "chk_passed (passed_check nm)" for nm by (simp add: passed_check_def check_result_def)
  moreover have "rcp_digest (small_receipt 5) = rcp_digest (small_receipt 8)"
    using receipt_create_Inr [OF small_receipt_eq [of 5]] receipt_create_Inr [OF small_receipt_eq [of 8]]
    by (simp add: body)
  ultimately show ?thesis
    using receipt_tamper_evident [OF plain_host_ok small_receipt_passes _ small_receipt_passes, of 5 8]
    by (auto simp: collides_def body)
qed

end
