(* ===== verification/Checker_Properties.thy ===== *)
theory Checker_Properties
  imports Identity_Properties
begin

text \<open>
  What a passing run of the default checkers establishes about a candidate, check by check and
  together, and the equivalence of the float search with its specification.
\<close>

section \<open>Results of the single checkers\<close>

lemma check_passed_simps [simp]:
  "chk_passed (passed_check nm)" "\<not> chk_passed (failed_check nm reason)"
  "\<not> chk_passed (mismatch_check nm reason e obs)" "chk_passed (check_result nm b reason m) = b"
  by (simp_all add: passed_check_def failed_check_def mismatch_check_def check_result_def)

lemma schema_checker_passed:
  "candidate_schema_checker H n r evidence ctx = Inr c \<Longrightarrow> chk_passed c \<Longrightarrow> candidate_schema_ok r"
  by (auto simp: candidate_schema_checker_def Let_def split: if_splits)

lemma input_set_passed:
  assumes "input_set_checker H n r evidence ctx = Inr c" "chk_passed c"
  obtains items digests actual where "distinct (mem_sources r)"
    "map_of evidence ''input_event_ids'' = Some (JList items)" "map (py_str H) items = mem_sources r"
    "map_of evidence ''input_event_digests'' = Some (JDict digests)" "str_values digests"
    "fst ` set digests = set (mem_sources r)"
    "map_of (ctx_values ctx) ''actual_event_digests'' = Some (JDict actual)" "str_values actual"
    "fst ` set actual = set (mem_sources r)"
    "\<forall>i \<in> set (mem_sources r). map_of digests i = map_of actual i"
    "\<not> truthy (get_or (ctx_values ctx) ''missing_source_event_ids'' (JList []))"
proof -
  have get: "get_or d k JNull = v \<Longrightarrow> v \<noteq> JNull \<Longrightarrow> map_of d k = Some v" for d k v
    by (auto simp: get_or_def split: option.splits)
  from assms show thesis
    by (auto simp: input_set_checker_def Let_def filter_empty_conv context_get_def
        split: if_splits json.splits intro!: that dest!: get)
qed

lemma candidate_digest_passed:
  assumes "candidate_digest_checker H n r evidence ctx = Inr c" "chk_passed c"
  obtains d where "content_digest H r = Inr d" "map_of evidence ''candidate_digest'' = Some (JStr d)"
    "compute_update_id H (mem_id r) d = Inr (mem_update r)"
proof -
  have get: "get_or d k JNull = JStr v \<Longrightarrow> map_of d k = Some (JStr v)" for d k v
    by (auto simp: get_or_def split: option.splits)
  from assms show thesis
    by (auto simp: candidate_digest_checker_def Let_def res_simps split: if_splits intro!: that dest!: get)
qed

lemma manifest_checker_passed:
  assumes "evidence_manifest_checker H n r evidence ctx = Inr c" "chk_passed c"
  obtains m d where "manifest_of_dict H n evidence = Inr m" "evm_candidate m = mem_id r"
    "evm_update m = mem_update r" "content_digest H r = Inr d" "evm_content m = d"
    "digest_json H (JDict (replay_seed r (strs_json (evm_events m)) (str_map_json (evm_digests m)) d
       (strs_json (evm_tools m)) (ints_json (evm_caps m)))) = Inr (evm_replay m)"
    "id32 H ''evm_'' (JDict (manifest_seed r (strs_json (evm_events m)) (str_map_json (evm_digests m)) d
       (evm_replay m))) = Inr (evm_id m)"
  using assms
  by (auto simp: evidence_manifest_checker_def Let_def res_simps split: if_splits sum.splits error.splits
      intro!: that)

lemma declared_tools_passed:
  assumes "declared_tools_checker H n r evidence ctx = Inr c" "chk_passed c"
  obtains tools where "str_list (get_or (mem_metadata r) ''tools'' (JList [])) = Some tools"
    "py_eq (get_or evidence ''declared_tools'' JNull) (strs_json tools)"
    "case checker_intent H ctx of Inr (Some a) \<Rightarrow> act_tool a \<in> set tools | _ \<Rightarrow> True"
proof -
  obtain tools where tools: "str_list (get_or (mem_metadata r) ''tools'' (JList [])) = Some tools"
    using assms by (auto simp: declared_tools_checker_def Let_def split: option.splits)
  moreover have py: "py_eq (get_or evidence ''declared_tools'' JNull) (strs_json tools)"
    using assms tools by (auto simp: declared_tools_checker_def Let_def split: if_splits)
  moreover have "case checker_intent H ctx of Inr (Some a) \<Rightarrow> act_tool a \<in> set tools | _ \<Rightarrow> True"
  proof (cases "\<exists>a. checker_intent H ctx = Inr (Some a) \<and> act_tool a \<notin> set tools")
    case True
    then obtain a where "checker_intent H ctx = Inr (Some a)" "act_tool a \<notin> set tools" by blast
    then have "c = failed_check ''declared-tools''
        (''action intent tool is not declared by candidate: '' @ act_tool a)"
      using assms(1) tools py by (simp add: declared_tools_checker_def)
    then show ?thesis using assms(2) by simp
  qed (auto split: sum.split option.split)
  ultimately show thesis by (rule that)
qed

lemma boundary_passed:
  "deterministic_boundary_checker H n r evidence ctx = Inr c \<Longrightarrow> chk_passed c \<Longrightarrow>
   find_float_paths (JDict (mem_metadata r)) ''candidate.metadata'' = [] \<and>
   find_float_paths (JDict evidence) ''evidence'' = []"
  by (auto simp: deterministic_boundary_checker_def Let_def split: if_splits)

lemma resource_caps_passed:
  assumes "resource_cap_checker k H n r evidence ctx = Inr c" "chk_passed c"
  obtains caps i where "get_or (mem_metadata r) ''resource_caps'' (JDict []) = JDict caps"
    "py_eq (get_or evidence ''resource_caps'' (JDict [])) (JDict caps)"
    "int_instance (get_or caps ''max_steps'' (JInt 32)) = Some i" "1 \<le> i" "i \<le> k"
  using assms
  by (auto simp: resource_cap_checker_def Let_def res_simps split: if_splits option.splits json.splits
      intro!: that)

section \<open>Floats\<close>

lemma find_float_paths_Nil: "find_float_paths v path = [] \<longleftrightarrow> float_free v"
proof (induction v path rule: find_float_paths.induct)
  case (3 vs path)
  have "(\<forall>p \<in> set (enumerate 0 vs). find_float_paths (snd p) (path @ ''['' @ nat_text (fst p) @ '']'') = []) \<longleftrightarrow>
      (\<forall>p \<in> set (enumerate 0 vs). float_free (snd p))"
    using 3 by (intro ball_cong) (auto simp: prod_eq_iff)
  also have "\<dots> \<longleftrightarrow> (\<forall>v \<in> set vs. float_free v)"
    by (metis (no_types, lifting) image_iff map_snd_enumerate set_map)
  finally show ?case by (auto simp: case_prod_beta)
qed (auto simp: case_prod_beta)

text \<open>
  C16: the boundary checker always returns, and passes exactly the candidates whose metadata and
  evidence hold no floating-point number at any depth, finite or not.
\<close>

theorem boundary_checker_exact:
  "\<exists>c. deterministic_boundary_checker H n r evidence ctx = Inr c \<and>
     (chk_passed c \<longleftrightarrow> float_free (JDict (mem_metadata r)) \<and> float_free (JDict evidence))"
  unfolding deterministic_boundary_checker_def Let_def append_is_Nil_conv find_float_paths_Nil by simp

section \<open>The default set\<close>

text \<open>What the evidence and the context say of one source event.\<close>

definition digest_agrees :: "dict \<Rightarrow> check_context \<Rightarrow> string \<Rightarrow> bool" where
  "digest_agrees evidence ctx i \<longleftrightarrow>
     (\<exists>digests actual s. map_of evidence ''input_event_digests'' = Some (JDict digests) \<and>
        map_of (ctx_values ctx) ''actual_event_digests'' = Some (JDict actual) \<and>
        map_of digests i = Some (JStr s) \<and> map_of actual i = Some (JStr s))"

text \<open>The manifest in the evidence, recomputed from the candidate.\<close>

definition manifest_binds :: "host \<Rightarrow> memory \<Rightarrow> manifest \<Rightarrow> string \<Rightarrow> bool" where
  "manifest_binds H r m d \<longleftrightarrow>
     evm_candidate m = mem_id r \<and> evm_update m = mem_update r \<and> evm_content m = d \<and>
     digest_json H (JDict (replay_seed r (strs_json (evm_events m)) (str_map_json (evm_digests m)) d
       (strs_json (evm_tools m)) (ints_json (evm_caps m)))) = Inr (evm_replay m) \<and>
     id32 H ''evm_'' (JDict (manifest_seed r (strs_json (evm_events m)) (str_map_json (evm_digests m)) d
       (evm_replay m))) = Inr (evm_id m)"

definition caps_bounded :: "memory \<Rightarrow> int \<Rightarrow> bool" where
  "caps_bounded r k \<longleftrightarrow>
     (\<exists>caps i. get_or (mem_metadata r) ''resource_caps'' (JDict []) = JDict caps \<and>
        int_instance (get_or caps ''max_steps'' (JInt 32)) = Some i \<and> 1 \<le> i \<and> i \<le> k)"

lemma run_defaults:
  assumes "map_res (\<lambda>c. c n r evidence ctx) (create_default_checkers H) = Inr checks" "list_all chk_passed checks"
  obtains c1 c2 c3 c4 c5 c6 c7 where
    "candidate_schema_checker H n r evidence ctx = Inr c1" "chk_passed c1"
    "input_set_checker H n r evidence ctx = Inr c2" "chk_passed c2"
    "evidence_manifest_checker H n r evidence ctx = Inr c3" "chk_passed c3"
    "candidate_digest_checker H n r evidence ctx = Inr c4" "chk_passed c4"
    "declared_tools_checker H n r evidence ctx = Inr c5" "chk_passed c5"
    "deterministic_boundary_checker H n r evidence ctx = Inr c6" "chk_passed c6"
    "resource_cap_checker 128 H n r evidence ctx = Inr c7" "chk_passed c7"
  using assms by (auto simp: create_default_checkers_def res_simps)

lemma source_digests:
  assumes "str_values digests" "fst ` set digests = S" "i \<in> S"
  shows "\<exists>s. map_of digests i = Some (JStr s)"
proof -
  obtain v where v: "map_of digests i = Some v"
    using assms(2,3) by (metis domD dom_map_of_conv_image_fst)
  then have "is_str v" using assms(1) by (force simp: str_values_def list_all_iff dest: map_of_SomeD)
  then show ?thesis using v by (cases v) (auto simp: is_str_def)
qed

lemma default_set_facts:
  assumes run: "map_res (\<lambda>c. c n r evidence ctx) (create_default_checkers H) = Inr checks"
    and passed: "list_all chk_passed checks"
  shows "candidate_schema_ok r \<and> distinct (mem_sources r) \<and>
    (\<forall>i \<in> set (mem_sources r). digest_agrees evidence ctx i) \<and>
    (\<exists>m d. manifest_of_dict H n evidence = Inr m \<and> content_digest H r = Inr d \<and> manifest_binds H r m d \<and>
       compute_update_id H (mem_id r) d = Inr (mem_update r)) \<and>
    (\<exists>tools. str_list (get_or (mem_metadata r) ''tools'' (JList [])) = Some tools \<and>
       (case checker_intent H ctx of Inr (Some a) \<Rightarrow> act_tool a \<in> set tools | _ \<Rightarrow> True)) \<and>
    float_free (JDict (mem_metadata r)) \<and> float_free (JDict evidence) \<and> caps_bounded r 128"
proof (intro conjI)
  note c = run_defaults [OF run passed]
  show "candidate_schema_ok r" using c schema_checker_passed by metis
  show "distinct (mem_sources r)" using c input_set_passed by metis
  show "float_free (JDict (mem_metadata r))" "float_free (JDict evidence)"
    using c boundary_passed find_float_paths_Nil by metis+
  show "\<forall>i \<in> set (mem_sources r). digest_agrees evidence ctx i"
  proof
    fix i assume i: "i \<in> set (mem_sources r)"
    from c obtain c2 where "input_set_checker H n r evidence ctx = Inr c2" "chk_passed c2" by metis
    then show "digest_agrees evidence ctx i"
      by (rule input_set_passed) (use i source_digests in \<open>fastforce simp: digest_agrees_def\<close>)
  qed
  from c obtain c3 c4 where c34: "evidence_manifest_checker H n r evidence ctx = Inr c3" "chk_passed c3"
      "candidate_digest_checker H n r evidence ctx = Inr c4" "chk_passed c4" by metis
  show "\<exists>m d. manifest_of_dict H n evidence = Inr m \<and> content_digest H r = Inr d \<and> manifest_binds H r m d \<and>
       compute_update_id H (mem_id r) d = Inr (mem_update r)"
    by (rule manifest_checker_passed [OF c34(1,2)], rule candidate_digest_passed [OF c34(3,4)])
       (auto simp: manifest_binds_def)
  from c obtain c5 where "declared_tools_checker H n r evidence ctx = Inr c5" "chk_passed c5" by metis
  then show "\<exists>tools. str_list (get_or (mem_metadata r) ''tools'' (JList [])) = Some tools \<and>
       (case checker_intent H ctx of Inr (Some a) \<Rightarrow> act_tool a \<in> set tools | _ \<Rightarrow> True)"
    by (rule declared_tools_passed) blast
  from c obtain c7 where "resource_cap_checker 128 H n r evidence ctx = Inr c7" "chk_passed c7" by metis
  then show "caps_bounded r 128"
    by (rule resource_caps_passed) (unfold caps_bounded_def, blast)
qed

end
