(* ===== verification/Promotion_Effects.thy ===== *)
theory Promotion_Effects
  imports Kernel_Safety Checker_Properties
begin

text \<open>
  What a call of the pipeline that returns has done to the store, over any backend that meets the
  storage contract.
\<close>

section \<open>Collecting digests\<close>

definition collected :: "store \<Rightarrow> string list \<Rightarrow> (string \<times> string) list \<Rightarrow> (string \<times> string) list" where
  "collected st is d = fold (\<lambda>i d. case find_event i st of Some e \<Rightarrow> put i (ev_digest e) d | None \<Rightarrow> d) is d"

definition absent :: "store \<Rightarrow> string list \<Rightarrow> string list" where
  "absent st is = filter (\<lambda>i. find_event i st = None) is"

lemma map_of_collected:
  "map_of (collected st is d) k =
     (if k \<in> set is \<and> find_event k st \<noteq> None then map_option ev_digest (find_event k st) else map_of d k)"
  unfolding collected_def by (induction "is" arbitrary: d) (auto split: option.splits)

lemma fst_collected: "fst ` set (collected st is []) = {i \<in> set is. find_event i st \<noteq> None}"
proof -
  have "fst ` set (collected st is []) = dom (map_of (collected st is []))" by (simp add: dom_map_of_conv_image_fst)
  also have "\<dots> = {i \<in> set is. find_event i st \<noteq> None}" by (auto simp: map_of_collected dom_def)
  finally show ?thesis .
qed

section \<open>What the calls write\<close>

text \<open>The record that ends a verification, and what else the call has written.\<close>

definition settled :: "memory \<Rightarrow> receipt \<Rightarrow> memory \<Rightarrow> bool" where
  "settled r rcp q \<longleftrightarrow>
     (\<exists>reason t. q = r\<lparr>mem_lane := (if rcp_result rcp = Passed then SHADOW else QUARANTINE),
        mem_reason := reason, mem_receipt := Some (rcp_id rcp), mem_updated := t\<rparr>)"

text \<open>
  All a verification writes: the manifest, the receipt, the event, and the record with its revision.
\<close>

definition after_verify :: "store \<Rightarrow> manifest \<Rightarrow> receipt \<Rightarrow> stored_event \<Rightarrow> memory \<Rightarrow> revision \<Rightarrow> store" where
  "after_verify st m rcp e q v =
     write_record (st\<lparr>st_manifests := st_manifests st @ [manifest_canon m],
       st_receipts := st_receipts st @ [receipt_canon rcp], st_events := st_events st @ [e]\<rparr>) q v"

text \<open>A state that differs from another only in the records of some ids, all superseded now.\<close>

definition superseded_only :: "string set \<Rightarrow> store \<Rightarrow> store \<Rightarrow> bool" where
  "superseded_only js st st' \<longleftrightarrow>
     st_events st' = st_events st \<and> st_receipts st' = st_receipts st \<and> st_contracts st' = st_contracts st \<and>
     st_manifests st' = st_manifests st \<and> (\<forall>j. j \<notin> js \<longrightarrow> st_memory st' j = st_memory st j) \<and>
     (\<forall>j \<in> js. \<exists>x. st_memory st' j = Some x \<and> mem_lane x = SUPERSEDED)"

context storage_backend
begin

lemma collect_eq:
  "ok (w_store w) \<Longrightarrow> collect_event_digests P is d m w =
     (Inr (collected (view (w_store w)) is d, m @ absent (view (w_store w)) is), w)"
proof (induction "is" arbitrary: d m)
  case (Cons i "is")
  then show ?case
    by (cases "find_event i (view (w_store w))") (simp_all add: get_event_eq collected_def absent_def)
qed (simp add: collected_def absent_def)

lemma load_eq:
  "ok (w_store w) \<Longrightarrow> load_memory P i w =
     (of_option (NotFoundError (''memory record not found: '' @ i)) (st_memory (view (w_store w)) i), w)"
  by (simp add: load_memory_def reads_def get_memory_eq)

section \<open>Events\<close>

lemma store_event_Inr:
  assumes "ok (w_store w)" "store_event P H kind payload rid parents w = (Inr se, w')"
  shows "ok (w_store w') \<and> ev_kind se = kind \<and> ev_payload se = payload \<and> ev_run se = rid \<and>
    view (w_store w') = (view (w_store w))\<lparr>st_events := st_events (view (w_store w)) @ [event_canon se]\<rparr>"
proof -
  obtain n e k s where e: "event_create H n kind payload rid parents = Inr e"
    and a: "append_event P k e (w_store w) = (Inr se, s)" and w': "w_store w' = s"
    using assms(2)
    by (auto simp: store_event_def draw_def writes_def elim!: bind_io_InrE lift_bind_InrE split: prod.splits)
  have "ev_kind e = kind \<and> ev_payload e = payload \<and> ev_run e = rid"
    using e by (auto simp: event_create_def Let_def res_simps)
  moreover obtain j t where "se = stored_event_of e j t" using append_ok [OF assms(1) a] by blast
  ultimately show ?thesis using append_ok [OF assms(1) a] w' by simp
qed

lemma append_verify_Inr:
  assumes "ok (w_store w)" "append_verify_event P H r rcp evidence w = (Inr u, w')"
  obtains e where "ok (w_store w')" "ev_kind e = ''memory_verify''"
    "view (w_store w') = (view (w_store w))\<lparr>st_events := st_events (view (w_store w)) @ [e]\<rparr>"
proof -
  obtain payload rid se where "store_event P H ''memory_verify'' payload rid (mem_sources r) w = (Inr se, w')"
    using assms(2) by (auto simp: append_verify_event_def elim!: bind_io_InrE lift_bind_InrE)
  from store_event_Inr [OF assms(1) this] show thesis by (intro that [of "event_canon se"]) auto
qed

section \<open>Writes\<close>

lemma save_Inr:
  assumes "ok (w_store w)" "claim_ok r" "save_memory P r operation reason rid eid w = (Inr q, w')"
  obtains v where "ok (w_store w')" "q = r" "w_tick w' = w_tick w + 2"
    "revises H r operation (lanes (view (w_store w)) (mem_id r)) reason rid eid v"
    "view (w_store w') = write_record (view (w_store w)) r v"
proof -
  obtain s where "upsert_memory_record P (w_tick w) r operation reason rid eid (w_store w) = (Inr q, s)"
    "w' = w\<lparr>w_tick := w_tick w + 2, w_store := s\<rparr>"
    using assms(3) unfolding save_memory_def by (rule writes_cases)
  then show thesis
    using upsert_ok [OF assms(1,2)] by (fastforce simp: lanes_def write_record_def intro: that)
qed

lemma moved_keeps:
  "moved H n l reason (Some i) r = Inr q \<Longrightarrow> claim_ok r \<Longrightarrow> i \<noteq> [] \<Longrightarrow>
   q = r\<lparr>mem_lane := l, mem_reason := reason, mem_receipt := Some i, mem_updated := now_utc H n\<rparr>"
  by (simp add: moved_def mk_memory_eq or_opt_def claim_ok_def)

lemma settle_Inr:
  assumes "ok (w_store w)" "claim_ok r" "rcp_id rcp \<noteq> []" "settle_candidate P H r rcp checks w = (Inr q, w')"
  obtains v reason where "ok (w_store w')" "settled r rcp q"
    "revises H q VERIFY (lanes (view (w_store w)) (mem_id r)) reason (Some (rcp_id rcp)) None v"
    "view (w_store w') = write_record (view (w_store w)) q v"
proof -
  let ?l = "if rcp_result rcp = Passed then SHADOW else QUARANTINE"
  obtain n s reason where m: "moved H n ?l reason (Some (rcp_id rcp)) r = Inr s"
    and sv: "save_memory P s VERIFY reason (Some (rcp_id rcp)) None (w\<lparr>w_tick := w_tick w + 2\<rparr>) = (Inr q, w')"
    using assms(4)
    by (auto simp: settle_candidate_def move_to_def draw_def Let_def split: if_splits
        elim!: bind_io_InrE lift_bind_InrE)
  note s = moved_keeps [OF m assms(2,3)]
  have "claim_ok s" using assms(2) s by (simp add: claim_ok_def)
  from save_Inr [OF _ this sv] assms(1) obtain v where v: "ok (w_store w')" "q = s"
      "revises H s VERIFY (lanes (view (w_store w)) (mem_id s)) reason (Some (rcp_id rcp)) None v"
      "view (w_store w') = write_record (view (w_store w)) s v" by auto
  moreover have "settled r rcp s" unfolding settled_def using s by blast
  ultimately show thesis using s by (intro that) auto
qed

section \<open>Verification\<close>

lemma build_evidence_Inr:
  assumes ok: "ok (w_store w)" and run: "build_evidence P H r w = (Inr d, w')"
  obtains m n tools caps where "ok (w_store w')" "d = manifest_dump H m"
    "manifest_create H n r (mem_sources r) (collected (view (w_store w)) (mem_sources r) []) tools caps = Inr m"
    "view (w_store w') = (view (w_store w))\<lparr>st_manifests := st_manifests (view (w_store w)) @ [manifest_canon m]\<rparr>"
proof -
  obtain tools caps m m' s where m: "manifest_create H (w_tick w) r (mem_sources r)
        (collected (view (w_store w)) (mem_sources r) []) tools caps = Inr m"
    and c: "create_evidence_manifest P m (w_store w) = (Inr m', s)" and "w_store w' = s" "d = manifest_dump H m"
    using run
    by (auto simp: build_evidence_def collect_eq [OF ok] draw_def writes_def
        elim!: bind_io_InrE lift_bind_InrE split: prod.splits)
  then show thesis using create_manifest_ok [OF ok c] by (intro that [OF _ _ m]) auto
qed

lemma receipt_id_nonempty: "receipt_create H n r prof checks refs act = Inr p \<Longrightarrow> rcp_id p \<noteq> []"
  by (auto simp: receipt_create_def Let_def res_simps id32_def)

lemma verify_Inr:
  assumes ok: "ok (w_store w)" and run: "verify_candidate P H checkers prof i None ctx w = (Inr rcp, w')"
  obtains r m n n' n'' tools caps checks act refs e q v reason where
    "ok (w_store w')" "checkers \<noteq> []" "st_memory (view (w_store w)) i = Some r"
    "manifest_create H n r (mem_sources r) (collected (view (w_store w)) (mem_sources r) []) tools caps = Inr m"
    "map_res (\<lambda>c. c n' r (manifest_dump H m)
       (with_authority ctx (collected (view (w_store w)) (mem_sources r) []) (absent (view (w_store w)) (mem_sources r))))
       checkers = Inr checks"
    "receipt_create H n'' r prof checks refs act = Inr rcp" "evm_id m \<in> set refs"
    "settled r rcp q" "ev_kind e = ''memory_verify''"
    "revises H q VERIFY (Some (mem_lane r)) reason (Some (rcp_id rcp)) None v"
    "view (w_store w') = after_verify (view (w_store w)) m rcp e q v"
proof -
  let ?st = "view (w_store w)"
  obtain r where r: "st_memory ?st i = Some r"
    and ne: "checkers \<noteq> []"
    using run ok by (auto simp: verify_candidate_def load_eq of_option_Inr_iff elim!: bind_io_InrE split: if_splits)
  have claim: "claim_ok r" and id: "mem_id r = i" using memory_wf [OF ok r] by auto
  let ?D = "collected ?st (mem_sources r) []" and ?A = "absent ?st (mem_sources r)"
  obtain d w1 a more checks w3 u w4 q where
      ev: "build_evidence P H r w = (Inr d, w1)"
    and ch: "map_res (\<lambda>c. c (w_tick w1) r d (with_authority ctx ?D ?A)) checkers = Inr checks"
    and rc: "receipt_create H (w_tick w1) r prof checks (evidence_str H d ''manifest_id'' # more) a = Inr rcp"
    and cr: "\<exists>p. writes (\<lambda>_. create_receipt P rcp) (w1\<lparr>w_tick := w_tick w1 + 2\<rparr>) = (Inr p, w3)"
    and av: "append_verify_event P H r rcp d w3 = (Inr u, w4)"
    and st: "settle_candidate P H r rcp checks w4 = (Inr q, w')"
    using run ne ok r
    by (auto simp: verify_candidate_def load_eq collect_eq Let_def run_checkers_def reads_def draw_def
        elim!: bind_io_InrE lift_bind_InrE)
  from build_evidence_Inr [OF ok ev] obtain m n tools caps where ok1: "ok (w_store w1)"
    and d: "d = manifest_dump H m"
    and m: "manifest_create H n r (mem_sources r) ?D tools caps = Inr m"
    and v1: "view (w_store w1) = ?st\<lparr>st_manifests := st_manifests ?st @ [manifest_canon m]\<rparr>" by blast
  from cr obtain p s where "create_receipt P rcp (w_store w1) = (Inr p, s)" "w_store w3 = s"
    by (auto simp: writes_def split: prod.splits)
  then have ok3: "ok (w_store w3)" and v3: "view (w_store w3) =
      (view (w_store w1))\<lparr>st_receipts := st_receipts (view (w_store w1)) @ [receipt_canon rcp]\<rparr>"
    using create_receipt_ok [OF ok1] by blast+
  from append_verify_Inr [OF ok3 av] obtain e where ok4: "ok (w_store w4)" and e: "ev_kind e = ''memory_verify''"
    and v4: "view (w_store w4) = (view (w_store w3))\<lparr>st_events := st_events (view (w_store w3)) @ [e]\<rparr>" .
  from settle_Inr [OF ok4 claim receipt_id_nonempty [OF rc] st] obtain v reason where ok': "ok (w_store w')"
    and q: "settled r rcp q"
    and v: "revises H q VERIFY (lanes (view (w_store w4)) (mem_id r)) reason (Some (rcp_id rcp)) None v"
    and v': "view (w_store w') = write_record (view (w_store w4)) q v" .
  have "lanes (view (w_store w4)) (mem_id r) = Some (mem_lane r)"
    using r id by (simp add: lanes_def v4 v3 v1)
  then have "revises H q VERIFY (Some (mem_lane r)) reason (Some (rcp_id rcp)) None v" using v by simp
  moreover have "view (w_store w') = after_verify ?st m rcp e q v"
    by (simp add: after_verify_def v' v4 v3 v1)
  moreover have "evm_id m \<in> set (evidence_str H d ''manifest_id'' # more)"
    by (simp add: d evidence_str_def get_or_def map_of_manifest_dump)
  ultimately show thesis using that ok' ne r m ch rc q e d by blast
qed

section \<open>Promotion\<close>

lemma supersede_one_Inr:
  assumes ok: "ok (w_store w)" and run: "supersede_one P H r rcp j w = (Inr u, w')"
  shows "ok (w_store w') \<and> superseded_only {j} (view (w_store w)) (view (w_store w'))"
proof -
  obtain old n s q reason where old: "st_memory (view (w_store w)) j = Some old"
    and m: "moved H n SUPERSEDED reason (Some (rcp_id rcp)) old = Inr s"
    and sv: "save_memory P s REPLACE reason (Some (rcp_id rcp)) None (w\<lparr>w_tick := w_tick w + 2\<rparr>) = (Inr q, w')"
    using run ok
    by (auto simp: supersede_one_def load_eq Let_def move_to_def draw_def of_option_Inr_iff
        elim!: bind_io_InrE lift_bind_InrE)
  from save_Inr [OF _ _ sv] ok moved_Inr [OF m] obtain v where "ok (w_store w')"
    "view (w_store w') = write_record (view (w_store w)) s v" by auto
  then show ?thesis
    using moved_Inr [OF m] memory_wf [OF ok old] by (simp add: superseded_only_def write_record_def)
qed

lemma supersede_all_Inr:
  "ok (w_store w) \<Longrightarrow> for_each (supersede_one P H r rcp) js w = (Inr u, w') \<Longrightarrow>
   ok (w_store w') \<and> superseded_only (set js) (view (w_store w)) (view (w_store w'))"
proof (induction js arbitrary: w)
  case (Cons j js)
  from Cons.prems(2) obtain w1 where one: "supersede_one P H r rcp j w = (Inr (), w1)"
    and rest: "for_each (supersede_one P H r rcp) js w1 = (Inr u, w')"
    by (auto elim!: bind_io_InrE)
  have w1: "ok (w_store w1) \<and> superseded_only {j} (view (w_store w)) (view (w_store w1))"
    by (rule supersede_one_Inr [OF Cons.prems(1) one])
  with Cons.IH [OF _ rest] have w': "ok (w_store w') \<and> superseded_only (set js) (view (w_store w1)) (view (w_store w'))"
    by blast
  have "\<exists>x. st_memory (view (w_store w')) j = Some x \<and> mem_lane x = SUPERSEDED"
    using w1 w' unfolding superseded_only_def by (cases "j \<in> set js") auto
  then show ?case using w1 w' unfolding superseded_only_def by auto
qed (simp add: superseded_only_def)

lemma promote_Inr:
  assumes ok: "ok (w_store w)" and run: "promote_candidate P H i w = (Inr q, w')"
  obtains r rcp c k e where "ok (w_store w')" "st_memory (view (w_store w)) i = Some r"
    "filter (passing_receipt r) (select rcp_candidate (Some i) (st_receipts (view (w_store w)))) \<noteq> []"
    "rcp = last (filter (passing_receipt r) (select rcp_candidate (Some i) (st_receipts (view (w_store w)))))"
    "mem_lane r = SHADOW \<or> mem_lane r = CERTIFIED"
    "contract_from_candidate H (w_tick w) r rcp = Inr c" "certified_record H k r rcp c = Inr q"
    "ev_kind e = ''memory_promote''"
    "\<exists>st1. superseded_only (set (mem_supersedes r))
       ((view (w_store w))\<lparr>st_contracts := (st_contracts (view (w_store w)))(wfc_id c \<mapsto> contract_canon c),
          st_memory := (st_memory (view (w_store w)))(i \<mapsto> memory_canon q)\<rparr>) st1 \<and>
       st_memory (view (w_store w')) = st_memory st1 \<and> st_contracts (view (w_store w')) = st_contracts st1 \<and>
       st_receipts (view (w_store w')) = st_receipts st1 \<and> st_events (view (w_store w')) = st_events st1 @ [e]"
proof -
  let ?st = "view (w_store w)"
  obtain r where r: "st_memory ?st i = Some r"
    using run ok by (auto simp: promote_candidate_def load_eq of_option_Inr_iff elim!: bind_io_InrE)
  define rs where "rs = filter (passing_receipt r) (select rcp_candidate (Some i) (st_receipts ?st))"
  define rcp where "rcp = last rs"
  have id: "mem_id r = i" using memory_wf [OF ok r] by blast
  have "rs \<noteq> []" and p: "promote_with_receipt P H r rcp w = (Inr q, w')"
    using run ok r unfolding rs_def rcp_def
    by (auto simp: promote_candidate_def load_eq reads_def list_receipts_eq Let_def elim!: bind_io_InrE split: if_splits)
  obtain c x w2 q1 q2 w3 w4 u where allow: "assert_transition_allowed (mem_lane r) CERTIFIED = Inr ()"
    and c: "contract_from_candidate H (w_tick w) r rcp = Inr c"
    and cc: "writes (\<lambda>_. create_contract P c) (w\<lparr>w_tick := w_tick w + 2\<rparr>) = (Inr x, w2)"
    and q1: "certified_record H (w_tick w2) r rcp c = Inr q1"
    and sv: "save_memory P q1 PROMOTE promoted_reason (Some (rcp_id rcp)) None (w2\<lparr>w_tick := w_tick w2 + 2\<rparr>) = (Inr q, w3)"
    and sup: "for_each (supersede_one P H r rcp) (mem_supersedes r) w3 = (Inr (), w4)"
    and ev: "append_promote_event P H q rcp c w4 = (Inr u, w')"
    using p by (auto simp: promote_with_receipt_def draw_def elim!: bind_io_InrE lift_bind_InrE)
  from cc obtain s where "create_contract P c (w_store w) = (Inr x, s)" "w_store w2 = s"
    by (auto simp: writes_def split: prod.splits)
  then have ok2: "ok (w_store w2)"
    and v2: "view (w_store w2) = ?st\<lparr>st_contracts := (st_contracts ?st)(wfc_id c \<mapsto> contract_canon c)\<rparr>"
    using create_contract_ok [OF ok] by blast+
  have q1': "claim_ok q1" "mem_id q1 = mem_id r"
    using q1 unfolding certified_record_def by (auto dest!: mk_memory_Inr)
  from save_Inr [OF _ q1'(1) sv] ok2 obtain v where ok3: "ok (w_store w3)" and q: "q = q1"
    and v3: "view (w_store w3) = write_record (view (w_store w2)) q1 v" by auto
  from supersede_all_Inr [OF ok3 sup] have ok4: "ok (w_store w4)"
    and s4: "superseded_only (set (mem_supersedes r)) (view (w_store w3)) (view (w_store w4))" by blast+
  obtain payload rid se where "store_event P H ''memory_promote'' payload rid (mem_sources q) w4 = (Inr se, w')"
    using ev by (auto simp: append_promote_event_def elim!: bind_io_InrE lift_bind_InrE)
  note e = store_event_Inr [OF ok4 this]
  have lane: "mem_lane r = SHADOW \<or> mem_lane r = CERTIFIED"
    using allow by (cases "mem_lane r") (auto simp: assert_transition_allowed_def split: if_splits)
  have "superseded_only (set (mem_supersedes r))
       (?st\<lparr>st_contracts := (st_contracts ?st)(wfc_id c \<mapsto> contract_canon c),
          st_memory := (st_memory ?st)(i \<mapsto> memory_canon q)\<rparr>) (view (w_store w4))"
    using s4 id q q1' by (simp add: superseded_only_def v3 v2 write_record_def)
  moreover have "certified_record H (w_tick w2) r rcp c = Inr q" using q1 q by simp
  ultimately show thesis
    using that [OF _ r, of rcp c "w_tick w2" "event_canon se"] e \<open>rs \<noteq> []\<close> lane c
    unfolding rcp_def rs_def by auto
qed

end

end
