(* ===== verification/Sqlite_Success.thy ===== *)
theory Sqlite_Success
  imports Storage_Properties Promotion_Effects
begin

text \<open>
  When the writes of the SQLite adapter succeed: the documents are finite and the identifiers that
  must be unique are new; and that a promotion whose conditions hold goes through.
\<close>

lemma finite_content: "finite_json (JDict (mem_metadata r)) \<Longrightarrow> \<exists>d. content_digest H r = Inr d"
  by (simp add: content_digest_def content_seed_def digest_json_eq strs_json_def)

lemma upsert_succeeds:
  assumes ok: "sqlite_ok E H s" and fin: "finite_json (JDict (mem_metadata r))"
    and fresh: "\<And>v. revision_create H n r operation (map_option mem_lane (st_memory (sqlite_view H s) (mem_id r)))
      reason (or_opt receipt_id (mem_receipt r)) event_id = Inr v \<Longrightarrow> rev_id v \<notin> vr_id ` set (db_revisions s)"
  obtains s' where "sqlite_upsert_memory_record H n r operation reason receipt_id event_id s = (Inr r, s')"
proof -
  obtain v where v: "revision_create H n r operation
      (map_option mem_lane (st_memory (sqlite_view H s) (mem_id r))) reason
      (or_opt receipt_id (mem_receipt r)) event_id = Inr v"
    using fin by (simp add: revision_create_def Let_def content_digest_def content_seed_def
        digest_json_eq id32_def revision_seed_def opt_lane_json_def)
  have rec: "rev_record v = memory_dump H r" using revision_create_Inr [OF v] by blast
  obtain a b c where "canonical_json H (JDict (memory_body r)) = Inr a"
    "canonical_json H (JDict (memory_dump H r)) = Inr b" "canonical_json H (JDict (revision_dump H v)) = Inr c"
    using fin unfolding canonical_json_eq finite_dumps rec by (simp add: memory_body_def)
  then show thesis
    using v fresh [OF v] by (intro that) (simp add: sqlite_upsert_memory_record_def upsert_memory_rows_def
        sqlite_existing_lane [OF ok] del: fst_conv)
qed

lemma create_receipt_succeeds:
  assumes "\<forall>c \<in> set (rcp_checks r). finite_json (JDict (chk_metrics c))" "rcp_id r \<notin> pr_id ` set (db_receipts s)"
  obtains s' where "sqlite_create_receipt H r s = (Inr r, s')"
proof -
  obtain raw where "canonical_json H (JDict (receipt_dump H r)) = Inr raw"
    using assms(1) unfolding canonical_json_eq receipt_dump_ok by simp
  then show thesis using assms(2) by (intro that) (simp add: sqlite_create_receipt_def create_receipt_rows_def)
qed

lemma create_contract_succeeds:
  assumes "finite_json (JDict (wfc_replay c))" "wfc_id c \<notin> cr_id ` set (db_contracts s)"
  obtains s' where "sqlite_create_contract H c s = (Inr c, s')" "db_revisions s' = db_revisions s"
    "db_events s' = db_events s"
proof -
  obtain raw where "canonical_json H (JDict (contract_dump H c)) = Inr raw"
    using assms(1) unfolding canonical_json_eq finite_dumps by simp
  moreover have "find (\<lambda>r. cr_id r = wfc_id c) (db_contracts s) = None"
    using assms(2) by (auto simp: find_None_iff image_iff)
  ultimately show thesis
    by (intro that [of "s\<lparr>db_contracts := db_contracts s @ [\<lparr>cr_id = wfc_id c, cr_raw = raw\<rparr>]\<rparr>"])
       (simp_all add: sqlite_create_contract_def create_contract_rows_def)
qed

lemma create_receipt_frame:
  "sqlite_create_receipt H r s = (Inr q, s') \<Longrightarrow> db_events s' = db_events s \<and>
   db_contracts s' = db_contracts s \<and> db_revisions s' = db_revisions s"
  by (auto simp: sqlite_create_receipt_def create_receipt_rows_def res_simps split: sum.splits)

lemma upsert_frame:
  "sqlite_upsert_memory_record H n r operation reason rid eid s = (Inr q, s') \<Longrightarrow> db_events s' = db_events s \<and>
   db_contracts s' = db_contracts s \<and> db_receipts s' = db_receipts s"
  by (auto simp: sqlite_upsert_memory_record_def upsert_memory_rows_def res_simps split: sum.splits)

lemma upsert_revision:
  assumes "sqlite_upsert_memory_record H n r operation reason rid eid s = (Inr q, s')"
  obtains before v where "revision_create H n r operation before reason (or_opt rid (mem_receipt r)) eid = Inr v"
    "vr_id ` set (db_revisions s') = insert (rev_id v) (vr_id ` set (db_revisions s))"
proof -
  obtain before v rev_raw where v: "revision_create H n r operation before reason (or_opt rid (mem_receipt r)) eid = Inr v"
    and "db_revisions s' = db_revisions s @ [revision_row_of (db_revision_seq s + 1) v rev_raw]"
    using assms by (auto simp: sqlite_upsert_memory_record_def upsert_memory_rows_def res_simps split: sum.splits)
  then show thesis by (intro that [OF v]) (simp add: revision_row_of_def)
qed

lemma store_event_succeeds:
  assumes "host_ok H" "finite_json (JDict payload)"
    and fresh: "\<And>e. event_create H (w_tick w) kind payload rid parents = Inr e \<Longrightarrow>
      ev_id e \<notin> er_id ` set (db_events (w_store w))"
  obtains se w' where "store_event (sqlite_port E H) H kind payload rid parents w = (Inr se, w')"
proof -
  obtain e where e: "event_create H (w_tick w) kind payload rid parents = Inr e"
    using assms(2) by (simp add: event_create_def Let_def digest_json_eq id32_def strs_json_def)
  then have "digest_json H (JDict (ev_payload e)) = Inr (ev_digest e)"
    by (auto simp: event_create_def Let_def res_simps)
  from sqlite_append_succeeds [OF assms(1) this fresh [OF e]] obtain se s where
    "sqlite_append_event H (w_tick w + 2) e (w_store w) = (Inr se, s)" by blast
  then show thesis
    using e by (intro that) (simp add: store_event_def bind_io_def draw_def writes_def sqlite_port_ops)
qed

section \<open>A promotion goes through\<close>

lemma contract_replay_finite:
  "contract_from_candidate H n r rcp = Inr c \<Longrightarrow> finite_json (JDict (wfc_replay c))"
  by (auto simp: contract_from_candidate_def res_simps strs_json_def)

text \<open>The event \<open>promote\<close> appends last, and what must hold of its identifier.\<close>

definition promotion_event ::
  "host \<Rightarrow> nat \<Rightarrow> memory \<Rightarrow> receipt \<Rightarrow> contract \<Rightarrow> event res"
where
  "promotion_event H n q rcp c =
     bind_res (content_digest H q) (\<lambda>d.
     event_create H n ''memory_promote''
       [(''operation'', JStr ''promote''), (''memory_ids'', strs_json [mem_id q]),
        (''memory_refs'', JList [JDict
          [(''memory_id'', JStr (mem_id q)), (''update_id'', JStr (mem_update q)), (''content_digest'', JStr d)]]),
        (''details'', JDict
          [(''receipt_id'', JStr (rcp_id rcp)), (''verification_id'', JStr (rcp_verification rcp)),
           (''receipt_digest'', JStr (rcp_digest rcp)), (''workflow_contract_id'', JStr (wfc_id c)),
           (''supersedes'', strs_json (mem_supersedes q))])]
       (str_or H (get_or (mem_metadata q) ''run_id'' JNull) ''promotion'') (mem_sources q))"

lemma promotion_run:
  assumes ok: "sqlite_ok E H (w_store w)"
    and get: "sqlite_get_memory_record H m i (w_store w) = Inr r" "mem_lane r = SHADOW" "mem_supersedes r = []"
    and rs: "sqlite_list_receipts H m (Some i) (w_store w) = Inr rs" "filter (passing_receipt r) rs \<noteq> []"
      "rcp = last (filter (passing_receipt r) rs)"
    and c: "contract_from_candidate H (w_tick w) r rcp = Inr c"
      "wfc_id c \<notin> cr_id ` set (db_contracts (w_store w))"
    and q: "certified_record H (w_tick w + 4) r rcp c = Inr q"
    and rev: "\<forall>v. revision_create H (w_tick w + 6) q PROMOTE (Some SHADOW) promoted_reason
      (or_opt (Some (rcp_id rcp)) (mem_receipt q)) None = Inr v \<longrightarrow>
      rev_id v \<notin> vr_id ` set (db_revisions (w_store w))"
    and ev: "\<forall>e. promotion_event H (w_tick w + 8) q rcp c = Inr e \<longrightarrow>
      ev_id e \<notin> er_id ` set (db_events (w_store w))"
  shows "\<exists>w'. promote_candidate (sqlite_port E H) H i w = (Inr q, w')"
proof -
  let ?P = "sqlite_port E H" and ?st = "sqlite_view H (w_store w)"
  have H: "host_ok H" using ok by (simp add: sqlite_ok_def)
  have r: "st_memory ?st i = Some r" using get(1) by (simp add: sqlite_get_memory_eq [OF ok] res_simps)
  note wf = sqlite_memory_wf [OF ok r]
  have rcps: "select rcp_candidate (Some i) (st_receipts ?st) = rs"
    using rs(1) by (simp add: sqlite_list_receipts_eq [OF ok])
  obtain s1 where s1: "sqlite_create_contract H c (w_store w) = (Inr c, s1)"
    "db_revisions s1 = db_revisions (w_store w)" "db_events s1 = db_events (w_store w)"
    by (rule create_contract_succeeds [OF contract_replay_finite [OF c(1)] c(2)])
  note law1 = sqlite_create_contract_ok [OF ok s1(1)]
  have ok1: "sqlite_ok E H s1" using law1 by blast
  have "st_memory (sqlite_view H s1) = st_memory ?st" using law1 by simp
  moreover have q': "claim_ok q" "mem_id q = i" "mem_metadata q = mem_metadata r"
    using q wf unfolding certified_record_def by (auto dest!: mk_memory_Inr)
  ultimately have lane: "map_option mem_lane (st_memory (sqlite_view H s1) (mem_id q)) = Some SHADOW"
    using r get(2) by simp
  obtain s2 where s2: "sqlite_upsert_memory_record H (w_tick w + 6) q PROMOTE promoted_reason
      (Some (rcp_id rcp)) None s1 = (Inr q, s2)"
    by (rule upsert_succeeds [OF ok1, of q "w_tick w + 6" PROMOTE promoted_reason "Some (rcp_id rcp)" None])
       (use wf q' rev lane s1 in auto)
  obtain d where d: "content_digest H q = Inr d" using finite_content wf q' by metis
  let ?w3 = "w\<lparr>w_tick := w_tick w + 8, w_store := s2\<rparr>"
  obtain u w' where w': "append_promote_event ?P H q rcp c ?w3 = (Inr u, w')"
  proof -
    let ?mref = "[(''memory_id'', JStr (mem_id q)), (''update_id'', JStr (mem_update q)), (''content_digest'', JStr d)]"
    let ?payload = "[(''operation'', JStr ''promote''), (''memory_ids'', strs_json [mem_id q]),
        (''memory_refs'', JList [JDict ?mref]),
        (''details'', JDict
          [(''receipt_id'', JStr (rcp_id rcp)), (''verification_id'', JStr (rcp_verification rcp)),
           (''receipt_digest'', JStr (rcp_digest rcp)), (''workflow_contract_id'', JStr (wfc_id c)),
           (''supersedes'', strs_json (mem_supersedes q))])]"
    have "finite_json (JDict ?payload)" by (simp add: strs_json_def)
    moreover have "db_events s2 = db_events (w_store w)" using upsert_frame [OF s2] s1 by simp
    ultimately obtain se w' where "store_event ?P H ''memory_promote'' ?payload
        (str_or H (get_or (mem_metadata q) ''run_id'' JNull) ''promotion'') (mem_sources q) ?w3 = (Inr se, w')"
      using ev by (elim store_event_succeeds [OF H, rotated -1]) (auto simp: promotion_event_def d)
    then show thesis
      by (intro that) (simp add: append_promote_event_def memory_ref_def d bind_io_def)
  qed
  have run: "promote_candidate ?P H i w = (Inr q, w')"
  proof -
    have "promote_with_receipt ?P H r rcp w = (Inr q, w')"
      using c(1) q get(2,3) s1(1) s2 w'
      by (simp add: promote_with_receipt_def bind_io_def draw_def writes_def sqlite_port_ops save_memory_def
          assert_transition_allowed_def numeral_eq_Suc)
    then show ?thesis
      using rs(2,3) r ok
      by (simp add: promote_candidate_def bind_io_def sqlite.load_eq reads_def sqlite.list_receipts_eq rcps Let_def)
  qed
  then show ?thesis by blast
qed

text \<open>
  C5: promotion works when it should. Let a record in the shadow lane supersede nothing and have a
  passing receipt for its present content, let a contract be made from its metadata and its certified
  form validate, and let the three identifiers this promotion draws, of that contract, of the revision
  and of the event that reports it, be unused in the file. Then \<open>promote\<close> returns the certified
  record, stores it, and stores its contract.
\<close>

theorem promotion_succeeds:
  assumes ok: "sqlite_ok E H (w_store w)"
    and get: "sqlite_get_memory_record H m i (w_store w) = Inr r" "mem_lane r = SHADOW" "mem_supersedes r = []"
    and rs: "sqlite_list_receipts H m (Some i) (w_store w) = Inr rs" "filter (passing_receipt r) rs \<noteq> []"
      "rcp = last (filter (passing_receipt r) rs)"
    and c: "contract_from_candidate H (w_tick w) r rcp = Inr c"
      "wfc_id c \<notin> cr_id ` set (db_contracts (w_store w))"
    and q: "certified_record H (w_tick w + 4) r rcp c = Inr q"
    and rev: "\<forall>v. revision_create H (w_tick w + 6) q PROMOTE (Some SHADOW) promoted_reason
      (or_opt (Some (rcp_id rcp)) (mem_receipt q)) None = Inr v \<longrightarrow>
      rev_id v \<notin> vr_id ` set (db_revisions (w_store w))"
    and ev: "\<forall>e. promotion_event H (w_tick w + 8) q rcp c = Inr e \<longrightarrow>
      ev_id e \<notin> er_id ` set (db_events (w_store w))"
  shows "\<exists>w'. promote_candidate (sqlite_port E H) H i w = (Inr q, w') \<and> mem_lane q = CERTIFIED \<and>
    sqlite_get_memory_record H m i (w_store w') = Inr (memory_canon q) \<and>
    sqlite_get_contract H m (wfc_id c) (w_store w') = Inr (contract_canon c)"
proof -
  obtain w' where run: "promote_candidate (sqlite_port E H) H i w = (Inr q, w')"
    using promotion_run [OF assms] by blast
  have r: "st_memory (sqlite_view H (w_store w)) i = Some r"
    using get(1) by (simp add: sqlite_get_memory_eq [OF ok] res_simps)
  have rcps: "select rcp_candidate (Some i) (st_receipts (sqlite_view H (w_store w))) = rs"
    using rs(1) by (simp add: sqlite_list_receipts_eq [OF ok])
  have "sqlite_ok E H (w_store w') \<and> st_memory (sqlite_view H (w_store w')) i = Some (memory_canon q) \<and>
      st_contracts (sqlite_view H (w_store w')) (wfc_id c) = Some (contract_canon c)"
  proof (rule sqlite.promote_Inr [OF ok run])
    fix r' rcp' c' k e
    assume "sqlite_ok E H (w_store w')" "st_memory (sqlite_view H (w_store w)) i = Some r'"
      "rcp' = last (filter (passing_receipt r')
         (select rcp_candidate (Some i) (st_receipts (sqlite_view H (w_store w)))))"
      "contract_from_candidate H (w_tick w) r' rcp' = Inr c'" "certified_record H k r' rcp' c' = Inr q"
      "\<exists>st1. superseded_only (set (mem_supersedes r'))
         ((sqlite_view H (w_store w))
            \<lparr>st_contracts := (st_contracts (sqlite_view H (w_store w)))(wfc_id c' \<mapsto> contract_canon c'),
             st_memory := (st_memory (sqlite_view H (w_store w)))(i \<mapsto> memory_canon q)\<rparr>) st1 \<and>
         st_memory (sqlite_view H (w_store w')) = st_memory st1 \<and>
         st_contracts (sqlite_view H (w_store w')) = st_contracts st1 \<and>
         st_receipts (sqlite_view H (w_store w')) = st_receipts st1 \<and>
         st_events (sqlite_view H (w_store w')) = st_events st1 @ [e]"
    then show ?thesis using r rcps rs(3) get(3) q c(1) by (auto simp: superseded_only_def)
  qed
  then show ?thesis
    using run certified_record_Inr [OF q] by (auto simp: sqlite_get_memory_eq sqlite_get_contract_eq)
qed

end
