(* ===== verification/Kernel_Invariants.thy ===== *)
theory Kernel_Invariants
  imports Kernel_Safety Concrete_Host
begin

text \<open>
  Every operation of the pipeline and of the kernel keeps the invariant of the store, for any
  checkers, retriever, model, tools and verifier, and any proposer that does not certify its own
  proposals; the reachable states of the kernel over SQLite.
\<close>

section \<open>Rules for the shape of computations\<close>

lemma keeps_prod [keeps_intros]:
  "(\<And>a b. p = (a, b) \<Longrightarrow> keeps I (f a b)) \<Longrightarrow> keeps I (case p of (a, b) \<Rightarrow> f a b)"
  by (cases p) simp

lemma keeps_option [keeps_intros]:
  "(x = None \<Longrightarrow> keeps I m) \<Longrightarrow> (\<And>y. x = Some y \<Longrightarrow> keeps I (f y)) \<Longrightarrow>
   keeps I (case x of None \<Rightarrow> m | Some y \<Rightarrow> f y)"
  by (cases x) simp_all

lemma keeps_or_missing [keeps_intros]:
  "keeps I m \<Longrightarrow> (\<And>x. keeps I (f x)) \<Longrightarrow> keeps I (or_missing nm m f)"
  unfolding keeps_def or_missing_def by (auto split: prod.splits sum.splits)

lemma keeps_run_checkers [keeps_intros]: "keeps I (run_checkers cs r d ctx)"
  by (simp add: run_checkers_def keeps_reads)

text \<open>
  From a state with \<open>A\<close>, the computation returns in a state with \<open>Q\<close> or raises in a
  state with \<open>J\<close>.
\<close>

definition leads :: "('s \<Rightarrow> bool) \<Rightarrow> ('s \<Rightarrow> bool) \<Rightarrow> ('s, 'a) io \<Rightarrow> ('a \<Rightarrow> 's \<Rightarrow> bool) \<Rightarrow> bool" where
  "leads J A m Q \<longleftrightarrow> (\<forall>w. A w \<longrightarrow> (case m w of (Inl e, w') \<Rightarrow> J w' | (Inr x, w') \<Rightarrow> Q x w'))"

lemma leads_bind:
  "leads J A m R \<Longrightarrow> (\<And>x. leads J (R x) (f x) Q) \<Longrightarrow> leads J A (bind_io m f) Q"
  unfolding leads_def bind_io_def by (fastforce split: prod.splits sum.splits)

lemma leads_lift:
  "(\<And>w. A w \<Longrightarrow> J w) \<Longrightarrow> (\<And>x. r = Inr x \<Longrightarrow> leads J A (f x) Q) \<Longrightarrow> leads J A (bind_io (lift r) f) Q"
  by (cases r) (auto simp: leads_def)

lemma leads_draw:
  "(\<And>w t. A w \<Longrightarrow> A (w\<lparr>w_tick := t\<rparr>)) \<Longrightarrow> (\<And>n. leads J A (f n) Q) \<Longrightarrow> leads J A (bind_io draw f) Q"
  by (simp add: leads_def bind_io_def draw_def)

lemma leads_keeps: "keeps J m \<Longrightarrow> (\<And>w. A w \<Longrightarrow> J w) \<Longrightarrow> leads J A m (\<lambda>_. J)"
  unfolding leads_def keeps_def by (force split: prod.splits sum.splits)

lemma keeps_leads: "leads J J m (\<lambda>_. J) \<Longrightarrow> keeps J m"
  unfolding leads_def keeps_def
  by (metis (mono_tags, lifting) old.prod.case old.sum.exhaust old.sum.simps(5,6) snd_conv surj_pair)

definition safe_proposer :: "'s kernel \<Rightarrow> bool" where
  "safe_proposer K \<longleftrightarrow> (\<forall>n es scope r. k_proposer K n es scope = Inr r \<longrightarrow> mem_lane r \<noteq> CERTIFIED)"

section \<open>The pipeline\<close>

context storage_backend
begin

lemma keeps_build_evidence [keeps_intros]:
  "keeps (world_inv view ok st0) (build_evidence P H r)"
  unfolding build_evidence_def by (intro keeps_intros)

lemma keeps_append_verify [keeps_intros]:
  "keeps (world_inv view ok st0) (append_verify_event P H r rcp ev)"
  unfolding append_verify_event_def by (intro keeps_intros)

lemma keeps_append_promote [keeps_intros]:
  "keeps (world_inv view ok st0) (append_promote_event P H r rcp c)"
  unfolding append_promote_event_def by (intro keeps_intros)

lemma keeps_settle [keeps_intros]:
  "keeps (world_inv view ok st0) (settle_candidate P H r rcp checks)"
  unfolding settle_candidate_def Let_def
  by (cases "rcp_result rcp") (simp_all, (rule keeps_move_save; simp add: keeps_save)+)

lemma keeps_verify_candidate [keeps_intros]:
  "keeps (world_inv view ok st0) (verify_candidate P H checkers prof i evidence ctx)"
  unfolding verify_candidate_def Let_def by (intro keeps_intros)

lemma keeps_supersede_one [keeps_intros]:
  "keeps (world_inv view ok st0) (supersede_one P H r rcp i)"
  unfolding supersede_one_def Let_def
  by (rule keeps_bind, rule keeps_load, rule keeps_bind_lift, rule keeps_move_save) (auto intro!: keeps_intros)

text \<open>The write of the certified record: its receipt and contract are in the store by then.\<close>

lemma load_memory_Inr:
  "ok (w_store w) \<Longrightarrow> load_memory P i w = (Inr r, w') \<Longrightarrow> w' = w \<and> st_memory (view (w_store w)) i = Some r"
  by (auto simp: load_memory_def reads_def get_memory_eq of_option_Inr_iff)

lemma assert_certified:
  "assert_transition_allowed l CERTIFIED = Inr u \<Longrightarrow> l = SHADOW \<or> l = CERTIFIED"
  by (cases l) (auto simp: assert_transition_allowed_def split: if_splits)

definition candidate_loaded :: "store \<Rightarrow> string \<Rightarrow> memory \<Rightarrow> 's world \<Rightarrow> bool" where
  "candidate_loaded st0 i r w \<longleftrightarrow>
     world_inv view ok st0 w \<and> st_memory (view (w_store w)) i = Some r"

definition receipt_chosen :: "store \<Rightarrow> string \<Rightarrow> memory \<Rightarrow> receipt \<Rightarrow> 's world \<Rightarrow> bool" where
  "receipt_chosen st0 i r rcp w \<longleftrightarrow>
     candidate_loaded st0 i r w \<and> (mem_lane r = SHADOW \<or> mem_lane r = CERTIFIED) \<and>
     rcp \<in> set (st_receipts (view (w_store w))) \<and> rcp_candidate rcp = i \<and> passing_receipt r rcp"

definition contract_stored :: "store \<Rightarrow> string \<Rightarrow> memory \<Rightarrow> receipt \<Rightarrow> contract \<Rightarrow> 's world \<Rightarrow> bool" where
  "contract_stored st0 i r rcp c w \<longleftrightarrow>
     receipt_chosen st0 i r rcp w \<and> (\<exists>n. contract_from_candidate H n r rcp = Inr c) \<and>
     st_contracts (view (w_store w)) (wfc_id c) = Some (contract_canon c)"

lemma save_certified:
  assumes B: "contract_stored st0 i r rcp c w" and cert: "certified_record H k r rcp c = Inr q"
    and save: "save_memory P q PROMOTE promoted_reason (Some (rcp_id rcp)) None w = (x, w')"
  shows "world_inv view ok st0 w'"
proof -
  have I: "world_inv view ok st0 w" and cand: "st_memory (view (w_store w)) i = Some r"
    and lane: "mem_lane r = SHADOW \<or> mem_lane r = CERTIFIED"
    and rcp: "rcp \<in> set (st_receipts (view (w_store w)))" "rcp_candidate rcp = i" "passing_receipt r rcp"
    and con: "st_contracts (view (w_store w)) (wfc_id c) = Some (contract_canon c)"
    using B by (auto simp: contract_stored_def receipt_chosen_def candidate_loaded_def)
  obtain n where c: "contract_from_candidate H n r rcp = Inr c" using B by (auto simp: contract_stored_def)
  have id: "mem_id r = i" using memory_wf [OF _ cand] I by (simp add: world_inv_def)
  note q = certified_record_Inr [OF cert] and cc = contract_from_candidate_Inr [OF c]
  have "certified_by (view (w_store w)) q"
    unfolding certified_by_def
    using con rcp q cc id
    by (intro exI [of _ rcp] exI [of _ "contract_canon c"]) (auto simp: passing_receipt_def map_of_stored_dict)
  moreover have "lanes (view (w_store w)) (mem_id q) \<in> {Some SHADOW, Some CERTIFIED}"
    using cand lane q id by (auto simp: lanes_def)
  ultimately show ?thesis using q save by (intro save_memory_inv [OF I]) auto
qed

lemma leads_with_receipt:
  "leads (world_inv view ok st0)
     (\<lambda>w. candidate_loaded st0 i r w \<and> rcp \<in> set (st_receipts (view (w_store w))) \<and>
        rcp_candidate rcp = i \<and> passing_receipt r rcp)
     (promote_with_receipt P H r rcp) (\<lambda>_. world_inv view ok st0)"
  (is "leads ?J ?A _ _")
  unfolding promote_with_receipt_def
proof (rule leads_lift)
  fix u assume "assert_transition_allowed (mem_lane r) CERTIFIED = Inr u"
  then have A: "?A = receipt_chosen st0 i r rcp"
    using assert_certified by (fastforce simp: receipt_chosen_def)
  let ?tail = "\<lambda>stored c. bind_io (for_each (supersede_one P H r rcp) (mem_supersedes r)) (\<lambda>_.
    bind_io (append_promote_event P H stored rcp c) (\<lambda>_. ret stored))"
  have tail: "leads ?J ?J (?tail stored c) (\<lambda>_. ?J)" for stored c
    by (intro leads_keeps keeps_intros)
  have store: "leads ?J (receipt_chosen st0 i r rcp) (writes (\<lambda>_. create_contract P c))
      (\<lambda>_. contract_stored st0 i r rcp c)" if "contract_from_candidate H n r rcp = Inr c" for n c
    unfolding leads_def
  proof (intro allI impI)
    fix w assume B: "receipt_chosen st0 i r rcp w"
    then have I: "?J w" and okw: "ok (w_store w)"
      by (auto simp: receipt_chosen_def candidate_loaded_def world_inv_def)
    obtain x w' where run: "writes (\<lambda>_. create_contract P c) w = (x, w')" by fastforce
    have I': "?J w'" by (rule keeps_step [OF keeps_create_contract I run])
    from run obtain s where s: "create_contract P c (w_store w) = (x, s)"
      and w': "w' = w\<lparr>w_tick := w_tick w + 2, w_store := s\<rparr>" by (rule writes_cases)
    show "case writes (\<lambda>_. create_contract P c) w of (Inl e, w') \<Rightarrow> ?J w'
      | (Inr x, w') \<Rightarrow> contract_stored st0 i r rcp c w'"
    proof (cases x)
      case (Inr y)
      then show ?thesis
        using create_contract_ok [OF okw s [unfolded Inr]] B I' that
        by (auto simp: run w' contract_stored_def receipt_chosen_def candidate_loaded_def)
    qed (use run I' in simp)
  qed
  show "leads ?J ?A (bind_io draw (\<lambda>n. bind_io (lift (contract_from_candidate H n r rcp)) (\<lambda>c.
      bind_io (writes (\<lambda>_. create_contract P c)) (\<lambda>_. bind_io draw (\<lambda>k.
      bind_io (lift (certified_record H k r rcp c)) (\<lambda>certified.
      bind_io (save_memory P certified PROMOTE promoted_reason (Some (rcp_id rcp)) None)
        (\<lambda>stored. ?tail stored c))))))) (\<lambda>_. ?J)"
    unfolding A
  proof (intro leads_draw leads_lift leads_bind [OF store] leads_bind [OF _ tail])
    show "leads ?J (contract_stored st0 i r rcp c) (save_memory P q PROMOTE promoted_reason (Some (rcp_id rcp)) None)
        (\<lambda>_. ?J)" if "certified_record H k r rcp c = Inr q" for c k q
      unfolding leads_def using save_certified [OF _ that] by (auto split: prod.splits sum.splits)
  qed (auto simp: contract_stored_def receipt_chosen_def candidate_loaded_def world_inv_def)
qed (auto simp: candidate_loaded_def)

lemma keeps_promote [keeps_intros]:
  "keeps (world_inv view ok st0) (promote_candidate P H i)"
proof (rule keeps_leads)
  let ?J = "world_inv view ok st0"
  have load: "leads ?J ?J (load_memory P i) (candidate_loaded st0 i)"
    by (auto simp: leads_def candidate_loaded_def load_memory_def reads_def get_memory_eq world_inv_def
        of_option_def split: option.splits)
  have pick: "leads ?J (candidate_loaded st0 i r) (reads (\<lambda>n. list_receipts P n (Some i)))
      (\<lambda>rs w. candidate_loaded st0 i r w \<and>
        (\<forall>x \<in> set rs. x \<in> set (st_receipts (view (w_store w))) \<and> rcp_candidate x = i))" for r
    by (auto simp: leads_def candidate_loaded_def reads_def list_receipts_eq world_inv_def set_select)
  show "leads ?J ?J (promote_candidate P H i) (\<lambda>_. ?J)"
    unfolding promote_candidate_def Let_def
  proof (intro leads_bind [OF load] leads_bind [OF pick])
    fix r rs
    let ?A = "\<lambda>w. candidate_loaded st0 i r w \<and>
        (\<forall>x \<in> set rs. x \<in> set (st_receipts (view (w_store w))) \<and> rcp_candidate x = i)"
    show "leads ?J ?A (if filter (passing_receipt r) rs = []
        then throw (FailClosedError ''promotion requires a passing receipt for this candidate update'')
        else promote_with_receipt P H r (last (filter (passing_receipt r) rs))) (\<lambda>_. ?J)"
    proof (cases "filter (passing_receipt r) rs = []")
      case True
      then show ?thesis by (auto simp: leads_def candidate_loaded_def)
    next
      case False
      then have "last (filter (passing_receipt r) rs) \<in> set (filter (passing_receipt r) rs)"
        by (rule last_in_set)
      then show ?thesis
        using leads_with_receipt [of st0 i r "last (filter (passing_receipt r) rs)"] False
        unfolding leads_def by auto
    qed
  qed
qed

end

end
