(* ===== verification/Kernel_Reachable.thy ===== *)
theory Kernel_Reachable
  imports Kernel_Invariants
begin

text \<open>
  Every operation of the kernel keeps the invariant of the store, and the states a kernel over the
  SQLite adapter can reach: any sequence of calls, with any arguments, whether each call returns or
  raises.
\<close>

section \<open>The operations of a wired kernel\<close>

locale wired_kernel = storage_backend "k_storage K" "k_host K" view ok
  for K :: "'s kernel" and view :: "'s \<Rightarrow> store" and ok :: "'s \<Rightarrow> bool" +
  assumes safe: "safe_proposer K"
begin

abbreviation inv :: "store \<Rightarrow> 's world \<Rightarrow> bool" where
  "inv st0 \<equiv> world_inv view ok st0"

lemma keeps_load_receipt [keeps_intros]: "keeps I (load_receipt K i)"
  by (simp add: load_receipt_def keeps_reads)

lemma keeps_run_id [keeps_intros]: "keeps (inv st0) (actual_run_id K rid)"
  unfolding actual_run_id_def by (intro keeps_intros)

lemma keeps_ref [keeps_intros]: "keeps I (kernel_memory_ref K i)"
  by (simp add: keeps_def kernel_memory_ref_def load_memory_def reads_def split: sum.split)

lemma keeps_observe [keeps_intros]: "keeps (inv st0) (observe K kind payload rid parents raw)"
  unfolding observe_def by (intro keeps_intros) (auto dest!: memory_create_Inr)

lemma keeps_record [keeps_intros]: "keeps (inv st0) (record_memory_operation K operation rid is details)"
  unfolding record_memory_operation_def by (intro keeps_intros)

lemma keeps_propose [keeps_intros]: "keeps (inv st0) (propose_memory K rid scope tools caps sig)"
  unfolding propose_memory_def
  by (rule keeps_bind, rule keeps_reads, rule keeps_if, rule keeps_throw, rule keeps_bind, rule keeps_draw,
      rule keeps_bind_lift, rule keeps_bind, rule keeps_draw, rule keeps_bind_lift, rule keeps_save)
     (use safe memory_create_Inr in \<open>metis safe_proposer_def\<close>)+

lemma keeps_verify_op [keeps_intros]: "keeps (inv st0) (verify K i a)"
  unfolding verify_def by (intro keeps_intros)

lemma keeps_promote_op [keeps_intros]: "keeps (inv st0) (promote K i)"
  unfolding promote_def by (intro keeps_intros)

lemma keeps_correct [keeps_intros]: "keeps (inv st0) (correct_memory K i claim rid sources)"
  unfolding correct_memory_def Let_def by (intro keeps_intros) (auto dest!: memory_create_Inr)

lemma keeps_contradict [keeps_intros]: "keeps (inv st0) (contradict K i claim sources reason)"
  unfolding contradict_def by (intro keeps_intros) (auto dest!: memory_create_Inr)

lemma keeps_retrieve [keeps_intros]: "keeps (inv st0) (retrieve K query mode limit rid)"
  unfolding retrieve_def by (intro keeps_intros)

lemma keeps_run_task [keeps_intros]:
  "keeps (inv st0) (run_task K task tools effects model rid gates a)"
  unfolding run_task_def by (intro keeps_intros)

lemma keeps_contract_check [keeps_intros]: "keeps (inv st0) (required_contract_check K a)"
  unfolding required_contract_check_def by (intro keeps_intros)

lemma keeps_invoke [keeps_intros]: "keeps (inv st0) (invoke_tool K call a gates)"
  unfolding invoke_tool_def Let_def by (intro keeps_intros)

lemma keeps_retire [keeps_intros]: "keeps (inv st0) (retire K i reason)"
  unfolding retire_def
  by (rule keeps_bind, rule keeps_load, rule keeps_bind_lift, rule keeps_move_save)
     (auto intro!: keeps_intros)

lemma keeps_supersede [keeps_intros]: "keeps (inv st0) (supersede K old new rid)"
  unfolding supersede_def Let_def
  by (rule keeps_bind, rule keeps_load, rule keeps_bind, rule keeps_load, rule keeps_bind,
      rule keeps_load_receipt, rule keeps_bind_lift, rule keeps_bind_lift, rule keeps_bind_lift,
      rule keeps_move_save)
     (auto intro!: keeps_intros)

lemma keeps_audit [keeps_intros]: "keeps I (audit K)"
  by (simp add: audit_def keeps_reads)

lemma keeps_verify_receipt [keeps_intros]: "keeps (inv st0) (verify_receipt K rid)"
  unfolding verify_receipt_def by (intro keeps_intros)

lemma keeps_strict_recheck [keeps_intros]: "keeps (inv st0) (strict_recheck_receipt K rcp)"
  unfolding strict_recheck_receipt_def Let_def by (intro keeps_intros)

lemma keeps_audit_receipts [keeps_intros]: "keeps (inv st0) (audit_receipts K strict)"
  unfolding audit_receipts_def audit_receipt_def by (intro keeps_intros)

lemma keeps_consolidate [keeps_intros]: "keeps (inv st0) (consolidate_run K rid)"
  unfolding consolidate_run_def by (intro keeps_intros)

end

section \<open>Reachable states\<close>

inductive kernel_step :: "'s kernel \<Rightarrow> 's world \<Rightarrow> 's world \<Rightarrow> bool" for K where
  step_observe: "observe K kind payload rid parents raw w = (r, w') \<Longrightarrow> kernel_step K w w'"
| step_record: "record_memory_operation K operation run is details w = (r, w') \<Longrightarrow> kernel_step K w w'"
| step_propose: "propose_memory K run scope tools caps sig w = (q, w') \<Longrightarrow> kernel_step K w w'"
| step_verify: "verify K i a w = (rcp, w') \<Longrightarrow> kernel_step K w w'"
| step_promote: "promote K i w = (q, w') \<Longrightarrow> kernel_step K w w'"
| step_correct: "correct_memory K i claim rid sources w = (q, w') \<Longrightarrow> kernel_step K w w'"
| step_contradict: "contradict K i claim sources reason w = (q, w') \<Longrightarrow> kernel_step K w w'"
| step_retrieve: "retrieve K query mode limit rid w = (items, w') \<Longrightarrow> kernel_step K w w'"
| step_run: "run_task K task tools' effects model rid gates a w = (out, w') \<Longrightarrow> kernel_step K w w'"
| step_invoke: "invoke_tool K call act gates w = (tr, w') \<Longrightarrow> kernel_step K w w'"
| step_retire: "retire K i reason w = (q, w') \<Longrightarrow> kernel_step K w w'"
| step_supersede: "supersede K old new i w = (q, w') \<Longrightarrow> kernel_step K w w'"
| step_audit: "audit K w = (counts, w') \<Longrightarrow> kernel_step K w w'"
| step_verify_receipt: "verify_receipt K i w = (c, w') \<Longrightarrow> kernel_step K w w'"
| step_audit_receipts: "audit_receipts K strict w = (rows, w') \<Longrightarrow> kernel_step K w w'"
| step_consolidate: "consolidate_run K run w = (q, w') \<Longrightarrow> kernel_step K w w'"

inductive kernel_reach :: "'s kernel \<Rightarrow> 's world \<Rightarrow> 's world \<Rightarrow> bool" for K where
  reach_start: "kernel_reach K w w"
| reach_step: "kernel_reach K w0 w \<Longrightarrow> kernel_step K w w' \<Longrightarrow> kernel_reach K w0 w'"

context wired_kernel
begin

lemma step_inv: "kernel_step K w w' \<Longrightarrow> inv st0 w \<Longrightarrow> inv st0 w'"
  by (induction rule: kernel_step.induct) (erule keeps_step [rotated 2], rule keeps_intros, assumption)+

lemma reach_inv: "kernel_reach K w w' \<Longrightarrow> inv st0 w \<Longrightarrow> inv st0 w'"
  by (induction rule: kernel_reach.induct) (auto intro: step_inv)

lemma reach_grows:
  assumes "kernel_reach K w w'" "ok (w_store w)" "store_inv (view (w_store w))"
  shows "ok (w_store w') \<and> store_grows (view (w_store w)) (view (w_store w')) \<and>
    store_inv (view (w_store w'))"
  using reach_inv [OF assms(1), of "view (w_store w)"] assms by (auto simp: world_inv_def)

end

end
