(* ===== verification/Kernel_Open.thy ===== *)
theory Kernel_Open
  imports Kernel_Reachable
begin

text \<open>
  The kernel that \<open>AgentKernel.open\<close> wires over a SQLite file, with the plugins a caller may
  pass in place of each default part, and the digest-counting host on which whole runs are computed.
\<close>

section \<open>Wiring\<close>

text \<open>A plugin that is \<open>None\<close> leaves the default part in place.\<close>

record plugins =
  pl_retriever :: "(nat \<Rightarrow> string \<Rightarrow> lane list \<Rightarrow> int \<Rightarrow> db \<Rightarrow> retrieved list res) option"
  pl_llm :: "llm_provider option"
  pl_checkers :: "checker list option"
  pl_proposer :: "(nat \<Rightarrow> stored_event list \<Rightarrow> string \<Rightarrow> memory res) option"
  pl_tools :: "tool_adapter option"
  pl_verifier :: "receipt_verifier option"

definition no_plugins :: plugins where
  "no_plugins = \<lparr>pl_retriever = None, pl_llm = None, pl_checkers = None, pl_proposer = None,
     pl_tools = None, pl_verifier = None\<rparr>"

definition or_default :: "'a option \<Rightarrow> 'a \<Rightarrow> 'a" where
  "or_default x d = (case x of None \<Rightarrow> d | Some y \<Rightarrow> y)"

text \<open>
  \<open>litellm\<close> stands for \<open>LiteLLMProvider(model)\<close>, used when a model is named;
  \<open>n\<close> is the draw of the tool adapter's token.
\<close>

definition open_kernel ::
  "fts_engine \<Rightarrow> host \<Rightarrow> (string \<Rightarrow> llm_provider) \<Rightarrow> nat \<Rightarrow> string option \<Rightarrow> string \<Rightarrow> plugins \<Rightarrow> db kernel"
where
  "open_kernel E H litellm n model prof pl =
     \<lparr>k_host = H, k_storage = sqlite_port E H,
      k_retriever = or_default (pl_retriever pl) (fts_search (sqlite_port E H)),
      k_llm = or_default (pl_llm pl)
        (if or_str model [] = [] then mock_complete ''mock'' else litellm (or_str model [])),
      k_checkers = or_default (pl_checkers pl) (create_default_checkers H),
      k_proposer = or_default (pl_proposer pl) (deterministic_propose H),
      k_tools = or_default (pl_tools pl) (local_adapter (local_tools_new H n)),
      k_verifier = or_default (pl_verifier pl) (default_receipt_verifier H),
      k_profile = prof\<rparr>"

definition safe_plugins :: "plugins \<Rightarrow> bool" where
  "safe_plugins pl \<longleftrightarrow>
     (\<forall>f. pl_proposer pl = Some f \<longrightarrow> (\<forall>n es scope r. f n es scope = Inr r \<longrightarrow> mem_lane r \<noteq> CERTIFIED))"

lemma deterministic_lane: "deterministic_propose H n es scope = Inr r \<Longrightarrow> mem_lane r = CANDIDATE"
  by (auto simp: deterministic_propose_def Let_def dest!: memory_create_Inr split: if_splits)

lemma open_kernel_parts [simp]:
  "k_host (open_kernel E H lite n model prof pl) = H"
  "k_storage (open_kernel E H lite n model prof pl) = sqlite_port E H"
  "k_profile (open_kernel E H lite n model prof pl) = prof"
  by (simp_all add: open_kernel_def)

lemma open_kernel_wired:
  assumes "safe_plugins pl"
  shows "wired_kernel (open_kernel E H lite n model prof pl) (sqlite_view H) (sqlite_ok E H)"
proof -
  have "safe_proposer (open_kernel E H lite n model prof pl)"
    using assms deterministic_lane
    by (cases "pl_proposer pl")
       (fastforce simp: safe_proposer_def safe_plugins_def open_kernel_def or_default_def)+
  then show ?thesis
    by (simp add: wired_kernel_def wired_kernel_axioms_def sqlite.storage_backend_axioms)
qed

text \<open>The default kernel meets the contract of the wiring.\<close>

interpretation default_kernel: wired_kernel "open_kernel E H lite n model prof no_plugins"
    "sqlite_view H" "sqlite_ok E H"
  for E H lite n model prof
  by (rule open_kernel_wired) (simp add: safe_plugins_def no_plugins_def)

definition fresh_world :: "db world" where
  "fresh_world = \<lparr>w_tick = 0, w_store = empty_db\<rparr>"

section \<open>A host for whole runs\<close>

text \<open>
  Digests that keep the digits of a text: short, and different wherever the draws of the clock
  and of the random source are.
\<close>

definition tally_host :: host where
  "tally_host = plain_host\<lparr>sha256 := filter is_digit\<rparr>"

end
