(* ===== verification/Witness_States.thy ===== *)
theory Witness_States
  imports Sqlite_Success Kernel_Open
begin

text \<open>
  Concrete files on which the properties are applied: one record in the shadow lane with its
  passing receipt, and the same file after the kernel has promoted the record.
\<close>

section \<open>A record in the shadow lane\<close>

definition shadow_record :: memory where
  "shadow_record = claim_record ''c'' []"

lemma shadow_record_simps [simp]:
  "mem_id shadow_record = ''mem_1''" "mem_update shadow_record = ''upd_1''" "mem_lane shadow_record = SHADOW"
  "mem_claim shadow_record = ''c''" "mem_sources shadow_record = [''evt_1'']" "mem_metadata shadow_record = []"
  "mem_supersedes shadow_record = []" "mem_contradicts shadow_record = []" "mem_receipt shadow_record = None"
  by (simp_all add: shadow_record_def claim_record_def)

lemma shadow_record_ok: "claim_ok shadow_record"
  by (simp add: claim_ok_def strip_def is_space_def)

lemma shadow_record_canon [simp]: "memory_canon shadow_record = shadow_record"
  by (simp add: memory_canon_def stored_dict_def stored_map_def dict_of_pairs_def)

definition shadow_rows :: db where
  "shadow_rows = snd (sqlite_upsert_memory_record plain_host 5 shadow_record VERIFY [] None None empty_db)"

definition shadow_db :: db where
  "shadow_db = snd (sqlite_create_receipt plain_host (small_receipt 5) shadow_rows)"

lemma shadow_upsert:
  "sqlite_upsert_memory_record plain_host 5 shadow_record VERIFY [] None None empty_db = (Inr shadow_record, shadow_rows)"
  using sqlite_upsert_succeeds [OF plain_db_ok, of shadow_record 5 VERIFY "[]" None None]
  by (simp add: shadow_rows_def empty_db_def)

lemma small_receipt_simps [simp]:
  "rcp_candidate (small_receipt n) = ''mem_1''" "rcp_update (small_receipt n) = ''upd_1''"
  "rcp_result (small_receipt n) = Passed" "rcp_checks (small_receipt n) = [passed_check ''ok'']"
  "rcp_refs (small_receipt n) = [''evm_1'']" "rcp_action (small_receipt n) = None"
  using receipt_create_Inr [OF small_receipt_eq [of n]] by (simp_all add: claim_record_def)

lemma passed_check_canon [simp]: "check_canon (passed_check nm) = passed_check nm"
  by (simp add: check_canon_def passed_check_def check_result_def stored_dict_def stored_map_def dict_of_pairs_def)

lemma small_receipt_canon [simp]: "receipt_canon (small_receipt n) = small_receipt n"
  by (simp add: receipt_canon_def)

lemma shadow_rows_frame: "db_receipts shadow_rows = []" "db_events shadow_rows = []" "db_contracts shadow_rows = []"
  using upsert_frame [OF shadow_upsert] by (simp_all add: empty_db_def)

lemma shadow_receipt: "sqlite_create_receipt plain_host (small_receipt 5) shadow_rows = (Inr (small_receipt 5), shadow_db)"
proof -
  have "\<forall>c \<in> set (rcp_checks (small_receipt 5)). finite_json (JDict (chk_metrics c))"
    by (simp add: passed_check_def check_result_def)
  moreover have "rcp_id (small_receipt 5) \<notin> pr_id ` set (db_receipts shadow_rows)"
    by (simp add: shadow_rows_frame)
  ultimately obtain s' where "sqlite_create_receipt plain_host (small_receipt 5) shadow_rows = (Inr (small_receipt 5), s')"
    by (rule create_receipt_succeeds)
  then show ?thesis by (simp add: shadow_db_def)
qed

lemma shadow_db_frame:
  "db_events shadow_db = []" "db_contracts shadow_db = []" "db_revisions shadow_db = db_revisions shadow_rows"
  using create_receipt_frame [OF shadow_receipt] shadow_rows_frame by simp_all

lemma shadow_facts:
  "sqlite_ok plain_engine plain_host shadow_db"
  "st_memory (sqlite_view plain_host shadow_db) = [''mem_1'' \<mapsto> shadow_record]"
  "st_receipts (sqlite_view plain_host shadow_db) = [small_receipt 5]"
  "store_inv (sqlite_view plain_host shadow_db)"
proof -
  note up = sqlite_upsert_ok [OF plain_db_ok shadow_record_ok shadow_upsert]
  have ok1: "sqlite_ok plain_engine plain_host shadow_rows" using up by blast
  obtain v where v0: "revises plain_host shadow_record VERIFY (map_option mem_lane
      (st_memory (sqlite_view plain_host empty_db) (mem_id shadow_record))) [] None None v"
    and view0: "sqlite_view plain_host shadow_rows = (sqlite_view plain_host empty_db)
      \<lparr>st_memory := (st_memory (sqlite_view plain_host empty_db))(mem_id shadow_record \<mapsto> memory_canon shadow_record),
       st_revisions := st_revisions (sqlite_view plain_host empty_db) @ [v]\<rparr>"
    using up [THEN conjunct2, THEN conjunct2] by (elim exE conjE) (rule that)
  have v: "revises plain_host shadow_record VERIFY None [] None None v"
    using v0 by (simp add: sqlite_view_empty empty_store_def)
  have view: "sqlite_view plain_host shadow_rows = write_record empty_store shadow_record v"
    using view0 by (simp add: sqlite_view_empty write_record_def)
  have inv: "store_inv (sqlite_view plain_host shadow_rows)"
    unfolding view by (rule write_record_inv [OF store_inv_empty]) (use v in \<open>auto simp: lanes_def empty_store_def\<close>)
  note cr = sqlite_create_receipt_ok [OF ok1 shadow_receipt]
  have crv: "sqlite_view plain_host shadow_db = (sqlite_view plain_host shadow_rows)
      \<lparr>st_receipts := st_receipts (sqlite_view plain_host shadow_rows) @ [small_receipt 5]\<rparr>"
    using cr [THEN conjunct2, THEN conjunct2, THEN conjunct2] by (simp only: small_receipt_canon)
  show "store_inv (sqlite_view plain_host shadow_db)"
    by (rule store_inv_grows [OF inv]) (simp_all add: crv store_grows_def)
  show "sqlite_ok plain_engine plain_host shadow_db" using cr by blast
  show "st_memory (sqlite_view plain_host shadow_db) = [''mem_1'' \<mapsto> shadow_record]"
    "st_receipts (sqlite_view plain_host shadow_db) = [small_receipt 5]"
    by (simp_all add: crv view write_record_def empty_store_def)
qed

definition shadow_world :: "db world" where
  "shadow_world = \<lparr>w_tick = 10, w_store = shadow_db\<rparr>"

lemma shadow_get: "sqlite_get_memory_record plain_host m ''mem_1'' shadow_db = Inr shadow_record"
  by (simp add: sqlite_get_memory_eq [OF shadow_facts(1)] shadow_facts)

lemma shadow_list: "sqlite_list_receipts plain_host m (Some ''mem_1'') shadow_db = Inr [small_receipt 5]"
  by (simp add: sqlite_list_receipts_eq [OF shadow_facts(1)] shadow_facts select_def)

lemma shadow_passes: "passing_receipt shadow_record (small_receipt 5)"
  by (simp add: passing_receipt_def)

section \<open>Its promotion\<close>

lemma shadow_contract_exists:
  "\<exists>c. contract_from_candidate plain_host 10 shadow_record (small_receipt 5) = Inr c"
proof -
  have "ints_value plain_host (JDict [(''max_steps'', JInt 32)]) = Inr max_steps_32"
    using ints_value_ints_json [of plain_host max_steps_32] by (simp add: ints_json_def max_steps_32_def)
  moreover have "strs_value (JList []) = Inr []"
    using strs_value_strs_json [of "[]"] by (simp add: strs_json_def)
  ultimately show ?thesis
    by (simp add: contract_from_candidate_def contract_seed_def content_digest_def content_seed_def id32_def
        digest_json_eq metadata_list_def strs_json_def candidate_steps_def
        get_or_def ints_json_def max_steps_32_def)
qed

definition shadow_contract :: contract where
  "shadow_contract = projr (contract_from_candidate plain_host 10 shadow_record (small_receipt 5))"

lemma shadow_contract_eq:
  "contract_from_candidate plain_host 10 shadow_record (small_receipt 5) = Inr shadow_contract"
  using shadow_contract_exists by (auto simp: shadow_contract_def)

definition promoted_record :: memory where
  "promoted_record = shadow_record\<lparr>mem_lane := CERTIFIED, mem_contract := Some (wfc_id shadow_contract),
     mem_receipt := Some (rcp_id (small_receipt 5)), mem_reason := promoted_reason, mem_updated := 14\<rparr>"

lemma promoted_record_eq:
  "certified_record plain_host (10 + 4) shadow_record (small_receipt 5) shadow_contract = Inr promoted_record"
  unfolding certified_record_def promoted_record_def
  using shadow_record_ok by (subst mk_memory_claim_ok) (simp_all add: claim_ok_def now_utc_def)

lemma rev_id_eq:
  assumes "revision_create H n r operation before reason rid eid = Inr v"
  obtains d where "content_digest H r = Inr d"
    "id32 H ''rev_'' (JDict (revision_seed H (uuid4 H n) r d operation before rid eid (now_utc H n))) = Inr (rev_id v)"
  using assms by (auto simp: revision_create_def Let_def res_simps intro: that)

text \<open>The seeds of the two revisions differ in the lane they name first.\<close>

lemma sorted_revision_seed:
  "sort_keys (JDict (revision_seed H nonce r d operation before rid eid t)) =
   JDict [(''after_lane'', JStr (lane_value (mem_lane r))), (''before_lane'', opt_lane_json before),
     (''content_digest'', JStr d), (''created_at'', JStr (iso_time H t)), (''event_id'', opt_str_json eid),
     (''memory_id'', JStr (mem_id r)), (''nonce'', JStr nonce), (''operation'', JStr (operation_value operation)),
     (''receipt_id'', opt_str_json rid), (''update_id'', JStr (mem_update r))]"
  by (cases before; cases eid; cases rid)
     (simp_all add: revision_seed_def opt_lane_json_def opt_str_json_def)

lemma rev_id_lane:
  assumes "revision_create plain_host n r operation before reason rid eid = Inr v"
  shows "take 3 (drop 19 (rev_id v)) = take 3 (lane_value (mem_lane r))"
proof -
  obtain d where "id32 plain_host ''rev_'' (JDict (revision_seed plain_host (nat_text n) r d operation before rid eid n)) =
      Inr (rev_id v)"
    by (rule rev_id_eq [OF assms]) (simp add: now_utc_def)
  then have "rev_id v = ''rev_'' @ take 32 (utf8 (render plain_float_text
      (sort_keys (JDict (revision_seed plain_host (nat_text n) r d operation before rid eid n)))))"
    by (simp add: id32_def digest_json_eq res_simps split: if_splits)
  then show ?thesis
    unfolding sorted_revision_seed
    by (cases "mem_lane r") (simp_all add: utf8_def utf8_char_def quote_def quote_char_def)
qed

lemma promoted_revision_new:
  assumes "revision_create plain_host n promoted_record PROMOTE before reason rid eid = Inr v"
  shows "rev_id v \<notin> vr_id ` set (db_revisions shadow_rows)"
proof -
  obtain v0 before' where v0: "revision_create plain_host 5 shadow_record VERIFY before' []
      (or_opt None (mem_receipt shadow_record)) None = Inr v0"
    and "vr_id ` set (db_revisions shadow_rows) = insert (rev_id v0) (vr_id ` set (db_revisions empty_db))"
    by (rule upsert_revision [OF shadow_upsert])
  then have rows: "vr_id ` set (db_revisions shadow_rows) = {rev_id v0}" by (simp add: empty_db_def)
  have "take 3 (drop 19 (rev_id v)) = ''cer''" using rev_id_lane [OF assms] by (simp add: promoted_record_def)
  moreover have "take 3 (drop 19 (rev_id v0)) = ''sha''" using rev_id_lane [OF v0] by simp
  ultimately show ?thesis by (auto simp: rows)
qed

theorem promotion_succeeds_witness:
  "\<exists>w'. promote_candidate (sqlite_port plain_engine plain_host) plain_host ''mem_1'' shadow_world =
      (Inr promoted_record, w') \<and>
    sqlite_get_memory_record plain_host 0 ''mem_1'' (w_store w') = Inr (memory_canon promoted_record)"
  using promotion_succeeds [of plain_engine plain_host shadow_world 0 "''mem_1''" shadow_record
      "[small_receipt 5]" "small_receipt 5" shadow_contract promoted_record]
  by (simp add: shadow_world_def shadow_facts shadow_get shadow_list shadow_passes shadow_contract_eq
        promoted_record_eq [simplified] shadow_db_frame promoted_revision_new) blast

lemma shadow_promotion:
  obtains w' where "promote_candidate (sqlite_port plain_engine plain_host) plain_host ''mem_1'' shadow_world =
      (Inr promoted_record, w')"
  using promotion_run [of plain_engine plain_host shadow_world 0 "''mem_1''" shadow_record
      "[small_receipt 5]" "small_receipt 5" shadow_contract promoted_record]
  by (simp add: shadow_world_def shadow_facts shadow_get shadow_list shadow_passes shadow_contract_eq
        promoted_record_eq [simplified] shadow_db_frame promoted_revision_new) blast

end
