(* ===== verification/Search_Properties.thy ===== *)
theory Search_Properties
  imports Witness_States "HOL-Library.Multiset"
begin

text \<open>
  Searching the file: it never fails on a file the adapter wrote, and a blank query lists every
  record of the lanes asked for. With it, a file that holds one certified record.
\<close>

section \<open>Search returns\<close>

lemma row_to_retrieved_succeeds:
  assumes ok: "sqlite_ok E H s" and row: "row \<in> set (db_memory s)"
  obtains item where "row_to_retrieved H n (row, score) = Inr item" "ret_id item = mr_id row"
proof -
  let ?r = "decoded (memory_row_value H) row"
  have dec: "memory_row_value H n row = Inr ?r" using sqlite_memory_rows [OF ok row] by blast
  have wf: "mem_id ?r = mr_id row" "finite_json (JDict (mem_metadata ?r))"
    using sqlite_memory_wf [OF ok sqlite_memory_row [OF ok row]] by blast+
  then obtain d where "content_digest H ?r = Inr d" using finite_content by blast
  then show thesis using that dec wf by (simp add: row_to_retrieved_def memory_row_value_def)
qed

lemma search_rows_stored:
  "sqlite_ok E H s \<Longrightarrow> row \<in> set (search_rows E q ls limit s) \<Longrightarrow> fst row \<in> set (db_memory s)"
  using search_rows_sound by (cases row) fastforce

lemma search_ids:
  assumes ok: "sqlite_ok E H s" and "ls \<noteq> []"
  obtains items where "sqlite_search_memory E H n q ls limit s = Inr items"
    "map ret_id items = map (mr_id \<circ> fst) (search_rows E q ls limit s)"
proof -
  let ?rows = "search_rows E q ls limit s"
  define g where "g row = projr (row_to_retrieved H n row)" for row
  have g: "row_to_retrieved H n row = Inr (g row) \<and> ret_id (g row) = mr_id (fst row)" if "row \<in> set ?rows" for row
    by (rule row_to_retrieved_succeeds [OF ok search_rows_stored [OF ok that], of n "snd row"]) (simp add: g_def)
  have "map_res (row_to_retrieved H n) ?rows = Inr (map g ?rows)" by (rule map_res_Inr_map) (use g in blast)
  moreover have "map (ret_id \<circ> g) ?rows = map (mr_id \<circ> fst) ?rows" using g by (intro map_cong) simp_all
  ultimately
  show thesis using assms(2) by (intro that [of "map g ?rows"]) (simp_all add: sqlite_search_memory_def)
qed

lemma search_total: "sqlite_ok E H s \<Longrightarrow> \<exists>items. sqlite_search_memory E H n q ls limit s = Inr items"
  by (cases "ls = []") (simp add: sqlite_search_memory_def, metis search_ids)

lemma in_lanes_value [simp]: "in_lanes ls (lane_value l) \<longleftrightarrow> l \<in> set ls"
  by (auto simp: in_lanes_def)

lemma stored_ids:
  assumes ok: "sqlite_ok E H s"
  shows "mr_id ` {row \<in> set (db_memory s). in_lanes ls (mr_lane row)} =
    {i. \<exists>r. st_memory (sqlite_view H s) i = Some r \<and> mem_lane r \<in> set ls}" (is "?L = ?R")
proof (intro set_eqI iffI)
  fix i assume "i \<in> ?L"
  then obtain row where row: "row \<in> set (db_memory s)" "in_lanes ls (mr_lane row)" "i = mr_id row" by blast
  have "memory_agrees row (decoded (memory_row_value H) row)" using sqlite_memory_rows [OF ok row(1)] by blast
  then have "mem_lane (decoded (memory_row_value H) row) \<in> set ls"
    using row(2) by (metis in_lanes_value memory_agrees_def)
  then show "i \<in> ?R" using sqlite_memory_row [OF ok row(1)] row(3) by blast
next
  fix i assume "i \<in> ?R"
  then obtain r where r: "st_memory (sqlite_view H s) i = Some r" "mem_lane r \<in> set ls" by blast
  then obtain row where row: "row \<in> set (db_memory s)" "mr_id row = i"
    by (auto simp: sqlite_memory dest: find_SomeD)
  then have "memory_agrees row r"
    using sqlite_memory_row [OF ok row(1)] sqlite_memory_rows [OF ok row(1)] r by auto
  then have "in_lanes ls (mr_lane row)" using r(2) by (metis in_lanes_value memory_agrees_def)
  then show "i \<in> ?L" using row by blast
qed

lemma blank_ids:
  assumes ok: "sqlite_ok E H s" and scan: "mset (scan_rows E (db_memory s)) = mset (db_memory s)"
    and blank: "strip query = []" "limit < 0"
    and run: "sqlite_search_memory E H n query ls limit s = Inr items"
  shows "distinct (map ret_id items)"
    "set (map ret_id items) = {i. \<exists>r. sqlite_get_memory_record H m i s = Inr r \<and> mem_lane r \<in> set ls}"
proof -
  have "distinct (map ret_id items) \<and>
    set (map ret_id items) = {i. \<exists>r. sqlite_get_memory_record H m i s = Inr r \<and> mem_lane r \<in> set ls}"
  proof (cases "ls = []")
    case False
    from search_ids [OF ok False] run have ids: "map ret_id items = map (mr_id \<circ> fst) (search_rows E query ls limit s)"
      by (metis sum.inject(2))
    let ?rows = "filter (\<lambda>r. in_lanes ls (mr_lane r)) (scan_rows E (db_memory s))"
    have rows: "map (mr_id \<circ> fst) (search_rows E query ls limit s) = map mr_id ?rows"
      using blank by (simp add: search_rows_def sql_limit_def comp_def)
    have "mset (map mr_id (scan_rows E (db_memory s))) = mset (map mr_id (db_memory s))" using scan by simp
    then have "distinct (map mr_id (scan_rows E (db_memory s)))"
      using ok mset_eq_imp_distinct_iff by (metis sqlite_ok_def)
    then have "distinct (map mr_id ?rows)" by (rule distinct_map_filter)
    moreover have "set (map mr_id ?rows) = {i. \<exists>r. sqlite_get_memory_record H m i s = Inr r \<and> mem_lane r \<in> set ls}"
      using stored_ids [OF ok, of ls] mset_eq_setD [OF scan]
      by (simp add: sqlite_get_memory_eq [OF ok] of_option_Inr_iff)
    ultimately show ?thesis by (simp add: ids rows del: set_map)
  qed (use run in \<open>simp add: sqlite_search_memory_def\<close>)
  then show "distinct (map ret_id items)"
    "set (map ret_id items) = {i. \<exists>r. sqlite_get_memory_record H m i s = Inr r \<and> mem_lane r \<in> set ls}" by auto
qed


lemma distinct_singleton: "distinct xs \<Longrightarrow> set xs = {x} \<Longrightarrow> xs = [x]"
  by (cases xs) (auto simp: subset_singleton_iff)

lemma plain_scan [simp]: "scan_rows plain_engine rows = rows"
  by (simp add: plain_engine_def)


section \<open>A certified record on file\<close>

definition certified_db :: db where
  "certified_db = snd (sqlite_upsert_memory_record plain_host 16 promoted_record PROMOTE promoted_reason
     (Some (rcp_id (small_receipt 5))) None (snd (sqlite_create_contract plain_host shadow_contract shadow_db)))"

lemma promoted_record_simps [simp]:
  "mem_id promoted_record = ''mem_1''" "mem_update promoted_record = ''upd_1''" "mem_lane promoted_record = CERTIFIED"
  "mem_contract promoted_record = Some (wfc_id shadow_contract)" "mem_metadata promoted_record = []"
  "mem_receipt promoted_record = Some (rcp_id (small_receipt 5))" "memory_canon promoted_record = promoted_record"
  by (simp_all add: promoted_record_def memory_canon_def stored_dict_def stored_map_def dict_of_pairs_def)

lemma promoted_claim_ok: "claim_ok promoted_record"
  using shadow_record_ok by (simp add: claim_ok_def promoted_record_def)

lemma shadow_contract_new: "wfc_id shadow_contract \<notin> cr_id ` set (db_contracts shadow_db)"
  by (simp add: shadow_db_frame)

lemma certified_facts:
  "sqlite_ok plain_engine plain_host certified_db" "store_inv (sqlite_view plain_host certified_db)"
  "st_memory (sqlite_view plain_host certified_db) = [''mem_1'' \<mapsto> promoted_record]"
  "db_events certified_db = []"
proof -
  obtain s1 where s1: "sqlite_create_contract plain_host shadow_contract shadow_db = (Inr shadow_contract, s1)"
    and frame: "db_revisions s1 = db_revisions shadow_db" "db_events s1 = db_events shadow_db"
    by (rule create_contract_succeeds [OF contract_replay_finite [OF shadow_contract_eq] shadow_contract_new])
  note cc = sqlite_create_contract_ok [OF shadow_facts(1) s1]
  have ok1: "sqlite_ok plain_engine plain_host s1" using cc by blast
  have v1: "sqlite_view plain_host s1 = (sqlite_view plain_host shadow_db)
      \<lparr>st_contracts := (st_contracts (sqlite_view plain_host shadow_db))
        (wfc_id shadow_contract \<mapsto> contract_canon shadow_contract)\<rparr>"
    using cc by blast
  obtain s2 where s2: "sqlite_upsert_memory_record plain_host 16 promoted_record PROMOTE promoted_reason
      (Some (rcp_id (small_receipt 5))) None s1 = (Inr promoted_record, s2)"
    by (rule upsert_succeeds [OF ok1, of promoted_record 16 PROMOTE promoted_reason
          "Some (rcp_id (small_receipt 5))" None])
       (simp_all add: frame shadow_db_frame promoted_revision_new)
  have db: "certified_db = s2" by (simp add: certified_db_def s1 s2)
  note up = sqlite_upsert_ok [OF ok1 promoted_claim_ok s2]
  show "sqlite_ok plain_engine plain_host certified_db" using up db by blast
  obtain v where v: "revises plain_host promoted_record PROMOTE (lanes (sqlite_view plain_host s1) ''mem_1'')
        promoted_reason (Some (rcp_id (small_receipt 5))) None v"
    and v2: "sqlite_view plain_host s2 = write_record (sqlite_view plain_host s1) promoted_record v"
    using up [THEN conjunct2, THEN conjunct2] by (elim exE conjE) (simp add: lanes_def write_record_def that)
  show "st_memory (sqlite_view plain_host certified_db) = [''mem_1'' \<mapsto> promoted_record]"
    by (simp add: db v2 v1 write_record_def shadow_facts)
  show "db_events certified_db = []" using upsert_frame [OF s2] by (simp add: db frame shadow_db_frame)
  have "certified_by (sqlite_view plain_host s1) promoted_record"
    unfolding certified_by_def
    by (intro exI [of _ "small_receipt 5"] exI [of _ "contract_canon shadow_contract"])
       (use contract_from_candidate_Inr [OF shadow_contract_eq] shadow_passes in
         \<open>auto simp: v1 shadow_facts passing_receipt_def map_of_stored_dict\<close>)
  moreover have "store_inv (sqlite_view plain_host s1)"
    by (rule store_inv_grows [OF shadow_facts(4)])
       (use storage_backend.contract_grows [OF sqlite.storage_backend_axioms, of plain_engine plain_host shadow_db shadow_contract shadow_contract s1] shadow_facts(1) s1 in
         \<open>simp_all add: v1 sqlite_port_ops\<close>)
  ultimately show "store_inv (sqlite_view plain_host certified_db)"
    unfolding db v2 by (intro write_record_inv) (use v in \<open>auto simp: lanes_def v1 shadow_facts\<close>)
qed

end
