(* ===== verification/Gate_Properties.thy ===== *)
theory Gate_Properties
  imports Search_Properties
begin

text \<open>
  When the action gate opens, and that a tool with external effects and a model run that may have
  them start only behind an open gate.
\<close>

section \<open>The gate\<close>

text \<open>What must hold of the receipts and the intent before an external effect.\<close>

definition gate_open :: "host \<Rightarrow> receipt list \<Rightarrow> intent \<Rightarrow> bool" where
  "gate_open H receipts a \<longleftrightarrow>
     intent_id H a = Inr (act_id a) \<and> receipts \<noteq> [] \<and> list_all receipt_passes receipts \<and>
     (\<exists>r \<in> set receipts. rcp_action r = Some (act_id a) \<and> act_receipt a \<in> {None, Some (rcp_id r)})"

lemma intent_id_total: "\<exists>i. intent_id H a = Inr i"
  by (simp add: intent_id_def id32_def digest_json_eq action_seed_def ints_json_def split_beta)

lemma find_failed: "find (\<lambda>r. \<not> P r) rs = None \<longleftrightarrow> list_all P rs"
  by (auto simp: find_None_iff list_all_iff)

lemma ensure_allowed_strict:
  "\<exists>msg. ensure_allowed H True True receipts (Some a) reason =
     (if gate_open H receipts a then Inr () else Inl (FailClosedError msg))"
proof -
  obtain i where i: "intent_id H a = Inr i" using intent_id_total by blast
  show ?thesis
  proof (cases "find (\<lambda>r. \<not> receipt_passes r) receipts")
    case None
    then have "list_all receipt_passes receipts" by (simp add: find_failed)
    then show ?thesis
      using i None
      by (cases "act_receipt a")
         (auto simp: ensure_allowed_def gate_open_def Let_def detail_or_def filter_empty_conv)
  next
    case (Some r)
    then have "\<not> list_all receipt_passes receipts" using find_failed [of receipt_passes receipts] by simp
    then show ?thesis using i Some by (auto simp: ensure_allowed_def gate_open_def detail_or_def)
  qed
qed

text \<open>
  C17: in the strict profile an external effect is allowed exactly when there is an intent whose
  identifier binds its fields, at least one receipt, only receipts that passed with a nonempty list
  of passed checks, and one of them bound to this intent and, if the intent requires a receipt,
  that receipt. Everything else that has external effects fails closed; nothing else is stopped.
\<close>

theorem gate_opens_exactly:
  "\<exists>msg. ensure_allowed H strict external_effects receipts intent_opt reason =
     (if strict \<and> external_effects then
        (case intent_opt of
           None \<Rightarrow> Inl (FailClosedError msg)
         | Some a \<Rightarrow> if gate_open H receipts a then Inr () else Inl (FailClosedError msg))
      else Inr ())"
proof (cases "strict \<and> external_effects")
  case True
  then show ?thesis
    using ensure_allowed_strict [of H receipts _ reason]
    by (cases intent_opt) (auto simp: ensure_allowed_def detail_or_def)
qed (auto simp: ensure_allowed_def)

section \<open>What an intent binds\<close>

lemma action_seed_inj:
  assumes "stored_json (JDict (action_seed t e d caps)) = stored_json (JDict (action_seed t' e' d' caps'))"
  shows "t = t' \<and> e = e' \<and> d = d' \<and> stored_map caps = stored_map caps'"
proof -
  have f: "map_option stored_json (map_of (action_seed t e d caps) k) =
      map_option stored_json (map_of (action_seed t' e' d' caps') k)" for k
    using assms by (intro stored_fields) (auto simp: action_seed_def)
  have "ints_json (stored_map caps) = ints_json (stored_map caps')"
    using f [of "''resource_caps''"] by (simp add: action_seed_def)
  then have "stored_map caps = stored_map caps'"
    using ints_value_ints_json by (metis sum.inject(2))
  then show ?thesis
    using f [of "''tool_name''"] f [of "''effect_class''"] f [of "''args_digest''"] by (simp add: action_seed_def)
qed

text \<open>Two documents with different canonical texts whose digests start with the same 32 characters.\<close>

definition collides_short :: "host \<Rightarrow> json \<Rightarrow> json \<Rightarrow> bool" where
  "collides_short H v w \<longleftrightarrow>
     canonical_bytes H v \<noteq> canonical_bytes H w \<and>
     map_sum id (take 32) (digest_json H v) = map_sum id (take 32) (digest_json H w)"

lemma id32_binds:
  assumes "host_ok H" "id32 H p v = Inr i" "id32 H p w = Inr i"
  shows "stored_json v = stored_json w \<or> collides_short H v w"
proof (cases "canonical_bytes H v = canonical_bytes H w")
  case True
  moreover obtain b where "canonical_bytes H v = Inr b"
    using assms(2) by (auto simp: id32_def digest_json_def res_simps)
  ultimately show ?thesis using same_bytes_stored [OF assms(1)] by metis
next
  case False
  then show ?thesis using assms(2,3) by (auto simp: collides_short_def id32_def res_simps)
qed

text \<open>
  C18: one receipt clears one action. If the same single receipt opens the gate for two intents,
  they name the same tool, effect class, arguments and caps, or the two action seeds agree on the
  first 32 characters of their digests although they differ.
\<close>

theorem receipt_clears_one_action:
  assumes "host_ok H" "gate_open H [r] a" "gate_open H [r] b"
  shows "(act_tool a = act_tool b \<and> act_effect a = act_effect b \<and> act_args a = act_args b \<and>
      stored_map (act_caps a) = stored_map (act_caps b)) \<or>
    collides_short H (JDict (action_seed (act_tool a) (act_effect a) (act_args a) (act_caps a)))
      (JDict (action_seed (act_tool b) (act_effect b) (act_args b) (act_caps b)))"
proof -
  have "act_id a = act_id b" using assms(2,3) by (auto simp: gate_open_def)
  then show ?thesis
    using id32_binds [OF assms(1), of "''act_''"] action_seed_inj assms(2,3)
    unfolding gate_open_def intent_id_def by metis
qed

text \<open>An intent of the local shell tool, and a receipt bound to it.\<close>

definition shell_intent :: "string option \<Rightarrow> intent" where
  "shell_intent rid = projr (intent_create plain_host ''sh'' ''local'' [] None rid [])"

lemma shell_intent_eq: "intent_create plain_host ''sh'' ''local'' [] None rid [] = Inr (shell_intent rid)"
  by (simp add: shell_intent_def intent_create_def Let_def digest_json_eq id32_def action_seed_def ints_json_def
      max_steps_32_def)

lemma intent_create_Inr:
  assumes "intent_create H t e args c r caps = Inr a"
  shows "intent_id H a = Inr (act_id a) \<and> act_tool a = t \<and> act_effect a = e \<and> act_contract a = c \<and>
    act_receipt a = r \<and> digest_json H (JDict args) = Inr (act_args a)"
  using assms by (auto simp: intent_create_def Let_def res_simps intent_id_def)

definition bound_receipt :: receipt where
  "bound_receipt = (small_receipt 5)\<lparr>rcp_action := Some (act_id (shell_intent None))\<rparr>"

lemma bound_receipt_opens: "gate_open plain_host [bound_receipt] (shell_intent None)"
  using intent_create_Inr [OF shell_intent_eq [of None]]
  by (simp add: gate_open_def bound_receipt_def receipt_passes_def)

theorem receipt_clears_one_action_witness:
  "act_args (shell_intent None) = act_args ((shell_intent None)\<lparr>act_contract := Some ''wfc_1''\<rparr>)"
proof -
  have "gate_open plain_host [bound_receipt] ((shell_intent None)\<lparr>act_contract := Some ''wfc_1''\<rparr>)"
    using bound_receipt_opens by (simp add: gate_open_def intent_id_def)
  from receipt_clears_one_action [OF plain_host_ok bound_receipt_opens this] show ?thesis
    by (auto simp: collides_short_def)
qed

end
