(* ===== verification/Tool_Properties.thy ===== *)
theory Tool_Properties
  imports Gate_Properties Kernel_Open
begin

text \<open>
  Tool calls and model runs through the kernel over a SQLite file: what is checked before the
  adapter or the provider is asked, and the token that the local adapter demands.
\<close>

section \<open>Reading the gate's receipts\<close>

definition gate_receipts :: "host \<Rightarrow> nat \<Rightarrow> db \<Rightarrow> string list \<Rightarrow> receipt list res" where
  "gate_receipts H m s ids = map_res (\<lambda>i. sqlite_get_receipt H m i s) ids"

lemma load_receipts_eq:
  assumes "sqlite_ok E H (w_store w)" "k_storage K = sqlite_port E H"
  shows "map_io (load_receipt K) ids w = (gate_receipts H m (w_store w) ids, w)"
proof (induction ids)
  case (Cons i ids)
  have "load_receipt K i w = (sqlite_get_receipt H m i (w_store w), w)"
    using assms by (simp add: load_receipt_def reads_def sqlite_port_ops sqlite_get_receipt_eq)
  then show ?case using Cons by (simp add: gate_receipts_def bind_io_def split: sum.split)
qed (simp add: gate_receipts_def)

section \<open>Tool calls\<close>

text \<open>The contract an intent requires is in the file and bound to the receipt it requires.\<close>

definition contract_met :: "host \<Rightarrow> nat \<Rightarrow> db \<Rightarrow> intent \<Rightarrow> bool" where
  "contract_met H m s a \<longleftrightarrow>
     (case act_contract a of
        None \<Rightarrow> True
      | Some cid \<Rightarrow>
          (case sqlite_get_contract H m cid s of
             Inl _ \<Rightarrow> False
           | Inr c \<Rightarrow>
               (case act_receipt a of None \<Rightarrow> True
                | Some rid \<Rightarrow> get_or (wfc_replay c) ''receipt_id'' JNull = JStr rid)))"

definition call_cleared :: "host \<Rightarrow> nat \<Rightarrow> db \<Rightarrow> bool \<Rightarrow> tool_call \<Rightarrow> intent \<Rightarrow> string list \<Rightarrow> bool" where
  "call_cleared H m s strict call a gates \<longleftrightarrow>
     tc_name call = act_tool a \<and> digest_json H (JDict (tc_arguments call)) = Inr (act_args a) \<and>
     contract_met H m s a \<and>
     (case gate_receipts H m s gates of
        Inl _ \<Rightarrow> False
      | Inr receipts \<Rightarrow> (if strict \<and> tc_external call then gate_open H receipts a else True))"

definition tool_context :: "'s kernel \<Rightarrow> tool_call \<Rightarrow> intent \<Rightarrow> dict" where
  "tool_context K call a =
     (let context = [(''action_gate_open'', JBool (tc_external call)), (''action_intent'', JDict (intent_dump a))]
      in case ta_authorize (k_tools K) of None \<Rightarrow> context | Some f \<Rightarrow> f context)"

lemma contract_check_eq:
  assumes "sqlite_ok E H (w_store w)" "k_storage K = sqlite_port E H"
  shows "\<exists>e. required_contract_check K a w = (if contract_met H m (w_store w) a then Inr () else Inl e, w)"
  using assms
  by (cases "act_contract a"; cases "act_receipt a")
     (auto simp: required_contract_check_def contract_met_def bind_io_def reads_def sqlite_port_ops
       sqlite_get_contract_eq ensure_def split: sum.split)

text \<open>
  C19: a tool runs only when its call is cleared, and then exactly once with the gate's context. The
  call is cleared when name and argument digest match the intent, the required contract is in the
  file and bound to the required receipt, all named receipts are in the file and, for external
  effects in the strict profile, they open the gate for the intent. Otherwise the call raises
  without a look at the adapter. Either way the kernel writes nothing.
\<close>

theorem tool_call_gated:
  assumes ok: "sqlite_ok E H (w_store w)"
  shows "\<exists>e. invoke_tool (open_kernel E H lite n model prof pl) call a gates w =
    (if call_cleared H m (w_store w) (prof = ''strict'') call a gates
     then ta_invoke (k_tools (open_kernel E H lite n model prof pl)) call
       (tool_context (open_kernel E H lite n model prof pl) call a)
     else Inl e, w)"
proof -
  let ?K = "open_kernel E H lite n model prof pl" and ?s = "w_store w"
  obtain d where d: "digest_json H (JDict (tc_arguments call)) = d" by simp
  obtain e1 where con: "required_contract_check ?K a w = (if contract_met H m ?s a then Inr () else Inl e1, w)"
    using contract_check_eq [OF ok, of ?K a m] by auto
  note rcps = load_receipts_eq [OF ok, of ?K gates m]
  have gate: "\<exists>e. ensure_allowed H (prof = ''strict'') (tc_external call) rs (Some a) [] =
      (if (prof = ''strict'') \<and> tc_external call
       then (if gate_open H rs a then Inr () else Inl e) else Inr ())" for rs
    using ensure_allowed_strict [of H rs a "[]"]
    by (cases "prof = ''strict'' \<and> tc_external call") (auto simp: ensure_allowed_def)
  show ?thesis
  proof (cases "gate_receipts H m ?s gates")
    case (Inr rs)
    obtain e where "ensure_allowed H (prof = ''strict'') (tc_external call) rs (Some a) [] =
      (if (prof = ''strict'') \<and> tc_external call
       then (if gate_open H rs a then Inr () else Inl e) else Inr ())"
      using gate by blast
    then show ?thesis
      using con rcps Inr
      by (cases d; cases "contract_met H m ?s a"; cases "tc_name call = act_tool a")
         (auto simp: d call_cleared_def invoke_tool_def tool_context_def bind_io_def Let_def strict_profile_def
           ensure_def split: option.split)
  next
    case (Inl e)
    then show ?thesis
      using con rcps
      by (cases d; cases "contract_met H m ?s a"; cases "tc_name call = act_tool a")
         (auto simp: d call_cleared_def invoke_tool_def bind_io_def Let_def ensure_def)
  qed
qed

section \<open>The token of the local adapter\<close>

text \<open>
  C20: the local adapter runs a tool with external effects only when the context carries its own
  token. The context it authorizes carries it, and with it a call always returns: an unknown tool
  and a tool that raises are results that are not ok.
\<close>

theorem local_adapter_token:
  "(tc_external call \<and> map_of context ''_oawm_gate_token'' \<noteq> Some (JStr (lt_token t)) \<longrightarrow>
      local_invoke t call context = Inl (FailClosedError ''external-effect tool call blocked by ActionGate'')) \<and>
   (\<exists>r. local_invoke t call (authorized_context t context) = Inr r \<and> tr_call r = tc_name call \<and>
      (tr_ok r \<longleftrightarrow> (\<exists>fn out. map_of (lt_tools t) (tc_name call) = Some fn \<and>
         fn (tc_arguments call) (authorized_context t context) = Inr out \<and> tr_output r = out)))"
proof (intro conjI impI)
  assume "tc_external call \<and> map_of context ''_oawm_gate_token'' \<noteq> Some (JStr (lt_token t))"
  then show "local_invoke t call context = Inl (FailClosedError ''external-effect tool call blocked by ActionGate'')"
    by (auto simp: local_invoke_def get_or_def split: option.split)
next
  have "get_or (authorized_context t context) ''_oawm_gate_token'' JNull = JStr (lt_token t)"
    by (simp add: authorized_context_def get_or_def)
  then show "\<exists>r. local_invoke t call (authorized_context t context) = Inr r \<and> tr_call r = tc_name call \<and>
      (tr_ok r \<longleftrightarrow> (\<exists>fn out. map_of (lt_tools t) (tc_name call) = Some fn \<and>
         fn (tc_arguments call) (authorized_context t context) = Inr out \<and> tr_output r = out))"
    by (auto simp: local_invoke_def split: option.split sum.split)
qed

section \<open>Model runs\<close>

text \<open>What a run with external effects needs before anything else happens.\<close>

definition run_cleared :: "host \<Rightarrow> nat \<Rightarrow> db \<Rightarrow> string \<Rightarrow> intent option \<Rightarrow> string list \<Rightarrow> bool" where
  "run_cleared H m s task action_intent gates \<longleftrightarrow>
     (case action_intent of
        None \<Rightarrow> False
      | Some a \<Rightarrow>
          act_tool a = ''kernel.run'' \<and> digest_json H (JDict [(''task'', JStr task)]) = Inr (act_args a) \<and>
          (case gate_receipts H m s gates of Inl _ \<Rightarrow> False | Inr receipts \<Rightarrow> gate_open H receipts a))"

text \<open>
  C21: a run that asks for external effects in the strict profile stops before its first step unless
  the intent names \<open>kernel.run\<close>, binds the task by its digest, and is cleared by receipts in the file:
  it raises, the file is as it was, and the model has not been asked.
\<close>

theorem run_gated:
  assumes ok: "sqlite_ok E H (w_store w)" and closed: "\<not> run_cleared H m (w_store w) task action_intent gates"
  shows "\<exists>e. run_task (open_kernel E H lite n model ''strict'' pl) task tools True md rid gates action_intent w =
    (Inl e, w)"
proof (cases action_intent)
  case None
  then show ?thesis
    using load_receipts_eq [OF ok, of "open_kernel E H lite n model ''strict'' pl" gates m]
    by (cases "gate_receipts H m (w_store w) gates")
       (auto simp: run_task_def run_intent_check_def bind_io_def ensure_allowed_def strict_profile_def detail_or_def)
next
  case (Some a)
  obtain d where d: "digest_json H (JDict [(''task'', JStr task)]) = Inr d" by (simp add: digest_json_eq)
  show ?thesis
  proof (cases "act_tool a = ''kernel.run'' \<and> act_args a = d")
    case False
    then show ?thesis
      using Some d by (auto simp: run_task_def run_intent_check_def bind_io_def ensure_def)
  next
    case True
    then show ?thesis
    proof (cases "gate_receipts H m (w_store w) gates")
      case (Inr rs)
      then have "\<not> gate_open H rs a" using closed Some True d by (simp add: run_cleared_def)
      then show ?thesis
        using Some True d Inr load_receipts_eq [OF ok, of "open_kernel E H lite n model ''strict'' pl" gates m]
          ensure_allowed_strict [of H rs a "''kernel.run external_effects=True requires an explicit gate receipt''"]
        by (auto simp: run_task_def run_intent_check_def bind_io_def ensure_def strict_profile_def)
    qed (use Some True d load_receipts_eq [OF ok, of "open_kernel E H lite n model ''strict'' pl" gates m] in
        \<open>auto simp: run_task_def run_intent_check_def bind_io_def ensure_def strict_profile_def\<close>)
  qed
qed

section \<open>At work\<close>

definition gate_db :: db where
  "gate_db = snd (sqlite_create_receipt plain_host bound_receipt shadow_rows)"

lemma bound_receipt_canon [simp]: "receipt_canon bound_receipt = bound_receipt"
  by (simp add: receipt_canon_def bound_receipt_def)

lemma gate_db_facts:
  "sqlite_ok plain_engine plain_host gate_db"
  "sqlite_get_receipt plain_host n (rcp_id bound_receipt) gate_db = Inr bound_receipt"
proof -
  have "\<forall>c \<in> set (rcp_checks bound_receipt). finite_json (JDict (chk_metrics c))"
    by (simp add: passed_check_def check_result_def bound_receipt_def)
  moreover have "rcp_id bound_receipt \<notin> pr_id ` set (db_receipts shadow_rows)" by (simp add: shadow_rows_frame)
  ultimately obtain s where "sqlite_create_receipt plain_host bound_receipt shadow_rows = (Inr bound_receipt, s)"
    by (rule create_receipt_succeeds)
  then have run: "sqlite_create_receipt plain_host bound_receipt shadow_rows = (Inr bound_receipt, gate_db)"
    by (simp add: gate_db_def)
  have rows: "sqlite_ok plain_engine plain_host shadow_rows"
    using sqlite_upsert_ok [OF plain_db_ok shadow_record_ok shadow_upsert] by blast
  note cr = sqlite_create_receipt_ok [OF rows run]
  show ok: "sqlite_ok plain_engine plain_host gate_db" using cr by blast
  have "st_receipts (sqlite_view plain_host shadow_rows) = []"
    by (simp add: sqlite_view_def shadow_rows_frame)
  moreover have "sqlite_view plain_host gate_db = (sqlite_view plain_host shadow_rows)
      \<lparr>st_receipts := st_receipts (sqlite_view plain_host shadow_rows) @ [bound_receipt]\<rparr>"
    using cr [THEN conjunct2, THEN conjunct2, THEN conjunct2] by (simp only: bound_receipt_canon)
  ultimately show "sqlite_get_receipt plain_host n (rcp_id bound_receipt) gate_db = Inr bound_receipt"
    by (simp add: sqlite_get_receipt_eq [OF ok] find_receipt_def)
qed

definition gate_world :: "db world" where
  "gate_world = \<lparr>w_tick = 30, w_store = gate_db\<rparr>"

definition shell_call :: tool_call where
  "shell_call = \<lparr>tc_name = ''sh'', tc_arguments = [], tc_external = True\<rparr>"

text \<open>With the bound receipt the adapter is asked and has no such tool; without it the call raises.\<close>

theorem tool_call_gated_witness:
  "invoke_tool (open_kernel plain_engine plain_host (\<lambda>_. mock_complete ''m'') 0 None ''strict'' no_plugins)
     shell_call (shell_intent None) [rcp_id bound_receipt] gate_world =
     (Inr \<lparr>tr_call = ''sh'', tr_ok = False, tr_output = [], tr_error = ''unknown tool: sh''\<rparr>, gate_world) \<and>
   (\<exists>e. invoke_tool (open_kernel plain_engine plain_host (\<lambda>_. mock_complete ''m'') 0 None ''strict'' no_plugins)
     shell_call (shell_intent None) [] gate_world = (Inl e, gate_world))"
proof -
  let ?K = "open_kernel plain_engine plain_host (\<lambda>_. mock_complete ''m'') 0 None ''strict'' no_plugins"
  have ok: "sqlite_ok plain_engine plain_host (w_store gate_world)" by (simp add: gate_world_def gate_db_facts)
  have tools: "k_tools ?K = local_adapter (local_tools_new plain_host 0)"
    by (simp add: open_kernel_def or_default_def no_plugins_def)
  note intent = intent_create_Inr [OF shell_intent_eq [of None]]
  have "call_cleared plain_host 0 gate_db True shell_call (shell_intent None) [rcp_id bound_receipt]"
    using intent bound_receipt_opens
    by (simp add: call_cleared_def shell_call_def contract_met_def gate_receipts_def gate_db_facts)
  moreover have "ta_invoke (k_tools ?K) shell_call (tool_context ?K shell_call a) =
      Inr \<lparr>tr_call = ''sh'', tr_ok = False, tr_output = [], tr_error = ''unknown tool: sh''\<rparr>" for a
    by (simp add: tools tool_context_def Let_def local_adapter_def local_invoke_def authorized_context_def get_or_def
        shell_call_def local_tools_new_def)
  moreover have "\<not> call_cleared plain_host 0 gate_db True shell_call (shell_intent None) []"
    by (simp add: call_cleared_def gate_receipts_def gate_open_def shell_call_def)
  ultimately show ?thesis
    using tool_call_gated [OF ok, of "\<lambda>_. mock_complete ''m''" 0 None "''strict''" no_plugins shell_call
        "shell_intent None" "[rcp_id bound_receipt]" 0]
      tool_call_gated [OF ok, of "\<lambda>_. mock_complete ''m''" 0 None "''strict''" no_plugins shell_call
        "shell_intent None" "[]" 0]
    by (simp add: gate_world_def)
qed

theorem local_adapter_token_witness:
  "local_invoke (local_tools_new plain_host 7) shell_call [] =
     Inl (FailClosedError ''external-effect tool call blocked by ActionGate'')"
  using local_adapter_token [of shell_call "[]" "local_tools_new plain_host 7"] by (simp add: shell_call_def)

theorem run_gated_witness:
  "\<exists>e. run_task (open_kernel plain_engine plain_host (\<lambda>_. mock_complete ''m'') 0 None ''strict'' no_plugins)
     ''deploy'' None True None None [] None shadow_world = (Inl e, shadow_world)"
  using run_gated [of plain_engine plain_host shadow_world 0 "''deploy''" None "[]"]
  by (simp add: run_cleared_def shadow_world_def shadow_facts)

end
