(* ===== verification/Plugin_Loading.thy ===== *)
theory Plugin_Loading
  imports Kernel_Open
begin

text \<open>
  Plugins (\<open>ports/plugins.py\<close>), the LiteLLM provider
  (\<open>adapters/litellm_provider.py\<close>) and the part of \<open>AgentKernel.open\<close> that resolves
  each plugin by name (\<open>runtime/kernel.py\<close>). The installed entry points, what loading one
  of them gives and the \<open>litellm\<close> package are parameters.
\<close>

section \<open>Entry points\<close>

record entry_point =
  ep_group :: string
  ep_name :: string
  ep_value :: string

definition PLUGIN_GROUPS :: "string list" where
  "PLUGIN_GROUPS =
     [''oawm.llm_providers'', ''oawm.storage_backends'', ''oawm.retrievers'', ''oawm.checkers'',
      ''oawm.proposers'', ''oawm.tool_adapters'', ''oawm.receipt_verifiers'']"

definition list_entry_points :: "entry_point list \<Rightarrow> (string \<times> entry_point list) list" where
  "list_entry_points eps = map (\<lambda>g. (g, filter (\<lambda>e. ep_group e = g) eps)) PLUGIN_GROUPS"

text \<open>\<open>load\<close> is what \<open>EntryPoint.load()\<close> gives.\<close>

definition load_entry_point ::
  "entry_point list \<Rightarrow> (entry_point \<Rightarrow> 'p res) \<Rightarrow> string \<Rightarrow> string \<Rightarrow> 'p res"
where
  "load_entry_point eps load grp name =
     (case filter (\<lambda>e. ep_group e = grp \<and> ep_name e = name) eps of
        [] \<Rightarrow> Inl (LookupError (''plugin not found: '' @ grp @ '':'' @ name))
      | e # _ \<Rightarrow> load e)"

text \<open>
  What an entry point names: a factory over positional arguments, each of which may be
  \<open>None\<close>, or an object that is not callable.
\<close>

datatype ('x, 'p) loaded = Callable "'x option list \<Rightarrow> 'p res" | Plain 'p

definition instantiate_plugin ::
  "entry_point list \<Rightarrow> (entry_point \<Rightarrow> ('x, 'p) loaded res) \<Rightarrow> string \<Rightarrow> string \<Rightarrow> 'x option list \<Rightarrow> 'p res"
where
  "instantiate_plugin eps load grp name args =
     bind_res (load_entry_point eps load grp name) (\<lambda>factory.
       case factory of
         Callable f \<Rightarrow>
           (case f args of
              Inl (TypeError m) \<Rightarrow>
                (if args \<noteq> [] \<and> list_all (\<lambda>a. a = None) args then f [] else Inl (TypeError m))
            | r \<Rightarrow> r)
       | Plain p \<Rightarrow>
           (if args \<noteq> [] then Inl (FailClosedError (''plugin '' @ grp @ '':'' @ name @ '' is not callable''))
            else Inr p))"

section \<open>The LiteLLM provider\<close>

text \<open>
  What the provider reads of a completion: the \<open>content\<close> of each choice's message, if it has
  one, and the dump of the usage object, if it has one.
\<close>

record completion =
  co_contents :: "json option list"
  co_usage :: "dict option"

type_synonym litellm_module = "string \<Rightarrow> dict list \<Rightarrow> dict list option \<Rightarrow> completion res"

definition message_dump :: "llm_message \<Rightarrow> dict" where
  "message_dump m = [(''role'', JStr (msg_role m)), (''content'', JStr (msg_content m))]"

text \<open>\<open>str(value or "")\<close>.\<close>

definition content_text :: "host \<Rightarrow> json option \<Rightarrow> string" where
  "content_text H c = (case c of None \<Rightarrow> [] | Some v \<Rightarrow> if truthy v then py_str H v else [])"

definition litellm_complete ::
  "host \<Rightarrow> litellm_module option \<Rightarrow> string option \<Rightarrow> llm_provider"
where
  "litellm_complete H litellm default_model messages tools model =
     (case litellm of
        None \<Rightarrow> Inl (RuntimeError (''LiteLLM adapter requires installing the optional '' @
          [CHR 0x27] @ ''llm'' @ [CHR 0x27] @ '' extra: uv sync --extra llm''))
      | Some completions \<Rightarrow>
          let selected_model = or_str model (or_str default_model []) in
          if selected_model = []
          then Inl (ValueError ''LiteLLMProvider requires a model, e.g. openai/gpt-4o-mini'')
          else
            bind_res (completions selected_model (map message_dump messages) tools) (\<lambda>response.
            case co_contents response of
              [] \<Rightarrow> Inl (IndexError ''list index out of range'')
            | c # _ \<Rightarrow>
                Inr \<lparr>llm_content = content_text H c, llm_model = Some selected_model,
                  llm_usage = (case co_usage response of None \<Rightarrow> [] | Some d \<Rightarrow> d),
                  llm_raw = []\<rparr>))"

section \<open>Opening a kernel with named plugins\<close>

text \<open>An entry of the plugin dictionary: absent, the name of an entry point, or the part itself.\<close>

datatype 'p choice = Unset | Named string | Object 'p

type_synonym retriever = "nat \<Rightarrow> string \<Rightarrow> lane list \<Rightarrow> int \<Rightarrow> db \<Rightarrow> retrieved list res"
type_synonym proposer = "nat \<Rightarrow> stored_event list \<Rightarrow> string \<Rightarrow> memory res"

record registry =
  rg_points :: "entry_point list"
  rg_retriever :: "entry_point \<Rightarrow> (db storage_port, retriever) loaded res"
  rg_llm :: "entry_point \<Rightarrow> (string, llm_provider) loaded res"
  rg_checkers :: "entry_point \<Rightarrow> (unit, checker list) loaded res"
  rg_proposer :: "entry_point \<Rightarrow> (unit, proposer) loaded res"
  rg_tools :: "entry_point \<Rightarrow> (unit, tool_adapter) loaded res"
  rg_verifier :: "entry_point \<Rightarrow> (unit, receipt_verifier) loaded res"

record plugin_map =
  pm_retriever :: "retriever choice"
  pm_llm :: "llm_provider choice"
  pm_checkers :: "checker list choice"
  pm_proposer :: "proposer choice"
  pm_tools :: "tool_adapter choice"
  pm_verifier :: "receipt_verifier choice"

definition empty_plugin_map :: plugin_map where
  "empty_plugin_map =
     \<lparr>pm_retriever = Unset, pm_llm = Unset, pm_checkers = Unset, pm_proposer = Unset,
      pm_tools = Unset, pm_verifier = Unset\<rparr>"

definition resolve ::
  "entry_point list \<Rightarrow> (entry_point \<Rightarrow> ('x, 'p) loaded res) \<Rightarrow> string \<Rightarrow> 'x option list \<Rightarrow>
   'p choice \<Rightarrow> 'p option res"
where
  "resolve eps load grp args c =
     (case c of
        Unset \<Rightarrow> Inr None
      | Object p \<Rightarrow> Inr (Some p)
      | Named name \<Rightarrow> bind_res (instantiate_plugin eps load grp name args) (\<lambda>p. Inr (Some p)))"

text \<open>
  \<open>AgentKernel.open\<close> over the SQLite file, which is the storage when none is chosen;
  \<open>n\<close> is the draw of the local tool adapter.
\<close>

definition resolve_plugins ::
  "fts_engine \<Rightarrow> host \<Rightarrow> registry \<Rightarrow> string option \<Rightarrow> plugin_map \<Rightarrow> plugins res"
where
  "resolve_plugins E H R model pm =
     bind_res (resolve (rg_points R) (rg_retriever R) ''oawm.retrievers'' [Some (sqlite_port E H)]
       (pm_retriever pm)) (\<lambda>retriever.
     bind_res (resolve (rg_points R) (rg_llm R) ''oawm.llm_providers'' [model] (pm_llm pm)) (\<lambda>llm.
     bind_res (resolve (rg_points R) (rg_checkers R) ''oawm.checkers'' [] (pm_checkers pm)) (\<lambda>checkers.
     bind_res (resolve (rg_points R) (rg_proposer R) ''oawm.proposers'' [] (pm_proposer pm)) (\<lambda>proposer.
     bind_res (resolve (rg_points R) (rg_tools R) ''oawm.tool_adapters'' [] (pm_tools pm)) (\<lambda>tools.
     bind_res (resolve (rg_points R) (rg_verifier R) ''oawm.receipt_verifiers'' [] (pm_verifier pm))
       (\<lambda>verifier.
     Inr \<lparr>pl_retriever = retriever, pl_llm = llm, pl_checkers = checkers, pl_proposer = proposer,
       pl_tools = tools, pl_verifier = verifier\<rparr>))))))"

definition kernel_open ::
  "fts_engine \<Rightarrow> host \<Rightarrow> litellm_module option \<Rightarrow> registry \<Rightarrow> nat \<Rightarrow> string option \<Rightarrow> string \<Rightarrow>
   plugin_map \<Rightarrow> db kernel res"
where
  "kernel_open E H litellm R n model prof pm =
     bind_res (resolve_plugins E H R model pm) (\<lambda>pl.
     Inr (open_kernel E H (\<lambda>m. litellm_complete H litellm (Some m)) n model prof pl))"

text \<open>\<open>create_storage\<close>, the entry point of the SQLite backend.\<close>

definition create_storage :: "db_file \<Rightarrow> db_file" where
  "create_storage f = sqlite_initialize f"

section \<open>What a resolved plugin is\<close>

lemma resolve_Unset [simp]: "resolve eps load g args Unset = Inr None"
  by (simp add: resolve_def)

lemma resolve_Object [simp]: "resolve eps load g args (Object p) = Inr (Some p)"
  by (simp add: resolve_def)

text \<open>A named plugin that no distribution provides keeps the kernel from opening.\<close>

lemma resolve_missing:
  assumes "\<And>e. e \<in> set eps \<Longrightarrow> ep_group e = g \<Longrightarrow> ep_name e \<noteq> name"
  shows "resolve eps load g args (Named name) = Inl (LookupError (''plugin not found: '' @ g @ '':'' @ name))"
proof -
  have "filter (\<lambda>e. ep_group e = g \<and> ep_name e = name) eps = []"
    using assms by (auto simp: filter_empty_conv)
  then show ?thesis by (simp add: resolve_def instantiate_plugin_def load_entry_point_def)
qed

text \<open>Without plugins the kernel always opens with its default parts.\<close>

lemma kernel_open_default:
  "kernel_open E H litellm R n model prof empty_plugin_map =
     Inr (open_kernel E H (\<lambda>m. litellm_complete H litellm (Some m)) n model prof no_plugins)"
  by (simp add: kernel_open_def resolve_plugins_def empty_plugin_map_def no_plugins_def)

text \<open>
  The kernel contract holds for every kernel that opens, unless a plugin proposes records that
  are already certified.
\<close>

lemma kernel_open_wired:
  assumes "kernel_open E H litellm R n model prof pm = Inr K"
    and "\<And>f. resolve (rg_points R) (rg_proposer R) ''oawm.proposers'' [] (pm_proposer pm) = Inr (Some f) \<Longrightarrow>
           \<forall>n es scope r. f n es scope = Inr r \<longrightarrow> mem_lane r \<noteq> CERTIFIED"
  shows "wired_kernel K (sqlite_view H) (sqlite_ok E H)"
proof -
  from assms(1) obtain pl where pl: "resolve_plugins E H R model pm = Inr pl"
    and K: "K = open_kernel E H (\<lambda>m. litellm_complete H litellm (Some m)) n model prof pl"
    by (auto simp: kernel_open_def res_simps)
  from pl have "resolve (rg_points R) (rg_proposer R) ''oawm.proposers'' [] (pm_proposer pm) =
      Inr (pl_proposer pl)"
    by (auto simp: resolve_plugins_def res_simps)
  with assms(2) have "safe_plugins pl" by (auto simp: safe_plugins_def)
  then show ?thesis unfolding K by (rule open_kernel_wired)
qed

end
