(* ===== verification/Qualified_Wire.thy ===== *)
theory Qualified_Wire
  imports Core_Create
begin

text \<open>
  The closed wire format of the receiver (\<open>qualified/wire.py\<close>): the bounded loader, canonical
  text and digests of sidecars, and the typed documents with their validation. Unlike the models of
  the core these are strict: no value is converted, and unknown keys are refused.
\<close>

section \<open>Loading\<close>

definition LIMIT :: nat where
  "LIMIT = 2000000"

fun wire_pairs :: "dict \<Rightarrow> dict \<Rightarrow> dict res" where
  "wire_pairs [] result = Inr result"
| "wire_pairs ((key, value) # items) result =
     (if key \<in> fst ` set result then Inl (ValueError ''duplicate JSON key'')
      else wire_pairs items (result @ [(key, value)]))"

definition wire_reject :: "string \<Rightarrow> json res" where
  "wire_reject t = Inl (ValueError (''noninteger JSON number: '' @ t))"

definition wire_hooks :: hooks where
  "wire_hooks =
     \<lparr>pairs_hook = (\<lambda>items. bind_res (wire_pairs items []) (\<lambda>d. Inr (JDict d))),
      float_hook = wire_reject, constant_hook = wire_reject\<rparr>"

text \<open>The values inside one value, the last one first: \<open>pending.pop()\<close> takes from the end.\<close>

fun children :: "json \<Rightarrow> json list" where
  "children (JDict d) = rev (map snd d)"
| "children (JList vs) = rev vs"
| "children _ = []"

function traverse :: "(json \<times> nat) list \<Rightarrow> nat \<Rightarrow> unit res" where
  "traverse [] visits = Inr ()"
| "traverse ((item, depth) # pending) visits =
     (if 24 < depth \<or> 50000 < Suc visits then Inl (ValueError ''traversal limit'')
      else traverse (map (\<lambda>v. (v, Suc depth)) (children item) @ pending) (Suc visits))"
  by pat_completeness auto
termination by (relation "measure (\<lambda>(_, visits). 50000 - visits)") auto

definition wire_loads :: "string \<Rightarrow> json res" where
  "wire_loads raw =
     (if LIMIT < length (utf8 raw) then Inl (ValueError ''byte limit'')
      else bind_res
        (case json_loads wire_hooks raw of
           Inl (RecursionError _) \<Rightarrow> Inl (ValueError ''nesting limit'') | r \<Rightarrow> r)
        (\<lambda>value. bind_res (traverse [(value, 0)] 0) (\<lambda>_. Inr value)))"

text \<open>\<open>json.dumps\<close> writes the floats that are no numbers as constants.\<close>

fun dumps_float :: "host \<Rightarrow> pyfloat \<Rightarrow> string" where
  "dumps_float H PosInf = ''Infinity''"
| "dumps_float H NegInf = ''-Infinity''"
| "dumps_float H NaN = ''NaN''"
| "dumps_float H f = float_text H f"

definition encoded :: "host \<Rightarrow> json \<Rightarrow> string res" where
  "encoded H value =
     (let raw = render (dumps_float H) (sort_keys value)
      in bind_res (wire_loads raw) (\<lambda>_. Inr raw))"

definition sha :: "host \<Rightarrow> string \<Rightarrow> string" where
  "sha H raw = sha256 H (utf8 raw)"

definition digest :: "host \<Rightarrow> json \<Rightarrow> string res" where
  "digest H value = bind_res (encoded H value) (\<lambda>raw. Inr (sha H raw))"

section \<open>Strict fields\<close>

definition field_error :: "string \<Rightarrow> error" where
  "field_error m = ValidationError m"

definition is_id_char :: "char \<Rightarrow> bool" where
  "is_id_char c \<longleftrightarrow>
     (let n = (of_char c :: nat) in
      48 \<le> n \<and> n \<le> 58 \<or> 65 \<le> n \<and> n \<le> 90 \<or> 97 \<le> n \<and> n \<le> 122 \<or> n = 95 \<or> n = 46 \<or> n = 45)"

definition is_id :: "string \<Rightarrow> bool" where
  "is_id s \<longleftrightarrow> 1 \<le> length s \<and> length s \<le> 120 \<and> list_all is_id_char s"

definition is_hex :: "char \<Rightarrow> bool" where
  "is_hex c \<longleftrightarrow> (let n = (of_char c :: nat) in 48 \<le> n \<and> n \<le> 57 \<or> 97 \<le> n \<and> n \<le> 102)"

definition is_hash :: "string \<Rightarrow> bool" where
  "is_hash s \<longleftrightarrow> length s = 64 \<and> list_all is_hex s"

definition strict_str :: "(string \<Rightarrow> bool) \<Rightarrow> json \<Rightarrow> string res" where
  "strict_str P v =
     bind_res (str_value v) (\<lambda>s. if P s then Inr s else Inl (field_error ''String should match pattern''))"

abbreviation id_value :: "json \<Rightarrow> string res" where
  "id_value \<equiv> strict_str is_id"

abbreviation hash_value :: "json \<Rightarrow> string res" where
  "hash_value \<equiv> strict_str is_hash"

definition literal :: "string list \<Rightarrow> json \<Rightarrow> string res" where
  "literal values = strict_str (\<lambda>s. s \<in> set values)"

fun tick_value :: "json \<Rightarrow> nat res" where
  "tick_value (JInt i) =
     (if 0 \<le> i \<and> i \<le> 2 ^ 31 then Inr (nat i) else Inl (field_error ''Input should be in range''))"
| "tick_value _ = Inl (field_error ''Input should be a valid integer'')"

fun strict_bool :: "json \<Rightarrow> bool res" where
  "strict_bool (JBool b) = Inr b"
| "strict_bool _ = Inl (field_error ''Input should be a valid boolean'')"

fun none_value :: "json \<Rightarrow> unit res" where
  "none_value JNull = Inr ()"
| "none_value _ = Inl (field_error ''Input should be None'')"

definition bounded_list :: "nat \<Rightarrow> nat \<Rightarrow> (json \<Rightarrow> 'a res) \<Rightarrow> json \<Rightarrow> 'a list res" where
  "bounded_list lo hi rd v =
     bind_res (list_value rd v) (\<lambda>xs.
       if lo \<le> length xs \<and> length xs \<le> hi then Inr xs else Inl (field_error ''List should have more or fewer items''))"

text \<open>\<open>Context.distinct\<close>.\<close>

definition distinct_domain :: "string list res \<Rightarrow> string list res" where
  "distinct_domain r =
     bind_res r (\<lambda>values.
       if \<not> distinct values \<or> (\<exists>v \<in> set values. 4096 < length v)
       then Inl (field_error ''Value error, duplicate or oversized domain'') else Inr values)"

section \<open>Quantities\<close>

text \<open>
  \<open>Fraction(value)\<close> on plain numerals: the reduced pair. Every other spelling that the
  constructor accepts (signs, decimals, exponents, underscores, spaces) is not what \<open>str\<close> prints of
  a nonnegative fraction and is refused as well as the spellings it does not read; but a zero
  denominator raises \<open>ZeroDivisionError\<close>, which is no \<open>ValueError\<close>.
\<close>

definition plain_numeral :: "string \<Rightarrow> bool" where
  "plain_numeral s \<longleftrightarrow> s \<noteq> [] \<and> list_all is_digit s"

fun digit_groups :: "bool \<Rightarrow> string \<Rightarrow> bool" where
  "digit_groups after_digit [] = after_digit"
| "digit_groups after_digit (c # s) =
     (if is_digit c then digit_groups True s else c = CHR ''_'' \<and> after_digit \<and> digit_groups False s)"

definition split_slash :: "string \<Rightarrow> string \<times> string option" where
  "split_slash s =
     (let a = takeWhile (\<lambda>c. c \<noteq> CHR ''/'') s; b = dropWhile (\<lambda>c. c \<noteq> CHR ''/'') s
      in (a, if b = [] then None else Some (tl b)))"

definition zero_denominator :: "string \<Rightarrow> bool" where
  "zero_denominator value =
     (let s = strip value; u = (if s \<noteq> [] \<and> hd s \<in> {CHR ''-'', CHR ''+''} then tl s else s) in
      case split_slash u of
        (a, None) \<Rightarrow> False
      | (a, Some b) \<Rightarrow>
          digit_groups False (rev (dropWhile is_space (rev a))) \<and> digit_groups False (dropWhile is_space b) \<and>
          list_all (\<lambda>c. c = CHR ''0'' \<or> c = CHR ''_'') (dropWhile is_space b))"

text \<open>The numerator, as the message of the exception prints it.\<close>

definition numerator_text :: "string \<Rightarrow> string" where
  "numerator_text value =
     (let s = strip value; n = digits_val (filter is_digit (fst (split_slash s)))
      in (if s \<noteq> [] \<and> hd s = CHR ''-'' \<and> n \<noteq> 0 then ''-'' else []) @ nat_text n)"

definition fraction :: "string \<Rightarrow> (nat \<times> nat) option" where
  "fraction value =
     (case split_slash value of
        (a, None) \<Rightarrow> if plain_numeral a then Some (digits_val a, 1) else None
      | (a, Some b) \<Rightarrow>
          if plain_numeral a \<and> plain_numeral b \<and> digits_val b \<noteq> 0 then
            (let g = gcd (digits_val a) (digits_val b) in Some (digits_val a div g, digits_val b div g))
          else None)"

fun fraction_str :: "nat \<times> nat \<Rightarrow> string" where
  "fraction_str (n, d) = (if d = 1 then nat_text n else nat_text n @ ''/'' @ nat_text d)"

definition exact :: "string \<Rightarrow> string res" where
  "exact value =
     (if 81 < length value then Inl (field_error ''Value error, quantity limit'')
      else if zero_denominator value then Inl (ZeroDivisionError (''Fraction('' @ numerator_text value @ '', 0)''))
      else case fraction value of
        None \<Rightarrow> Inl (field_error ''Value error, noncanonical nonnegative rational required'')
      | Some (n, d) \<Rightarrow>
          if fraction_str (n, d) \<noteq> value \<or> 2 ^ 128 \<le> max n d
          then Inl (field_error ''Value error, noncanonical nonnegative rational required'')
          else Inr value)"

section \<open>Documents\<close>

record cost =
  cst_id :: string
  cst_stage :: string
  cst_unit :: string
  cst_amount :: string

definition cost_dump :: "cost \<Rightarrow> dict" where
  "cost_dump c =
     [(''id'', JStr (cst_id c)), (''stage'', JStr (cst_stage c)), (''unit'', JStr (cst_unit c)),
      (''amount'', JStr (cst_amount c))]"

definition stages :: "string list" where
  "stages = [''formation'', ''verification'', ''transfer'', ''refresh'', ''maintenance'', ''use'']"

definition cost_of_dict :: "dict \<Rightarrow> cost res" where
  "cost_of_dict d =
     bind_res (only_fields [''id'', ''stage'', ''unit'', ''amount''] d) (\<lambda>_.
     bind_res (required id_value d ''id'') (\<lambda>i.
     bind_res (required (literal stages) d ''stage'') (\<lambda>st.
     bind_res (optional (literal [''work-unit'']) ''work-unit'' d ''unit'') (\<lambda>u.
     bind_res (required (\<lambda>v. bind_res (str_value v) exact) d ''amount'') (\<lambda>a.
     Inr \<lparr>cst_id = i, cst_stage = st, cst_unit = u, cst_amount = a\<rparr>)))))"

record receiver_context =
  cx_workspace :: string
  cx_receiver :: string
  cx_mission :: string
  cx_family :: string
  cx_context :: string
  cx_inputs :: "string list"
  cx_protocol :: string
  cx_evaluator :: string
  cx_tool :: string
  cx_clock :: string
  cx_dependencies :: "string list"
  cx_checks :: "string list"
  cx_restrictions :: "string list"
  cx_expose :: bool

definition context_dump :: "receiver_context \<Rightarrow> dict" where
  "context_dump c =
     [(''version'', JStr ''oawm_receiver_v1''), (''workspace'', JStr (cx_workspace c)),
      (''receiver'', JStr (cx_receiver c)), (''mission'', JStr (cx_mission c)),
      (''task_family'', JStr (cx_family c)), (''context'', JStr (cx_context c)),
      (''inputs'', strs_json (cx_inputs c)), (''protocol'', JStr (cx_protocol c)),
      (''evaluator'', JStr (cx_evaluator c)), (''tool_version'', JStr (cx_tool c)),
      (''clock'', JStr (cx_clock c)), (''dependencies'', strs_json (cx_dependencies c)),
      (''checks'', strs_json (cx_checks c)), (''restrictions'', strs_json (cx_restrictions c)),
      (''expose'', JBool (cx_expose c))]"

definition context_of_dict :: "dict \<Rightarrow> receiver_context res" where
  "context_of_dict d =
     bind_res (only_fields [''version'', ''workspace'', ''receiver'', ''mission'', ''task_family'', ''context'',
       ''inputs'', ''protocol'', ''evaluator'', ''tool_version'', ''clock'', ''dependencies'', ''checks'',
       ''restrictions'', ''expose''] d) (\<lambda>_.
     bind_res (optional (literal [''oawm_receiver_v1'']) ''oawm_receiver_v1'' d ''version'') (\<lambda>_.
     bind_res (required id_value d ''workspace'') (\<lambda>ws.
     bind_res (required id_value d ''receiver'') (\<lambda>rc.
     bind_res (required id_value d ''mission'') (\<lambda>ms.
     bind_res (required id_value d ''task_family'') (\<lambda>tf.
     bind_res (required id_value d ''context'') (\<lambda>cx.
     bind_res (required (\<lambda>v. distinct_domain (bounded_list 1 8 str_value v)) d ''inputs'') (\<lambda>inp.
     bind_res (optional id_value ''normalize-protocol-v1'' d ''protocol'') (\<lambda>pr.
     bind_res (optional id_value ''normalize-checker-v1'' d ''evaluator'') (\<lambda>ev.
     bind_res (optional id_value ''normalize-lines-v1'' d ''tool_version'') (\<lambda>tv.
     bind_res (required id_value d ''clock'') (\<lambda>cl.
     bind_res (required (\<lambda>v. distinct_domain (bounded_list 1 8 hash_value v)) d ''dependencies'') (\<lambda>dep.
     bind_res (required (\<lambda>v. distinct_domain (bounded_list 1 8 id_value v)) d ''checks'') (\<lambda>ch.
     bind_res (optional (\<lambda>v. distinct_domain (bounded_list 0 8 id_value v)) [''local-only''] d ''restrictions'')
       (\<lambda>res.
     bind_res (optional strict_bool False d ''expose'') (\<lambda>ex.
     Inr \<lparr>cx_workspace = ws, cx_receiver = rc, cx_mission = ms, cx_family = tf, cx_context = cx,
       cx_inputs = inp, cx_protocol = pr, cx_evaluator = ev, cx_tool = tv, cx_clock = cl,
       cx_dependencies = dep, cx_checks = ch, cx_restrictions = res, cx_expose = ex\<rparr>))))))))))))))))"

record source =
  src_event :: string
  src_producer :: string
  src_raw :: string
  src_sha :: string

definition source_dump :: "source \<Rightarrow> dict" where
  "source_dump s =
     [(''event_id'', JStr (src_event s)), (''producer_digest'', JStr (src_producer s)),
      (''raw'', JStr (src_raw s)), (''sha256'', JStr (src_sha s))]"

definition source_of_dict :: "dict \<Rightarrow> source res" where
  "source_of_dict d =
     bind_res (only_fields [''event_id'', ''producer_digest'', ''raw'', ''sha256''] d) (\<lambda>_.
     bind_res (required id_value d ''event_id'') (\<lambda>e.
     bind_res (required hash_value d ''producer_digest'') (\<lambda>p.
     bind_res (required str_value d ''raw'') (\<lambda>r.
     bind_res (required hash_value d ''sha256'') (\<lambda>h.
     Inr \<lparr>src_event = e, src_producer = p, src_raw = r, src_sha = h\<rparr>)))))"

definition source_read :: "host \<Rightarrow> source \<Rightarrow> dict res" where
  "source_read H s =
     (if sha H (src_raw s) \<noteq> src_sha s then Inl (ValueError ''source digest mismatch'')
      else bind_res (wire_loads (src_raw s)) (\<lambda>v.
        case v of JDict d \<Rightarrow> Inr d | _ \<Rightarrow> Inl (ValueError ''source object required'')))"

text \<open>Bounded text fields.\<close>

definition text_value :: "nat \<Rightarrow> json \<Rightarrow> string res" where
  "text_value n = strict_str (\<lambda>s. length s \<le> n)"

definition nested :: "(dict \<Rightarrow> 'a res) \<Rightarrow> json \<Rightarrow> 'a res" where
  "nested rd v = bind_res (dict_value v) rd"

record operation =
  op_implementation :: string
  op_input :: string
  op_output :: string
  op_receiver :: string
  op_context :: string
  op_time :: nat
  op_split :: string
  op_complete :: bool
  op_outcome :: string
  op_cost :: cost

definition outcomes :: "string list" where
  "outcomes = [''success'', ''failure'', ''unknown'']"

definition operation_of_dict :: "dict \<Rightarrow> operation res" where
  "operation_of_dict d =
     bind_res (only_fields [''version'', ''tool'', ''implementation'', ''input'', ''output'', ''receiver'',
       ''context_digest'', ''time'', ''split'', ''complete'', ''outcome'', ''cost''] d) (\<lambda>_.
     bind_res (optional (literal [''oawm_normalize_v1'']) ''oawm_normalize_v1'' d ''version'') (\<lambda>_.
     bind_res (optional (literal [''normalize-lines-v1'']) ''normalize-lines-v1'' d ''tool'') (\<lambda>_.
     bind_res (required hash_value d ''implementation'') (\<lambda>im.
     bind_res (required (text_value 4096) d ''input'') (\<lambda>inp.
     bind_res (required (text_value 4096) d ''output'') (\<lambda>out.
     bind_res (required id_value d ''receiver'') (\<lambda>rc.
     bind_res (required hash_value d ''context_digest'') (\<lambda>cx.
     bind_res (required tick_value d ''time'') (\<lambda>t.
     bind_res (required (literal [''training'', ''evaluation'']) d ''split'') (\<lambda>sp.
     bind_res (optional strict_bool True d ''complete'') (\<lambda>co.
     bind_res (required (literal outcomes) d ''outcome'') (\<lambda>oc.
     bind_res (required (nested cost_of_dict) d ''cost'') (\<lambda>cst.
     Inr \<lparr>op_implementation = im, op_input = inp, op_output = out, op_receiver = rc, op_context = cx,
       op_time = t, op_split = sp, op_complete = co, op_outcome = oc, op_cost = cst\<rparr>)))))))))))))"

record qualification =
  qu_memory :: string
  qu_update :: string
  qu_workflow :: string
  qu_context :: receiver_context
  qu_from :: nat
  qu_until :: nat
  qu_cutoff :: nat
  qu_training :: "source list"
  qu_evaluation :: "source list"
  qu_formation :: dict
  qu_candidate :: dict
  qu_offer :: dict
  qu_mapping :: "(string \<times> string) list"
  qu_costs :: "cost list"

definition qualification_dump :: "qualification \<Rightarrow> dict" where
  "qualification_dump q =
     [(''version'', JStr ''oawm_qualification_v1''), (''memory_id'', JStr (qu_memory q)),
      (''update_id'', JStr (qu_update q)), (''workflow_digest'', JStr (qu_workflow q)),
      (''context'', JDict (context_dump (qu_context q))), (''valid_from'', JInt (int (qu_from q))),
      (''valid_until'', JInt (int (qu_until q))), (''cutoff'', JInt (int (qu_cutoff q))),
      (''training'', JList (map (\<lambda>s. JDict (source_dump s)) (qu_training q))),
      (''evaluation'', JList (map (\<lambda>s. JDict (source_dump s)) (qu_evaluation q))),
      (''formation'', JDict (qu_formation q)), (''candidate'', JDict (qu_candidate q)),
      (''offer'', JDict (qu_offer q)), (''mapping'', str_map_json (qu_mapping q)),
      (''costs'', JList (map (\<lambda>c. JDict (cost_dump c)) (qu_costs q))),
      (''source_authentication'', JNull), (''execution_authority'', JNull)]"

definition qualification_of_dict :: "dict \<Rightarrow> qualification res" where
  "qualification_of_dict d =
     bind_res (only_fields [''version'', ''memory_id'', ''update_id'', ''workflow_digest'', ''context'',
       ''valid_from'', ''valid_until'', ''cutoff'', ''training'', ''evaluation'', ''formation'', ''candidate'',
       ''offer'', ''mapping'', ''costs'', ''source_authentication'', ''execution_authority''] d) (\<lambda>_.
     bind_res (optional (literal [''oawm_qualification_v1'']) ''oawm_qualification_v1'' d ''version'') (\<lambda>_.
     bind_res (required id_value d ''memory_id'') (\<lambda>mi.
     bind_res (required id_value d ''update_id'') (\<lambda>ui.
     bind_res (required hash_value d ''workflow_digest'') (\<lambda>wd.
     bind_res (required (nested context_of_dict) d ''context'') (\<lambda>cx.
     bind_res (required tick_value d ''valid_from'') (\<lambda>vf.
     bind_res (required tick_value d ''valid_until'') (\<lambda>vu.
     bind_res (required tick_value d ''cutoff'') (\<lambda>cu.
     bind_res (required (bounded_list 2 8 (nested source_of_dict)) d ''training'') (\<lambda>tr.
     bind_res (required (bounded_list 1 8 (nested source_of_dict)) d ''evaluation'') (\<lambda>ev.
     bind_res (required dict_value d ''formation'') (\<lambda>fo.
     bind_res (required dict_value d ''candidate'') (\<lambda>ca.
     bind_res (required dict_value d ''offer'') (\<lambda>off.
     bind_res (required str_map_value d ''mapping'') (\<lambda>mp.
     bind_res (required (bounded_list 1 32 (nested cost_of_dict)) d ''costs'') (\<lambda>co.
     bind_res (optional none_value () d ''source_authentication'') (\<lambda>_.
     bind_res (optional none_value () d ''execution_authority'') (\<lambda>_.
     Inr \<lparr>qu_memory = mi, qu_update = ui, qu_workflow = wd, qu_context = cx, qu_from = vf, qu_until = vu,
       qu_cutoff = cu, qu_training = tr, qu_evaluation = ev, qu_formation = fo, qu_candidate = ca,
       qu_offer = off, qu_mapping = mp, qu_costs = co\<rparr>))))))))))))))))))"

datatype entry_kind =
    Admit | Exposure | IntentEntry | Attempt | OutcomeEntry | Checked | Reconciled
  | Invalidate | Allegation | Withdraw | CostEntry | Correction

fun entry_kind_value :: "entry_kind \<Rightarrow> string" where
  "entry_kind_value Admit = ''admit''"
| "entry_kind_value Exposure = ''exposure''"
| "entry_kind_value IntentEntry = ''intent''"
| "entry_kind_value Attempt = ''attempt''"
| "entry_kind_value OutcomeEntry = ''outcome''"
| "entry_kind_value Checked = ''checked''"
| "entry_kind_value Reconciled = ''reconciled''"
| "entry_kind_value Invalidate = ''invalidate''"
| "entry_kind_value Allegation = ''allegation''"
| "entry_kind_value Withdraw = ''withdraw''"
| "entry_kind_value CostEntry = ''cost''"
| "entry_kind_value Correction = ''correction''"

definition entry_kinds :: "entry_kind list" where
  "entry_kinds = [Admit, Exposure, IntentEntry, Attempt, OutcomeEntry, Checked, Reconciled,
     Invalidate, Allegation, Withdraw, CostEntry, Correction]"

definition entry_kind_of :: "json \<Rightarrow> entry_kind res" where
  "entry_kind_of v =
     bind_res (str_value v) (\<lambda>s.
       of_option (field_error ''Input should be a kind of event'')
         (find (\<lambda>k. entry_kind_value k = s) entry_kinds))"

record entry =
  en_id :: string
  en_previous :: string
  en_time :: nat
  en_kind :: entry_kind
  en_data :: dict

definition entry_dump :: "entry \<Rightarrow> dict" where
  "entry_dump e =
     [(''version'', JStr ''oawm_lifecycle_v1''), (''id'', JStr (en_id e)), (''previous'', JStr (en_previous e)),
      (''time'', JInt (int (en_time e))), (''kind'', JStr (entry_kind_value (en_kind e))),
      (''data'', JDict (en_data e))]"

definition entry_of_dict :: "dict \<Rightarrow> entry res" where
  "entry_of_dict d =
     bind_res (only_fields [''version'', ''id'', ''previous'', ''time'', ''kind'', ''data''] d) (\<lambda>_.
     bind_res (optional (literal [''oawm_lifecycle_v1'']) ''oawm_lifecycle_v1'' d ''version'') (\<lambda>_.
     bind_res (required id_value d ''id'') (\<lambda>i.
     bind_res (required hash_value d ''previous'') (\<lambda>p.
     bind_res (required tick_value d ''time'') (\<lambda>t.
     bind_res (required entry_kind_of d ''kind'') (\<lambda>k.
     bind_res (required dict_value d ''data'') (\<lambda>da.
     Inr \<lparr>en_id = i, en_previous = p, en_time = t, en_kind = k, en_data = da\<rparr>)))))))"

section \<open>Access to data\<close>

text \<open>\<open>d[k]\<close>.\<close>

definition item :: "(string \<times> 'a) list \<Rightarrow> string \<Rightarrow> 'a res" where
  "item d k = of_option (KeyError (repr_str k)) (map_of d k)"

text \<open>\<open>v[k]\<close> for a value that need not be a dictionary.\<close>

fun json_item :: "json \<Rightarrow> string \<Rightarrow> json res" where
  "json_item (JDict d) k = item d k"
| "json_item (JList _) k = Inl (TypeError ''list indices must be integers or slices, not str'')"
| "json_item (JStr _) k = Inl (TypeError ''string indices must be integers, not str'')"
| "json_item v k = Inl (TypeError ([CHR 0x27] @ type_name v @ [CHR 0x27] @ '' object is not subscriptable''))"

text \<open>A loop of checks: the first that raises ends it. \<open>any(...)\<close> stops at the first that holds.\<close>

definition all_res :: "('a \<Rightarrow> unit res) \<Rightarrow> 'a list \<Rightarrow> unit res" where
  "all_res f xs = bind_res (map_res f xs) (\<lambda>_. Inr ())"

fun any_res :: "('a \<Rightarrow> bool res) \<Rightarrow> 'a list \<Rightarrow> bool res" where
  "any_res f [] = Inr False"
| "any_res f (x # xs) = bind_res (f x) (\<lambda>b. if b then Inr True else any_res f xs)"

end
