(* ===== verification/Qualified_Normalize.thy ===== *)
theory Qualified_Normalize
  imports Qualified_Wire "HOL-Library.Multiset"
begin

text \<open>
  The one registered tool of the receiver, \<open>normalize-lines-v1\<close>, and the independent check of
  its outcomes (\<open>normalize\<close> and \<open>checked\<close> of \<open>qualified/native.py\<close>). The check never calls the
  tool; that both agree on every input is a theorem.
\<close>

section \<open>Lines\<close>

text \<open>The line boundaries of \<open>str.splitlines\<close> among the characters below 256.\<close>

definition line_feed :: char where
  "line_feed = CHR 0x0A"

definition is_break :: "char \<Rightarrow> bool" where
  "is_break c \<longleftrightarrow>
     (let n = (of_char c :: nat) in 10 \<le> n \<and> n \<le> 13 \<or> 28 \<le> n \<and> n \<le> 30 \<or> n = 133)"

text \<open>What follows the first line and its boundary; a carriage return takes a line feed with it.\<close>

definition after_break :: "string \<Rightarrow> string" where
  "after_break s =
     (case s of
        [] \<Rightarrow> []
      | c # t \<Rightarrow> if c = CHR 0x0D \<and> t \<noteq> [] \<and> hd t = line_feed then tl t else t)"

lemma after_break_Nil [simp]: "after_break [] = []"
  by (simp add: after_break_def)

lemma length_after_break: "length (after_break s) \<le> length s"
  by (auto simp: after_break_def split: list.split)

lemma length_after_line: "s \<noteq> [] \<Longrightarrow> length (after_break (dropWhile (\<lambda>c. \<not> is_break c) s)) < length s"
proof (cases s)
  case (Cons c t)
  show ?thesis
  proof (cases "is_break c")
    case True
    then show ?thesis using Cons by (auto simp: after_break_def)
  next
    case False
    have "length (dropWhile (\<lambda>c. \<not> is_break c) t) \<le> length t" by (rule length_dropWhile_le)
    then show ?thesis using False Cons length_after_break [of "dropWhile (\<lambda>c. \<not> is_break c) t"] by simp
  qed
qed simp

function splitlines :: "string \<Rightarrow> string list" where
  "splitlines s =
     (if s = [] then []
      else takeWhile (\<lambda>c. \<not> is_break c) s # splitlines (after_break (dropWhile (\<lambda>c. \<not> is_break c) s)))"
  by pat_completeness auto
termination by (relation "measure length") (use length_after_line in auto)

declare splitlines.simps [simp del]

lemma splitlines_Nil [simp]: "splitlines s = [] \<longleftrightarrow> s = []"
  by (subst splitlines.simps) simp

lemma splitlines_empty [simp]: "splitlines [] = []"
  by simp

lemma splitlines_no_break: "l \<in> set (splitlines s) \<Longrightarrow> c \<in> set l \<Longrightarrow> \<not> is_break c"
proof (induction s rule: splitlines.induct)
  case (1 s)
  show ?case
  proof (cases "s = []")
    case False
    with 1 show ?thesis by (subst (asm) (2) splitlines.simps) (auto dest: set_takeWhileD)
  qed (use 1 in simp)
qed

text \<open>\<open>text.split("\n")\<close>.\<close>

fun split_feed :: "string \<Rightarrow> string list" where
  "split_feed [] = [[]]"
| "split_feed (c # s) =
     (if c = line_feed then [] # split_feed s
      else (c # hd (split_feed s)) # tl (split_feed s))"

lemma split_feed_not_Nil [simp]: "split_feed s \<noteq> []"
  by (cases s) auto

lemma join_split_feed: "join [line_feed] (split_feed s) = s"
proof (induction s)
  case (Cons c s)
  then show ?case by (cases "split_feed s") (auto simp: join_Cons split: if_splits)
qed simp

lemma split_feed_line: "line_feed \<notin> set l \<Longrightarrow> split_feed l = [l]"
  by (induction l) auto

lemma split_feed_append: "line_feed \<notin> set l \<Longrightarrow> split_feed (l @ line_feed # s) = l # split_feed s"
  by (induction l) auto

lemma split_feed_join:
  "ls \<noteq> [] \<Longrightarrow> \<forall>l \<in> set ls. line_feed \<notin> set l \<Longrightarrow> split_feed (join [line_feed] ls) = ls"
  by (induction ls rule: induct_list012) (auto simp: split_feed_line split_feed_append)

section \<open>The tool and its check\<close>

definition normal_form :: "string \<Rightarrow> string" where
  "normal_form text = join [line_feed] (sort (remdups (splitlines text)))"

definition normalize :: "string \<Rightarrow> string res" where
  "normalize text =
     (if 4096 < length text then Inl (ValueError ''bounded text required'') else Inr (normal_form text))"

text \<open>\<open>implementation\<close> is the digest of the tool's own source text, computed on import.\<close>

definition checked :: "string \<Rightarrow> operation \<Rightarrow> bool" where
  "checked implementation opn =
     (let lines = (if op_output opn \<noteq> [] then split_feed (op_output opn) else []);
          expected = set (splitlines (op_input opn));
          lines = (if op_input opn \<noteq> [] \<and> op_output opn = [] then [[]] else lines)
      in op_implementation opn = implementation \<and> op_complete opn \<and> op_outcome opn = ''success'' \<and>
         length lines = card (set lines) \<and> set lines = expected \<and>
         list_all (\<lambda>(a, b). a < b) (zip lines (tl lines)))"

lemma ascending_zip: "list_all (\<lambda>(a, b). a < b) (zip ls (tl ls)) \<longleftrightarrow> sorted_wrt (<) (ls :: string list)"
proof (induction ls rule: induct_list012)
  case (3 x y zs)
  then show ?case by (auto dest: order.strict_trans)
qed auto

lemma ascending_unique:
  "sorted_wrt (<) xs \<and> set xs = set ys \<longleftrightarrow> xs = sort (remdups (ys :: string list))"
proof
  assume a: "sorted_wrt (<) xs \<and> set xs = set ys"
  then have "sorted xs \<and> distinct xs" by (simp add: strict_sorted_iff)
  then show "xs = sort (remdups ys)"
    using a by (intro sorted_distinct_set_unique) auto
next
  assume "xs = sort (remdups ys)"
  then show "sorted_wrt (<) xs \<and> set xs = set ys" by (simp add: strict_sorted_iff)
qed

lemma feed_is_break: "is_break line_feed"
  by (simp add: is_break_def line_feed_def)

lemma checked_lines:
  "(if i \<noteq> [] \<and> out = [] then [[]] else if out \<noteq> [] then split_feed out else []) =
     sort (remdups (splitlines i)) \<longleftrightarrow> out = normal_form i"
proof (cases "i = []")
  case True
  then have "splitlines i = []" by simp
  then show ?thesis using True by (auto simp: normal_form_def)
next
  case False
  let ?L = "sort (remdups (splitlines i))"
  have ne: "?L \<noteq> []" using False by (metis set_empty set_remdups set_sort splitlines_Nil)
  have free: "\<forall>l \<in> set ?L. line_feed \<notin> set l" using splitlines_no_break feed_is_break by fastforce
  have "(if i \<noteq> [] \<and> out = [] then [[]] else if out \<noteq> [] then split_feed out else []) = split_feed out"
    using False by simp
  moreover have "split_feed out = ?L \<longleftrightarrow> out = join [line_feed] ?L"
    using join_split_feed split_feed_join [OF ne free] by metis
  ultimately show ?thesis by (simp add: normal_form_def)
qed

lemma checked_iff:
  "checked implementation opn \<longleftrightarrow>
     op_implementation opn = implementation \<and> op_complete opn \<and> op_outcome opn = ''success'' \<and>
     op_output opn = normal_form (op_input opn)"
proof -
  let ?lines = "if op_input opn \<noteq> [] \<and> op_output opn = [] then [[]]
     else if op_output opn \<noteq> [] then split_feed (op_output opn) else []"
  have "length ?lines = card (set ?lines) \<and> set ?lines = set (splitlines (op_input opn)) \<and>
      list_all (\<lambda>(a, b). a < b) (zip ?lines (tl ?lines)) \<longleftrightarrow>
      ?lines = sort (remdups (splitlines (op_input opn)))"
    unfolding ascending_zip ascending_unique [symmetric]
    by (metis distinct_card strict_sorted_iff)
  then show ?thesis
    unfolding checked_lines checked_def Let_def by blast
qed

text \<open>
  C26: the independent check accepts exactly what the tool computes. An operation that names the
  implementation, is complete and reports success passes if and only if its output is the sorted
  set of the input's lines, and the tool returns that output for every input it takes.
\<close>

theorem check_accepts_tool_output:
  "(checked implementation opn \<longleftrightarrow>
      op_implementation opn = implementation \<and> op_complete opn \<and> op_outcome opn = ''success'' \<and>
      op_output opn = join [line_feed] (sort (remdups (splitlines (op_input opn))))) \<and>
   (if length (op_input opn) \<le> 4096
    then normalize (op_input opn) = Inr (join [line_feed] (sort (remdups (splitlines (op_input opn)))))
    else (\<exists>e. normalize (op_input opn) = Inl e))"
  by (simp add: checked_iff normalize_def normal_form_def)

section \<open>Normalizing twice\<close>

lemma takeWhile_line: "\<forall>c \<in> set l. \<not> is_break c \<Longrightarrow> takeWhile (\<lambda>c. \<not> is_break c) (l @ line_feed # s) = l"
  using feed_is_break by (induction l) auto

lemma dropWhile_line:
  "\<forall>c \<in> set l. \<not> is_break c \<Longrightarrow> dropWhile (\<lambda>c. \<not> is_break c) (l @ line_feed # s) = line_feed # s"
  using feed_is_break by (induction l) auto

lemma splitlines_line:
  assumes "\<forall>c \<in> set l. \<not> is_break c"
  shows "splitlines (l @ line_feed # s) = l # splitlines s"
proof -
  have "after_break (line_feed # s) = s" by (simp add: after_break_def line_feed_def)
  then show ?thesis
    using assms feed_is_break by (subst splitlines.simps) (simp add: takeWhile_line dropWhile_line)
qed

lemma splitlines_last:
  assumes "\<forall>c \<in> set l. \<not> is_break c" "l \<noteq> []"
  shows "splitlines l = [l]"
proof -
  have "takeWhile (\<lambda>c. \<not> is_break c) l = l" "dropWhile (\<lambda>c. \<not> is_break c) l = []"
    using assms(1) by (simp_all add: takeWhile_eq_all_conv dropWhile_eq_Nil_conv)
  then have "splitlines l = l # splitlines (after_break [])"
    using assms(2) by (metis splitlines.simps)
  then show ?thesis by simp
qed

lemma splitlines_join:
  "ls \<noteq> [] \<Longrightarrow> last ls \<noteq> [] \<Longrightarrow> \<forall>l \<in> set ls. \<forall>c \<in> set l. \<not> is_break c \<Longrightarrow>
   splitlines (join [line_feed] ls) = ls"
  by (induction ls rule: induct_list012) (simp_all add: splitlines_last splitlines_line)

lemma normal_form_idem: "normal_form (normal_form t) = normal_form t"
proof -
  let ?L = "sort (remdups (splitlines t))"
  have free: "\<forall>l \<in> set ?L. \<forall>c \<in> set l. \<not> is_break c" using splitlines_no_break by auto
  have srt: "sorted ?L" "distinct ?L" by simp_all
  consider "?L = []" | "?L = [[]]" | "?L \<noteq> []" "last ?L \<noteq> []"
  proof (cases "?L = [] \<or> last ?L \<noteq> []")
    case False
    then obtain xs where xs: "?L = xs @ [[]]" by (metis append_butlast_last_id)
    have "xs = []"
    proof (rule ccontr)
      assume "xs \<noteq> []"
      then obtain x where "x \<in> set xs" by (cases xs) auto
      then have "x \<le> []" "x \<noteq> []" using srt xs by (auto simp: sorted_append)
      then show False by simp
    qed
    then show thesis using xs that(2) by simp
  qed (use that in blast)
  then show ?thesis
  proof cases
    case 3
    then have "splitlines (normal_form t) = ?L" using free by (simp add: normal_form_def splitlines_join)
    then have "normal_form (normal_form t) = join [line_feed] (sort (remdups ?L))" by (simp add: normal_form_def)
    also have "sort (remdups ?L) = ?L"
      using srt by (simp add: distinct_remdups_id sort_key_id_if_sorted)
    finally show ?thesis by (simp add: normal_form_def)
  qed (simp_all add: normal_form_def)
qed

text \<open>The room a list of lines takes, one character for the boundary of each.\<close>

definition room :: "string list \<Rightarrow> nat" where
  "room ls = sum_list (map (\<lambda>l. Suc (length l)) ls)"

lemma length_join: "ls \<noteq> [] \<Longrightarrow> Suc (length (join [line_feed] ls)) = room ls"
  by (induction ls rule: induct_list012) (simp_all add: room_def)

lemma room_splitlines: "room (splitlines s) \<le> Suc (length s)"
proof (induction s rule: splitlines.induct)
  case (1 s)
  show ?case
  proof (cases "s = []")
    case False
    let ?a = "takeWhile (\<lambda>c. \<not> is_break c) s" and ?r = "dropWhile (\<lambda>c. \<not> is_break c) s"
    have len: "length s = length ?a + length ?r" by (metis length_append takeWhile_dropWhile_id)
    have s: "splitlines s = ?a # splitlines (after_break ?r)" using False by (subst splitlines.simps) simp
    show ?thesis
    proof (cases ?r)
      case Nil
      then have "splitlines s = [?a]" using s by (metis after_break_Nil splitlines_empty)
      moreover have "length ?a = length s" using Nil len by (metis add_0_right list.size(3))
      ultimately show ?thesis by (simp add: room_def)
    next
      case (Cons c t)
      have "length (after_break ?r) \<le> length t" using Cons by (auto simp: after_break_def)
      then show ?thesis using 1 [OF False] s len Cons by (simp add: room_def)
    qed
  qed (simp add: room_def)
qed

lemma room_remdups: "room (remdups ls) \<le> room ls"
  by (induction ls) (auto simp: room_def)

lemma room_sort [simp]: "room (sort ls) = room ls"
  by (simp add: room_def flip: sum_mset_sum_list)

lemma length_normal_form: "length (normal_form t) \<le> length t"
proof (cases "sort (remdups (splitlines t)) = []")
  case False
  have "Suc (length (normal_form t)) = room (sort (remdups (splitlines t)))"
    unfolding normal_form_def by (rule length_join [OF False])
  also have "\<dots> \<le> Suc (length t)"
    using room_remdups [of "splitlines t"] room_splitlines [of t] by simp
  finally show ?thesis by simp
qed (simp add: normal_form_def)

text \<open>
  C27: what the tool returns it takes again and returns unchanged; it never returns more text than
  it was given.
\<close>

theorem normalize_idempotent:
  assumes "normalize t = Inr u"
  shows "normalize u = Inr u \<and> length u \<le> length t"
  using assms normal_form_idem [of t] length_normal_form [of t]
  by (auto simp: normalize_def split: if_splits)

theorem normalize_idempotent_witness: "\<exists>u. normalize [CHR ''b'', line_feed, CHR ''a''] = Inr u \<and> normalize u = Inr u"
proof -
  have "normalize [CHR ''b'', line_feed, CHR ''a''] = Inr (normal_form [CHR ''b'', line_feed, CHR ''a''])"
    by (simp add: normalize_def)
  then show ?thesis using normalize_idempotent by blast
qed

end
