(* ===== verification/Command_Line.thy ===== *)
theory Command_Line
  imports Plugin_Loading Qualified_Normalize
begin

text \<open>
  The command line (\<open>cli/app.py\<close>). Every command opens a kernel over the state file, calls
  it and prints; the parsing of options is Typer's. A command returns what it hands to the console
  and its exit code; an exception that leaves it is the error of the result. The engine and the
  host of the process, the installed packages, the reading of files and the layout of a score are
  parameters.
\<close>

section \<open>The terminal\<close>

record terminal =
  cl_host :: host
  cl_engine :: fts_engine
  cl_litellm :: "litellm_module option"
  cl_registry :: registry
  cl_read :: "string \<Rightarrow> string res"
  cl_score :: "pyfloat \<Rightarrow> string"

text \<open>A printed line, the fields of a printed model, or a table with its header.\<close>

datatype screen = Line string | Document dict | Grid "string list" "string list list"

type_synonym printed = "screen list \<times> nat"

definition prints :: "screen \<Rightarrow> ('s, printed) io" where
  "prints s = ret ([s], 0)"

definition exits :: "screen \<Rightarrow> nat \<Rightarrow> ('s, printed) io" where
  "exits s code = ret ([s], code)"

definition cli_kernel :: "terminal \<Rightarrow> string option \<Rightarrow> (db world, db kernel) io" where
  "cli_kernel T model =
     bind_io draw (\<lambda>n.
     lift (kernel_open (cl_engine T) (cl_host T) (cl_litellm T) (cl_registry T) n model ''strict''
       empty_plugin_map))"

section \<open>Reading files\<close>

text \<open>\<open>path.suffix\<close>: the last dot of the file name, unless it is the first or last character.\<close>

fun path_parts :: "string \<Rightarrow> string \<Rightarrow> string list" where
  "path_parts acc [] = [acc]"
| "path_parts acc (c # cs) =
     (if c = CHR ''/'' then acc # path_parts [] cs else path_parts (acc @ [c]) cs)"

definition path_name :: "string \<Rightarrow> string" where
  "path_name p =
     (case rev (filter (\<lambda>c. c \<noteq> [] \<and> c \<noteq> ''.'') (path_parts [] p)) of [] \<Rightarrow> [] | c # _ \<Rightarrow> c)"

definition suffix_of :: "string \<Rightarrow> string" where
  "suffix_of p =
     (let nm = path_name p; ext = rev (takeWhile (\<lambda>c. c \<noteq> CHR ''.'') (rev nm)) in
      if CHR ''.'' \<in> set nm \<and> ext \<noteq> [] \<and> length ext + 1 < length nm then CHR ''.'' # ext else [])"

text \<open>\<open>str.lower\<close> on the characters below 256.\<close>

definition lower_char :: "char \<Rightarrow> char" where
  "lower_char c =
     (let n = (of_char c :: nat)
      in if 65 \<le> n \<and> n \<le> 90 \<or> 192 \<le> n \<and> n \<le> 222 \<and> n \<noteq> 215 then char_of (n + 32) else c)"

definition lower :: "string \<Rightarrow> string" where
  "lower s = map lower_char s"

definition payload_item :: "host \<Rightarrow> json \<Rightarrow> dict" where
  "payload_item H value = (case value of JDict d \<Rightarrow> d | v \<Rightarrow> [(''text'', JStr (py_str H v))])"

definition payloads_of :: "host \<Rightarrow> json \<Rightarrow> dict list" where
  "payloads_of H parsed =
     (case parsed of
        JList items \<Rightarrow> map (payload_item H) items
      | JDict d \<Rightarrow> [d]
      | v \<Rightarrow> [[(''text'', JStr (py_str H v))]])"

definition read_payloads :: "terminal \<Rightarrow> string \<Rightarrow> dict list res" where
  "read_payloads T path =
     bind_res (cl_read T path) (\<lambda>text.
     let stripped = strip text in
     if stripped = [] then Inr []
     else if lower (suffix_of path) = ''.jsonl''
     then map_res (\<lambda>line. bind_res (loads_strict_json (cl_host T) line) (\<lambda>v. Inr (payload_item (cl_host T) v)))
            (filter (\<lambda>line. strip line \<noteq> []) (splitlines stripped))
     else bind_res (loads_strict_json (cl_host T) stripped) (\<lambda>parsed. Inr (payloads_of (cl_host T) parsed)))"

definition read_action_intent :: "terminal \<Rightarrow> string option \<Rightarrow> intent option res" where
  "read_action_intent T path =
     (case path of
        None \<Rightarrow> Inr None
      | Some p \<Rightarrow>
          bind_res (cl_read T p) (\<lambda>text.
          bind_res (intent_from_json_text (cl_host T) text) (\<lambda>a. Inr (Some a))))"

section \<open>Commands over the kernel\<close>

definition cli_init :: "terminal \<Rightarrow> string \<Rightarrow> (db world, printed) io" where
  "cli_init T path =
     bind_io (cli_kernel T None) (\<lambda>_.
     prints (Line (''Initialized OAWM state at [bold]'' @ path @ ''[/bold]'')))"

definition payload_kind :: "host \<Rightarrow> string \<Rightarrow> dict \<Rightarrow> string" where
  "payload_kind H kind payload =
     (case map_of payload ''kind'' of None \<Rightarrow> kind | Some v \<Rightarrow> py_str H v)"

definition payload_body :: "dict \<Rightarrow> dict" where
  "payload_body payload = filter (\<lambda>p. fst p \<noteq> ''kind'') payload"

definition observe_payload ::
  "'s kernel \<Rightarrow> string option \<Rightarrow> string \<Rightarrow> dict \<Rightarrow> ('s world, unit) io"
where
  "observe_payload K run_id kind payload =
     bind_io (observe K (payload_kind (k_host K) kind payload) (payload_body payload) run_id [] True)
       (\<lambda>_. ret ())"

definition cli_observe ::
  "terminal \<Rightarrow> string \<Rightarrow> string option \<Rightarrow> string \<Rightarrow> (db world, printed) io"
where
  "cli_observe T file run_id kind =
     bind_io (cli_kernel T None) (\<lambda>K.
     bind_io (lift (read_payloads T file)) (\<lambda>payloads.
     bind_io (for_each (observe_payload K run_id kind) payloads) (\<lambda>_.
     prints (Line (''Observed '' @ nat_text (length payloads) @ '' event(s).'')))))"

definition cli_search :: "terminal \<Rightarrow> string \<Rightarrow> string \<Rightarrow> int \<Rightarrow> (db world, printed) io" where
  "cli_search T query mode limit =
     bind_io (cli_kernel T None) (\<lambda>K.
     bind_io (retrieve K query mode limit None) (\<lambda>results.
     prints (Grid [''lane'', ''memory_id'', ''score'', ''claim'']
       (map (\<lambda>item. [lane_value (ret_lane item), ret_id item, cl_score T (ret_score item), ret_claim item])
         results))))"

definition prints_record :: "host \<Rightarrow> memory \<Rightarrow> ('s, printed) io" where
  "prints_record H r = prints (Document (memory_dump H r))"

definition cli_propose ::
  "terminal \<Rightarrow> string \<Rightarrow> string \<Rightarrow> string list option \<Rightarrow> int option \<Rightarrow> string \<Rightarrow> (db world, printed) io"
where
  "cli_propose T run_id scope tool max_steps interface_signature =
     bind_io (cli_kernel T None) (\<lambda>K.
     let resource_caps = (case max_steps of None \<Rightarrow> None | Some n \<Rightarrow> Some [(''max_steps'', n)]) in
     bind_io (propose_memory K run_id scope tool resource_caps (Some interface_signature))
       (prints_record (cl_host T)))"

definition cli_verify :: "terminal \<Rightarrow> string \<Rightarrow> string option \<Rightarrow> (db world, printed) io" where
  "cli_verify T candidate_id action_intent =
     bind_io (cli_kernel T None) (\<lambda>K.
     bind_io (lift (read_action_intent T action_intent)) (\<lambda>a.
     bind_io (verify K candidate_id a) (\<lambda>rcp.
     exits (Document (receipt_dump (cl_host T) rcp)) (if rcp_result rcp \<noteq> Passed then 2 else 0))))"

definition cli_promote :: "terminal \<Rightarrow> string \<Rightarrow> (db world, printed) io" where
  "cli_promote T candidate_id =
     bind_io (cli_kernel T None) (\<lambda>K. bind_io (promote K candidate_id) (prints_record (cl_host T)))"

definition cli_retire :: "terminal \<Rightarrow> string \<Rightarrow> string \<Rightarrow> (db world, printed) io" where
  "cli_retire T memory_id reason =
     bind_io (cli_kernel T None) (\<lambda>K. bind_io (retire K memory_id reason) (prints_record (cl_host T)))"

definition or_empty :: "'a list option \<Rightarrow> 'a list" where
  "or_empty xs = (case xs of None \<Rightarrow> [] | Some ys \<Rightarrow> ys)"

definition cli_contradict ::
  "terminal \<Rightarrow> string \<Rightarrow> string \<Rightarrow> string \<Rightarrow> string list option \<Rightarrow> (db world, printed) io"
where
  "cli_contradict T memory_id claim reason source_event_id =
     bind_io (cli_kernel T None) (\<lambda>K.
     bind_io (contradict K memory_id claim (or_empty source_event_id) reason) (prints_record (cl_host T)))"

definition cli_supersede :: "terminal \<Rightarrow> string \<Rightarrow> string \<Rightarrow> string \<Rightarrow> (db world, printed) io" where
  "cli_supersede T old_memory_id new_memory_id receipt_id =
     bind_io (cli_kernel T None) (\<lambda>K.
     bind_io (supersede K old_memory_id new_memory_id receipt_id) (prints_record (cl_host T)))"

definition cli_correct ::
  "terminal \<Rightarrow> string \<Rightarrow> string \<Rightarrow> string list option \<Rightarrow> string option \<Rightarrow> (db world, printed) io"
where
  "cli_correct T memory_id corrected_claim source_event_id run_id =
     bind_io (cli_kernel T None) (\<lambda>K.
     bind_io (correct_memory K memory_id corrected_claim run_id (or_empty source_event_id))
       (prints_record (cl_host T)))"

definition cli_run ::
  "terminal \<Rightarrow> string \<Rightarrow> string option \<Rightarrow> bool \<Rightarrow> string list option \<Rightarrow> string option \<Rightarrow>
   (db world, printed) io"
where
  "cli_run T task model external_effects gate_receipt_id action_intent =
     bind_io (cli_kernel T model) (\<lambda>K.
     bind_io (lift (read_action_intent T action_intent)) (\<lambda>a.
     if external_effects \<and> a = None
     then exits (Line ''[red]external effects require --action-intent[/red]'') 2
     else
       bind_io (run_task K task None external_effects model None (or_empty gate_receipt_id) a) (\<lambda>outcome.
       prints (Line (llm_content outcome)))))"

section \<open>Audits, intents and plugins\<close>

definition bool_text :: "bool \<Rightarrow> string" where
  "bool_text b = (if b then ''True'' else ''False'')"

definition audit_line :: "audit_row \<Rightarrow> string list" where
  "audit_line row =
     [row_receipt row, row_candidate row, outcome_value (row_result row), row_action row,
      bool_text (row_integrity row), (case row_recheck row of None \<Rightarrow> ''None'' | Some b \<Rightarrow> bool_text b),
      bool_text (row_verified row), row_reason row]"

definition cli_audit :: "terminal \<Rightarrow> bool \<Rightarrow> bool \<Rightarrow> (db world, printed) io" where
  "cli_audit T receipts strict_recheck =
     bind_io (cli_kernel T None) (\<lambda>K.
     if receipts
     then
       bind_io (audit_receipts K strict_recheck) (\<lambda>rows.
       prints (Grid [''receipt_id'', ''candidate_id'', ''result'', ''action'', ''integrity'', ''recheck'',
           ''verified'', ''reason''] (map audit_line rows)))
     else
       bind_io (audit K) (\<lambda>counts.
       prints (Grid [''key'', ''count''] (map (\<lambda>(k, n). [k, int_text n]) (sort_key fst counts)))))"

definition cli_intent_create ::
  "terminal \<Rightarrow> string \<Rightarrow> string \<Rightarrow> string \<Rightarrow> int \<Rightarrow> string option \<Rightarrow> string option \<Rightarrow> ('s, printed) io"
where
  "cli_intent_create T tool_name effect_class args_json max_steps required_contract_id required_receipt_id =
     bind_io (lift (loads_strict_json (cl_host T) args_json)) (\<lambda>parsed.
     case parsed of
       JDict arguments \<Rightarrow>
         bind_io (lift (intent_create (cl_host T) tool_name effect_class arguments required_contract_id
           required_receipt_id [(''max_steps'', max_steps)])) (\<lambda>a.
         prints (Document (intent_dump a)))
     | _ \<Rightarrow> exits (Line ''[red]--args-json must be a JSON object[/red]'') 2)"

definition cli_plugins_list :: "terminal \<Rightarrow> ('s, printed) io" where
  "cli_plugins_list T =
     prints (Grid [''group'', ''name'', ''value'']
       (concat (map (\<lambda>(g, eps). map (\<lambda>e. [g, ep_name e, ep_value e]) eps)
         (list_entry_points (rg_points (cl_registry T))))))"

section \<open>The application\<close>

datatype command =
    Init string
  | Observe string "string option" string
  | Search string string int
  | Propose string string "string list option" "int option" string
  | Verify string "string option"
  | Promote string
  | Retire string string
  | Contradict string string string "string list option"
  | Supersede string string string
  | Correct string string "string list option" "string option"
  | Run string "string option" bool "string list option" "string option"
  | Audit bool bool
  | Intent_Create string string string int "string option" "string option"
  | Plugins_List

fun execute :: "terminal \<Rightarrow> command \<Rightarrow> (db world, printed) io" where
  "execute T (Init path) = cli_init T path"
| "execute T (Observe file run_id kind) = cli_observe T file run_id kind"
| "execute T (Search query mode limit) = cli_search T query mode limit"
| "execute T (Propose run_id scope tool max_steps sig) = cli_propose T run_id scope tool max_steps sig"
| "execute T (Verify candidate_id action_intent) = cli_verify T candidate_id action_intent"
| "execute T (Promote candidate_id) = cli_promote T candidate_id"
| "execute T (Retire memory_id reason) = cli_retire T memory_id reason"
| "execute T (Contradict memory_id claim reason sources) = cli_contradict T memory_id claim reason sources"
| "execute T (Supersede old new receipt_id) = cli_supersede T old new receipt_id"
| "execute T (Correct memory_id claim sources run_id) = cli_correct T memory_id claim sources run_id"
| "execute T (Run task model effects gates action_intent) = cli_run T task model effects gates action_intent"
| "execute T (Audit receipts strict) = cli_audit T receipts strict"
| "execute T (Intent_Create tool effect args steps contract_id receipt_id) =
     cli_intent_create T tool effect args steps contract_id receipt_id"
| "execute T Plugins_List = cli_plugins_list T"

text \<open>One command after the other on one state file, each in its own process: a failure ends only
  its own command.\<close>

fun shell :: "terminal \<Rightarrow> command list \<Rightarrow> db world \<Rightarrow> printed res list \<times> db world" where
  "shell T [] w = ([], w)"
| "shell T (c # cs) w =
     (let (r, w1) = execute T c w; (rs, w2) = shell T cs w1 in (r # rs, w2))"

end
