(* ===== verification/Qualified_Journal.thy ===== *)
theory Qualified_Journal
  imports Qualified_Normalize
begin

text \<open>
  The receiver's journal (\<open>qualified/store.py\<close>): the replay of its entries, which is the only
  source of the receiver's state, and the table of entries beside the tables of the kernel.
  \<open>implementation\<close> is the digest of the registered tool's source.
\<close>

section \<open>State\<close>

record journal =
  jn_qualifications :: "(string \<times> dict) list"
  jn_costs :: "(string \<times> dict) list"
  jn_blocks :: "dict list"
  jn_withdrawn :: "dict list"
  jn_intents :: "(string \<times> dict) list"
  jn_attempts :: "(string \<times> string) list"
  jn_outcomes :: "(string \<times> dict) list"
  jn_checked :: "(string \<times> bool) list"
  jn_services :: "string list"
  jn_exposures :: "dict list"
  jn_allegations :: "dict list"

definition empty_journal :: journal where
  "empty_journal =
     \<lparr>jn_qualifications = [], jn_costs = [], jn_blocks = [], jn_withdrawn = [], jn_intents = [],
      jn_attempts = [], jn_outcomes = [], jn_checked = [], jn_services = [], jn_exposures = [],
      jn_allegations = []\<rparr>"

section \<open>Python's tests on data\<close>

text \<open>\<open>set(data) != names\<close>.\<close>

definition has_fields :: "dict \<Rightarrow> string list \<Rightarrow> bool" where
  "has_fields data names \<longleftrightarrow> fst ` set data = set names"

text \<open>\<open>v in d\<close> for a dictionary with string keys; a list or dictionary cannot be hashed.\<close>

fun key_in :: "json \<Rightarrow> (string \<times> 'a) list \<Rightarrow> bool res" where
  "key_in (JStr s) d = Inr (s \<in> fst ` set d)"
| "key_in (JList _) d = Inl (TypeError ''unhashable type: list'')"
| "key_in (JDict _) d = Inl (TypeError ''unhashable type: dict'')"
| "key_in _ d = Inr False"

fun key_text :: "json \<Rightarrow> string" where
  "key_text (JStr s) = s"
| "key_text _ = []"

text \<open>A chain of tests \<open>a or b or c\<close> that guards a \<open>raise\<close>.\<close>

definition require_key :: "json \<Rightarrow> (string \<times> 'a) list \<Rightarrow> bool \<Rightarrow> error \<Rightarrow> string res" where
  "require_key v d present e =
     bind_res (key_in v d) (\<lambda>b. if b = present then Inr (key_text v) else Inl e)"

definition cost_paid :: "(string \<times> dict) list \<Rightarrow> cost \<Rightarrow> bool" where
  "cost_paid costs c \<longleftrightarrow>
     (case map_of costs (cst_id c) of None \<Rightarrow> False | Some d \<Rightarrow> py_eq (JDict d) (JDict (cost_dump c)))"

section \<open>One entry\<close>

definition apply_cost :: "dict \<Rightarrow> journal \<Rightarrow> journal res" where
  "apply_cost data j =
     bind_res (cost_of_dict data) (\<lambda>c.
     case map_of (jn_costs j) (cst_id c) of
       Some d \<Rightarrow>
         if py_eq (JDict d) (JDict data) then Inr (j\<lparr>jn_costs := put (cst_id c) data (jn_costs j)\<rparr>)
         else Inl (ValueError ''conflicting physical cost'')
     | None \<Rightarrow> Inr (j\<lparr>jn_costs := put (cst_id c) data (jn_costs j)\<rparr>))"

definition apply_admit :: "host \<Rightarrow> dict \<Rightarrow> journal \<Rightarrow> journal res" where
  "apply_admit H data j =
     bind_res (qualification_of_dict data) (\<lambda>q.
     if \<not> list_all (cost_paid (jn_costs j)) (qu_costs q)
     then Inl (ValueError ''unpaid qualification obligations'')
     else bind_res (digest H (JDict (qualification_dump q))) (\<lambda>d.
       Inr (j\<lparr>jn_qualifications := put d data (jn_qualifications j)\<rparr>)))"

definition blocking_fields :: "entry_kind \<Rightarrow> string list" where
  "blocking_fields k =
     (if k = Withdraw then [''dependency'', ''reason''] else [''artifact'', ''context'', ''input'', ''reason''])"

text \<open>\<open>{**data, "time": entry.time, "event": entry.id}\<close>.\<close>

definition stamped :: "dict \<Rightarrow> entry \<Rightarrow> dict" where
  "stamped data e = put ''event'' (JStr (en_id e)) (put ''time'' (JInt (int (en_time e))) data)"

definition apply_blocking :: "entry \<Rightarrow> journal \<Rightarrow> journal res" where
  "apply_blocking e j =
     (let data = en_data e in
      if \<not> has_fields data (blocking_fields (en_kind e)) \<or> \<not> list_all (\<lambda>(_, v). is_str v) data
      then Inl (ValueError ''invalid blocking event'')
      else if en_kind e = Withdraw then Inr (j\<lparr>jn_withdrawn := jn_withdrawn j @ [stamped data e]\<rparr>)
      else if en_kind e = Allegation then Inr (j\<lparr>jn_allegations := jn_allegations j @ [stamped data e]\<rparr>)
      else Inr (j\<lparr>jn_blocks := jn_blocks j @ [stamped data e]\<rparr>))"

definition apply_exposure :: "dict \<Rightarrow> journal \<Rightarrow> journal res" where
  "apply_exposure data j =
     (if \<not> has_fields data [''qualification'', ''input''] then Inl (ValueError ''unbound exposure'')
      else bind_res (item data ''qualification'') (\<lambda>qv.
      bind_res (require_key qv (jn_qualifications j) True (ValueError ''unbound exposure'')) (\<lambda>_.
      Inr (j\<lparr>jn_exposures := jn_exposures j @ [data]\<rparr>))))"

definition apply_intent :: "entry \<Rightarrow> journal \<Rightarrow> journal res" where
  "apply_intent e j =
     (let data = en_data e; failure = ValueError ''unbound use intent or cost'' in
      if \<not> has_fields data [''qualification'', ''input'', ''action'', ''cost'', ''snapshot''] then Inl failure
      else bind_res (item data ''qualification'') (\<lambda>qv.
      bind_res (require_key qv (jn_qualifications j) True failure) (\<lambda>_.
      bind_res (item data ''cost'') (\<lambda>cv.
      bind_res (require_key cv (jn_costs j) True failure) (\<lambda>_.
      Inr (j\<lparr>jn_intents := put (en_id e) data (jn_intents j)\<rparr>))))))"

definition apply_attempt :: "entry \<Rightarrow> journal \<Rightarrow> journal res" where
  "apply_attempt e j =
     (let data = en_data e; failure = ValueError ''missing or repeated attempt'' in
      if \<not> has_fields data [''intent''] then Inl failure
      else bind_res (item data ''intent'') (\<lambda>iv.
      bind_res (require_key iv (jn_intents j) True failure) (\<lambda>i.
      bind_res (require_key iv (jn_attempts j) False failure) (\<lambda>_.
      Inr (j\<lparr>jn_attempts := put i (en_id e) (jn_attempts j)\<rparr>)))))"

fun status_in :: "json \<Rightarrow> string list \<Rightarrow> bool res" where
  "status_in (JStr s) names = Inr (s \<in> set names)"
| "status_in (JList _) names = Inl (TypeError ''unhashable type: list'')"
| "status_in (JDict _) names = Inl (TypeError ''unhashable type: dict'')"
| "status_in _ names = Inr False"

definition apply_outcome :: "dict \<Rightarrow> journal \<Rightarrow> journal res" where
  "apply_outcome data j =
     (let failure = ValueError ''unbound outcome'' in
      if \<not> has_fields data [''intent'', ''output'', ''status''] then Inl failure
      else bind_res (item data ''intent'') (\<lambda>iv.
      bind_res (require_key iv (jn_attempts j) True failure) (\<lambda>i.
      bind_res (require_key iv (jn_outcomes j) False failure) (\<lambda>_.
      bind_res (item data ''status'') (\<lambda>st.
      bind_res (status_in st [''received'', ''timeout'', ''unknown'']) (\<lambda>known.
      if known then Inr (j\<lparr>jn_outcomes := put i data (jn_outcomes j)\<rparr>) else Inl failure))))))"

text \<open>The operation that the check of an outcome looks at.\<close>

definition outcome_operation ::
  "host \<Rightarrow> string \<Rightarrow> dict \<Rightarrow> dict \<Rightarrow> nat \<Rightarrow> dict \<Rightarrow> operation res"
where
  "outcome_operation H implementation intent_data outcome_data time cost_data =
     bind_res (item intent_data ''input'') (\<lambda>iv.
     bind_res (item outcome_data ''output'') (\<lambda>ov.
     bind_res (digest H (JDict [])) (\<lambda>cx.
     bind_res (item outcome_data ''status'') (\<lambda>st.
     bind_res (cost_of_dict cost_data) (\<lambda>c.
     bind_res (text_value 4096 iv) (\<lambda>i.
     bind_res (text_value 4096 ov) (\<lambda>out.
     bind_res (hash_value (JStr implementation)) (\<lambda>im.
     bind_res (hash_value (JStr cx)) (\<lambda>h.
     Inr \<lparr>op_implementation = im, op_input = i, op_output = out, op_receiver = ''local'', op_context = h,
       op_time = time, op_split = ''evaluation'', op_complete = True,
       op_outcome = (if st = JStr ''received'' then ''success'' else ''unknown''), op_cost = c\<rparr>)))))))))"

definition negative_block :: "host \<Rightarrow> dict \<Rightarrow> dict \<Rightarrow> entry \<Rightarrow> dict res" where
  "negative_block H q_data intent_data e =
     bind_res (qualification_of_dict q_data) (\<lambda>q.
     bind_res (item (qu_candidate q) ''artifact_digest'') (\<lambda>a.
     bind_res (digest H (JDict (context_dump (qu_context q)))) (\<lambda>cx.
     bind_res (item intent_data ''input'') (\<lambda>iv.
     Inr [(''artifact'', a), (''context'', JStr cx), (''input'', iv), (''time'', JInt (int (en_time e))),
       (''event'', JStr (en_id e)), (''reason'', JStr ''checked-negative'')]))))"

definition apply_checked :: "host \<Rightarrow> string \<Rightarrow> entry \<Rightarrow> journal \<Rightarrow> journal res" where
  "apply_checked H implementation e j =
     (let data = en_data e; failure = ValueError ''unbound outcome check'' in
      if \<not> has_fields data [''intent'', ''checker''] then Inl failure
      else bind_res (item data ''checker'') (\<lambda>ck.
      if ck \<noteq> JStr ''normalize-checker-v1'' then Inl failure
      else bind_res (item data ''intent'') (\<lambda>iv.
      bind_res (require_key iv (jn_outcomes j) True failure) (\<lambda>i.
      bind_res (item (jn_outcomes j) i) (\<lambda>outcome_data.
      bind_res (item (jn_intents j) i) (\<lambda>intent_data.
      bind_res (item intent_data ''cost'') (\<lambda>cv.
      bind_res (item (jn_costs j) (key_text cv)) (\<lambda>cost_data.
      bind_res (outcome_operation H implementation intent_data outcome_data (en_time e) cost_data) (\<lambda>opn.
      let j' = j\<lparr>jn_checked := put i (checked implementation opn) (jn_checked j)\<rparr> in
      if op_outcome opn = ''success'' \<and> \<not> checked implementation opn then
        bind_res (item intent_data ''qualification'') (\<lambda>qv.
        bind_res (item (jn_qualifications j) (key_text qv)) (\<lambda>q_data.
        bind_res (negative_block H q_data intent_data e) (\<lambda>block.
        Inr (j'\<lparr>jn_blocks := jn_blocks j @ [block]\<rparr>))))
      else Inr j')))))))))"

definition apply_reconciled :: "dict \<Rightarrow> journal \<Rightarrow> journal res" where
  "apply_reconciled data j =
     (let failure = ValueError ''unchecked reconciliation'' in
      if \<not> has_fields data [''intent''] then Inl failure
      else bind_res (item data ''intent'') (\<lambda>iv.
      bind_res (require_key iv (jn_checked j) True failure) (\<lambda>i.
      bind_res (item (jn_checked j) i) (\<lambda>good.
      Inr (if good \<and> i \<notin> set (jn_services j) then j\<lparr>jn_services := jn_services j @ [i]\<rparr> else j)))))"

definition apply_entry :: "host \<Rightarrow> string \<Rightarrow> entry \<Rightarrow> journal \<Rightarrow> journal res" where
  "apply_entry H implementation e j =
     (case en_kind e of
        CostEntry \<Rightarrow> apply_cost (en_data e) j
      | Admit \<Rightarrow> apply_admit H (en_data e) j
      | Invalidate \<Rightarrow> apply_blocking e j
      | Withdraw \<Rightarrow> apply_blocking e j
      | Allegation \<Rightarrow> apply_blocking e j
      | Exposure \<Rightarrow> apply_exposure (en_data e) j
      | IntentEntry \<Rightarrow> apply_intent e j
      | Attempt \<Rightarrow> apply_attempt e j
      | OutcomeEntry \<Rightarrow> apply_outcome (en_data e) j
      | Checked \<Rightarrow> apply_checked H implementation e j
      | Reconciled \<Rightarrow> apply_reconciled (en_data e) j
      | Correction \<Rightarrow> Inl (ValueError ''unsupported_correction: append new evidence; original records remain''))"

section \<open>Replay\<close>

text \<open>A loop that may raise.\<close>

fun fold_res :: "('a \<Rightarrow> 's \<Rightarrow> 's res) \<Rightarrow> 'a list \<Rightarrow> 's \<Rightarrow> 's res" where
  "fold_res f [] s = Inr s"
| "fold_res f (x # xs) s = bind_res (f x s) (fold_res f xs)"

lemma fold_res_append: "fold_res f (xs @ ys) s = bind_res (fold_res f xs s) (fold_res f ys)"
proof (induction xs arbitrary: s)
  case (Cons x xs)
  then show ?case by (cases "f x s") simp_all
qed simp

text \<open>The loop's variables: \<open>state\<close>, \<open>unique\<close> and \<open>ids\<close>.\<close>

record replaying =
  ry_state :: journal
  ry_unique :: "entry list"
  ry_ids :: "(string \<times> string) list"

definition replay_start :: replaying where
  "replay_start = \<lparr>ry_state = empty_journal, ry_unique = [], ry_ids = []\<rparr>"

definition entries_json :: "entry list \<Rightarrow> json" where
  "entries_json es = JList (map (\<lambda>e. JDict (entry_dump e)) es)"

definition replay_step :: "host \<Rightarrow> string \<Rightarrow> entry \<Rightarrow> replaying \<Rightarrow> replaying res" where
  "replay_step H implementation e0 s =
     bind_res (entry_of_dict (entry_dump e0)) (\<lambda>e.
     bind_res (digest H (JDict (entry_dump e))) (\<lambda>value.
     case map_of (ry_ids s) (en_id e) of
       Some seen \<Rightarrow>
         if seen \<noteq> value then Inl (ValueError ''conflicting event id'') else Inr s
     | None \<Rightarrow>
         bind_res (digest H (entries_json (ry_unique s))) (\<lambda>current.
         if en_previous e \<noteq> current then Inl (ValueError ''missing parent or stale revision'')
         else bind_res (apply_entry H implementation e (ry_state s)) (\<lambda>j.
           Inr \<lparr>ry_state = j, ry_unique = ry_unique s @ [e], ry_ids = put (en_id e) value (ry_ids s)\<rparr>))))"

record replayed =
  rp_state :: journal
  rp_revision :: string
  rp_unresolved :: "string list"

definition unresolved_ids :: "journal \<Rightarrow> string list" where
  "unresolved_ids j =
     sort (filter (\<lambda>i. case map_of (jn_checked j) i of
         None \<Rightarrow> True
       | Some _ \<Rightarrow> (case map_of (jn_outcomes j) i of
           None \<Rightarrow> True | Some d \<Rightarrow> map_of d ''status'' \<noteq> Some (JStr ''received'')))
       (map fst (jn_intents j)))"

definition replay :: "host \<Rightarrow> string \<Rightarrow> entry list \<Rightarrow> replayed res" where
  "replay H implementation es =
     (if 256 < length es then Inl (ValueError ''journal event limit'')
      else bind_res (fold_res (replay_step H implementation) es replay_start) (\<lambda>s.
        bind_res (digest H (entries_json (ry_unique s))) (\<lambda>revision.
        Inr \<lparr>rp_state = ry_state s, rp_revision = revision, rp_unresolved = unresolved_ids (ry_state s)\<rparr>)))"

section \<open>The table of entries\<close>

text \<open>The rows of \<open>receiver_events\<close> in order: the id and the text of each entry.\<close>

type_synonym journal_rows = "(string \<times> string) list"

definition entry_of_text :: "string \<Rightarrow> entry res" where
  "entry_of_text raw = bind_res (wire_loads raw) (nested entry_of_dict)"

definition entries :: "journal_rows \<Rightarrow> entry list res" where
  "entries rows =
     (if 2000000 < sum_list (map (\<lambda>(_, raw). length raw) rows) then Inl (ValueError ''journal byte limit'')
      else if 256 < length rows then Inl (ValueError ''journal event limit'')
      else map_res (\<lambda>(_, raw). entry_of_text raw) rows)"

definition insert_entry :: "host \<Rightarrow> entry \<Rightarrow> journal_rows \<Rightarrow> journal_rows res" where
  "insert_entry H e rows =
     (if en_id e \<in> fst ` set rows then Inr rows
      else bind_res (encoded H (JDict (entry_dump e))) (\<lambda>raw. Inr (rows @ [(en_id e, raw)])))"

text \<open>Inside a transaction: the new revision and the rows, or the exception that rolls them back.\<close>

definition append_rows ::
  "host \<Rightarrow> string \<Rightarrow> entry list \<Rightarrow> string \<Rightarrow> journal_rows \<Rightarrow> (string \<times> journal_rows) res"
where
  "append_rows H implementation batch expected rows =
     bind_res (entries rows) (\<lambda>old.
     bind_res (replay H implementation old) (\<lambda>current.
     if rp_revision current \<noteq> expected then Inl (ValueError ''stale expected revision'')
     else bind_res (replay H implementation (old @ batch)) (\<lambda>result.
     bind_res (fold_res (insert_entry H) batch rows) (\<lambda>rows'.
     Inr (rp_revision result, rows')))))"

definition store_append ::
  "host \<Rightarrow> string \<Rightarrow> entry list \<Rightarrow> string \<Rightarrow> (journal_rows, string) io"
where
  "store_append H implementation batch expected rows =
     (case append_rows H implementation batch expected rows of
        Inl e \<Rightarrow> (Inl e, rows)
      | Inr (revision, rows') \<Rightarrow> (Inr revision, rows'))"

definition store_inspect :: "host \<Rightarrow> string \<Rightarrow> journal_rows \<Rightarrow> replayed res" where
  "store_inspect H implementation rows = bind_res (entries rows) (replay H implementation)"

definition event_entry ::
  "host \<Rightarrow> string \<Rightarrow> entry_kind \<Rightarrow> string \<Rightarrow> dict \<Rightarrow> int \<Rightarrow> entry list \<Rightarrow> entry res"
where
  "event_entry H implementation kind identity data time old =
     bind_res (replay H implementation old) (\<lambda>r.
     entry_of_dict [(''id'', JStr identity), (''previous'', JStr (rp_revision r)), (''time'', JInt time),
       (''kind'', JStr (entry_kind_value kind)), (''data'', JDict data)])"

end
