(* ===== verification/Journal_Invariants.thy ===== *)
theory Journal_Invariants
  imports Qualified_Journal
begin

text \<open>
  What one entry can do to the journal's state: the invariant that ties attempts, outcomes, checks
  and services together, and the sense in which the state only grows.
\<close>

section \<open>The invariant\<close>

text \<open>The verdict of a check, from the intent and the outcome it is about.\<close>

definition verdict :: "journal \<Rightarrow> string \<Rightarrow> bool \<Rightarrow> bool" where
  "verdict j i good \<longleftrightarrow>
     (\<exists>d r inp out. map_of (jn_intents j) i = Some d \<and> map_of (jn_outcomes j) i = Some r \<and>
        map_of d ''input'' = Some (JStr inp) \<and> map_of r ''output'' = Some (JStr out) \<and>
        (good \<longleftrightarrow> map_of r ''status'' = Some (JStr ''received'') \<and> out = normal_form inp))"

definition intent_bound :: "journal \<Rightarrow> dict \<Rightarrow> bool" where
  "intent_bound j d \<longleftrightarrow>
     (\<exists>qk ck. map_of d ''qualification'' = Some (JStr qk) \<and> qk \<in> dom (map_of (jn_qualifications j)) \<and>
        map_of d ''cost'' = Some (JStr ck) \<and> ck \<in> dom (map_of (jn_costs j)))"

definition journal_inv :: "journal \<Rightarrow> bool" where
  "journal_inv j \<longleftrightarrow>
     dom (map_of (jn_attempts j)) \<subseteq> dom (map_of (jn_intents j)) \<and>
     dom (map_of (jn_outcomes j)) \<subseteq> dom (map_of (jn_attempts j)) \<and>
     dom (map_of (jn_checked j)) \<subseteq> dom (map_of (jn_outcomes j)) \<and>
     distinct (jn_services j) \<and> (\<forall>i \<in> set (jn_services j). map_of (jn_checked j) i = Some True) \<and>
     (\<forall>i good. map_of (jn_checked j) i = Some good \<longrightarrow> verdict j i good) \<and>
     (\<forall>i d. map_of (jn_intents j) i = Some d \<longrightarrow> intent_bound j d)"

lemma journal_inv_empty: "journal_inv empty_journal"
  by (simp add: journal_inv_def empty_journal_def)

section \<open>Growth\<close>

definition journal_step :: "journal \<Rightarrow> journal \<Rightarrow> bool" where
  "journal_step j j' \<longleftrightarrow>
     map_of (jn_intents j) \<subseteq>\<^sub>m map_of (jn_intents j') \<and> map_of (jn_attempts j) \<subseteq>\<^sub>m map_of (jn_attempts j') \<and>
     map_of (jn_outcomes j) \<subseteq>\<^sub>m map_of (jn_outcomes j') \<and> map_of (jn_checked j) \<subseteq>\<^sub>m map_of (jn_checked j') \<and>
     dom (map_of (jn_qualifications j)) \<subseteq> dom (map_of (jn_qualifications j')) \<and>
     dom (map_of (jn_costs j)) \<subseteq> dom (map_of (jn_costs j')) \<and>
     (\<exists>x. jn_services j' = jn_services j @ x) \<and> (\<exists>x. jn_blocks j' = jn_blocks j @ x) \<and>
     (\<exists>x. jn_withdrawn j' = jn_withdrawn j @ x) \<and> (\<exists>x. jn_exposures j' = jn_exposures j @ x) \<and>
     (\<exists>x. jn_allegations j' = jn_allegations j @ x)"

lemma journal_step_refl [simp]: "journal_step j j"
  by (simp add: journal_step_def)

lemma journal_step_trans: "journal_step a b \<Longrightarrow> journal_step b c \<Longrightarrow> journal_step a c"
  unfolding journal_step_def
  by (elim conjE exE) (intro conjI; (erule (1) map_le_trans | erule (1) subset_trans | simp))

lemma key_in_str [simp]: "key_in (JStr s) d = Inr (s \<in> dom (map_of d))"
  by (simp add: dom_map_of_conv_image_fst)

declare key_in.simps(1) [simp del]

lemma require_key_Inr:
  "require_key v d present e = Inr s \<longleftrightarrow>
     (present \<and> v = JStr s \<and> s \<in> dom (map_of d)) \<or>
     (\<not> present \<and> key_in v d = Inr False \<and> s = key_text v)"
  by (cases v) (auto simp: require_key_def dom_map_of_conv_image_fst split: if_splits)

lemma item_Inr [simp]: "item d k = Inr v \<longleftrightarrow> map_of d k = Some v"
  by (simp add: item_def res_simps)

lemma verdict_step:
  "verdict j i good \<Longrightarrow> map_of (jn_intents j) \<subseteq>\<^sub>m map_of (jn_intents j') \<Longrightarrow>
   map_of (jn_outcomes j) \<subseteq>\<^sub>m map_of (jn_outcomes j') \<Longrightarrow> verdict j' i good"
  unfolding verdict_def map_le_def by (metis domI)

lemma verdict_unique: "verdict j i a \<Longrightarrow> verdict j i b \<Longrightarrow> a = b"
  unfolding verdict_def by fastforce

lemma intent_bound_step:
  "intent_bound j d \<Longrightarrow> dom (map_of (jn_qualifications j)) \<subseteq> dom (map_of (jn_qualifications j')) \<Longrightarrow>
   dom (map_of (jn_costs j)) \<subseteq> dom (map_of (jn_costs j')) \<Longrightarrow> intent_bound j' d"
  unfolding intent_bound_def by blast

section \<open>The kinds of entries\<close>

text \<open>What every entry keeps, given that its id is new.\<close>

definition good_step :: "entry \<Rightarrow> journal \<Rightarrow> journal \<Rightarrow> bool" where
  "good_step e j j' \<longleftrightarrow>
     journal_inv j' \<and> journal_step j j' \<and> dom (map_of (jn_intents j')) \<subseteq> insert (en_id e) (dom (map_of (jn_intents j)))"

text \<open>Entries that leave the life of the intents alone.\<close>

lemma frame_good:
  assumes inv: "journal_inv j"
    and same: "jn_intents j' = jn_intents j" "jn_attempts j' = jn_attempts j" "jn_outcomes j' = jn_outcomes j"
      "jn_checked j' = jn_checked j" "jn_services j' = jn_services j"
    and grow: "dom (map_of (jn_qualifications j)) \<subseteq> dom (map_of (jn_qualifications j'))"
      "dom (map_of (jn_costs j)) \<subseteq> dom (map_of (jn_costs j'))"
      "\<exists>x. jn_blocks j' = jn_blocks j @ x" "\<exists>x. jn_withdrawn j' = jn_withdrawn j @ x"
      "\<exists>x. jn_exposures j' = jn_exposures j @ x" "\<exists>x. jn_allegations j' = jn_allegations j @ x"
  shows "good_step e j j'"
proof -
  have "verdict j' = verdict j" by (simp add: verdict_def same fun_eq_iff)
  moreover have "intent_bound j d \<Longrightarrow> intent_bound j' d" for d
    by (rule intent_bound_step [OF _ grow(1,2)])
  ultimately have "journal_inv j'" using inv by (auto simp: journal_inv_def same)
  moreover have "journal_step j j'" using grow by (simp add: journal_step_def same)
  ultimately show ?thesis by (auto simp: good_step_def same)
qed

lemma dom_put: "dom (map_of d) \<subseteq> dom (map_of (put k v d))"
  by auto

lemma apply_cost_good:
  assumes "journal_inv j" "apply_cost data j = Inr j'"
  shows "good_step e j j'"
proof -
  obtain k where "j' = j\<lparr>jn_costs := put k data (jn_costs j)\<rparr>"
    using assms(2) by (auto simp: apply_cost_def res_simps split: option.splits if_splits)
  then show ?thesis using dom_put by (intro frame_good [OF assms(1)]) simp_all
qed

lemma apply_admit_good:
  assumes "journal_inv j" "apply_admit H data j = Inr j'"
  shows "good_step e j j'"
proof -
  obtain k where "j' = j\<lparr>jn_qualifications := put k data (jn_qualifications j)\<rparr>"
    using assms(2) by (auto simp: apply_admit_def res_simps split: if_splits)
  then show ?thesis using dom_put by (intro frame_good [OF assms(1)]) simp_all
qed

lemma apply_blocking_good:
  "journal_inv j \<Longrightarrow> apply_blocking e j = Inr j' \<Longrightarrow> good_step e' j j'"
  by (rule frame_good) (auto simp: apply_blocking_def Let_def split: if_splits)

lemma apply_exposure_good:
  "journal_inv j \<Longrightarrow> apply_exposure data j = Inr j' \<Longrightarrow> good_step e j j'"
  by (rule frame_good) (auto simp: apply_exposure_def res_simps split: if_splits)

lemma apply_intent_good:
  assumes inv: "journal_inv j" and run: "apply_intent e j = Inr j'" and new: "en_id e \<notin> dom (map_of (jn_intents j))"
  shows "good_step e j j'"
proof -
  have j': "j' = j\<lparr>jn_intents := put (en_id e) (en_data e) (jn_intents j)\<rparr>" and bound: "intent_bound j (en_data e)"
    using run by (auto simp: apply_intent_def Let_def res_simps require_key_Inr intent_bound_def split: if_splits)
  have le: "map_of (jn_intents j) \<subseteq>\<^sub>m map_of (jn_intents j')" using new by (auto simp: j' map_le_def)
  have "intent_bound j' = intent_bound j" by (simp add: intent_bound_def j' fun_eq_iff)
  moreover have "verdict j i g \<Longrightarrow> verdict j' i g" for i g by (erule verdict_step [OF _ le]) (simp add: j')
  ultimately have "journal_inv j'"
    using inv bound by (auto simp: journal_inv_def j' split: if_splits)
  then show ?thesis using le by (auto simp: good_step_def journal_step_def j')
qed

lemma apply_attempt_good:
  assumes inv: "journal_inv j" and run: "apply_attempt e j = Inr j'"
  shows "good_step e' j j'"
proof -
  obtain iv i x err where j': "j' = j\<lparr>jn_attempts := put i (en_id e) (jn_attempts j)\<rparr>"
    and a: "require_key iv (jn_intents j) True err = Inr i" and b: "require_key iv (jn_attempts j) False err = Inr x"
    using run by (auto simp: apply_attempt_def Let_def res_simps split: if_splits)
  then have i: "i \<in> dom (map_of (jn_intents j))" "i \<notin> dom (map_of (jn_attempts j))"
    unfolding require_key_Inr by auto
  have "verdict j' = verdict j" "intent_bound j' = intent_bound j"
    by (simp_all add: verdict_def intent_bound_def j' fun_eq_iff)
  then have "journal_inv j'" using inv i by (auto simp: journal_inv_def j')
  moreover have "map_of (jn_attempts j) \<subseteq>\<^sub>m map_of (jn_attempts j')" using i by (auto simp: j' map_le_def)
  ultimately show ?thesis by (auto simp: good_step_def journal_step_def j')
qed

lemma apply_outcome_good:
  assumes inv: "journal_inv j" and run: "apply_outcome data j = Inr j'"
  shows "good_step e' j j'"
proof -
  obtain i where j': "j' = j\<lparr>jn_outcomes := put i data (jn_outcomes j)\<rparr>"
    and i: "i \<in> dom (map_of (jn_attempts j))" "i \<notin> dom (map_of (jn_outcomes j))"
    using run
    by (auto simp: apply_outcome_def Let_def res_simps require_key_Inr split: if_splits)
  have le: "map_of (jn_outcomes j) \<subseteq>\<^sub>m map_of (jn_outcomes j')" using i by (auto simp: j' map_le_def)
  have "intent_bound j' = intent_bound j" by (simp add: intent_bound_def j' fun_eq_iff)
  moreover have "verdict j k g \<Longrightarrow> verdict j' k g" for k g
    by (erule verdict_step) (use le in \<open>simp_all add: j'\<close>)
  ultimately have "journal_inv j'" using inv i by (auto simp: journal_inv_def j')
  then show ?thesis using le by (auto simp: good_step_def journal_step_def j')
qed

lemma strict_str_Inr [simp]: "strict_str P v = Inr s \<longleftrightarrow> v = JStr s \<and> P s"
  by (cases v) (auto simp: strict_str_def)

lemma outcome_verdict:
  assumes "map_of (jn_intents j) i = Some d" "map_of (jn_outcomes j) i = Some r"
    and "outcome_operation H implementation d r t c = Inr opn"
  shows "verdict j i (checked implementation opn)"
  using assms unfolding verdict_def checked_iff
  by (auto simp: outcome_operation_def text_value_def res_simps)

lemma apply_checked_shape:
  assumes "apply_checked H implementation e j = Inr j'"
  obtains i d r c opn bs where "j' = j\<lparr>jn_checked := put i (checked implementation opn) (jn_checked j),
      jn_blocks := jn_blocks j @ bs\<rparr>"
    "map_of (jn_intents j) i = Some d" "map_of (jn_outcomes j) i = Some r"
    "outcome_operation H implementation d r (en_time e) c = Inr opn"
    "bs = [] \<or> \<not> checked implementation opn"
proof -
  obtain i d r c opn where o: "map_of (jn_intents j) i = Some d" "map_of (jn_outcomes j) i = Some r"
      "outcome_operation H implementation d r (en_time e) c = Inr opn"
    and j': "j' = j\<lparr>jn_checked := put i (checked implementation opn) (jn_checked j)\<rparr> \<or>
      (\<not> checked implementation opn \<and>
        (\<exists>b. j' = j\<lparr>jn_checked := put i (checked implementation opn) (jn_checked j), jn_blocks := jn_blocks j @ [b]\<rparr>))"
    using assms by (fastforce simp: apply_checked_def Let_def res_simps split: if_splits)
  from j' show thesis
  proof
    assume "j' = j\<lparr>jn_checked := put i (checked implementation opn) (jn_checked j)\<rparr>"
    then show thesis using o by (intro that [where i = i and opn = opn and bs = "[]" and d = d and r = r and c = c]) auto
  next
    assume "\<not> checked implementation opn \<and>
        (\<exists>b. j' = j\<lparr>jn_checked := put i (checked implementation opn) (jn_checked j), jn_blocks := jn_blocks j @ [b]\<rparr>)"
    then obtain b where "\<not> checked implementation opn"
      "j' = j\<lparr>jn_checked := put i (checked implementation opn) (jn_checked j), jn_blocks := jn_blocks j @ [b]\<rparr>"
      by blast
    then show thesis using o by (intro that [where i = i and opn = opn and bs = "[b]" and d = d and r = r and c = c]) auto
  qed
qed

lemma apply_checked_good:
  assumes inv: "journal_inv j" and run: "apply_checked H implementation e j = Inr j'"
  shows "good_step e' j j'"
proof -
  obtain i d r c opn bs where j': "j' = j\<lparr>jn_checked := put i (checked implementation opn) (jn_checked j),
      jn_blocks := jn_blocks j @ bs\<rparr>"
    and o: "map_of (jn_intents j) i = Some d" "map_of (jn_outcomes j) i = Some r"
      "outcome_operation H implementation d r (en_time e) c = Inr opn"
    by (rule apply_checked_shape [OF run])
  note v = outcome_verdict [OF o]
  have same: "verdict j' = verdict j" "intent_bound j' = intent_bound j"
    by (simp_all add: verdict_def intent_bound_def j' fun_eq_iff)
  have old: "map_of (jn_checked j) i = Some g \<Longrightarrow> g = checked implementation opn" for g
    using inv verdict_unique [OF _ v, of g] unfolding journal_inv_def by blast
  then have le: "map_of (jn_checked j) \<subseteq>\<^sub>m map_of (jn_checked j')" by (auto simp: j' map_le_def)
  have "map_of (jn_checked j') k = Some True" if "k \<in> set (jn_services j)" for k
  proof -
    have "map_of (jn_checked j) k = Some True" using inv that by (simp add: journal_inv_def)
    then show ?thesis using le by (metis domI map_le_def)
  qed
  then have "journal_inv j'"
    using inv v o by (auto simp: journal_inv_def same) (auto simp: j' split: if_splits)
  then show ?thesis using le by (auto simp: good_step_def journal_step_def j')
qed

lemma apply_reconciled_good:
  assumes inv: "journal_inv j" and run: "apply_reconciled data j = Inr j'"
  shows "good_step e' j j'"
proof -
  obtain i good where "map_of (jn_checked j) i = Some good"
    and j': "j' = (if good \<and> i \<notin> set (jn_services j) then j\<lparr>jn_services := jn_services j @ [i]\<rparr> else j)"
    using run by (auto simp: apply_reconciled_def Let_def res_simps split: if_splits)
  moreover have "verdict (j\<lparr>jn_services := s\<rparr>) = verdict j" "intent_bound (j\<lparr>jn_services := s\<rparr>) = intent_bound j" for s
    by (simp_all add: verdict_def intent_bound_def fun_eq_iff)
  ultimately have "journal_inv j'" using inv by (auto simp: journal_inv_def)
  then show ?thesis by (auto simp: good_step_def journal_step_def j')
qed

lemma apply_entry_good:
  assumes "journal_inv j" "apply_entry H implementation e j = Inr j'" "en_id e \<notin> dom (map_of (jn_intents j))"
  shows "good_step e j j'"
  using assms
  by (cases "en_kind e")
     (auto simp: apply_entry_def intro: apply_cost_good apply_admit_good apply_blocking_good apply_exposure_good
       apply_intent_good apply_attempt_good apply_outcome_good apply_checked_good apply_reconciled_good)

end
