(* ===== verification/Wire_Properties.thy ===== *)
theory Wire_Properties
  imports Qualified_Wire Strict_Json "HOL-Library.Multiset"
begin

text \<open>
  The bounds of the wire format: what the loader lets through, what it refuses, and that canonical
  text is read back, so that digests of sidecars bind their content.
\<close>

section \<open>Size of a document\<close>

fun nodes :: "json \<Rightarrow> nat" where
  "nodes (JDict d) = Suc (sum_list (map (\<lambda>(k, v). nodes v) d))"
| "nodes (JList vs) = Suc (sum_list (map nodes vs))"
| "nodes _ = 1"

text \<open>Every value lies at most \<open>n\<close> levels below the top.\<close>

fun within :: "nat \<Rightarrow> json \<Rightarrow> bool" where
  "within n (JDict d) = list_all (\<lambda>(k, v). 0 < n \<and> within (n - 1) v) d"
| "within n (JList vs) = list_all (\<lambda>v. 0 < n \<and> within (n - 1) v) vs"
| "within n _ = True"

lemma within_children: "within n v \<longleftrightarrow> (\<forall>c \<in> set (children v). 0 < n \<and> within (n - 1) c)"
  by (cases v) (auto simp: list_all_iff)

lemma nodes_children: "nodes v = Suc (sum_list (map nodes (children v)))"
  by (cases v) (simp_all add: rev_map [symmetric] comp_def case_prod_unfold)

fun stack_nodes :: "(json \<times> nat) list \<Rightarrow> nat" where
  "stack_nodes [] = 0"
| "stack_nodes ((v, d) # pending) = nodes v + stack_nodes pending"

lemma stack_nodes_append [simp]: "stack_nodes (p @ q) = stack_nodes p + stack_nodes q"
  by (induction p rule: stack_nodes.induct) auto

lemma stack_nodes_level [simp]: "stack_nodes (map (\<lambda>c. (c, d)) cs) = sum_list (map nodes cs)"
  by (induction cs) auto

lemma traverse_Inr:
  "traverse pending visits = Inr () \<longleftrightarrow>
     (\<forall>(v, d) \<in> set pending. d \<le> 24 \<and> within (24 - d) v) \<and>
     (pending = [] \<or> visits + stack_nodes pending \<le> 50000)"
proof (induction pending visits rule: traverse.induct)
  case (2 v depth pending visits)
  let ?new = "map (\<lambda>c. (c, Suc depth)) (children v)"
  have sum: "stack_nodes ((v, depth) # pending) = Suc (stack_nodes (?new @ pending))"
    using nodes_children [of v] by simp
  show ?case
  proof (cases "24 < depth \<or> 50000 < Suc visits")
    case True
    then show ?thesis using sum by auto
  next
    case False
    have level: "(\<forall>(c, d) \<in> set ?new. d \<le> 24 \<and> within (24 - d) c) \<longleftrightarrow> within (24 - depth) v"
      unfolding within_children [of "24 - depth" v] using False by auto
    have all: "(\<forall>(c, d) \<in> set (?new @ pending). d \<le> 24 \<and> within (24 - d) c) \<longleftrightarrow>
        within (24 - depth) v \<and> (\<forall>(c, d) \<in> set pending. d \<le> 24 \<and> within (24 - d) c)"
      by (simp only: set_append ball_Un level)
    have "traverse ((v, depth) # pending) visits = traverse (?new @ pending) (Suc visits)"
      using False by simp
    also have "\<dots> = Inr () \<longleftrightarrow> (\<forall>(c, d) \<in> set (?new @ pending). d \<le> 24 \<and> within (24 - d) c) \<and>
        (?new @ pending = [] \<or> Suc visits + stack_nodes (?new @ pending) \<le> 50000)"
      using 2 [OF False] by blast
    also have "\<dots> \<longleftrightarrow> within (24 - depth) v \<and> (\<forall>(c, d) \<in> set pending. d \<le> 24 \<and> within (24 - d) c) \<and>
        visits + stack_nodes ((v, depth) # pending) \<le> 50000"
      unfolding all using sum False by (cases "?new @ pending = []") (auto simp del: stack_nodes_append)
    finally show ?thesis using False by simp
  qed
qed simp

lemma traverse_Inl: "traverse pending visits = Inl e \<Longrightarrow> e = ValueError ''traversal limit''"
  by (induction pending visits rule: traverse.induct) (auto split: if_splits)

declare traverse.simps [simp del]

section \<open>The loader\<close>

lemma wire_pairs_eq:
  "wire_pairs d r = Inr x \<longleftrightarrow> x = r @ d \<and> distinct (map fst d) \<and> fst ` set r \<inter> fst ` set d = {}"
proof (induction d arbitrary: r)
  case (Cons p d)
  then show ?case by (cases p) auto
qed auto

lemma wire_hooks_proper: "hooks_give proper wire_hooks"
  by (auto simp: hooks_give_def wire_hooks_def wire_reject_def res_simps wire_pairs_eq)

lemma wire_hooks_build: "builds_dicts wire_hooks distinct (\<lambda>d. d)"
  by (simp add: builds_dicts_def wire_hooks_def res_simps wire_pairs_eq)

lemma wire_pairs_Inl: "wire_pairs d r = Inl e \<Longrightarrow> e = ValueError ''duplicate JSON key''"
  by (induction d r rule: wire_pairs.induct) (auto split: if_splits)

lemma wire_hooks_no_recursion: "hooks_no_recursion wire_hooks"
proof -
  have "\<not> raises_recursion (wire_pairs d [])" for d
    using wire_pairs_Inl [of d "[]"] by (cases "wire_pairs d []") auto
  then show ?thesis
    by (auto simp: hooks_no_recursion_def wire_hooks_def wire_reject_def raises_recursion_bind_iff)
qed

lemma wire_hooks_float_free: "hooks_give float_free wire_hooks"
  by (auto simp: hooks_give_def closed_values_def wire_hooks_def wire_reject_def res_simps wire_pairs_eq)

lemma json_loads_error:
  assumes "hooks_no_recursion h" "json_loads h raw = Inl (RecursionError m)"
  shows False
  using json_loads_no_recursion_error [OF assms(1), of raw] assms(2) by simp

lemma wire_loads_Inr:
  "wire_loads raw = Inr v \<longleftrightarrow>
     length (utf8 raw) \<le> LIMIT \<and> json_loads wire_hooks raw = Inr v \<and> within 24 v \<and> nodes v \<le> 50000"
  by (auto simp: wire_loads_def res_simps traverse_Inr split: sum.splits error.splits)

text \<open>
  C28: what the receiver loads is bounded. A document that loads has at most two million bytes, at
  most 24 levels below the top and 50000 values, no number that is not an integer, and no repeated
  key at any depth.
\<close>

theorem wire_loads_bounds:
  assumes "wire_loads raw = Inr v"
  shows "length (utf8 raw) \<le> 2000000 \<and> within 24 v \<and> nodes v \<le> 50000 \<and> float_free v \<and> proper v"
proof -
  have load: "json_loads wire_hooks raw = Inr v" "length (utf8 raw) \<le> 2000000" "within 24 v" "nodes v \<le> 50000"
    using assms unfolding wire_loads_Inr LIMIT_def by blast+
  from json_loads_gives [OF wire_hooks_proper load(1)] json_loads_gives [OF wire_hooks_float_free load(1)] load
  show ?thesis by blast
qed

section \<open>Canonical text\<close>

lemma within_sort_keys [simp]: "within n (sort_keys v) = within n v"
  by (induction n v rule: within.induct) (auto simp: list_all_iff)

lemma sum_list_sort_key: "sum_list (map f (sort_key g xs)) = sum_list (map (f :: 'a \<Rightarrow> nat) xs)"
  by (simp flip: sum_mset_sum_list)

lemma nodes_sort_keys [simp]: "nodes (sort_keys v) = nodes v"
proof (induction v rule: nodes.induct)
  case (1 d)
  have "sum_list (map (\<lambda>p. nodes (sort_keys (snd p))) d) = sum_list (map (\<lambda>p. nodes (snd p)) d)"
    using 1 by (intro arg_cong [where f = sum_list] map_cong) auto
  then show ?case by (simp add: sum_list_sort_key comp_def case_prod_unfold)
next
  case (2 vs)
  have "sum_list (map (nodes \<circ> sort_keys) vs) = sum_list (map nodes vs)"
    using 2 by (intro arg_cong [where f = sum_list] map_cong) auto
  then show ?case by simp
qed simp_all

lemma wire_readable: "float_free v \<Longrightarrow> readable F wire_hooks v"
  by (rule float_free_readable)

lemma loads_render:
  assumes "float_free v" "proper v"
  shows "json_loads wire_hooks (render F (sort_keys v)) = Inr (sort_keys v)"
  using assms by (intro json_loads_render [OF wire_hooks_build])
    (simp_all add: float_free_readable sort_keys_proper)

lemma wire_loads_render:
  assumes "float_free u" "proper u"
  shows "wire_loads (render F (sort_keys u)) = Inr x \<longleftrightarrow>
    x = sort_keys u \<and> length (utf8 (render F (sort_keys u))) \<le> 2000000 \<and> within 24 u \<and> nodes u \<le> 50000"
  using loads_render [OF assms, of F] by (auto simp: wire_loads_Inr LIMIT_def)

lemma encoded_Inr:
  assumes "float_free u" "proper u"
  shows "encoded H u = Inr raw \<longleftrightarrow>
    raw = render (dumps_float H) (sort_keys u) \<and> wire_loads raw = Inr (sort_keys u)"
  using wire_loads_render [OF assms] by (auto simp: encoded_def Let_def res_simps)

text \<open>
  C29: sidecars are bound by their text. Encoding a document without floats and repeated keys
  succeeds exactly within the loader's bounds; the text reads back as the document with sorted keys;
  and two such documents have the same text exactly when they are the same up to key order.
\<close>

theorem encoded_roundtrip:
  assumes "float_free v" "proper v" "float_free w" "proper w"
  shows "(\<forall>raw. encoded H v = Inr raw \<longrightarrow> wire_loads raw = Inr (sort_keys v)) \<and>
    ((\<exists>raw. encoded H v = Inr raw) \<longleftrightarrow>
       length (utf8 (render (dumps_float H) (sort_keys v))) \<le> 2000000 \<and> within 24 v \<and> nodes v \<le> 50000) \<and>
    (encoded H v = encoded H w \<and> (\<exists>raw. encoded H v = Inr raw) \<longrightarrow> sort_keys v = sort_keys w)"
proof (intro conjI)
  note v = encoded_Inr [OF assms(1,2), of H] and w = encoded_Inr [OF assms(3,4), of H]
  show "\<forall>raw. encoded H v = Inr raw \<longrightarrow> wire_loads raw = Inr (sort_keys v)" by (simp add: v)
  show "(\<exists>raw. encoded H v = Inr raw) \<longleftrightarrow>
     length (utf8 (render (dumps_float H) (sort_keys v))) \<le> 2000000 \<and> within 24 v \<and> nodes v \<le> 50000"
    by (simp add: v wire_loads_render [OF assms(1,2)])
  show "encoded H v = encoded H w \<and> (\<exists>raw. encoded H v = Inr raw) \<longrightarrow> sort_keys v = sort_keys w"
  proof (intro impI, elim conjE exE)
    fix raw assume "encoded H v = encoded H w" "encoded H v = Inr raw"
    then have "encoded H v = Inr raw" "encoded H w = Inr raw" by simp_all
    then have "wire_loads raw = Inr (sort_keys v)" "wire_loads raw = Inr (sort_keys w)"
      unfolding v w by blast+
    then show "sort_keys v = sort_keys w" by (metis sum.inject(2))
  qed
qed

section \<open>Digests\<close>

text \<open>Two documents with different texts and one digest.\<close>

definition wire_collides :: "host \<Rightarrow> json \<Rightarrow> json \<Rightarrow> bool" where
  "wire_collides H v w \<longleftrightarrow> encoded H v \<noteq> encoded H w \<and> digest H v = digest H w"

lemma wire_digest_binds:
  assumes "digest H v = Inr d" "digest H w = Inr d" "float_free v" "proper v" "float_free w" "proper w"
  shows "sort_keys v = sort_keys w \<or> wire_collides H v w"
proof (cases "encoded H v = encoded H w")
  case True
  moreover obtain raw where "encoded H v = Inr raw" using assms(1) by (auto simp: digest_def res_simps)
  ultimately show ?thesis using encoded_Inr [OF assms(3,4)] encoded_Inr [OF assms(5,6)] by (metis sum.inject(2))
next
  case False
  then show ?thesis using assms(1,2) by (simp add: wire_collides_def)
qed

section \<open>At work\<close>

definition small_document :: json where
  "small_document = JDict [(''b'', JInt 1), (''a'', JList [JNull])]"

lemma small_document_loads:
  "wire_loads (render undefined (sort_keys small_document)) = Inr (sort_keys small_document)"
  by (subst wire_loads_render)
     (simp_all add: small_document_def quote_def quote_char_def utf8_def utf8_char_def int_text_def nat_text.simps digit_char_def)

theorem wire_loads_bounds_witness:
  "nodes (sort_keys small_document) \<le> 50000 \<and> proper (sort_keys small_document)"
  using wire_loads_bounds [OF small_document_loads] by blast

theorem encoded_roundtrip_witness:
  "\<exists>raw. encoded undefined small_document = Inr raw \<and> wire_loads raw = Inr (sort_keys small_document)"
proof -
  have v: "float_free small_document" "proper small_document" by (simp_all add: small_document_def)
  note round = encoded_roundtrip [OF v v, of undefined]
  have "length (utf8 (render (dumps_float undefined) (sort_keys small_document))) \<le> 2000000 \<and>
      within 24 small_document \<and> nodes small_document \<le> 50000"
    by (simp add: small_document_def quote_def quote_char_def utf8_def utf8_char_def int_text_def nat_text.simps
        digit_char_def)
  then show ?thesis using round by blast
qed

end
