(* ===== verification/Journal_Properties.thy ===== *)
theory Journal_Properties
  imports Journal_Invariants Wire_Properties
begin

text \<open>
  What a replayed journal guarantees: the order of the life of a use, services only for outputs the
  check accepts, delivery of an entry at most once in effect, and growth under appended entries.
\<close>

section \<open>The loop\<close>

lemma entry_revalidates: "entry_of_dict (entry_dump e) = Inr e' \<Longrightarrow> e' = e"
proof -
  have "find (\<lambda>k. entry_kind_value k = entry_kind_value (en_kind e)) entry_kinds = Some (en_kind e)"
    by (cases "en_kind e") (simp_all add: entry_kinds_def)
  then show "entry_of_dict (entry_dump e) = Inr e' \<Longrightarrow> e' = e"
    by (auto simp: entry_of_dict_def entry_dump_def res_simps required_def entry_kind_of_def split: if_splits)
qed

definition replay_inv :: "host \<Rightarrow> replaying \<Rightarrow> bool" where
  "replay_inv H s \<longleftrightarrow>
     journal_inv (ry_state s) \<and> dom (map_of (jn_intents (ry_state s))) \<subseteq> dom (map_of (ry_ids s)) \<and>
     (\<forall>e \<in> set (ry_unique s). entry_of_dict (entry_dump e) = Inr e \<and>
        (\<exists>v. digest H (JDict (entry_dump e)) = Inr v \<and> map_of (ry_ids s) (en_id e) = Some v)) \<and>
     dom (map_of (ry_ids s)) = en_id ` set (ry_unique s) \<and> distinct (map en_id (ry_unique s))"

lemma replay_inv_start: "replay_inv H replay_start"
  by (simp add: replay_inv_def replay_start_def journal_inv_empty) (simp add: empty_journal_def)

text \<open>One step: a known entry changes nothing; a new one follows on from all before it.\<close>

lemma replay_step_cases:
  assumes "replay_step H implementation e s = Inr s'"
  obtains (known) v where "s' = s" "digest H (JDict (entry_dump e)) = Inr v" "map_of (ry_ids s) (en_id e) = Some v"
  | (fresh) v j where "s' = \<lparr>ry_state = j, ry_unique = ry_unique s @ [e], ry_ids = put (en_id e) v (ry_ids s)\<rparr>"
    "en_id e \<notin> dom (map_of (ry_ids s))" "digest H (JDict (entry_dump e)) = Inr v"
    "digest H (entries_json (ry_unique s)) = Inr (en_previous e)"
    "apply_entry H implementation e (ry_state s) = Inr j" "entry_of_dict (entry_dump e) = Inr e"
proof -
  obtain e' v where e': "entry_of_dict (entry_dump e) = Inr e'" and v: "digest H (JDict (entry_dump e')) = Inr v"
    and rest: "(case map_of (ry_ids s) (en_id e') of
       Some seen \<Rightarrow> if seen \<noteq> v then Inl (ValueError ''conflicting event id'') else Inr s
     | None \<Rightarrow>
         bind_res (digest H (entries_json (ry_unique s))) (\<lambda>current.
         if en_previous e' \<noteq> current then Inl (ValueError ''missing parent or stale revision'')
         else bind_res (apply_entry H implementation e' (ry_state s)) (\<lambda>j.
           Inr \<lparr>ry_state = j, ry_unique = ry_unique s @ [e'], ry_ids = put (en_id e') v (ry_ids s)\<rparr>))) = Inr s'"
    using assms unfolding replay_step_def res_simps by blast
  have "e' = e" by (rule entry_revalidates [OF e'])
  with e' v rest known fresh show thesis
    by (cases "map_of (ry_ids s) (en_id e)") (auto simp: res_simps split: if_splits)
qed

lemma replay_step_inv:
  assumes run: "replay_step H implementation e s = Inr s'" and inv: "replay_inv H s"
  shows "replay_inv H s' \<and> journal_step (ry_state s) (ry_state s')"
  using run
proof (cases rule: replay_step_cases)
  case known
  then show ?thesis using inv by simp
next
  case (fresh v j)
  have j: "journal_inv (ry_state s)" and new: "en_id e \<notin> dom (map_of (jn_intents (ry_state s)))"
    using inv fresh(2) unfolding replay_inv_def by blast+
  have good: "good_step e (ry_state s) j" by (rule apply_entry_good [OF j fresh(5) new])
  have "dom (map_of (ry_ids s)) = en_id ` set (ry_unique s)" using inv by (simp add: replay_inv_def)
  then have new_id: "en_id e \<notin> en_id ` set (ry_unique s)" using fresh(2) by simp
  have keep: "en_id d \<noteq> en_id e" if "d \<in> set (ry_unique s)" for d
    using new_id that by (metis imageI)
  have "journal_inv j" "dom (map_of (jn_intents j)) \<subseteq> insert (en_id e) (dom (map_of (jn_intents (ry_state s))))"
    using good by (simp_all add: good_step_def)
  then have "replay_inv H s'"
    using inv fresh(3,6) keep new_id
    unfolding replay_inv_def fresh(1) by simp (metis subset_trans insert_mono)
  then show ?thesis using good fresh by (simp add: good_step_def)
qed

lemma replay_fold_inv:
  "fold_res (replay_step H implementation) es s = Inr s' \<Longrightarrow> replay_inv H s \<Longrightarrow>
   replay_inv H s' \<and> journal_step (ry_state s) (ry_state s')"
proof (induction es arbitrary: s)
  case (Cons e es)
  from Cons.prems(1) obtain s1 where s1: "replay_step H implementation e s = Inr s1"
    and rest: "fold_res (replay_step H implementation) es s1 = Inr s'" by (auto simp: res_simps)
  from replay_step_inv [OF s1 Cons.prems(2)] Cons.IH [OF rest] show ?case
    using journal_step_trans by blast
qed simp

lemma replay_Inr:
  assumes "replay H implementation es = Inr r"
  obtains s where "fold_res (replay_step H implementation) es replay_start = Inr s" "replay_inv H s"
    "rp_state r = ry_state s" "digest H (entries_json (ry_unique s)) = Inr (rp_revision r)" "length es \<le> 256"
    "rp_unresolved r = unresolved_ids (ry_state s)"
proof -
  from assms obtain s where "fold_res (replay_step H implementation) es replay_start = Inr s"
    "rp_state r = ry_state s" "digest H (entries_json (ry_unique s)) = Inr (rp_revision r)" "length es \<le> 256"
    "rp_unresolved r = unresolved_ids (ry_state s)"
    by (auto simp: replay_def res_simps split: if_splits)
  then show thesis using that replay_fold_inv [OF _ replay_inv_start] by blast
qed

section \<open>The life of a use\<close>

text \<open>
  C22: the journal admits only orderly uses. Whatever entries are replayed, an attempt belongs to a
  recorded intent, an outcome to an attempt, a check to an outcome; an intent names an admitted
  qualification and a recorded cost; and a use counts as a service at most once and only when its
  outcome was received and its output is the normal form of the intent's input.
\<close>

theorem services_are_normalized:
  assumes "replay H implementation es = Inr r"
  shows "dom (map_of (jn_attempts (rp_state r))) \<subseteq> dom (map_of (jn_intents (rp_state r))) \<and>
    dom (map_of (jn_outcomes (rp_state r))) \<subseteq> dom (map_of (jn_attempts (rp_state r))) \<and>
    dom (map_of (jn_checked (rp_state r))) \<subseteq> dom (map_of (jn_outcomes (rp_state r))) \<and>
    distinct (jn_services (rp_state r)) \<and>
    (\<forall>i \<in> set (jn_services (rp_state r)). \<exists>d o' inp.
       map_of (jn_intents (rp_state r)) i = Some d \<and> map_of (jn_outcomes (rp_state r)) i = Some o' \<and>
       map_of d ''input'' = Some (JStr inp) \<and> map_of o' ''output'' = Some (JStr (normal_form inp)) \<and>
       map_of o' ''status'' = Some (JStr ''received'') \<and> intent_bound (rp_state r) d)"
proof -
  obtain s where inv: "replay_inv H s" and s: "rp_state r = ry_state s" by (rule replay_Inr [OF assms])
  let ?j = "rp_state r"
  have j: "journal_inv ?j" using inv s by (simp add: replay_inv_def)
  have "\<exists>d o' inp. map_of (jn_intents ?j) i = Some d \<and> map_of (jn_outcomes ?j) i = Some o' \<and>
      map_of d ''input'' = Some (JStr inp) \<and> map_of o' ''output'' = Some (JStr (normal_form inp)) \<and>
      map_of o' ''status'' = Some (JStr ''received'') \<and> intent_bound ?j d" if i: "i \<in> set (jn_services ?j)" for i
  proof -
    have "map_of (jn_checked ?j) i = Some True" using j i by (simp add: journal_inv_def)
    then have "verdict ?j i True" using j by (simp add: journal_inv_def)
    then show ?thesis using j unfolding verdict_def journal_inv_def by blast
  qed
  then show ?thesis using j by (simp add: journal_inv_def)
qed

section \<open>Delivering an entry again\<close>

lemma fold_known:
  assumes "fold_res (replay_step H implementation) es s = Inr s'" "e \<in> set es" "replay_inv H s"
  shows "\<exists>v. entry_of_dict (entry_dump e) = Inr e \<and> digest H (JDict (entry_dump e)) = Inr v \<and>
    map_of (ry_ids s') (en_id e) = Some v"
  using assms
proof (induction es arbitrary: s)
  case (Cons d es)
  from Cons.prems(1) obtain s1 where s1: "replay_step H implementation d s = Inr s1"
    and rest: "fold_res (replay_step H implementation) es s1 = Inr s'" by (auto simp: res_simps)
  have inv1: "replay_inv H s1" using replay_step_inv [OF s1 Cons.prems(3)] by blast
  show ?case
  proof (cases "e \<in> set es")
    case True
    then show ?thesis using Cons.IH rest inv1 by blast
  next
    case False
    then have e: "e = d" using Cons.prems(2) by simp
    obtain v where v: "entry_of_dict (entry_dump e) = Inr e" "digest H (JDict (entry_dump e)) = Inr v"
      "map_of (ry_ids s1) (en_id e) = Some v"
      using s1 unfolding e [symmetric]
    proof -
      assume run: "replay_step H implementation e s = Inr s1"
      have ok: "entry_of_dict (entry_dump e) = Inr e"
        using run entry_revalidates [of e] by (auto simp: replay_step_def res_simps)
      from run show thesis by (cases rule: replay_step_cases) (auto intro: that [OF ok])
    qed
    have mono: "map_of (ry_ids s1) (en_id e) = Some v \<Longrightarrow>
        fold_res (replay_step H implementation) es s1 = Inr s' \<Longrightarrow> map_of (ry_ids s') (en_id e) = Some v" for s1
    proof (induction es arbitrary: s1)
      case (Cons c es)
      from Cons.prems(2) obtain s2 where s2: "replay_step H implementation c s1 = Inr s2"
        and rest: "fold_res (replay_step H implementation) es s2 = Inr s'" by (auto simp: res_simps)
      from s2 Cons.prems(1) have "map_of (ry_ids s2) (en_id e) = Some v"
        by (cases rule: replay_step_cases) auto
      then show ?case using Cons.IH rest by blast
    qed simp
    show ?thesis using v mono rest by blast
  qed
qed simp

text \<open>
  C23: entries are idempotent. Delivering any entry of the journal a second time leaves the whole
  result as it is, revision included, as long as the journal has room; another entry under the same
  id is refused, unless the two have one digest.
\<close>

theorem redelivery_is_noop:
  assumes run: "replay H implementation es = Inr r" and e: "e \<in> set es" and room: "length es < 256"
  shows "replay H implementation (es @ [e]) = Inr r \<and>
    (\<forall>d. en_id d = en_id e \<and> digest H (JDict (entry_dump d)) \<noteq> digest H (JDict (entry_dump e)) \<longrightarrow>
       (\<exists>err. replay H implementation (es @ [d]) = Inl err))"
proof -
  obtain s where s: "fold_res (replay_step H implementation) es replay_start = Inr s" "replay_inv H s"
      "rp_state r = ry_state s" "digest H (entries_json (ry_unique s)) = Inr (rp_revision r)"
      "rp_unresolved r = unresolved_ids (ry_state s)"
    by (rule replay_Inr [OF run])
  obtain v where v: "entry_of_dict (entry_dump e) = Inr e" "digest H (JDict (entry_dump e)) = Inr v"
      "map_of (ry_ids s) (en_id e) = Some v"
    using fold_known [OF s(1) e replay_inv_start] by blast
  have "replay_step H implementation e s = Inr s" using v by (simp add: replay_step_def)
  then have "fold_res (replay_step H implementation) (es @ [e]) replay_start = Inr s"
    using s(1) by (simp add: fold_res_append)
  then have "replay H implementation (es @ [e]) = Inr r"
    using s room by (simp add: replay_def)
  moreover have "\<exists>err. replay H implementation (es @ [d]) = Inl err"
    if d: "en_id d = en_id e" "digest H (JDict (entry_dump d)) \<noteq> digest H (JDict (entry_dump e))" for d
  proof (rule ccontr)
    assume "\<nexists>err. replay H implementation (es @ [d]) = Inl err"
    then obtain r' where "replay H implementation (es @ [d]) = Inr r'"
      by (cases "replay H implementation (es @ [d])") auto
    then obtain s' where "fold_res (replay_step H implementation) (es @ [d]) replay_start = Inr s'"
      by (rule replay_Inr)
    then have "replay_step H implementation d s = Inr s'" using s(1) by (simp add: fold_res_append res_simps)
    then show False using d v by (cases rule: replay_step_cases) auto
  qed
  ultimately show ?thesis by blast
qed

section \<open>Growth\<close>

lemma fold_digest:
  "fold_res (replay_step H implementation) es s = Inr s' \<Longrightarrow> digest H (entries_json (ry_unique s')) = Inr d \<Longrightarrow>
   \<exists>d'. digest H (entries_json (ry_unique s)) = Inr d'"
proof (induction es arbitrary: s)
  case (Cons e es)
  from Cons.prems(1) obtain s1 where s1: "replay_step H implementation e s = Inr s1"
    and rest: "fold_res (replay_step H implementation) es s1 = Inr s'" by (auto simp: res_simps)
  from s1 show ?case
  proof (cases rule: replay_step_cases)
    case known
    then show ?thesis using Cons.IH [OF rest Cons.prems(2)] by simp
  qed blast
qed simp

lemma replay_grows:
  assumes "replay H implementation (es @ fs) = Inr r'"
  shows "\<exists>r. replay H implementation es = Inr r \<and> journal_step (rp_state r) (rp_state r')"
proof -
  obtain s' where s': "fold_res (replay_step H implementation) (es @ fs) replay_start = Inr s'"
      "rp_state r' = ry_state s'" "digest H (entries_json (ry_unique s')) = Inr (rp_revision r')"
      "length (es @ fs) \<le> 256" by (rule replay_Inr [OF assms])
  then obtain s where s: "fold_res (replay_step H implementation) es replay_start = Inr s"
      "fold_res (replay_step H implementation) fs s = Inr s'" by (auto simp: fold_res_append res_simps)
  obtain d where "digest H (entries_json (ry_unique s)) = Inr d" using fold_digest [OF s(2) s'(3)] by blast
  then have "replay H implementation es =
      Inr \<lparr>rp_state = ry_state s, rp_revision = d, rp_unresolved = unresolved_ids (ry_state s)\<rparr>"
    using s(1) s'(4) by (simp add: replay_def)
  moreover have "journal_step (ry_state s) (ry_state s')"
    using replay_fold_inv [OF s(2)] replay_fold_inv [OF s(1) replay_inv_start] by blast
  ultimately show ?thesis using s'(2) by simp
qed

text \<open>
  C24: a journal that replays replayed at every earlier point, and since then the receiver's state
  has only grown: no intent, attempt, outcome or verdict is altered, no cost or qualification lost,
  and services, blocks, withdrawals, exposures and allegations are only appended to.
\<close>

theorem journal_only_grows:
  assumes "replay H implementation (es @ fs) = Inr r'"
  shows "\<exists>r. replay H implementation es = Inr r \<and> journal_step (rp_state r) (rp_state r')"
  by (rule replay_grows [OF assms])

section \<open>The chain of digests\<close>

text \<open>The entries in the order of their first delivery.\<close>

definition delivered :: "entry list \<Rightarrow> entry list" where
  "delivered es = fold (\<lambda>e us. if en_id e \<in> en_id ` set us then us else us @ [e]) es []"

definition chained :: "host \<Rightarrow> entry list \<Rightarrow> bool" where
  "chained H us \<longleftrightarrow>
     (\<forall>k < length us. digest H (entries_json (take k us)) = Inr (en_previous (us ! k)))"

lemma chained_snoc:
  "chained H us \<Longrightarrow> digest H (entries_json us) = Inr (en_previous e) \<Longrightarrow> chained H (us @ [e])"
  unfolding chained_def by (auto simp: less_Suc_eq nth_append)

lemma fold_delivered:
  "fold_res (replay_step H implementation) es s = Inr s' \<Longrightarrow> replay_inv H s \<Longrightarrow> chained H (ry_unique s) \<Longrightarrow>
   ry_unique s' = fold (\<lambda>e us. if en_id e \<in> en_id ` set us then us else us @ [e]) es (ry_unique s) \<and>
   chained H (ry_unique s')"
proof (induction es arbitrary: s)
  case (Cons e es)
  from Cons.prems(1) obtain s1 where s1: "replay_step H implementation e s = Inr s1"
    and rest: "fold_res (replay_step H implementation) es s1 = Inr s'" by (auto simp: res_simps)
  have ids: "dom (map_of (ry_ids s)) = en_id ` set (ry_unique s)" using Cons.prems(2) by (simp add: replay_inv_def)
  have u1: "ry_unique s1 = (if en_id e \<in> en_id ` set (ry_unique s) then ry_unique s else ry_unique s @ [e]) \<and>
      chained H (ry_unique s1)"
    using s1
  proof (cases rule: replay_step_cases)
    case known
    then have "en_id e \<in> dom (map_of (ry_ids s))" by blast
    then show ?thesis using known(1) ids Cons.prems(3) by simp
  next
    case fresh
    then show ?thesis using ids Cons.prems(3) by (simp add: chained_snoc)
  qed
  have inv1: "replay_inv H s1" using replay_step_inv [OF s1 Cons.prems(2)] by blast
  show ?case
    using Cons.IH [OF rest inv1 conjunct2 [OF u1]] unfolding fold_simps conjunct1 [OF u1] .
qed simp

lemma replay_delivered:
  assumes "replay H implementation es = Inr r"
  shows "digest H (entries_json (delivered es)) = Inr (rp_revision r) \<and> chained H (delivered es) \<and>
    distinct (map en_id (delivered es))"
proof -
  obtain s where s: "fold_res (replay_step H implementation) es replay_start = Inr s" "replay_inv H s"
    "digest H (entries_json (ry_unique s)) = Inr (rp_revision r)" by (rule replay_Inr [OF assms])
  have "chained H (ry_unique replay_start)" by (simp add: replay_start_def chained_def)
  from fold_delivered [OF s(1) replay_inv_start this] have "ry_unique s = delivered es \<and> chained H (ry_unique s)"
    unfolding delivered_def replay_start_def replaying.simps .
  moreover have "distinct (map en_id (ry_unique s))" using s(2) by (simp add: replay_inv_def)
  ultimately show ?thesis using s(3) by metis
qed

definition plain_data :: "entry \<Rightarrow> bool" where
  "plain_data e \<longleftrightarrow> float_free (JDict (en_data e)) \<and> proper (JDict (en_data e))"

lemma plain_entries: "list_all plain_data us \<Longrightarrow> float_free (entries_json us) \<and> proper (entries_json us)"
  by (auto simp: entries_json_def entry_dump_def list_all_iff plain_data_def)

lemma entries_json_sorted:
  "sort_keys (entries_json us) = sort_keys (entries_json vs) \<Longrightarrow>
   list_all2 (\<lambda>a b. sort_keys (JDict (entry_dump a)) = sort_keys (JDict (entry_dump b))) us vs"
proof (induction us arbitrary: vs)
  case (Cons u us)
  then show ?case by (cases vs) (auto simp: entries_json_def simp del: sort_keys.simps(1))
qed (auto simp: entries_json_def)

text \<open>
  C25: the revision stands for the whole journal. It is the digest of the entries in the order of
  their first delivery, which form a chain: each names the digest of all before it. Two journals
  with one revision have the same entries, data up to key order, or are a collision of the digest.
\<close>

theorem journal_hash_chain:
  assumes es: "replay H implementation es = Inr r" and fs: "replay H implementation fs = Inr r'"
    and same: "rp_revision r = rp_revision r'"
    and plain: "list_all plain_data (delivered es)" "list_all plain_data (delivered fs)"
  shows "digest H (entries_json (delivered es)) = Inr (rp_revision r) \<and> chained H (delivered es) \<and>
    distinct (map en_id (delivered es)) \<and>
    (list_all2 (\<lambda>a b. sort_keys (JDict (entry_dump a)) = sort_keys (JDict (entry_dump b))) (delivered es) (delivered fs) \<or>
     wire_collides H (entries_json (delivered es)) (entries_json (delivered fs)))"
proof -
  have "sort_keys (entries_json (delivered es)) = sort_keys (entries_json (delivered fs)) \<or>
      wire_collides H (entries_json (delivered es)) (entries_json (delivered fs))"
    using replay_delivered [OF es] replay_delivered [OF fs] same plain [THEN plain_entries]
    by (intro wire_digest_binds [of H _ "rp_revision r"]) auto
  then show ?thesis using replay_delivered [OF es] entries_json_sorted by blast
qed

end
