(* ===== verification/Qualified_Native.thy ===== *)
theory Qualified_Native
  imports Qualified_Normalize
begin

text \<open>
  Source mapping and reconstruction (\<open>qualified/native.py\<close>). The companion packages ALT and CCR are
  not part of the repository: what this code calls of them is the record \<open>alt\<close>, and the objects they
  return are records of the attributes that are read.
\<close>

section \<open>The companion runtime\<close>

record alt_trace =
  tr_episode :: string
  tr_input_digest :: string
  tr_steps :: "(string \<times> json list) list"
  tr_artifact :: string
  tr_dependencies :: "string list"
  tr_time :: int
  tr_version :: string
  tr_split :: string
  tr_outcome :: string
  tr_complete :: bool
  tr_results :: "string list"
  tr_costs :: "string list"
  tr_guards :: "string list"
  tr_unresolved :: "json list"
  tr_taint :: bool

record alt_library =
  lb_implementation :: string
  lb_inputs :: "string list"
  lb_output :: string

text \<open>\<open>projected.read()\<close> of an envelope may raise, hence \<open>dict res\<close>.\<close>

record alt_request =
  rq_cutoff :: int
  rq_scope :: string
  rq_sources :: "dict res list"
  rq_library :: "alt_library list"
  rq_cost_id :: string
  rq_cost_unit :: string
  rq_cost :: string
  rq_dump :: dict

record alt_offer =
  ao_from :: int
  ao_until :: int
  ao_postconditions :: "string list"
  ao_preconditions :: "string list"
  ao_basis :: string
  ao_quality :: string
  ao_estimand :: string
  ao_valuation :: string
  ao_receiver :: string
  ao_mission :: string
  ao_context :: string
  ao_family :: string
  ao_protocol :: string
  ao_evaluator :: string
  ao_dependencies :: "string list"
  ao_restrictions :: "string list"
  ao_inputs :: "string list"
  ao_checks :: "dict res list"
  ao_costs :: "string list"

record alt_check =
  ac_input_digest :: string
  ac_time :: int

record alt_candidate =
  cn_dump :: dict

record alt =
  alt_version :: "string \<Rightarrow> string option"
  alt_digest :: "json \<Rightarrow> string"
  alt_envelope :: "dict \<Rightarrow> dict res"
  alt_request_of :: "dict \<Rightarrow> alt_request res"
  alt_candidate_of :: "dict \<Rightarrow> alt_candidate res"
  alt_offer_of :: "dict \<Rightarrow> alt_offer res"
  alt_trace_of :: "dict \<Rightarrow> alt_trace res"
  alt_check_of :: "dict \<Rightarrow> alt_check res"
  alt_form :: "alt_request \<Rightarrow> alt_candidate res"
  alt_reconstruct :: "alt_request \<Rightarrow> alt_candidate \<Rightarrow> unit res"
  alt_qualify :: "alt_request \<Rightarrow> alt_candidate \<Rightarrow> alt_offer \<Rightarrow> int \<Rightarrow> unit res"
  alt_validate :: "json \<Rightarrow> dict \<Rightarrow> unit res"
  alt_resources :: "string \<Rightarrow> string option"

text \<open>\<open>runtime(module)\<close>: the package in the pinned version or an exception.\<close>

definition runtime :: "alt \<Rightarrow> string \<Rightarrow> string \<Rightarrow> unit res" where
  "runtime A package expected =
     (case alt_version A package of
        None \<Rightarrow> Inl (ValueError (''optional_dependency_required: install pinned '' @ package @ '' '' @ expected @
          ''; see alt-interoperability.md''))
      | Some observed \<Rightarrow>
          if observed \<noteq> expected then Inl (ValueError ''unsupported companion version'') else Inr ())"

abbreviation alt_runtime :: "alt \<Rightarrow> unit res" where
  "alt_runtime A \<equiv> runtime A ''alt-foundry-kernel'' ''0.5.0''"

section \<open>Packaged resources\<close>

text \<open>
  \<open>alt_resources\<close> is the text of the files beside the module and \<open>alt_validate\<close> the validation of a
  document by a schema (package \<open>jsonschema\<close>).
\<close>

definition resource :: "alt \<Rightarrow> string \<Rightarrow> string res" where
  "resource A name = of_option (OSError (''No such file or directory: '' @ repr_str name)) (alt_resources A name)"

fun find_row :: "string \<Rightarrow> json list \<Rightarrow> json option res" where
  "find_row name [] = Inr None"
| "find_row name (r # rows) =
     bind_res (json_item r ''file'') (\<lambda>f. if f = JStr name then Inr (Some r) else find_row name rows)"

definition pinned :: "host \<Rightarrow> alt \<Rightarrow> string \<Rightarrow> json res" where
  "pinned H A name =
     bind_res (resource A ''manifest.json'') (\<lambda>text.
     bind_res (loads_json H text) (\<lambda>listing.
     bind_res (py_list listing) (\<lambda>rows.
     bind_res (find_row name rows) (\<lambda>found.
     case found of
       None \<Rightarrow> Inl (ValueError ''unknown pinned resource'')
     | Some row \<Rightarrow>
         bind_res (resource A name) (\<lambda>raw.
         bind_res (json_item row ''sha256'') (\<lambda>h.
         if h \<noteq> JStr (sha H raw) then Inl (ValueError ''companion file hash mismatch'')
         else loads_json H raw))))))"

definition schema_check :: "host \<Rightarrow> alt \<Rightarrow> string \<times> dict \<Rightarrow> unit res" where
  "schema_check H A p =
     bind_res (pinned H A (''alt-'' @ fst p @ ''.schema.json'')) (\<lambda>schema. alt_validate A schema (snd p))"

section \<open>Sources\<close>

definition operation_of_source :: "host \<Rightarrow> source \<Rightarrow> operation res" where
  "operation_of_source H s =
     bind_res (source_read H s) (\<lambda>raw.
     bind_res (digest_json H (JDict raw)) (\<lambda>d.
     if d \<noteq> src_producer s then Inl (ValueError ''producer digest mismatch'')
     else operation_of_dict raw))"

definition SLOT_MAP :: "(string \<times> string) list" where
  "SLOT_MAP =
     [(''steps[0].primitive'', ''$.tool''), (''steps[0].arguments[0]'', ''$.input''),
      (''checked_artifact'', ''$.implementation''), (''dependencies[0]'', ''$.implementation''),
      (''input_digest'', ''$.input''), (''check_results[0]'', ''$.input,$.output,$.outcome,$.complete''),
      (''time'', ''$.time''), (''split'', ''$.split''), (''complete'', ''$.complete''),
      (''outcome'', ''$.outcome''), (''costs[0]'', ''$.cost.id''), (''source_version'', ''$.version''),
      (''original_receiver_evidence'', ''$.receiver,$.context_digest'')]"

definition slot_mapping :: "source list \<Rightarrow> (string \<times> string) list" where
  "slot_mapping sources =
     dict_of_pairs (concat (map (\<lambda>s. map (\<lambda>(slot, field). (src_event s @ '':'' @ slot, field)) SLOT_MAP) sources))"

text \<open>Equality of dictionaries, which does not look at the order of keys.\<close>

definition same_dict :: "(string \<times> 'a) list \<Rightarrow> (string \<times> 'a) list \<Rightarrow> bool" where
  "same_dict d e \<longleftrightarrow> length d = length e \<and> list_all (\<lambda>(k, v). map_of e k = Some v) d"

section \<open>Reconstruction\<close>

definition registered_policy :: "string \<Rightarrow> receiver_context \<Rightarrow> bool" where
  "registered_policy implementation cx \<longleftrightarrow>
     cx_tool cx = ''normalize-lines-v1'' \<and> cx_evaluator cx = ''normalize-checker-v1'' \<and>
     cx_protocol cx = ''normalize-protocol-v1'' \<and> cx_dependencies cx = [implementation] \<and>
     cx_checks cx = [''normalize-checker-v1''] \<and> cx_restrictions cx = [''local-only'']"

definition mapped_library :: "string \<Rightarrow> qualification \<Rightarrow> alt_request \<Rightarrow> unit res" where
  "mapped_library implementation q request =
     (let failure = ValueError ''hidden unmapped field or implementation'' in
      if \<not> same_dict (qu_mapping q) (slot_mapping (qu_training q)) then Inl failure
      else case rq_library request of
        [] \<Rightarrow> Inl (IndexError ''list index out of range'')
      | lb # rest \<Rightarrow>
          ensure (lb_implementation lb = implementation \<and> rest = [] \<and> lb_inputs lb = [''string''] \<and>
            lb_output lb = ''string'') failure)"

definition string_argument :: "string \<Rightarrow> json" where
  "string_argument s = JDict [(''kind'', JStr ''string''), (''value'', JStr s)]"

text \<open>The tests before and after \<open>t.steps[0]\<close>, which raises when there is no step.\<close>

definition trace_origin :: "alt \<Rightarrow> string \<Rightarrow> qualification \<Rightarrow> source \<Rightarrow> operation \<Rightarrow> alt_trace \<Rightarrow> bool" where
  "trace_origin A implementation q s opn t \<longleftrightarrow>
     op_split opn = ''training'' \<and> op_time opn \<le> qu_cutoff q \<and> checked implementation opn \<and>
     tr_episode t = src_event s \<and> tr_input_digest t = alt_digest A (JStr (op_input opn))"

definition trace_matches :: "string \<Rightarrow> operation \<Rightarrow> alt_trace \<Rightarrow> bool" where
  "trace_matches implementation opn t \<longleftrightarrow>
     tr_steps t = [(''normalize-lines-v1'', [string_argument (op_input opn)])] \<and>
     tr_artifact t = implementation \<and> tr_dependencies t = [implementation] \<and> tr_time t = int (op_time opn) \<and>
     tr_version t = ''oawm_normalize_v1'' \<and> tr_split t = ''training'' \<and> tr_outcome t = op_outcome opn \<and>
     tr_complete t = op_complete opn \<and> tr_results t = [''pass''] \<and> tr_costs t = [cst_id (op_cost opn)] \<and>
     tr_guards t = [''bounded-text''] \<and> tr_unresolved t = [] \<and> \<not> tr_taint t"

definition check_training ::
  "host \<Rightarrow> alt \<Rightarrow> string \<Rightarrow> qualification \<Rightarrow> source \<times> dict res \<Rightarrow> unit res"
where
  "check_training H A implementation q p =
     (let failure = ValueError ''unsupported_projection: source slot mismatch or failed trace'' in
      bind_res (operation_of_source H (fst p)) (\<lambda>opn.
      bind_res (snd p) (\<lambda>projected.
      bind_res (alt_trace_of A projected) (\<lambda>t.
      if \<not> trace_origin A implementation q (fst p) opn t then Inl failure
      else if tr_steps t = [] then Inl (IndexError ''list index out of range'')
      else ensure (trace_matches implementation opn t) failure))))"

definition semantic_scope :: "alt_offer \<Rightarrow> bool" where
  "semantic_scope offer \<longleftrightarrow>
     ao_postconditions offer = [''sorted-unique-lines''] \<and> ao_preconditions offer = [''bounded-text''] \<and>
     ao_basis offer = ''source-replay'' \<and> ao_quality offer = ''exact'' \<and> ao_estimand offer = ''normalized-text'' \<and>
     ao_valuation offer = ''synthetic-work-v1''"

text \<open>The loop over the context fields stops at the first that differs.\<close>

definition context_fields :: "alt_offer \<Rightarrow> receiver_context \<Rightarrow> (string \<times> bool) list" where
  "context_fields offer cx =
     [(''receiver'', ao_receiver offer = cx_receiver cx), (''mission'', ao_mission offer = cx_mission cx),
      (''context'', ao_context offer = cx_context cx), (''task_family'', ao_family offer = cx_family cx),
      (''protocol'', ao_protocol offer = cx_protocol cx), (''evaluator'', ao_evaluator offer = cx_evaluator cx),
      (''dependencies'', ao_dependencies offer = cx_dependencies cx),
      (''restrictions'', ao_restrictions offer = cx_restrictions cx)]"

definition same_context :: "alt_offer \<Rightarrow> receiver_context \<Rightarrow> unit res" where
  "same_context offer cx =
     (case find (\<lambda>(_, b). \<not> b) (context_fields offer cx) of
        None \<Rightarrow> Inr ()
      | Some (field, _) \<Rightarrow> Inl (ValueError (''receiver context mismatch: '' @ field)))"

definition check_evaluation ::
  "host \<Rightarrow> alt \<Rightarrow> string \<Rightarrow> qualification \<Rightarrow> source \<times> dict res \<Rightarrow> unit res"
where
  "check_evaluation H A implementation q p =
     bind_res (operation_of_source H (fst p)) (\<lambda>opn.
     bind_res (snd p) (\<lambda>projected.
     bind_res (alt_check_of A projected) (\<lambda>c.
     bind_res (digest H (JDict (context_dump (qu_context q)))) (\<lambda>cx.
     ensure (op_split opn = ''evaluation'' \<and> op_receiver opn = cx_receiver (qu_context q) \<and> op_context opn = cx \<and>
         qu_cutoff q < op_time opn \<and> checked implementation opn \<and>
         ac_input_digest c = alt_digest A (JStr (op_input opn)) \<and> ac_time c = int (op_time opn) \<and>
         op_input opn \<in> set (cx_inputs (qu_context q)))
       (ValueError ''receiver domain evidence mismatch'')))))"

definition expected_costs :: "host \<Rightarrow> qualification \<Rightarrow> alt_request \<Rightarrow> (string \<times> cost) list res" where
  "expected_costs H q request =
     bind_res (map_res (operation_of_source H) (qu_training q @ qu_evaluation q)) (\<lambda>ops.
     bind_res (cost_of_dict [(''id'', JStr (rq_cost_id request)), (''stage'', JStr ''formation''),
       (''unit'', JStr (rq_cost_unit request)), (''amount'', JStr (rq_cost request))]) (\<lambda>c.
     Inr (put (rq_cost_id request) c (dict_of_pairs (map (\<lambda>opn. (cst_id (op_cost opn), op_cost opn)) ops)))))"

definition check_costs :: "qualification \<Rightarrow> alt_offer \<Rightarrow> (string \<times> cost) list \<Rightarrow> unit res" where
  "check_costs q offer expected =
     (let actual = dict_of_pairs (map (\<lambda>c. (cst_id c, c)) (qu_costs q)) in
      ensure (length actual = length (qu_costs q) \<and> same_dict actual expected \<and>
          set (ao_costs offer) = fst ` set actual)
        (ValueError ''cost obligations omitted or conflicting''))"

definition reconstruct :: "host \<Rightarrow> alt \<Rightarrow> string \<Rightarrow> qualification \<Rightarrow> int \<Rightarrow> unit res" where
  "reconstruct H A implementation q0 now =
     bind_res (encoded H (JDict (qualification_dump q0))) (\<lambda>_.
     bind_res (qualification_of_dict (qualification_dump q0)) (\<lambda>q.
     bind_res (alt_runtime A) (\<lambda>_.
     bind_res (alt_request_of A (qu_formation q)) (\<lambda>request.
     bind_res (alt_candidate_of A (qu_candidate q)) (\<lambda>candidate.
     bind_res (alt_offer_of A (qu_offer q)) (\<lambda>offer.
     bind_res (ensure (registered_policy implementation (qu_context q))
       (ValueError ''unsupported registered receiver policy'')) (\<lambda>_.
     bind_res (ensure (rq_cutoff request = int (qu_cutoff q) \<and> rq_scope request = cx_mission (qu_context q) \<and>
         length (rq_sources request) = length (qu_training q)) (ValueError ''projection scope mismatch'')) (\<lambda>_.
     bind_res (mapped_library implementation q request) (\<lambda>_.
     bind_res (all_res (check_training H A implementation q) (zip (qu_training q) (rq_sources request))) (\<lambda>_.
     bind_res (ensure (distinct (map src_event (qu_training q @ qu_evaluation q)))
       (ValueError ''training/evaluation identities overlap'')) (\<lambda>_.
     bind_res (ensure (ao_from offer = int (qu_from q) \<and> ao_until offer = int (qu_until q))
       (ValueError ''validity binding mismatch'')) (\<lambda>_.
     bind_res (ensure (semantic_scope offer) (ValueError ''unsupported semantic scope'')) (\<lambda>_.
     bind_res (same_context offer (qu_context q)) (\<lambda>_.
     bind_res (ensure (ao_inputs offer = map (\<lambda>v. alt_digest A (JStr v)) (cx_inputs (qu_context q)) \<and>
         length (ao_checks offer) = length (qu_evaluation q)) (ValueError ''finite input evidence mismatch'')) (\<lambda>_.
     bind_res (all_res (check_evaluation H A implementation q) (zip (qu_evaluation q) (ao_checks offer))) (\<lambda>_.
     bind_res (expected_costs H q request) (\<lambda>expected.
     bind_res (check_costs q offer expected) (\<lambda>_.
     bind_res (all_res (schema_check H A)
       [(''formation'', qu_formation q), (''candidate'', qu_candidate q), (''offer'', qu_offer q)]) (\<lambda>_.
     bind_res (alt_reconstruct A request candidate) (\<lambda>_.
     alt_qualify A request candidate offer now))))))))))))))))))))"

end
