(* ===== verification/Qualified_Proposal.thy ===== *)
theory Qualified_Proposal
  imports Qualified_Native
begin

text \<open>
  Formation and proposal of a qualification, and its export as a task (\<open>form\<close>, \<open>_propose\<close>,
  \<open>propose\<close>, \<open>ccr_proposal\<close> of \<open>qualified/native.py\<close>). \<open>implementation\<close> is the digest of the
  registered tool's source.
\<close>

section \<open>Formation\<close>

definition trace_document :: "alt \<Rightarrow> string \<Rightarrow> receiver_context \<Rightarrow> source \<Rightarrow> operation \<Rightarrow> dict" where
  "trace_document A implementation context s opn =
     [(''version'', JStr ''alt_reuse_trace_v1''), (''episode'', JStr (src_event s)),
      (''task'', JStr (cx_family context)), (''input_digest'', JStr (alt_digest A (JStr (op_input opn)))),
      (''source_version'', JStr ''oawm_normalize_v1''), (''time'', JInt (int (op_time opn))),
      (''split'', JStr ''training''), (''complete'', JBool (op_complete opn)),
      (''checked_artifact'', JStr implementation),
      (''steps'', JList [JDict [(''primitive'', JStr ''normalize-lines-v1''),
        (''arguments'', JList [string_argument (op_input opn)])]]),
      (''outcome'', JStr (op_outcome opn)),
      (''check_results'', strs_json [if checked implementation opn then ''pass'' else ''fail'']),
      (''costs'', strs_json [cst_id (op_cost opn)]), (''guards'', strs_json [''bounded-text'']),
      (''dependencies'', strs_json [implementation]), (''unresolved'', JList []), (''secret_taint'', JBool False)]"

definition form_trace ::
  "host \<Rightarrow> alt \<Rightarrow> string \<Rightarrow> receiver_context \<Rightarrow> int \<Rightarrow> source \<Rightarrow> json res"
where
  "form_trace H A implementation context cutoff s =
     bind_res (operation_of_source H s) (\<lambda>opn.
     if op_split opn \<noteq> ''training'' \<or> cutoff < int (op_time opn)
     then Inl (ValueError ''holdout or post-cutoff source'')
     else bind_res (alt_envelope A (trace_document A implementation context s opn)) (\<lambda>d. Inr (JDict d)))"

definition training_as_json :: "source list \<Rightarrow> json" where
  "training_as_json sources = JList (map (\<lambda>s. JDict (source_dump s)) sources)"

definition formation_document ::
  "string \<Rightarrow> receiver_context \<Rightarrow> int \<Rightarrow> json list \<Rightarrow> string \<Rightarrow> cost \<Rightarrow> dict"
where
  "formation_document implementation context cutoff traces attempt c =
     [(''version'', JStr ''alt_reuse_formation_v1''), (''mode'', JStr ''sequence''),
      (''scope'', JStr (cx_mission context)), (''cutoff'', JInt cutoff), (''sources'', JList traces),
      (''library'', JList [JDict [(''id'', JStr ''normalize-lines-v1''), (''implementation'', JStr implementation),
        (''inputs'', strs_json [''string'']), (''output'', JStr ''string'')]]),
      (''parameters'', JList [JDict [(''name'', JStr ''text''), (''step'', JInt 0), (''argument'', JInt 0)]]),
      (''attempt_id'', JStr (''form-'' @ take 20 attempt)), (''cost_id'', JStr (cst_id c)),
      (''cost_unit'', JStr (cst_unit c)), (''cost'', JStr (cst_amount c)), (''expansion_limit'', JInt 8)]"

definition form ::
  "host \<Rightarrow> alt \<Rightarrow> string \<Rightarrow> source list \<Rightarrow> receiver_context \<Rightarrow> int \<Rightarrow> cost \<Rightarrow>
     (dict \<times> dict \<times> (string \<times> string) list) res"
where
  "form H A implementation training context cutoff c =
     bind_res (ensure (2 \<le> length training \<and> length training \<le> 8) (ValueError ''formation source count limit'')) (\<lambda>_.
     bind_res (alt_runtime A) (\<lambda>_.
     bind_res (map_res (form_trace H A implementation context cutoff) training) (\<lambda>traces.
     bind_res (digest H (training_as_json training)) (\<lambda>attempt.
     bind_res (alt_request_of A (formation_document implementation context cutoff traces attempt c)) (\<lambda>request.
     bind_res (alt_form A request) (\<lambda>candidate.
     bind_res (alt_reconstruct A request candidate) (\<lambda>_.
     Inr (rq_dump request, cn_dump candidate, slot_mapping training))))))))"

section \<open>Proposal\<close>

definition common_document :: "alt \<Rightarrow> receiver_context \<Rightarrow> dict \<Rightarrow> dict" where
  "common_document A context candidate =
     [(''candidate'', JStr (alt_digest A (JDict candidate))), (''receiver'', JStr (cx_receiver context)),
      (''mission'', JStr (cx_mission context)), (''context'', JStr (cx_context context)),
      (''task_family'', JStr (cx_family context)), (''protocol'', JStr (cx_protocol context)),
      (''evaluator'', JStr (cx_evaluator context)), (''restrictions'', strs_json (cx_restrictions context)),
      (''dependencies'', strs_json (cx_dependencies context)), (''preconditions'', strs_json [''bounded-text'']),
      (''postconditions'', strs_json [''sorted-unique-lines'']), (''quality'', JStr ''exact''),
      (''estimand'', JStr ''normalized-text''), (''valuation'', JStr ''synthetic-work-v1''),
      (''evidence_basis'', JStr ''source-replay'')]"

definition check_document :: "alt \<Rightarrow> string \<Rightarrow> dict \<Rightarrow> operation \<Rightarrow> dict" where
  "check_document A implementation common opn =
     common @
     [(''version'', JStr ''alt_reuse_check_v1''), (''input_digest'', JStr (alt_digest A (JStr (op_input opn)))),
      (''time'', JInt (int (op_time opn))),
      (''result'', JStr (if checked implementation opn then ''pass'' else ''fail'')), (''defeaters'', JList [])]"

definition evaluation_check :: "host \<Rightarrow> alt \<Rightarrow> string \<Rightarrow> dict \<Rightarrow> source \<Rightarrow> json res" where
  "evaluation_check H A implementation common s =
     bind_res (operation_of_source H s) (\<lambda>opn.
     bind_res (alt_envelope A (check_document A implementation common opn)) (\<lambda>d. Inr (JDict d)))"

definition offer_document ::
  "alt \<Rightarrow> receiver_context \<Rightarrow> dict \<Rightarrow> int \<Rightarrow> int \<Rightarrow> json list \<Rightarrow> cost list \<Rightarrow> dict"
where
  "offer_document A context common valid_from valid_until checks costs =
     common @
     [(''version'', JStr ''alt_reuse_offer_v1''),
      (''inputs'', strs_json (map (\<lambda>v. alt_digest A (JStr v)) (cx_inputs context))),
      (''opportunities'', strs_json [''local-use'']), (''valid_from'', JInt valid_from),
      (''valid_until'', JInt valid_until), (''checks'', JList checks),
      (''required_cost_ids'', strs_json (sort (remdups (map cst_id costs)))), (''comparator'', JStr ''scratch'')]"

text \<open>The arguments of \<open>propose\<close>.\<close>

record proposal =
  pp_memory :: string
  pp_update :: string
  pp_workflow :: string
  pp_context :: receiver_context
  pp_training :: "source list"
  pp_evaluation :: "source list"
  pp_cutoff :: int
  pp_from :: int
  pp_until :: int
  pp_cost :: cost

text \<open>\<open>Qualification(...)\<close>: the constructor validates its arguments.\<close>

definition new_qualification ::
  "proposal \<Rightarrow> dict \<Rightarrow> dict \<Rightarrow> dict \<Rightarrow> (string \<times> string) list \<Rightarrow> cost list \<Rightarrow> qualification res"
where
  "new_qualification p request candidate offer mapping costs =
     qualification_of_dict
       [(''memory_id'', JStr (pp_memory p)), (''update_id'', JStr (pp_update p)),
        (''workflow_digest'', JStr (pp_workflow p)), (''context'', JDict (context_dump (pp_context p))),
        (''valid_from'', JInt (pp_from p)), (''valid_until'', JInt (pp_until p)), (''cutoff'', JInt (pp_cutoff p)),
        (''training'', training_as_json (pp_training p)), (''evaluation'', training_as_json (pp_evaluation p)),
        (''formation'', JDict request), (''candidate'', JDict candidate), (''offer'', JDict offer),
        (''mapping'', str_map_json mapping), (''costs'', JList (map (\<lambda>c. JDict (cost_dump c)) costs))]"

definition propose_inner :: "host \<Rightarrow> alt \<Rightarrow> string \<Rightarrow> proposal \<Rightarrow> qualification res" where
  "propose_inner H A implementation p =
     bind_res (form H A implementation (pp_training p) (pp_context p) (pp_cutoff p) (pp_cost p))
       (\<lambda>(request, candidate, mapping).
     bind_res (alt_runtime A) (\<lambda>_.
     bind_res (map_res (operation_of_source H) (pp_training p @ pp_evaluation p)) (\<lambda>ops.
     let costs = pp_cost p # map op_cost ops;
         common = common_document A (pp_context p) candidate in
     bind_res (map_res (evaluation_check H A implementation common) (pp_evaluation p)) (\<lambda>checks.
     let offer = offer_document A (pp_context p) common (pp_from p) (pp_until p) checks costs in
     bind_res (new_qualification p request candidate offer mapping costs) (\<lambda>result.
     bind_res (map_res (operation_of_source H) (pp_evaluation p)) (\<lambda>evaluated.
     bind_res (reconstruct H A implementation result (int (Max (set (map op_time evaluated))))) (\<lambda>_.
     Inr result)))))))"

text \<open>\<open>costs.extend(...)\<close> keeps what it read before a source that raises.\<close>

fun payable :: "host \<Rightarrow> source list \<Rightarrow> cost list \<times> error option" where
  "payable H [] = ([], None)"
| "payable H (s # ss) =
     (case operation_of_source H s of
        Inl e \<Rightarrow> ([], Some e)
      | Inr opn \<Rightarrow> (let (cs, r) = payable H ss in (op_cost opn # cs, r)))"

datatype proposed =
    Proposed qualification
  | AttemptError string "dict list" "string list"
  | Raised error

definition attempt_error :: "error \<Rightarrow> cost list \<Rightarrow> proposed" where
  "attempt_error e costs =
     (if is_value_error e
      then AttemptError (error_text e) (map cost_dump costs)
        [''Source costs unavailable from malformed source remain unresolved.'']
      else Raised e)"

definition propose :: "host \<Rightarrow> alt \<Rightarrow> string \<Rightarrow> proposal \<Rightarrow> proposed" where
  "propose H A implementation p =
     (case payable H (pp_training p @ pp_evaluation p) of
        (cs, Some e) \<Rightarrow> attempt_error e (pp_cost p # cs)
      | (cs, None) \<Rightarrow>
          (case propose_inner H A implementation p of
             Inl e \<Rightarrow> attempt_error e (pp_cost p # cs)
           | Inr q \<Rightarrow> Proposed q))"

end
