(* ===== verification/Qualified_Eligibility.thy ===== *)
theory Qualified_Eligibility
  imports Qualified_Proposal Qualified_Journal Sqlite_Storage Checkers
begin

text \<open>
  Fresh eligibility (\<open>qualified/eligibility.py\<close>) and the consumer's check of a view
  (\<open>qualified/checker.py\<close>). Both read the kernel's tables and the journal in one transaction. \<open>n\<close>
  counts the draws of the clock, which only a stored document without times would need.
\<close>

section \<open>Rows\<close>

definition raw_of :: "db \<Rightarrow> string \<Rightarrow> string \<Rightarrow> string option" where
  "raw_of s table value =
     (if table = ''memory_records'' then map_option mr_raw (find (\<lambda>r. mr_id r = value) (db_memory s))
      else if table = ''workflow_contracts'' then map_option cr_raw (find (\<lambda>r. cr_id r = value) (db_contracts s))
      else if table = ''promotion_receipts'' then map_option pr_raw (find (\<lambda>r. pr_id r = value) (db_receipts s))
      else if table = ''evidence_manifests'' then map_option nr_raw (find (\<lambda>r. nr_id r = value) (db_manifests s))
      else map_option er_raw (find (\<lambda>r. er_id r = value) (db_events s)))"

definition row_keys :: "(string \<times> string) list" where
  "row_keys =
     [(''memory_records'', ''memory_id''), (''workflow_contracts'', ''contract_id''),
      (''promotion_receipts'', ''receipt_id''), (''evidence_manifests'', ''manifest_id''),
      (''events'', ''event_id'')]"

definition row :: "host \<Rightarrow> db \<Rightarrow> string \<Rightarrow> string \<Rightarrow> string \<Rightarrow> dict res" where
  "row H s table key value =
     (if (table, key) \<notin> set row_keys then Inl (ValueError ''unknown record lookup'')
      else case raw_of s table value of
        None \<Rightarrow> Inl (ValueError ''missing authoritative record'')
      | Some raw \<Rightarrow> bind_res (loads_json H raw) py_dict)"

section \<open>The promotion behind a qualification\<close>

definition current_memory :: "host \<Rightarrow> nat \<Rightarrow> db \<Rightarrow> qualification \<Rightarrow> memory res" where
  "current_memory H n s q =
     (let failure = ValueError ''current promotion or memory revision mismatch'' in
      bind_res (row H s ''memory_records'' ''memory_id'' (qu_memory q)) (\<lambda>d.
      bind_res (memory_of_dict H n d) (\<lambda>m.
      if mem_lane m \<noteq> CERTIFIED \<or> mem_update m \<noteq> qu_update q then Inl failure
      else bind_res (content_digest H m) (\<lambda>c.
        if c \<noteq> qu_workflow q then Inl failure
        else bind_res (compute_update_id H (mem_id m) c) (\<lambda>u.
        bind_res (ensure (mem_update m = u) (ValueError ''memory content binding mismatch'')) (\<lambda>_.
        Inr m))))))"

definition bound_promotion :: "host \<Rightarrow> nat \<Rightarrow> db \<Rightarrow> memory \<Rightarrow> manifest res" where
  "bound_promotion H n s m =
     bind_res (bind_res (row H s ''promotion_receipts'' ''receipt_id'' (or_str (mem_receipt m) [])) (receipt_of_dict H n))
       (\<lambda>rcp.
     bind_res (bind_res (row H s ''workflow_contracts'' ''contract_id'' (or_str (mem_contract m) []))
       (contract_of_dict H n)) (\<lambda>c.
     bind_res (ensure (rcp_checks rcp \<noteq> [] \<and> rcp_result rcp = Passed \<and> list_all chk_passed (rcp_checks rcp))
       (ValueError ''empty or failed promotion checks'')) (\<lambda>_.
     let manifest_id = (case find (starts_with ''evm_'') (rcp_refs rcp) of None \<Rightarrow> [] | Some i \<Rightarrow> i) in
     bind_res (bind_res (row H s ''evidence_manifests'' ''manifest_id'' manifest_id) (manifest_of_dict H n)) (\<lambda>evm.
     bind_res (default_receipt_verifier H rcp evm (Some m)) (\<lambda>k.
     bind_res (ensure (chk_passed k) (ValueError ''receipt binding failed'')) (\<lambda>_.
     bind_res (ensure (wfc_update c = Some (mem_update m) \<and> wfc_memory c = Some (mem_id m) \<and>
         get_or (wfc_replay c) ''receipt_id'' JNull = JStr (rcp_id rcp))
       (ValueError ''workflow receipt mismatch'')) (\<lambda>_.
     Inr evm)))))))"

definition observed_digest :: "host \<Rightarrow> db \<Rightarrow> string \<Rightarrow> (string \<times> json) res" where
  "observed_digest H s identity =
     bind_res (row H s ''events'' ''event_id'' identity) (\<lambda>observed.
     bind_res (item observed ''payload'') (\<lambda>payload.
     bind_res (digest_json H payload) (\<lambda>d.
     bind_res (item observed ''payload_digest'') (\<lambda>stored.
     bind_res (ensure (stored = JStr d) (ValueError ''authoritative event corruption'')) (\<lambda>_.
     Inr (identity, stored))))))"

definition default_checker_names :: "string list" where
  "default_checker_names =
     [''candidate-schema'', ''input-set'', ''evidence-manifest'', ''digest'', ''declared-tools'',
      ''deterministic-boundary'', ''resource-caps'']"

definition recheck ::
  "host \<Rightarrow> nat \<Rightarrow> memory \<Rightarrow> manifest \<Rightarrow> (string \<times> json) list \<Rightarrow> string \<times> checker \<Rightarrow> unit res"
where
  "recheck H n m evm event_digests p =
     bind_res (snd p n (m\<lparr>mem_lane := SHADOW\<rparr>) (manifest_dump H evm)
       \<lparr>ctx_intent = NoIntent, ctx_values =
         [(''actual_event_digests'', JDict event_digests), (''missing_source_event_ids'', JList [])]\<rparr>) (\<lambda>k.
     ensure (chk_passed k) (ValueError (''promotion recheck failed: '' @ fst p)))"

fun payload_raw :: "json \<Rightarrow> json res" where
  "payload_raw (JDict d) = Inr (get_or d ''raw'' JNull)"
| "payload_raw v = Inl (AttributeError ([CHR 0x27] @ type_name v @ [CHR 0x27] @ '' object has no attribute get''))"

definition local_observation :: "host \<Rightarrow> db \<Rightarrow> source \<Rightarrow> unit res" where
  "local_observation H s src =
     (let failure = ValueError ''source bytes not authoritative local observations'' in
      bind_res (row H s ''events'' ''event_id'' (src_event src)) (\<lambda>original.
      bind_res (item original ''kind'') (\<lambda>kind.
      if kind \<noteq> JStr ''registered_operation'' then Inl failure
      else bind_res (item original ''payload'') (\<lambda>payload.
      bind_res (payload_raw payload) (\<lambda>raw.
      if raw \<noteq> JStr (src_raw src) then Inl failure
      else bind_res (wire_loads (src_raw src)) (\<lambda>v.
      bind_res (digest_json H v) (\<lambda>d.
      if src_producer src \<noteq> d then Inl failure
      else bind_res (digest_json H payload) (\<lambda>pd.
      bind_res (item original ''payload_digest'') (\<lambda>stored.
      ensure (stored = JStr pd) (ValueError ''observed envelope digest mismatch''))))))))))"

definition promotion :: "host \<Rightarrow> nat \<Rightarrow> db \<Rightarrow> qualification \<Rightarrow> memory res" where
  "promotion H n s q =
     bind_res (current_memory H n s q) (\<lambda>m.
     bind_res (bound_promotion H n s m) (\<lambda>evm.
     bind_res (map_res (observed_digest H s) (mem_sources m)) (\<lambda>observed.
     bind_res (all_res (recheck H n m evm (dict_of_pairs observed))
       (zip default_checker_names (create_default_checkers H))) (\<lambda>_.
     bind_res (ensure (set (mem_sources m) = src_event ` set (qu_training q))
       (ValueError ''unmapped memory source events'')) (\<lambda>_.
     bind_res (all_res (local_observation H s) (qu_training q @ qu_evaluation q)) (\<lambda>_.
     Inr m))))))"

section \<open>The decision\<close>

text \<open>The keys of the dictionary that vary; \<open>claim\<close> is added by retrieval.\<close>

record view =
  vw_reasons :: "string list"
  vw_eligibility :: string
  vw_snapshot :: string
  vw_qualification :: string
  vw_memory :: string
  vw_update :: string
  vw_workflow :: string
  vw_context :: string
  vw_expiry :: nat
  vw_authority :: json
  vw_authentication :: json
  vw_claim :: "string option"

fun contains :: "string \<Rightarrow> string \<Rightarrow> bool" where
  "contains t [] = (t = [])"
| "contains t (c # s) = (starts_with t (c # s) \<or> contains t s)"

definition view_dict :: "view \<Rightarrow> dict" where
  "view_dict v =
     [(''parse_valid'', JBool True), (''binding_checks'', JBool (vw_reasons v = [])),
      (''structural_qualification'', if vw_reasons v = [] then JStr ''native-ALT-source-replay'' else JNull),
      (''source_authentication'', vw_authentication v),
      (''semantic_evidence_scope'', JStr ''finite normalize-lines inputs only; host-recorded''),
      (''current_memory_eligibility'', JStr (vw_eligibility v)), (''execution_authority'', vw_authority v),
      (''reasons'', strs_json (vw_reasons v)), (''snapshot'', JStr (vw_snapshot v)),
      (''qualification'', JStr (vw_qualification v)), (''memory_id'', JStr (vw_memory v)),
      (''update_id'', JStr (vw_update v)), (''workflow_digest'', JStr (vw_workflow v)),
      (''context_digest'', JStr (vw_context v)), (''expiry'', JInt (int (vw_expiry v))),
      (''dependency_status'',
        JStr (if \<exists>r \<in> set (vw_reasons v). contains ''withdrawn'' r then ''withdrawn'' else ''current'')),
      (''unsupported_fields'', strs_json [''remote authentication'', ''host execution permission'']),
      (''residuals'', JList [])] @
     (case vw_claim v of None \<Rightarrow> [] | Some c \<Rightarrow> [(''claim'', JStr c)])"

definition depends_on :: "receiver_context \<Rightarrow> dict \<Rightarrow> bool res" where
  "depends_on context w = bind_res (item w ''dependency'') (\<lambda>v. Inr (v \<in> JStr ` set (cx_dependencies context)))"

fun block_time :: "json \<Rightarrow> int res" where
  "block_time (JInt i) = Inr i"
| "block_time v = Inl (TypeError ''not supported between instances'')"

text \<open>The reason that one block gives, if any; its tests stop at the first that fails.\<close>

definition block_reason ::
  "host \<Rightarrow> qualification \<Rightarrow> receiver_context \<Rightarrow> string \<Rightarrow> dict \<Rightarrow> string list res"
where
  "block_reason H q context input_text block =
     bind_res (item block ''artifact'') (\<lambda>a.
     if \<not> py_eq a (get_or (qu_candidate q) ''artifact_digest'' JNull) then Inr []
     else bind_res (item block ''context'') (\<lambda>bc.
     bind_res (digest H (JDict (context_dump context))) (\<lambda>cx.
     if bc \<noteq> JStr cx then Inr []
     else bind_res (item block ''input'') (\<lambda>i.
     if i \<noteq> JStr input_text then Inr []
     else bind_res (bind_res (item block ''time'') block_time) (\<lambda>t.
     if t < int (qu_from q) then Inr []
     else bind_res (bind_res (item block ''event'') str_value) (\<lambda>e.
     Inr [''scoped_invalidation:'' @ e]))))))"

text \<open>\<open>except (ValueError, KeyError)\<close>: what else is raised goes on.\<close>

definition failure_reason :: "'a res \<Rightarrow> string list res" where
  "failure_reason r =
     (case r of
        Inr _ \<Rightarrow> Inr []
      | Inl e \<Rightarrow> if is_value_error e \<or> is_key_error e then Inr [error_text e] else Inl e)"

definition decision_reasons ::
  "host \<Rightarrow> alt \<Rightarrow> string \<Rightarrow> nat \<Rightarrow> db \<Rightarrow> qualification \<Rightarrow> receiver_context \<Rightarrow> string \<Rightarrow> int \<Rightarrow> replayed \<Rightarrow>
     string list res"
where
  "decision_reasons H A implementation n s q context input_text now st =
     bind_res (any_res (depends_on context) (jn_withdrawn (rp_state st))) (\<lambda>withdrawn.
     bind_res (map_res (block_reason H q context input_text) (jn_blocks (rp_state st))) (\<lambda>blocked.
     bind_res (failure_reason (bind_res (promotion H n s q) (\<lambda>_. reconstruct H A implementation q now))) (\<lambda>failed.
     Inr
       ((if qu_context q \<noteq> context \<or> input_text \<notin> set (cx_inputs context)
         then [''receiver_context_or_input_mismatch''] else []) @
        (if \<not> cx_expose context then [''host_exposure_not_permitted''] else []) @
        (if \<not> (int (qu_from q) \<le> now \<and> now < int (qu_until q)) then [''outside_validity''] else []) @
        (if \<not> list_all (cost_paid (jn_costs (rp_state st))) (qu_costs q) then [''unpaid_cost''] else []) @
        (if withdrawn then [''dependency_withdrawn''] else []) @ concat blocked @ failed))))"

definition decision ::
  "host \<Rightarrow> alt \<Rightarrow> string \<Rightarrow> nat \<Rightarrow> db \<Rightarrow> qualification \<Rightarrow> receiver_context \<Rightarrow> string \<Rightarrow> int \<Rightarrow> replayed \<Rightarrow>
     view res"
where
  "decision H A implementation n s q context input_text now st =
     bind_res (ensure (0 \<le> now \<and> now \<le> 2 ^ 31) (ValueError ''trusted integer time required'')) (\<lambda>_.
     bind_res (decision_reasons H A implementation n s q context input_text now st) (\<lambda>reasons.
     bind_res (digest H (JDict (qualification_dump q))) (\<lambda>d.
     bind_res (digest H (JDict (context_dump context))) (\<lambda>cx.
     Inr \<lparr>vw_reasons = reasons, vw_eligibility = (if reasons = [] then ''eligible'' else ''blocked''),
       vw_snapshot = rp_revision st, vw_qualification = d, vw_memory = qu_memory q, vw_update = qu_update q,
       vw_workflow = qu_workflow q, vw_context = cx, vw_expiry = qu_until q, vw_authority = JNull,
       vw_authentication = JNull, vw_claim = None\<rparr>))))"

section \<open>The consumer's check\<close>

text \<open>The members of a set must be hashable.\<close>

fun hashable :: "json \<Rightarrow> json res" where
  "hashable (JList _) = Inl (TypeError ''unhashable type: list'')"
| "hashable (JDict _) = Inl (TypeError ''unhashable type: dict'')"
| "hashable v = Inr v"

definition view_bound ::
  "host \<Rightarrow> replayed \<Rightarrow> qualification \<Rightarrow> view \<Rightarrow> receiver_context \<Rightarrow> string \<Rightarrow> int \<Rightarrow> unit res"
where
  "view_bound H st q v context input_text now =
     (let failure = ValueError ''view bindings or scope rejected'' in
      if vw_snapshot v \<noteq> rp_revision st \<or> qu_context q \<noteq> context \<or> \<not> cx_expose context \<or>
         input_text \<notin> set (cx_inputs context) \<or> \<not> (int (qu_from q) \<le> now \<and> now < int (qu_until q)) \<or>
         vw_memory v \<noteq> qu_memory q \<or> vw_update v \<noteq> qu_update q \<or> vw_workflow v \<noteq> qu_workflow q
      then Inl failure
      else bind_res (digest H (JDict (context_dump context))) (\<lambda>cx.
        ensure (vw_context v = cx \<and> vw_expiry v = qu_until q \<and> vw_authority v = JNull \<and>
            vw_authentication v = JNull \<and> vw_eligibility v = ''eligible'') failure))"

definition not_blocked ::
  "host \<Rightarrow> qualification \<Rightarrow> receiver_context \<Rightarrow> string \<Rightarrow> dict \<Rightarrow> unit res"
where
  "not_blocked H q context input_text block =
     bind_res (item block ''artifact'') (\<lambda>a.
     bind_res (item block ''context'') (\<lambda>bc.
     bind_res (item block ''input'') (\<lambda>i.
     bind_res (item (qu_candidate q) ''artifact_digest'') (\<lambda>artifact.
     bind_res (digest H (JDict (context_dump context))) (\<lambda>cx.
     if \<not> (py_eq a artifact \<and> bc = JStr cx \<and> i = JStr input_text) then Inr ()
     else bind_res (bind_res (item block ''time'') block_time) (\<lambda>t.
       ensure (t < int (qu_from q)) (ValueError ''scoped invalidation'')))))))"

definition check_view ::
  "host \<Rightarrow> alt \<Rightarrow> string \<Rightarrow> nat \<Rightarrow> db \<Rightarrow> journal_rows \<Rightarrow> view \<Rightarrow> receiver_context \<Rightarrow> string \<Rightarrow> int \<Rightarrow> unit res"
where
  "check_view H A implementation n s rows v context input_text now =
     bind_res (bind_res (entries rows) (replay H implementation)) (\<lambda>st.
     bind_res (item (jn_qualifications (rp_state st)) (vw_qualification v)) (\<lambda>raw.
     bind_res (qualification_of_dict raw) (\<lambda>q.
     bind_res (view_bound H st q v context input_text now) (\<lambda>_.
     bind_res (ensure (list_all (cost_paid (jn_costs (rp_state st))) (qu_costs q)) (ValueError ''unpaid view costs'')) (\<lambda>_.
     bind_res (map_res (\<lambda>w. bind_res (item w ''dependency'') hashable) (jn_withdrawn (rp_state st))) (\<lambda>withdrawn.
     bind_res (ensure (set withdrawn \<inter> JStr ` set (cx_dependencies context) = {}) (ValueError ''withdrawn dependency'')) (\<lambda>_.
     bind_res (all_res (not_blocked H q context input_text) (jn_blocks (rp_state st))) (\<lambda>_.
     bind_res (promotion H n s q) (\<lambda>m.
     bind_res (of_option (KeyError (repr_str ''claim'')) (vw_claim v)) (\<lambda>claim.
     bind_res (ensure (claim = mem_claim m) (ValueError ''untrusted retriever content'')) (\<lambda>_.
     reconstruct H A implementation q now)))))))))))"

end
