(* ===== verification/Receiver_Use.thy ===== *)
theory Receiver_Use
  imports Receiver_Runtime
begin

text \<open>
  Fenced local use (\<open>ReceiverRuntime.use\<close> of \<open>qualified/runtime.py\<close>): the gate, the transaction
  that reserves the use, and the transaction in which the tool runs and its outcome is checked and
  reconciled. When the second raises, the reservation of the first stays.
\<close>

section \<open>The gate\<close>

definition on_world :: "(db world, 'a) io \<Rightarrow> (desk, 'a) io" where
  "on_world m dk = (case m (dk_world dk) of (r, w) \<Rightarrow> (r, dk\<lparr>dk_world := w\<rparr>))"

definition use_arguments :: "string \<Rightarrow> dict" where
  "use_arguments input_text = [(''text'', JStr input_text)]"

text \<open>\<open>any(not verify_receipt(r).passed ...)\<close> stops at the first receipt that fails.\<close>

fun verify_all :: "'s kernel \<Rightarrow> string list \<Rightarrow> ('s world, unit) io" where
  "verify_all K [] = ret ()"
| "verify_all K (r # rs) =
     bind_io (verify_receipt K r) (\<lambda>k.
     if chk_passed k then verify_all K rs else throw (ValueError ''action receipt integrity failed''))"

definition registered_use :: "'s kernel \<Rightarrow> intent \<Rightarrow> cost \<Rightarrow> bool" where
  "registered_use K a c \<longleftrightarrow>
     strict_profile K \<and> act_tool a = ''normalize-lines-v1'' \<and> act_effect a = ''local-external'' \<and>
     cst_stage c = ''use''"

definition use_gate ::
  "'s kernel \<Rightarrow> string \<Rightarrow> intent \<Rightarrow> string list \<Rightarrow> cost \<Rightarrow> ('s world, unit) io"
where
  "use_gate K input_text a receipts c =
     (if \<not> registered_use K a c then throw (ValueError ''strict registered local use required'')
      else
        bind_io (lift (digest_json (k_host K) (JDict (use_arguments input_text)))) (\<lambda>d.
        bind_io (lift (ensure (act_args a = d) (ValueError ''action arguments mismatch''))) (\<lambda>_.
        bind_io (map_io (load_receipt K) receipts) (\<lambda>gate.
        bind_io (verify_all K receipts) (\<lambda>_.
        lift (ensure_allowed (k_host K) (strict_profile K) True gate (Some a) []))))))"

section \<open>The reservation\<close>

definition use_data :: "string \<Rightarrow> string \<Rightarrow> intent \<Rightarrow> cost \<Rightarrow> string \<Rightarrow> dict" where
  "use_data qid input_text a c expected =
     [(''qualification'', JStr qid), (''input'', JStr input_text), (''action'', JDict (intent_dump a)),
      (''cost'', JStr (cst_id c)), (''snapshot'', JStr expected)]"

datatype reservation = Duplicate bool | Reserved string qualification receiver_context

text \<open>The first of the named items that differs ends the comparison.\<close>

definition differs :: "dict \<Rightarrow> dict \<Rightarrow> string \<Rightarrow> bool res" where
  "differs previous data k =
     bind_res (item previous k) (\<lambda>v. bind_res (item data k) (\<lambda>w. Inr (\<not> py_eq v w)))"

definition same_use :: "journal \<Rightarrow> dict \<Rightarrow> dict \<Rightarrow> cost \<Rightarrow> unit res" where
  "same_use j previous data c =
     (let failure = ValueError ''conflicting use identity'' in
      bind_res (any_res (differs previous data) [''qualification'', ''input'', ''action'', ''cost'']) (\<lambda>b.
      if b then Inl failure
      else bind_res (item (jn_costs j) (cst_id c)) (\<lambda>d.
        ensure (py_eq (JDict d) (JDict (cost_dump c))) failure)))"

definition pending_same :: "journal \<Rightarrow> string \<Rightarrow> string \<Rightarrow> string \<Rightarrow> bool res" where
  "pending_same j qid input_text pending =
     bind_res (item (jn_intents j) pending) (\<lambda>d.
     bind_res (item d ''qualification'') (\<lambda>qv.
     if qv \<noteq> JStr qid then Inr False
     else bind_res (item d ''input'') (\<lambda>iv. Inr (iv = JStr input_text))))"

definition reserve_rows ::
  "receiver_runtime \<Rightarrow> string \<Rightarrow> string \<Rightarrow> string \<Rightarrow> int \<Rightarrow> string \<Rightarrow> intent \<Rightarrow> cost \<Rightarrow> nat \<Rightarrow> db \<Rightarrow>
     journal_rows \<Rightarrow> (reservation \<times> journal_rows) res"
where
  "reserve_rows R qid input_text identity now expected a c n s rows =
     bind_res (entries rows) (\<lambda>old.
     bind_res (journal_of R old) (\<lambda>st.
     let j = rp_state st; data = use_data qid input_text a c expected in
     if rp_revision st \<noteq> expected then Inl (ValueError ''stale expected revision'')
     else case map_of (jn_intents j) identity of
       Some previous \<Rightarrow>
         bind_res (same_use j previous data c) (\<lambda>_. Inr (Duplicate (identity \<in> set (jn_services j)), rows))
     | None \<Rightarrow>
         bind_res (any_res (pending_same j qid input_text) (rp_unresolved st)) (\<lambda>pending.
         if pending then Inl (ValueError ''unresolved prior effect; host reconciliation required'')
         else
           bind_res (item (jn_qualifications j) qid) (\<lambda>raw.
           bind_res (qualification_of_dict raw) (\<lambda>q.
           case map_of (rr_profiles R) (cx_receiver (qu_context q)) of
             None \<Rightarrow> Inl (ValueError ''use eligibility changed'')
           | Some context \<Rightarrow>
               bind_res (decide R n s q context input_text now st) (\<lambda>v.
               if vw_eligibility v \<noteq> ''eligible'' then Inl (ValueError ''use eligibility changed'')
               else
                 bind_res (digest (rr_host R) (JDict (cost_dump c))) (\<lambda>d.
                 bind_res (new_event R CostEntry (''use-cost-'' @ take 24 d) (cost_dump c) now old) (\<lambda>ce.
                 bind_res (new_event R IntentEntry identity data now (old @ [ce])) (\<lambda>ie.
                 bind_res (append_batch R [ce, ie] expected rows) (\<lambda>(reserved, rows').
                 Inr (Reserved reserved q context, rows')))))))))))"

section \<open>The effect\<close>

record use_result =
  us_status :: string
  us_service :: bool
  us_snapshot :: "string option"

text \<open>Before the tool runs: the fence and the attempt.\<close>

definition fence ::
  "receiver_runtime \<Rightarrow> qualification \<Rightarrow> receiver_context \<Rightarrow> string \<Rightarrow> string \<Rightarrow> int \<Rightarrow> string \<Rightarrow> nat \<Rightarrow> db \<Rightarrow>
     journal_rows \<Rightarrow> (entry list \<times> entry) res"
where
  "fence R q context input_text identity now reserved n s rows =
     (let failure = ValueError ''use fence changed; reconcile unresolved intent'' in
      bind_res (entries rows) (\<lambda>old.
      bind_res (journal_of R old) (\<lambda>st.
      if rp_revision st \<noteq> reserved then Inl failure
      else bind_res (decide R n s q context input_text now st) (\<lambda>v.
        if vw_eligibility v \<noteq> ''eligible'' then Inl failure
        else bind_res (new_event R Attempt (identity @ ''-attempt'') [(''intent'', JStr identity)] now old) (\<lambda>e.
          Inr (old, e))))))"

definition outcome_status :: "tool_result \<Rightarrow> string" where
  "outcome_status r =
     (if tr_ok r then ''received''
      else if starts_with ''TimeoutError:'' (tr_error r) then ''timeout'' else ''unknown'')"

definition outcome_data :: "string \<Rightarrow> tool_result \<Rightarrow> dict" where
  "outcome_data identity r =
     [(''intent'', JStr identity),
      (''output'', if tr_ok r then get_or (tr_output r) ''text'' (JStr []) else JStr []),
      (''status'', JStr (outcome_status r))]"

text \<open>After it: outcome, check and reconciliation.\<close>

definition settle_rows ::
  "receiver_runtime \<Rightarrow> string \<Rightarrow> int \<Rightarrow> string \<Rightarrow> entry list \<Rightarrow> entry \<Rightarrow> tool_result \<Rightarrow> journal_rows \<Rightarrow>
     (use_result \<times> journal_rows) res"
where
  "settle_rows R identity now reserved old attempt r rows =
     bind_res (new_event R OutcomeEntry (identity @ ''-outcome'') (outcome_data identity r) now (old @ [attempt])) (\<lambda>e1.
     bind_res (new_event R Checked (identity @ ''-check'')
       [(''intent'', JStr identity), (''checker'', JStr ''normalize-checker-v1'')] now (old @ [attempt, e1])) (\<lambda>e2.
     bind_res (new_event R Reconciled (identity @ ''-reconcile'') [(''intent'', JStr identity)] now
       (old @ [attempt, e1, e2])) (\<lambda>e3.
     let batch = [attempt, e1, e2, e3] in
     bind_res (append_batch R batch reserved rows) (\<lambda>(revision, rows').
     bind_res (journal_of R (old @ batch)) (\<lambda>final.
     Inr (\<lparr>us_status = ''checked'', us_service = identity \<in> set (jn_services (rp_state final)),
       us_snapshot = Some revision\<rparr>, rows'))))))"

definition use_effect ::
  "receiver_runtime \<Rightarrow> db kernel \<Rightarrow> qualification \<Rightarrow> receiver_context \<Rightarrow> string \<Rightarrow> string \<Rightarrow> int \<Rightarrow> string \<Rightarrow>
     intent \<Rightarrow> string list \<Rightarrow> (desk, use_result) io"
where
  "use_effect R K q context input_text identity now reserved a receipts =
     bind_io (\<lambda>dk. (fence R q context input_text identity now reserved (w_tick (dk_world dk))
       (w_store (dk_world dk)) (dk_rows dk), dk)) (\<lambda>(old, attempt).
     bind_io (on_world (invoke_tool K
       \<lparr>tc_name = act_tool a, tc_arguments = use_arguments input_text, tc_external = True\<rparr> a receipts)) (\<lambda>r.
     transaction (\<lambda>n s rows. settle_rows R identity now reserved old attempt r rows)))"

definition receiver_use ::
  "receiver_runtime \<Rightarrow> string \<Rightarrow> string \<Rightarrow> string \<Rightarrow> int \<Rightarrow> string \<Rightarrow> intent \<Rightarrow> string list \<Rightarrow> cost \<Rightarrow>
     (desk, use_result) io"
where
  "receiver_use R qid input_text identity now expected a receipts c =
     (case rr_kernel R of
        None \<Rightarrow> throw (ValueError ''strict registered local use required'')
      | Some K \<Rightarrow>
          bind_io (on_world (use_gate K input_text a receipts c)) (\<lambda>_.
          bind_io (transaction (reserve_rows R qid input_text identity now expected a c)) (\<lambda>r.
          case r of
            Duplicate service \<Rightarrow> ret \<lparr>us_status = ''duplicate'', us_service = service, us_snapshot = None\<rparr>
          | Reserved reserved q context \<Rightarrow>
              use_effect R K q context input_text identity now reserved a receipts)))"

end
