(* ===== verification/Receiver_Session.thy ===== *)
theory Receiver_Session
  imports Command_Line Kernel_Invariants Journal_Properties Receiver_Use "HOL-Library.Sublist"
begin

text \<open>
  The receiver and the kernel together: a working day on one file, in which operations of the
  receiver and commands of the kernel alternate in any order and each may fail. The receiver writes
  only its journal, and only at its end; the kernel never sees that the receiver was there.
\<close>

section \<open>A day\<close>

datatype receiver_op =
    Admit_Op qualification int string
  | Retrieve_Op string string int string int
  | Expose_Op string string string int
  | Record_Op entry_kind string dict int string
  | Use_Op string string string int string intent "string list" cost

text \<open>What a host calls on the runtime; what the call answers is left to the host.\<close>

fun operate :: "receiver_runtime \<Rightarrow> receiver_op \<Rightarrow> (desk, unit) io" where
  "operate R (Admit_Op q now expected) = bind_io (admit R q now expected) (\<lambda>_. ret ())"
| "operate R (Retrieve_Op receiver input_text now query limit) =
     bind_io (receiver_retrieve R receiver input_text now query limit) (\<lambda>_. ret ())"
| "operate R (Expose_Op task receiver input_text now) =
     bind_io (receiver_run R task receiver input_text now) (\<lambda>_. ret ())"
| "operate R (Record_Op kind i d now expected) = bind_io (record_event R kind i d now expected) (\<lambda>_. ret ())"
| "operate R (Use_Op qid input_text i now expected a receipts c) =
     bind_io (receiver_use R qid input_text i now expected a receipts c) (\<lambda>_. ret ())"

datatype turn = Receiver receiver_op | Shell command

text \<open>The printed results of the commands, and the desk at the end.\<close>

fun day :: "terminal \<Rightarrow> receiver_runtime \<Rightarrow> turn list \<Rightarrow> desk \<Rightarrow> printed res list \<times> desk" where
  "day T R [] dk = ([], dk)"
| "day T R (Receiver p # ts) dk = day T R ts (snd (operate R p dk))"
| "day T R (Shell c # ts) dk =
     (let (r, dk1) = on_world (execute T c) dk; (rs, dk2) = day T R ts dk1 in (r # rs, dk2))"

fun commands :: "turn list \<Rightarrow> command list" where
  "commands [] = []"
| "commands (Receiver p # ts) = commands ts"
| "commands (Shell c # ts) = c # commands ts"

section \<open>The receiver writes only the end of its journal\<close>

definition beside_world :: "db world \<Rightarrow> journal_rows \<Rightarrow> desk \<Rightarrow> bool" where
  "beside_world w rows dk \<longleftrightarrow> dk_world dk = w \<and> prefix rows (dk_rows dk)"

lemma insert_entry_prefix: "insert_entry H e rows = Inr rows' \<Longrightarrow> prefix rows rows'"
  by (auto simp: insert_entry_def res_simps split: if_splits)

lemma fold_insert_prefix: "fold_res (insert_entry H) es rows = Inr rows' \<Longrightarrow> prefix rows rows'"
proof (induction es arbitrary: rows)
  case (Cons e es)
  then show ?case by (auto simp: res_simps dest!: insert_entry_prefix intro: prefix_order.trans)
qed simp

lemma append_batch_prefix: "append_batch R es expected rows = Inr (latest, rows') \<Longrightarrow> prefix rows rows'"
  by (auto simp: append_batch_def append_rows_def res_simps split: if_splits intro: fold_insert_prefix)

lemma keeps_transaction:
  "(\<And>n s rows x rows'. f n s rows = Inr (x, rows') \<Longrightarrow> prefix rows rows') \<Longrightarrow>
   keeps (beside_world w rows0) (transaction f)"
  by (rule keepsI)
     (auto simp: transaction_def beside_world_def split: sum.splits intro: prefix_order.trans)

lemma keeps_on_world:
  assumes "keeps (\<lambda>v. v = w) m"
  shows "keeps (beside_world w rows0) (on_world m)"
proof (rule keepsI)
  fix dk assume dk: "beside_world w rows0 dk"
  then have "snd (m (dk_world dk)) = w" using keepsD [OF assms, of "dk_world dk"] by (simp add: beside_world_def)
  then show "beside_world w rows0 (snd (on_world m dk))"
    using dk by (cases "m (dk_world dk)") (simp add: on_world_def beside_world_def)
qed

lemma keeps_look: "keeps I (\<lambda>dk. (f dk, dk))"
  by (simp add: keeps_def)

text \<open>The kernel operations of a use only read.\<close>

lemma keeps_load_receipt_any [keeps_intros]: "keeps I (load_receipt K i)"
  unfolding load_receipt_def by (intro keeps_intros)

lemma keeps_verify_receipt_any [keeps_intros]: "keeps I (verify_receipt K i)"
  unfolding verify_receipt_def load_memory_def by (intro keeps_intros)

lemma keeps_verify_all [keeps_intros]: "keeps I (verify_all K rs)"
  by (induction rs) (simp_all only: verify_all.simps, (intro keeps_intros; assumption)+)

lemma keeps_use_gate [keeps_intros]: "keeps I (use_gate K t a rs c)"
  unfolding use_gate_def by (intro keeps_intros)

lemma keeps_invoke_any [keeps_intros]: "keeps I (invoke_tool K call a rs)"
  unfolding invoke_tool_def required_contract_check_def Let_def by (intro keeps_intros)

lemma admit_rows_prefix: "admit_rows R q cx now expected n s rows = Inr (x, rows') \<Longrightarrow> prefix rows rows'"
  by (auto simp: admit_rows_def Let_def res_simps split: if_splits intro: append_batch_prefix)

lemma expose_rows_prefix: "expose_rows R task rcv t now n s rows = Inr (x, rows') \<Longrightarrow> prefix rows rows'"
  by (auto simp: expose_rows_def res_simps intro: append_batch_prefix)

lemma record_rows_prefix: "record_rows R kind i d now expected n s rows = Inr (x, rows') \<Longrightarrow> prefix rows rows'"
  by (auto simp: record_rows_def res_simps intro: append_batch_prefix)

lemma reserve_rows_prefix: "reserve_rows R qid t i now expected a c n s rows = Inr (x, rows') \<Longrightarrow> prefix rows rows'"
  by (auto simp: reserve_rows_def Let_def res_simps split: option.splits if_splits intro: append_batch_prefix)

lemma settle_rows_prefix: "settle_rows R i now reserved old e r rows = Inr (x, rows') \<Longrightarrow> prefix rows rows'"
  by (auto simp: settle_rows_def Let_def res_simps intro: append_batch_prefix)

lemma keeps_use_effect: "keeps (beside_world w rows0) (use_effect R K q cx t i now reserved a rs)"
  unfolding use_effect_def
  by (rule keeps_bind, rule keeps_look)
     (auto intro!: keeps_bind keeps_on_world keeps_invoke_any keeps_transaction dest: settle_rows_prefix split: prod.split)

lemma operate_keeps: "keeps (beside_world w rows0) (operate R p)"
proof (cases p)
  case (Admit_Op q now expected)
  then show ?thesis
    by (auto simp: admit_def intro!: keeps_bind keeps_ret keeps_throw keeps_transaction dest: admit_rows_prefix
        split: option.split)
next
  case (Retrieve_Op rcv t now query limit)
  have "receiver_retrieve R rcv t now query limit = (\<lambda>dk. (retrieve_inner R rcv t now query limit
      (w_tick (dk_world dk)) (w_store (dk_world dk)) (dk_rows dk), dk))"
    by (simp add: receiver_retrieve_def fun_eq_iff)
  then show ?thesis using Retrieve_Op by (auto intro!: keeps_bind keeps_ret keeps_look)
next
  case (Expose_Op task rcv t now)
  then show ?thesis
    by (auto simp: receiver_run_def intro!: keeps_bind keeps_ret keeps_lift keeps_throw keeps_transaction
        dest: expose_rows_prefix split: option.split)
next
  case (Record_Op kind i d now expected)
  then show ?thesis
    by (auto simp: record_event_def intro!: keeps_bind keeps_ret keeps_throw keeps_transaction dest: record_rows_prefix)
next
  case (Use_Op qid t i now expected a rs c)
  then show ?thesis
    by (auto simp: receiver_use_def intro!: keeps_bind keeps_ret keeps_throw keeps_on_world keeps_use_gate
        keeps_transaction keeps_use_effect dest: reserve_rows_prefix split: option.split reservation.split)
qed

lemma operate_beside: "dk_world (snd (operate R p dk)) = dk_world dk \<and> prefix (dk_rows dk) (dk_rows (snd (operate R p dk)))"
  using keepsD [OF operate_keeps, of "dk_world dk" "dk_rows dk" dk R p] by (simp add: beside_world_def)

section \<open>The day seen from the kernel and from the journal\<close>

lemma day_projects:
  "day T R ts dk = (rs, dk') \<Longrightarrow> shell T (commands ts) (dk_world dk) = (rs, dk_world dk') \<and> prefix (dk_rows dk) (dk_rows dk')"
proof (induction T R ts dk arbitrary: rs dk' rule: day.induct)
  case (2 T R p ts dk)
  then show ?case using operate_beside [of R p dk] by (auto intro: prefix_order.trans)
next
  case (3 T R c ts dk)
  obtain r w where c: "execute T c (dk_world dk) = (r, w)" by fastforce
  obtain rs2 dk2 where rest: "day T R ts (dk\<lparr>dk_world := w\<rparr>) = (rs2, dk2)" by fastforce
  have "on_world (execute T c) dk = (r, dk\<lparr>dk_world := w\<rparr>)" by (simp add: on_world_def c)
  with 3 c rest show ?case by auto
qed simp

lemma entries_prefix:
  assumes "prefix rows rows'" "entries rows = Inr es" "entries rows' = Inr es'"
  shows "\<exists>fs. es' = es @ fs"
  using assms by (auto simp: prefix_def entries_def res_simps split: if_splits)

lemma inspect_grows:
  assumes "prefix rows rows'" "store_inspect H implementation rows = Inr r"
    and "store_inspect H implementation rows' = Inr r'"
  shows "journal_step (rp_state r) (rp_state r')"
proof -
  from assms(2,3) obtain es es' where es: "entries rows = Inr es" "entries rows' = Inr es'"
    "replay H implementation es = Inr r" "replay H implementation es' = Inr r'"
    by (auto simp: store_inspect_def res_simps)
  then show ?thesis using entries_prefix [OF assms(1)] replay_grows by fastforce
qed

text \<open>
  C33: the receiver is invisible to the kernel. On a day in which operations of the receiver and
  commands of the kernel alternate in any order, each of which may fail, the commands print what
  they print without the receiver and leave the same tables, clock and identifiers; the rows that
  the journal had are still there, in order, before whatever the day added, and if the journal opens
  at both ends its state has only grown: no intent, outcome or verdict has changed, and no service,
  block or withdrawal is gone.
\<close>

theorem receiver_beside_kernel:
  assumes "day T R ts dk = (rs, dk')"
  shows "shell T (commands ts) (dk_world dk) = (rs, dk_world dk') \<and>
    (\<exists>new. dk_rows dk' = dk_rows dk @ new) \<and>
    (\<forall>r r'. store_inspect H implementation (dk_rows dk) = Inr r \<longrightarrow>
       store_inspect H implementation (dk_rows dk') = Inr r' \<longrightarrow> journal_step (rp_state r) (rp_state r'))"
proof (intro conjI allI impI)
  note projects = day_projects [OF assms]
  then show "shell T (commands ts) (dk_world dk) = (rs, dk_world dk')" "\<exists>new. dk_rows dk' = dk_rows dk @ new"
    by (simp_all add: prefix_def)
  show "journal_step (rp_state r) (rp_state r')"
    if "store_inspect H implementation (dk_rows dk) = Inr r" "store_inspect H implementation (dk_rows dk') = Inr r'" for r r'
    using projects that by (blast intro: inspect_grows)
qed

end
