(* ===== verification/Eligibility_Properties.thy ===== *)
theory Eligibility_Properties
  imports Receiver_Use Journal_Properties
begin

text \<open>
  When a view is eligible, and that the consumer's own check accepts exactly the eligible views of a
  journal (\<open>qualified/eligibility.py\<close> against \<open>qualified/checker.py\<close>).
\<close>

section \<open>The decision fails closed\<close>

lemma all_res_Inr [simp]: "all_res f xs = Inr u \<longleftrightarrow> list_all (\<lambda>x. f x = Inr ()) xs"
  unfolding all_res_def by (induction xs) (auto simp: res_simps)

lemma any_res_False: "any_res f xs = Inr False \<longleftrightarrow> list_all (\<lambda>x. f x = Inr False) xs"
  by (induction xs) (auto simp: res_simps split: if_splits)

lemma failure_reason_Nil: "failure_reason r = Inr [] \<longleftrightarrow> (\<exists>x. r = Inr x)"
  by (auto simp: failure_reason_def split: sum.splits)

lemma no_block_reason:
  "map_res f xs = Inr yss \<Longrightarrow> concat yss = [] \<longleftrightarrow> list_all (\<lambda>x. f x = Inr []) xs"
proof (induction xs arbitrary: yss)
  case (Cons x xs)
  then show ?case by (auto simp: res_simps)
qed simp

lemma block_reasons:
  "(\<exists>yss. map_res f xs = Inr yss \<and> concat yss = []) \<longleftrightarrow> list_all (\<lambda>x. f x = Inr []) xs"
proof (induction xs)
  case (Cons x xs)
  then show ?case by (auto simp: res_simps)
qed simp

lemma decision_reasons_Nil:
  "decision_reasons H A implementation n s q context input_text now st = Inr [] \<longleftrightarrow>
     qu_context q = context \<and> input_text \<in> set (cx_inputs context) \<and> cx_expose context \<and>
     int (qu_from q) \<le> now \<and> now < int (qu_until q) \<and>
     list_all (cost_paid (jn_costs (rp_state st))) (qu_costs q) \<and>
     list_all (\<lambda>w. depends_on context w = Inr False) (jn_withdrawn (rp_state st)) \<and>
     list_all (\<lambda>b. block_reason H q context input_text b = Inr []) (jn_blocks (rp_state st)) \<and>
     (\<exists>m. promotion H n s q = Inr m) \<and> reconstruct H A implementation q now = Inr ()"
  unfolding any_res_False [symmetric] block_reasons [symmetric]
  by (auto simp: decision_reasons_def res_simps failure_reason_Nil split: if_splits)

text \<open>A decision is eligible only when everything holds at once.\<close>

lemma decision_eligible_iff:
  "(\<exists>v. decision H A implementation n s q context input_text now st = Inr v \<and>
      vw_eligibility v = ''eligible'') \<longleftrightarrow>
     0 \<le> now \<and> now \<le> 2 ^ 31 \<and> qu_context q = context \<and> input_text \<in> set (cx_inputs context) \<and>
     cx_expose context \<and> int (qu_from q) \<le> now \<and> now < int (qu_until q) \<and>
     list_all (cost_paid (jn_costs (rp_state st))) (qu_costs q) \<and>
     list_all (\<lambda>w. depends_on context w = Inr False) (jn_withdrawn (rp_state st)) \<and>
     list_all (\<lambda>b. block_reason H q context input_text b = Inr []) (jn_blocks (rp_state st)) \<and>
     (\<exists>m. promotion H n s q = Inr m) \<and> reconstruct H A implementation q now = Inr () \<and>
     (\<exists>d. digest H (JDict (qualification_dump q)) = Inr d) \<and> (\<exists>d. digest H (JDict (context_dump context)) = Inr d)"
  (is "?l \<longleftrightarrow> ?r")
proof -
  have "?l \<longleftrightarrow> (0 \<le> now \<and> now \<le> 2 ^ 31) \<and> (decision_reasons H A implementation n s q context input_text now st = Inr []) \<and>
     (\<exists>d. digest H (JDict (qualification_dump q)) = Inr d) \<and> (\<exists>d. digest H (JDict (context_dump context)) = Inr d)"
    by (auto simp: decision_def res_simps)
  then show ?thesis unfolding decision_reasons_Nil by blast
qed

section \<open>The shape of recorded data\<close>

definition block_shape :: "dict \<Rightarrow> bool" where
  "block_shape b \<longleftrightarrow>
     ''artifact'' \<in> dom (map_of b) \<and> ''context'' \<in> dom (map_of b) \<and> ''input'' \<in> dom (map_of b) \<and>
     (\<exists>t. map_of b ''time'' = Some (JInt t)) \<and> (\<exists>e. map_of b ''event'' = Some (JStr e))"

definition withdrawn_shape :: "dict \<Rightarrow> bool" where
  "withdrawn_shape w \<longleftrightarrow> (\<exists>d. map_of w ''dependency'' = Some (JStr d))"

definition admitted_shape :: "host \<Rightarrow> string \<times> dict \<Rightarrow> bool" where
  "admitted_shape H p \<longleftrightarrow>
     (\<exists>q. qualification_of_dict (snd p) = Inr q \<and> digest H (JDict (qualification_dump q)) = Inr (fst p))"

definition journal_shape :: "host \<Rightarrow> journal \<Rightarrow> bool" where
  "journal_shape H j \<longleftrightarrow>
     list_all block_shape (jn_blocks j) \<and> list_all withdrawn_shape (jn_withdrawn j) \<and>
     list_all (admitted_shape H) (jn_qualifications j)"

lemma has_fields_Some: "has_fields d names \<Longrightarrow> k \<in> set names \<Longrightarrow> \<exists>v. map_of d k = Some v"
  by (metis has_fields_def domD dom_map_of_conv_image_fst)

lemma str_field: "list_all (\<lambda>(_, v). is_str v) d \<Longrightarrow> map_of d k = Some v \<Longrightarrow> \<exists>s. v = JStr s"
  by (drule map_of_SomeD) (auto simp: list_all_iff is_str_def split: json.splits)

lemma list_all_put: "list_all P d \<Longrightarrow> P (k, v) \<Longrightarrow> list_all P (put k v d)"
  unfolding put_def by (induction d) auto

lemma stamped_block:
  "has_fields d [''artifact'', ''context'', ''input'', ''reason''] \<Longrightarrow> block_shape (stamped d e)"
  using has_fields_Some [of d _ "''artifact''"] has_fields_Some [of d _ "''context''"] has_fields_Some [of d _ "''input''"]
  by (auto simp: block_shape_def stamped_def)

lemma stamped_withdrawn:
  assumes "has_fields d [''dependency'', ''reason'']" "list_all (\<lambda>(_, v). is_str v) d"
  shows "withdrawn_shape (stamped d e)"
proof -
  obtain v where v: "map_of d ''dependency'' = Some v" using has_fields_Some [OF assms(1)] by auto
  with str_field [OF assms(2) v] show ?thesis by (auto simp: withdrawn_shape_def stamped_def)
qed

lemma negative_block_shape: "negative_block H q d e = Inr b \<Longrightarrow> block_shape b"
  by (auto simp: negative_block_def res_simps block_shape_def)

lemma apply_checked_blocks:
  assumes "apply_checked H implementation e j = Inr j'"
  shows "jn_qualifications j' = jn_qualifications j \<and> jn_withdrawn j' = jn_withdrawn j \<and>
    (jn_blocks j' = jn_blocks j \<or> (\<exists>q d b. negative_block H q d e = Inr b \<and> jn_blocks j' = jn_blocks j @ [b]))"
  using assms by (auto simp: apply_checked_def Let_def res_simps split: if_splits)

lemma apply_blocking_shape:
  assumes "apply_blocking e j = Inr j'" "journal_shape H j"
  shows "journal_shape H j'"
  using assms stamped_block [of "en_data e" e] stamped_withdrawn [of "en_data e" e]
  by (auto simp: apply_blocking_def Let_def blocking_fields_def journal_shape_def split: if_splits)

lemma apply_entry_shape:
  assumes run: "apply_entry H implementation e j = Inr j'" and ok: "journal_shape H j"
  shows "journal_shape H j'"
proof (cases "en_kind e")
  case Admit
  then show ?thesis using run ok
    by (auto simp: apply_entry_def apply_admit_def res_simps journal_shape_def admitted_shape_def
        intro!: list_all_put split: if_splits)
next
  case Checked
  then have "apply_checked H implementation e j = Inr j'" using run by (simp add: apply_entry_def)
  from apply_checked_blocks [OF this] ok negative_block_shape show ?thesis
    by (auto simp: journal_shape_def)
next
  case Invalidate
  then show ?thesis using run ok apply_blocking_shape by (simp add: apply_entry_def)
next
  case Withdraw
  then show ?thesis using run ok apply_blocking_shape by (simp add: apply_entry_def)
next
  case Allegation
  then show ?thesis using run ok apply_blocking_shape by (simp add: apply_entry_def)
qed (use run ok in \<open>auto simp: apply_entry_def apply_cost_def apply_exposure_def apply_intent_def
    apply_attempt_def apply_outcome_def apply_reconciled_def Let_def res_simps journal_shape_def
    split: if_splits option.splits\<close>)

lemma fold_shape:
  "fold_res (replay_step H implementation) es s = Inr s' \<Longrightarrow> journal_shape H (ry_state s) \<Longrightarrow>
   journal_shape H (ry_state s')"
proof (induction es arbitrary: s)
  case (Cons e es)
  from Cons.prems(1) obtain s1 where s1: "replay_step H implementation e s = Inr s1"
    and rest: "fold_res (replay_step H implementation) es s1 = Inr s'" by (auto simp: res_simps)
  from s1 have "journal_shape H (ry_state s1)"
    by (cases rule: replay_step_cases) (use Cons.prems(2) apply_entry_shape in auto)
  then show ?case by (rule Cons.IH [OF rest])
qed simp

lemma replay_shape: "replay H implementation es = Inr st \<Longrightarrow> journal_shape H (rp_state st)"
  by (erule replay_Inr, drule fold_shape) (simp_all add: replay_start_def journal_shape_def empty_journal_def)

section \<open>The consumer's check\<close>

lemma withdrawn_agree:
  "list_all withdrawn_shape ws \<Longrightarrow>
   (\<exists>vs. map_res (\<lambda>w. bind_res (item w ''dependency'') hashable) ws = Inr vs \<and>
      set vs \<inter> JStr ` set (cx_dependencies context) = {}) \<longleftrightarrow>
   list_all (\<lambda>w. depends_on context w = Inr False) ws"
proof (induction ws)
  case (Cons w ws)
  then obtain d where "map_of w ''dependency'' = Some (JStr d)" by (auto simp: withdrawn_shape_def)
  then have "bind_res (item w ''dependency'') hashable = Inr (JStr d)"
    "depends_on context w = Inr (JStr d \<in> JStr ` set (cx_dependencies context))"
    by (simp_all add: item_def depends_on_def)
  with Cons show ?case by (auto simp: res_simps)
qed simp

lemma blocks_agree:
  assumes "block_shape b" "''artifact_digest'' \<in> dom (map_of (qu_candidate q))"
    and "digest H (JDict (context_dump context)) = Inr cx"
  shows "not_blocked H q context input_text b = Inr () \<longleftrightarrow> block_reason H q context input_text b = Inr []"
proof -
  from assms obtain a c i t e x where "map_of b ''artifact'' = Some a" "map_of b ''context'' = Some c"
    "map_of b ''input'' = Some i" "map_of b ''time'' = Some (JInt t)" "map_of b ''event'' = Some (JStr e)"
    "map_of (qu_candidate q) ''artifact_digest'' = Some x"
    unfolding block_shape_def by blast
  then show ?thesis using assms(3)
    by (simp add: not_blocked_def block_reason_def item_def get_or_def ensure_def)
qed

lemma reconstruct_candidate:
  assumes "reconstruct H A implementation q now = Inr ()"
  shows "\<exists>c. alt_candidate_of A (qu_candidate q) = Inr c"
proof -
  obtain q' where "qualification_of_dict (qualification_dump q) = Inr q'" "\<exists>c. alt_candidate_of A (qu_candidate q') = Inr c"
    using assms by (auto simp: reconstruct_def res_simps)
  moreover from this(1) have "qu_candidate q' = qu_candidate q"
    by (auto simp: qualification_of_dict_def qualification_dump_def res_simps required_def)
  ultimately show ?thesis by simp
qed

text \<open>
  C35: the two implementations agree. On the journal and the tables of one moment, the consumer's
  check accepts the view that the decision made of an admitted qualification, with a claim added,
  exactly when the decision is eligible and the claim is the one of the promoted record.
\<close>

theorem consumer_check_agrees:
  assumes law: "\<And>d c. alt_candidate_of A d = Inr c \<Longrightarrow> ''artifact_digest'' \<in> dom (map_of d)"
    and journal: "entries rows = Inr es" "replay H implementation es = Inr st"
    and admitted: "map_of (jn_qualifications (rp_state st)) d = Some raw" "qualification_of_dict raw = Inr q"
    and decided: "decision H A implementation n s q context input_text now st = Inr v"
  shows "check_view H A implementation n s rows (v\<lparr>vw_claim := Some c\<rparr>) context input_text now = Inr () \<longleftrightarrow>
    vw_eligibility v = ''eligible'' \<and> (\<exists>m. promotion H n s q = Inr m \<and> mem_claim m = c)"
proof -
  note shape = replay_shape [OF journal(2)]
  from shape admitted have d: "digest H (JDict (qualification_dump q)) = Inr d"
    by (fastforce simp: journal_shape_def admitted_shape_def list_all_iff dest!: map_of_SomeD)
  from decided d obtain reasons cx where
    reasons: "decision_reasons H A implementation n s q context input_text now st = Inr reasons"
    and cx: "digest H (JDict (context_dump context)) = Inr cx"
    and v: "v = \<lparr>vw_reasons = reasons, vw_eligibility = (if reasons = [] then ''eligible'' else ''blocked''),
       vw_snapshot = rp_revision st, vw_qualification = d, vw_memory = qu_memory q, vw_update = qu_update q,
       vw_workflow = qu_workflow q, vw_context = cx, vw_expiry = qu_until q, vw_authority = JNull,
       vw_authentication = JNull, vw_claim = None\<rparr>"
    by (auto simp: decision_def res_simps)
  have blocks: "list_all (\<lambda>b. not_blocked H q context input_text b = Inr ()) (jn_blocks (rp_state st)) \<longleftrightarrow>
      list_all (\<lambda>b. block_reason H q context input_text b = Inr []) (jn_blocks (rp_state st))"
    if "reconstruct H A implementation q now = Inr ()"
    using shape blocks_agree [OF _ _ cx] reconstruct_candidate [OF that] law
    by (auto simp: journal_shape_def list_all_iff)
  have withdrawn: "(\<exists>vs. map_res (\<lambda>w. bind_res (item w ''dependency'') hashable) (jn_withdrawn (rp_state st)) = Inr vs \<and>
      set vs \<inter> JStr ` set (cx_dependencies context) = {}) \<longleftrightarrow>
      list_all (\<lambda>w. depends_on context w = Inr False) (jn_withdrawn (rp_state st))"
    using shape by (intro withdrawn_agree) (simp add: journal_shape_def)
  have "check_view H A implementation n s rows (v\<lparr>vw_claim := Some c\<rparr>) context input_text now = Inr () \<longleftrightarrow>
      reasons = [] \<and> (\<exists>m. promotion H n s q = Inr m \<and> mem_claim m = c)"
    using decision_reasons_Nil [of H A implementation n s q "context" input_text now st] reasons blocks withdrawn
    by (auto simp: check_view_def journal res_simps admitted v view_bound_def cx Let_def)
  then show ?thesis by (simp add: v)
qed

end
