(* ===== verification/Flat_Journal.thy ===== *)
theory Flat_Journal
  imports Journal_Properties Concrete_Host
begin

text \<open>
  The replay under a host whose digest of every text is the same 64 zeros, so that the chain of
  digests holds by construction: it is then the application of the entries, one after the other.
\<close>

section \<open>The size of a text\<close>

fun weight :: "json \<Rightarrow> nat" where
  "weight (JDict d) = 2 + sum_list (map (\<lambda>(k, v). 6 * length k + 4 + weight v) d)"
| "weight (JList vs) = 2 + sum_list (map (\<lambda>v. Suc (weight v)) vs)"
| "weight (JStr s) = 6 * length s + 2"
| "weight (JInt i) = length (int_text i)"
| "weight _ = 5"

lemma length_quote: "length (quote s) \<le> 6 * length s + 2"
proof -
  have "length (quote_char c) \<le> 6" for c by (simp add: quote_char_def)
  then have "length (concat (map quote_char s)) \<le> 6 * length s"
    by (induction s) (auto intro: add_le_mono)
  then show ?thesis by (simp add: quote_def)
qed

lemma length_join_le: "length (join '','' xs) \<le> sum_list (map (\<lambda>x. Suc (length x)) xs)"
  by (induction xs rule: induct_list012) auto

lemma length_render: "float_free v \<Longrightarrow> length (render F v) \<le> weight v"
proof (induction v rule: weight.induct)
  case (1 d)
  have "length (join '','' (map (\<lambda>(k, v). quote k @ '':'' @ render F v) d)) \<le>
      sum_list (map (\<lambda>(k, v). Suc (length (quote k @ '':'' @ render F v))) d)"
    using length_join_le [of "map (\<lambda>(k, v). quote k @ '':'' @ render F v) d"]
    by (simp add: comp_def case_prod_unfold)
  also have "\<dots> \<le> sum_list (map (\<lambda>(k, v). 6 * length k + 4 + weight v) d)"
  proof (rule sum_list_mono, clarify)
    fix k v assume "(k, v) \<in> set d"
    then have "length (render F v) \<le> weight v" using 1 by (force simp: list_all_iff)
    then show "Suc (length (quote k @ '':'' @ render F v)) \<le> 6 * length k + 4 + weight v"
      using length_quote [of k] by simp
  qed
  finally show ?case by simp
next
  case (2 vs)
  have "length (join '','' (map (render F) vs)) \<le> sum_list (map (\<lambda>v. Suc (length (render F v))) vs)"
    using length_join_le [of "map (render F) vs"] by (simp add: comp_def)
  also have "\<dots> \<le> sum_list (map (\<lambda>v. Suc (weight v)) vs)"
    using 2 by (intro sum_list_mono) (auto simp: list_all_iff)
  finally show ?case by simp
qed (use length_quote [simplified] in auto)

lemma length_utf8: "length (utf8 s) \<le> 2 * length s"
  by (induction s) (auto simp: utf8_def utf8_char_def Let_def)

lemma weight_sort_keys [simp]: "weight (sort_keys v) = weight v"
proof (induction v rule: weight.induct)
  case (1 d)
  have "sum_list (map (\<lambda>p. 6 * length (fst p) + 4 + weight (sort_keys (snd p))) d) =
      sum_list (map (\<lambda>p. 6 * length (fst p) + 4 + weight (snd p)) d)"
    using 1 by (intro arg_cong [where f = sum_list] map_cong) auto
  then show ?case by (simp add: sum_list_sort_key comp_def case_prod_unfold)
next
  case (2 vs)
  have "sum_list (map (\<lambda>v. Suc (weight (sort_keys v))) vs) = sum_list (map (\<lambda>v. Suc (weight v)) vs)"
    using 2 by (intro arg_cong [where f = sum_list] map_cong) auto
  then show ?case by (simp add: comp_def)
qed simp_all

text \<open>Documents that encode whatever the host.\<close>

definition modest :: "nat \<Rightarrow> json \<Rightarrow> bool" where
  "modest k v \<longleftrightarrow> float_free v \<and> proper v \<and> within 20 v \<and> nodes v \<le> k \<and> weight v \<le> 20 * k"

lemma within_mono: "within n v \<Longrightarrow> n \<le> m \<Longrightarrow> within m v"
  by (induction n v arbitrary: m rule: within.induct) (auto simp: list_all_iff)

lemma modest_encoded:
  assumes "modest k v" "k \<le> 40000"
  shows "encoded H v = Inr (render (dumps_float H) (sort_keys v))"
proof -
  have v: "float_free v" "proper v" "within 20 v" "nodes v \<le> 50000" "weight v \<le> 800000"
    using assms by (auto simp: modest_def)
  have "within 20 u \<Longrightarrow> within 24 u" for u by (erule within_mono) simp
  moreover have "length (utf8 (render (dumps_float H) (sort_keys v))) \<le> 2000000"
    using length_utf8 [of "render (dumps_float H) (sort_keys v)"]
      length_render [of "sort_keys v" "dumps_float H"] v by simp
  ultimately show ?thesis using v by (simp add: encoded_Inr wire_loads_render)
qed

section \<open>A host with flat digests\<close>

definition zeros :: string where
  "zeros = replicate 64 (CHR ''0'')"

definition flat_host :: host where
  "flat_host = plain_host\<lparr>sha256 := (\<lambda>_. zeros)\<rparr>"

lemma zeros_hash [simp]: "is_hash zeros"
  by (simp add: is_hash_def zeros_def is_hex_def list_all_iff)

lemma zeros_length [simp]: "length zeros = 64"
  by (simp add: zeros_def)

lemma flat_digest: "modest k v \<Longrightarrow> k \<le> 40000 \<Longrightarrow> digest flat_host v = Inr zeros"
  using modest_encoded [of k v flat_host] by (simp add: digest_def sha_def flat_host_def)

lemma flat_entries:
  assumes "\<forall>e \<in> set us. modest 3500 (JDict (entry_dump e))" "length us \<le> 10"
    and "\<forall>e \<in> set us. within 19 (JDict (entry_dump e))"
  shows "digest flat_host (entries_json us) = Inr zeros"
proof -
  have "sum_list (map (\<lambda>e. nodes (JDict (entry_dump e))) us) \<le> 3500 * length us"
    "sum_list (map (\<lambda>e. Suc (weight (JDict (entry_dump e)))) us) \<le> 70001 * length us"
    using assms(1) by (induction us) (auto simp: modest_def simp del: nodes.simps weight.simps)
  then have "modest 36000 (entries_json us)"
    using assms
    by (auto simp: modest_def entries_json_def list_all_iff comp_def simp del: nodes.simps(1) weight.simps(1))
  then show ?thesis by (rule flat_digest) simp
qed

section \<open>The replay of entries with flat digests\<close>

definition flat_entry :: "entry \<Rightarrow> bool" where
  "flat_entry e \<longleftrightarrow>
     modest 3500 (JDict (entry_dump e)) \<and> within 19 (JDict (entry_dump e)) \<and> en_previous e = zeros \<and>
     entry_of_dict (entry_dump e) = Inr e"

lemma flat_digests:
  "flat_entry e \<Longrightarrow> digest flat_host (JDict (entry_dump e)) = Inr zeros"
  "list_all flat_entry us \<Longrightarrow> length us \<le> 10 \<Longrightarrow> digest flat_host (entries_json us) = Inr zeros"
  by (auto simp: flat_entry_def list_all_iff intro: flat_digest [of 3500] intro!: flat_entries)

text \<open>A step of the replay, once the entry itself has been applied.\<close>

lemma flat_step:
  assumes "flat_entry e" "list_all flat_entry (ry_unique s)" "length (ry_unique s) \<le> 10"
    and "map_of (ry_ids s) (en_id e) = None" "apply_entry flat_host zeros e (ry_state s) = Inr j"
  shows "replay_step flat_host zeros e s =
    Inr \<lparr>ry_state = j, ry_unique = ry_unique s @ [e], ry_ids = put (en_id e) zeros (ry_ids s)\<rparr>"
  using assms flat_digests(1) [OF assms(1)] flat_digests(2) [OF assms(2,3)]
  by (simp add: replay_step_def flat_entry_def)

fun apply_all :: "host \<Rightarrow> string \<Rightarrow> entry list \<Rightarrow> journal \<Rightarrow> journal res" where
  "apply_all H implementation [] j = Inr j"
| "apply_all H implementation (e # es) j =
     bind_res (apply_entry H implementation e j) (apply_all H implementation es)"

lemma flat_fold:
  "apply_all flat_host zeros es (ry_state s) = Inr j \<Longrightarrow> list_all flat_entry es \<Longrightarrow> list_all flat_entry (ry_unique s) \<Longrightarrow>
   length (ry_unique s) + length es \<le> 10 \<Longrightarrow> distinct (map en_id es) \<Longrightarrow>
   \<forall>d \<in> set es. map_of (ry_ids s) (en_id d) = None \<Longrightarrow>
   \<exists>s'. fold_res (replay_step flat_host zeros) es s = Inr s' \<and> ry_state s' = j \<and> ry_unique s' = ry_unique s @ es"
proof (induction es arbitrary: s)
  case (Cons e es)
  then obtain j1 where j1: "apply_entry flat_host zeros e (ry_state s) = Inr j1"
    and rest: "apply_all flat_host zeros es j1 = Inr j" by (auto simp: res_simps)
  let ?s = "\<lparr>ry_state = j1, ry_unique = ry_unique s @ [e], ry_ids = put (en_id e) zeros (ry_ids s)\<rparr>"
  have "replay_step flat_host zeros e s = Inr ?s"
    by (rule flat_step) (use Cons.prems j1 in auto)
  moreover have "\<exists>s'. fold_res (replay_step flat_host zeros) es ?s = Inr s' \<and> ry_state s' = j \<and>
      ry_unique s' = ry_unique ?s @ es"
    by (rule Cons.IH) (use Cons.prems rest in \<open>auto simp: image_iff\<close>)
  ultimately show ?case by simp
qed simp

lemma flat_replay:
  assumes "apply_all flat_host zeros es empty_journal = Inr j" "list_all flat_entry es" "length es \<le> 10"
    and "distinct (map en_id es)"
  shows "replay flat_host zeros es = Inr \<lparr>rp_state = j, rp_revision = zeros, rp_unresolved = unresolved_ids j\<rparr>"
proof -
  have "\<exists>s'. fold_res (replay_step flat_host zeros) es replay_start = Inr s' \<and> ry_state s' = j \<and>
      ry_unique s' = ry_unique replay_start @ es"
    by (rule flat_fold) (use assms in \<open>simp_all add: replay_start_def\<close>)
  then obtain s where "fold_res (replay_step flat_host zeros) es replay_start = Inr s" "ry_state s = j"
      "ry_unique s = es" by (auto simp: replay_start_def)
  then show ?thesis using assms flat_digests(2) [OF assms(2,3)] by (simp add: replay_def)
qed

end
