(* ===== verification/Journal_Witness.thy ===== *)
theory Journal_Witness
  imports Flat_Journal
begin

text \<open>
  A whole life of one use, replayed: the cost is paid, the qualification admitted, the intent
  recorded, attempted, answered, checked and reconciled. Digests are the same 64 zeros for every
  text, so the chain of digests holds by construction.
\<close>

section \<open>The entries\<close>

definition paid_cost :: cost where
  "paid_cost = \<lparr>cst_id = ''c1'', cst_stage = ''use'', cst_unit = ''work-unit'', cst_amount = ''1''\<rparr>"

definition lab_context :: receiver_context where
  "lab_context = \<lparr>cx_workspace = ''w'', cx_receiver = ''r'', cx_mission = ''m'', cx_family = ''f'', cx_context = ''x'',
     cx_inputs = [''b''], cx_protocol = ''normalize-protocol-v1'', cx_evaluator = ''normalize-checker-v1'',
     cx_tool = ''normalize-lines-v1'', cx_clock = ''t'', cx_dependencies = [zeros],
     cx_checks = [''normalize-checker-v1''], cx_restrictions = [''local-only''], cx_expose = True\<rparr>"

definition lab_source :: source where
  "lab_source = \<lparr>src_event = ''e'', src_producer = zeros, src_raw = [], src_sha = zeros\<rparr>"

definition lab_qualification :: qualification where
  "lab_qualification = \<lparr>qu_memory = ''mem_1'', qu_update = ''upd_1'', qu_workflow = zeros, qu_context = lab_context,
     qu_from = 0, qu_until = 100, qu_cutoff = 1, qu_training = [lab_source, lab_source], qu_evaluation = [lab_source],
     qu_formation = [], qu_candidate = [], qu_offer = [], qu_mapping = [], qu_costs = [paid_cost]\<rparr>"

lemma digit_one: "digit_char (Suc 0) = CHR ''1''"
  by code_simp

lemma lab_reads:
  "cost_of_dict (cost_dump paid_cost) = Inr paid_cost"
  "context_of_dict (context_dump lab_context) = Inr lab_context"
  "source_of_dict (source_dump lab_source) = Inr lab_source"
proof -
  show "source_of_dict (source_dump lab_source) = Inr lab_source"
    by (simp add: source_of_dict_def source_dump_def lab_source_def only_fields_def required_def strict_str_def
        is_id_def is_id_char_def)
  show "cost_of_dict (cost_dump paid_cost) = Inr paid_cost"
    by (simp add: cost_of_dict_def cost_dump_def paid_cost_def only_fields_def required_def optional_def strict_str_def
        is_id_def is_id_char_def literal_def stages_def exact_def zero_denominator_def split_slash_def fraction_def
        plain_numeral_def is_digit_def digits_val_def digit_val_def nat_text.simps digit_one strip_def is_space_def)
  show "context_of_dict (context_dump lab_context) = Inr lab_context"
    by (simp add: context_of_dict_def context_dump_def lab_context_def only_fields_def required_def optional_def
        strict_str_def is_id_def is_id_char_def literal_def distinct_domain_def bounded_list_def list_value_def
        strs_json_def)
qed

lemma lab_qualification_reads: "qualification_of_dict (qualification_dump lab_qualification) = Inr lab_qualification"
  by (simp add: qualification_of_dict_def qualification_dump_def lab_qualification_def only_fields_def required_def
      optional_def strict_str_def is_id_def is_id_char_def literal_def bounded_list_def list_value_def nested_def
      lab_reads str_map_value_def map_value_def str_map_json_def)

definition life :: "entry list" where
  "life =
     [\<lparr>en_id = ''c'', en_previous = zeros, en_time = 1, en_kind = CostEntry, en_data = cost_dump paid_cost\<rparr>,
      \<lparr>en_id = ''q'', en_previous = zeros, en_time = 1, en_kind = Admit, en_data = qualification_dump lab_qualification\<rparr>,
      \<lparr>en_id = ''u'', en_previous = zeros, en_time = 2, en_kind = IntentEntry,
        en_data = [(''qualification'', JStr zeros), (''input'', JStr ''b''), (''action'', JDict []),
          (''cost'', JStr ''c1''), (''snapshot'', JStr zeros)]\<rparr>,
      \<lparr>en_id = ''a'', en_previous = zeros, en_time = 2, en_kind = Attempt, en_data = [(''intent'', JStr ''u'')]\<rparr>,
      \<lparr>en_id = ''o'', en_previous = zeros, en_time = 2, en_kind = OutcomeEntry,
        en_data = [(''intent'', JStr ''u''), (''output'', JStr ''b''), (''status'', JStr ''received'')]\<rparr>,
      \<lparr>en_id = ''k'', en_previous = zeros, en_time = 2, en_kind = Checked,
        en_data = [(''intent'', JStr ''u''), (''checker'', JStr ''normalize-checker-v1'')]\<rparr>,
      \<lparr>en_id = ''d'', en_previous = zeros, en_time = 2, en_kind = Reconciled, en_data = [(''intent'', JStr ''u'')]\<rparr>]"

lemma life_small:
  "\<forall>e \<in> set life. modest 2000 (JDict (entry_dump e)) \<and> within 19 (JDict (entry_dump e))"
  by (simp add: life_def modest_def entry_dump_def cost_dump_def paid_cost_def qualification_dump_def
      lab_qualification_def context_dump_def lab_context_def source_dump_def lab_source_def strs_json_def
      str_map_json_def int_text_def nat_text.simps zeros_def)

lemma life_reads: "\<forall>e \<in> set life. entry_of_dict (entry_dump e) = Inr e"
  by (simp add: life_def entry_dump_def entry_of_dict_def only_fields_def required_def optional_def literal_def
      strict_str_def is_id_def is_id_char_def entry_kind_of_def entry_kinds_def)

lemma life_flat: "list_all flat_entry life"
proof -
  have "modest 2000 v \<Longrightarrow> modest 3500 v" for v by (simp add: modest_def)
  moreover have "\<forall>e \<in> set life. en_previous e = zeros" by (simp add: life_def)
  ultimately show ?thesis using life_small life_reads by (simp add: list_all_iff flat_entry_def)
qed

text \<open>The state at the end.\<close>

definition life_end :: journal where
  "life_end =
     \<lparr>jn_qualifications = [(zeros, qualification_dump lab_qualification)], jn_costs = [(''c1'', cost_dump paid_cost)],
      jn_blocks = [], jn_withdrawn = [],
      jn_intents = [(''u'', [(''qualification'', JStr zeros), (''input'', JStr ''b''), (''action'', JDict []),
          (''cost'', JStr ''c1''), (''snapshot'', JStr zeros)])],
      jn_attempts = [(''u'', ''a'')],
      jn_outcomes = [(''u'', [(''intent'', JStr ''u''), (''output'', JStr ''b''), (''status'', JStr ''received'')])],
      jn_checked = [(''u'', True)], jn_services = [''u''], jn_exposures = [], jn_allegations = []\<rparr>"

lemma normal_form_line: "normal_form ''b'' = ''b''"
  by (simp add: normal_form_def splitlines_last is_break_def)

lemma small_digests [simp]:
  "digest flat_host (JDict []) = Inr zeros"
  "digest flat_host (JDict (qualification_dump lab_qualification)) = Inr zeros"
proof -
  show "digest flat_host (JDict []) = Inr zeros" by (rule flat_digest [of 10]) (simp_all add: modest_def)
  show "digest flat_host (JDict (qualification_dump lab_qualification)) = Inr zeros"
    by (rule flat_digest [of 2000])
       (simp_all add: modest_def cost_dump_def paid_cost_def qualification_dump_def
         lab_qualification_def context_dump_def lab_context_def source_dump_def lab_source_def strs_json_def
         str_map_json_def int_text_def nat_text.simps zeros_def)
qed

lemma lab_cost: "qu_costs lab_qualification = [paid_cost]"
  by (simp add: lab_qualification_def)

lemma cost_id: "cst_id paid_cost = ''c1''"
  by (simp add: paid_cost_def)

lemma life_applies: "apply_all flat_host zeros life empty_journal = Inr life_end"
proof -
  have paid: "cost_paid [(''c1'', cost_dump paid_cost)] paid_cost"
    by (simp add: cost_paid_def paid_cost_def cost_dump_def)
  show ?thesis
    using paid
    by (simp add: life_def apply_entry_def empty_journal_def put_def life_end_def has_fields_def require_key_def item_def
        apply_cost_def lab_reads apply_admit_def lab_qualification_reads lab_cost cost_id apply_intent_def
        apply_attempt_def apply_outcome_def apply_checked_def outcome_operation_def text_value_def strict_str_def checked_iff
        normal_form_line apply_reconciled_def insert_commute)
qed

lemma life_replays:
  obtains r where "replay flat_host zeros life = Inr r" "rp_state r = life_end"
  using flat_replay [OF life_applies life_flat] by (simp add: life_def)

section \<open>The properties at work\<close>

theorem services_are_normalized_witness:
  "\<exists>r d o'. replay flat_host zeros life = Inr r \<and> ''u'' \<in> set (jn_services (rp_state r)) \<and>
     map_of (jn_intents (rp_state r)) ''u'' = Some d \<and> map_of (jn_outcomes (rp_state r)) ''u'' = Some o' \<and>
     map_of o' ''output'' = Some (JStr ''b'')"
proof -
  obtain r where r: "replay flat_host zeros life = Inr r" "rp_state r = life_end" by (rule life_replays)
  then have u: "''u'' \<in> set (jn_services (rp_state r))" by (simp add: life_end_def)
  from services_are_normalized [OF r(1)] have
    "\<forall>i \<in> set (jn_services (rp_state r)). \<exists>d o' inp.
       map_of (jn_intents (rp_state r)) i = Some d \<and> map_of (jn_outcomes (rp_state r)) i = Some o' \<and>
       map_of d ''input'' = Some (JStr inp) \<and> map_of o' ''output'' = Some (JStr (normal_form inp))"
    by blast
  then obtain d o' inp where d: "map_of (jn_intents (rp_state r)) ''u'' = Some d"
    "map_of (jn_outcomes (rp_state r)) ''u'' = Some o'" "map_of d ''input'' = Some (JStr inp)"
    "map_of o' ''output'' = Some (JStr (normal_form inp))" using u by blast
  then have "inp = ''b''" using r(2) by (auto simp: life_end_def)
  then have "map_of o' ''output'' = Some (JStr ''b'')" using d(4) by (simp only: normal_form_line)
  then show ?thesis using r(1) u d(1,2) by (intro exI conjI)
qed

theorem redelivery_is_noop_witness:
  "replay flat_host zeros (life @ [hd life]) = replay flat_host zeros life"
proof -
  obtain r where r: "replay flat_host zeros life = Inr r" by (rule life_replays)
  have "hd life \<in> set life" "length life < 256" by (simp_all add: life_def)
  from redelivery_is_noop [OF r this] show ?thesis using r by simp
qed

theorem journal_only_grows_witness:
  "\<exists>r r'. replay flat_host zeros (take 3 life) = Inr r \<and> replay flat_host zeros life = Inr r' \<and>
     journal_step (rp_state r) (rp_state r')"
proof -
  obtain r' where r': "replay flat_host zeros life = Inr r'" by (rule life_replays)
  then have "replay flat_host zeros (take 3 life @ drop 3 life) = Inr r'" by simp
  from journal_only_grows [OF this] r' show ?thesis by blast
qed

theorem journal_hash_chain_witness:
  "\<exists>r. replay flat_host zeros life = Inr r \<and> digest flat_host (entries_json (delivered life)) = Inr (rp_revision r)"
proof -
  obtain r where r: "replay flat_host zeros life = Inr r" by (rule life_replays)
  have "delivered life = life" by (simp add: delivered_def life_def)
  moreover have "list_all plain_data life"
    using life_small by (auto simp: list_all_iff modest_def plain_data_def entry_dump_def)
  ultimately have "list_all plain_data (delivered life)" by simp
  from journal_hash_chain [OF r r refl this this] r show ?thesis by blast
qed

end
