(* ===== verification/Wire_Types.thy ===== *)
theory Wire_Types
  imports Qualified_Journal
begin

text \<open>
  The types of the wire format (\<open>qualified/wire.py\<close>) as predicates on the records, and that the
  validation of a document accepts exactly their values and gives back what was written.
\<close>

section \<open>Readers and their ranges\<close>

lemma strict_str_iff: "strict_str P v = Inr s \<longleftrightarrow> v = JStr s \<and> P s"
  by (cases v) (auto simp: strict_str_def)

lemma str_value_iff: "str_value v = Inr s \<longleftrightarrow> v = JStr s"
  by (cases v) auto

lemma dict_value_iff: "dict_value v = Inr d \<longleftrightarrow> v = JDict d"
  by (cases v) auto

lemma strict_bool_iff: "strict_bool v = Inr b \<longleftrightarrow> v = JBool b"
  by (cases v) auto

lemma tick_value_range: "tick_value v = Inr t \<Longrightarrow> t \<le> 2 ^ 31"
  by (cases v) (auto split: if_splits)

lemma required_P: "required rd d k = Inr x \<Longrightarrow> (\<And>v. rd v = Inr x \<Longrightarrow> P x) \<Longrightarrow> P x"
  by (auto simp: required_def split: option.splits)

lemma optional_P: "optional rd y d k = Inr x \<Longrightarrow> P y \<Longrightarrow> (\<And>v. rd v = Inr x \<Longrightarrow> P x) \<Longrightarrow> P x"
  by (auto simp: optional_def split: option.splits)

lemma map_res_P: "map_res f vs = Inr xs \<Longrightarrow> (\<And>v x. f v = Inr x \<Longrightarrow> P x) \<Longrightarrow> list_all P xs"
  by (induction vs arbitrary: xs) (auto simp: res_simps)

lemma list_value_P: "list_value rd v = Inr xs \<Longrightarrow> (\<And>v x. rd v = Inr x \<Longrightarrow> P x) \<Longrightarrow> list_all P xs"
  by (auto simp: list_value_def split: json.splits intro: map_res_P)

lemma bounded_list_P:
  "bounded_list lo hi rd v = Inr xs \<Longrightarrow> (\<And>v x. rd v = Inr x \<Longrightarrow> P x) \<Longrightarrow>
   lo \<le> length xs \<and> length xs \<le> hi \<and> list_all P xs"
  by (auto simp: bounded_list_def res_simps split: if_splits intro: list_value_P)

definition distinct_ok :: "string list \<Rightarrow> bool" where
  "distinct_ok vs \<longleftrightarrow> distinct vs \<and> list_all (\<lambda>v. length v \<le> 4096) vs"

lemma distinct_domain_iff: "distinct_domain r = Inr vs \<longleftrightarrow> r = Inr vs \<and> distinct_ok vs"
  by (auto simp: distinct_domain_def distinct_ok_def res_simps list_all_iff not_less split: if_splits)

lemma exact_same: "exact s = Inr a \<Longrightarrow> a = s \<and> exact a = Inr a"
  by (auto simp: exact_def Let_def split: if_splits option.splits)

lemma required_str: "required (strict_str P) d k = Inr x \<Longrightarrow> P x"
  by (erule required_P) (simp add: strict_str_iff)

lemma optional_str: "optional (strict_str P) y d k = Inr x \<Longrightarrow> P y \<Longrightarrow> P x"
  by (erule optional_P) (simp_all add: strict_str_iff)

lemma required_tick: "required tick_value d k = Inr t \<Longrightarrow> t \<le> 2147483648"
  by (erule required_P) (drule tick_value_range, simp)

lemma required_exact: "required (\<lambda>v. bind_res (str_value v) exact) d k = Inr a \<Longrightarrow> exact a = Inr a"
  by (erule required_P) (auto simp: res_simps dest: exact_same)

definition wf_list :: "nat \<Rightarrow> nat \<Rightarrow> ('a \<Rightarrow> bool) \<Rightarrow> 'a list \<Rightarrow> bool" where
  "wf_list lo hi P xs \<longleftrightarrow> lo \<le> length xs \<and> length xs \<le> hi \<and> list_all P xs"

lemma required_list:
  "required (bounded_list lo hi rd) d k = Inr xs \<Longrightarrow> (\<And>v x. rd v = Inr x \<Longrightarrow> P x) \<Longrightarrow> wf_list lo hi P xs"
  unfolding wf_list_def by (erule required_P) (rule bounded_list_P)

lemma domain_P:
  assumes "distinct_domain (bounded_list lo hi rd v) = Inr xs" and P: "\<And>v x. rd v = Inr x \<Longrightarrow> P x"
  shows "wf_list lo hi P xs \<and> distinct_ok xs"
proof -
  have xs: "bounded_list lo hi rd v = Inr xs" "distinct_ok xs"
    using assms(1) by (simp_all add: distinct_domain_iff)
  have "lo \<le> length xs \<and> length xs \<le> hi \<and> list_all P xs"
    by (rule bounded_list_P [OF xs(1)]) (rule P)
  with xs(2) show ?thesis by (simp add: wf_list_def)
qed

lemma required_domain:
  "required (\<lambda>v. distinct_domain (bounded_list lo hi rd v)) d k = Inr xs \<Longrightarrow>
   (\<And>v x. rd v = Inr x \<Longrightarrow> P x) \<Longrightarrow> wf_list lo hi P xs \<and> distinct_ok xs"
  by (erule required_P) (rule domain_P)

lemma optional_domain:
  "optional (\<lambda>v. distinct_domain (bounded_list lo hi rd v)) y d k = Inr xs \<Longrightarrow>
   wf_list lo hi P y \<and> distinct_ok y \<Longrightarrow>
   (\<And>v x. rd v = Inr x \<Longrightarrow> P x) \<Longrightarrow> wf_list lo hi P xs \<and> distinct_ok xs"
  by (erule optional_P) (assumption, rule domain_P)

lemma bounded_list_json:
  "(\<And>x. x \<in> set xs \<Longrightarrow> rd (w x) = Inr x) \<Longrightarrow> wf_list lo hi P xs \<Longrightarrow>
   bounded_list lo hi rd (JList (map w xs)) = Inr xs"
proof -
  assume rd: "\<And>x. x \<in> set xs \<Longrightarrow> rd (w x) = Inr x" and "wf_list lo hi P xs"
  moreover from rd have "map_res rd (map w xs) = Inr xs" by (induction xs) auto
  ultimately show ?thesis by (simp add: bounded_list_def list_value_def wf_list_def)
qed

section \<open>The types\<close>

definition wf_cost :: "cost \<Rightarrow> bool" where
  "wf_cost c \<longleftrightarrow>
     is_id (cst_id c) \<and> cst_stage c \<in> set stages \<and> cst_unit c = ''work-unit'' \<and>
     exact (cst_amount c) = Inr (cst_amount c)"

definition wf_domain :: "nat \<Rightarrow> (string \<Rightarrow> bool) \<Rightarrow> string list \<Rightarrow> bool" where
  "wf_domain lo P vs \<longleftrightarrow> wf_list lo 8 P vs \<and> distinct_ok vs"

definition wf_context :: "receiver_context \<Rightarrow> bool" where
  "wf_context c \<longleftrightarrow>
     list_all is_id [cx_workspace c, cx_receiver c, cx_mission c, cx_family c, cx_context c, cx_protocol c,
       cx_evaluator c, cx_tool c, cx_clock c] \<and>
     wf_domain 1 (\<lambda>_. True) (cx_inputs c) \<and> wf_domain 1 is_hash (cx_dependencies c) \<and>
     wf_domain 1 is_id (cx_checks c) \<and> wf_domain 0 is_id (cx_restrictions c)"

definition wf_source :: "source \<Rightarrow> bool" where
  "wf_source s \<longleftrightarrow> is_id (src_event s) \<and> is_hash (src_producer s) \<and> is_hash (src_sha s)"

definition wf_qualification :: "qualification \<Rightarrow> bool" where
  "wf_qualification q \<longleftrightarrow>
     is_id (qu_memory q) \<and> is_id (qu_update q) \<and> is_hash (qu_workflow q) \<and> wf_context (qu_context q) \<and>
     list_all (\<lambda>t. t \<le> 2147483648) [qu_from q, qu_until q, qu_cutoff q] \<and>
     wf_list 2 8 wf_source (qu_training q) \<and> wf_list 1 8 wf_source (qu_evaluation q) \<and>
     wf_list 1 32 wf_cost (qu_costs q)"

definition wf_entry :: "entry \<Rightarrow> bool" where
  "wf_entry e \<longleftrightarrow> is_id (en_id e) \<and> is_hash (en_previous e) \<and> en_time e \<le> 2147483648"

section \<open>Validation accepts only values of the types\<close>

lemma is_id_texts:
  "is_id ''normalize-protocol-v1''" "is_id ''normalize-checker-v1''" "is_id ''normalize-lines-v1''" "is_id ''local-only''"
  by (simp_all add: is_id_def is_id_char_def)

lemma cost_validated:
  assumes "cost_of_dict d = Inr c"
  shows "wf_cost c"
proof -
  obtain i st u a where f: "required id_value d ''id'' = Inr i" "required (literal stages) d ''stage'' = Inr st"
    "optional (literal [''work-unit'']) ''work-unit'' d ''unit'' = Inr u"
    "required (\<lambda>v. bind_res (str_value v) exact) d ''amount'' = Inr a"
    and c: "c = \<lparr>cst_id = i, cst_stage = st, cst_unit = u, cst_amount = a\<rparr>"
    using assms by (auto simp: cost_of_dict_def res_simps)
  from f(3) have "u = ''work-unit''" unfolding literal_def by (drule_tac optional_str) simp_all
  then show ?thesis using f(1,2) required_str required_exact [OF f(4)] unfolding literal_def
    by (auto simp: wf_cost_def c dest: required_str)
qed

lemma source_validated: "source_of_dict d = Inr s \<Longrightarrow> wf_source s"
  by (auto simp: source_of_dict_def res_simps wf_source_def dest: required_str)

lemma context_validated:
  assumes "context_of_dict d = Inr c"
  shows "wf_context c"
proof -
  obtain ws rc ms tf cx inp pr ev tv cl dep ch res ex where ids:
      "required id_value d ''workspace'' = Inr ws" "required id_value d ''receiver'' = Inr rc"
      "required id_value d ''mission'' = Inr ms" "required id_value d ''task_family'' = Inr tf"
      "required id_value d ''context'' = Inr cx" "required id_value d ''clock'' = Inr cl"
      "optional id_value ''normalize-protocol-v1'' d ''protocol'' = Inr pr"
      "optional id_value ''normalize-checker-v1'' d ''evaluator'' = Inr ev"
      "optional id_value ''normalize-lines-v1'' d ''tool_version'' = Inr tv"
    and inp: "required (\<lambda>v. distinct_domain (bounded_list 1 8 str_value v)) d ''inputs'' = Inr inp"
    and dep: "required (\<lambda>v. distinct_domain (bounded_list 1 8 hash_value v)) d ''dependencies'' = Inr dep"
    and ch: "required (\<lambda>v. distinct_domain (bounded_list 1 8 id_value v)) d ''checks'' = Inr ch"
    and res: "optional (\<lambda>v. distinct_domain (bounded_list 0 8 id_value v)) [''local-only''] d ''restrictions'' = Inr res"
    and c: "c = \<lparr>cx_workspace = ws, cx_receiver = rc, cx_mission = ms, cx_family = tf, cx_context = cx,
       cx_inputs = inp, cx_protocol = pr, cx_evaluator = ev, cx_tool = tv, cx_clock = cl,
       cx_dependencies = dep, cx_checks = ch, cx_restrictions = res, cx_expose = ex\<rparr>"
    using assms unfolding context_of_dict_def res_simps by (elim exE conjE) (rule that; (assumption | (simp only: sum.inject, erule sym) | erule sym))
  have y: "wf_list 0 8 is_id [''local-only''] \<and> distinct_ok [''local-only'']"
    by (simp add: wf_list_def distinct_ok_def is_id_texts)
  have "list_all is_id [ws, rc, ms, tf, cx, cl, pr, ev, tv]"
    using ids(1-6) [THEN required_str] ids(7-9) [THEN optional_str] is_id_texts by simp
  moreover have "wf_domain 1 (\<lambda>_. True) inp" "wf_domain 1 is_hash dep" "wf_domain 1 is_id ch"
    unfolding wf_domain_def using required_domain [OF inp] required_domain [OF dep] required_domain [OF ch]
    by (simp_all add: strict_str_iff)
  moreover have "wf_domain 0 is_id res"
    unfolding wf_domain_def by (rule optional_domain [OF res y]) (simp add: strict_str_iff)
  ultimately show ?thesis by (simp add: wf_context_def c)
qed

lemma nested_iff: "nested rd v = Inr x \<longleftrightarrow> (\<exists>d. v = JDict d \<and> rd d = Inr x)"
  by (auto simp: nested_def res_simps dict_value_iff)

lemma qualification_validated:
  assumes "qualification_of_dict d = Inr q"
  shows "wf_qualification q"
proof -
  obtain mi ui wd cx vf vu cu tr ev fo ca off mp co where f:
      "required id_value d ''memory_id'' = Inr mi" "required id_value d ''update_id'' = Inr ui"
      "required hash_value d ''workflow_digest'' = Inr wd"
    and t: "required tick_value d ''valid_from'' = Inr vf" "required tick_value d ''valid_until'' = Inr vu"
      "required tick_value d ''cutoff'' = Inr cu"
    and cx: "required (nested context_of_dict) d ''context'' = Inr cx"
    and tr: "required (bounded_list 2 8 (nested source_of_dict)) d ''training'' = Inr tr"
    and ev: "required (bounded_list 1 8 (nested source_of_dict)) d ''evaluation'' = Inr ev"
    and co: "required (bounded_list 1 32 (nested cost_of_dict)) d ''costs'' = Inr co"
    and q: "q = \<lparr>qu_memory = mi, qu_update = ui, qu_workflow = wd, qu_context = cx, qu_from = vf, qu_until = vu,
       qu_cutoff = cu, qu_training = tr, qu_evaluation = ev, qu_formation = fo, qu_candidate = ca,
       qu_offer = off, qu_mapping = mp, qu_costs = co\<rparr>"
    using assms unfolding qualification_of_dict_def res_simps
    by (elim exE conjE) (rule that; (assumption | (simp only: sum.inject, erule sym) | erule sym))
  have "wf_context cx" by (rule required_P [OF cx]) (auto simp: nested_iff context_validated)
  moreover have "wf_list 2 8 wf_source tr" by (rule required_list [OF tr]) (auto simp: nested_iff source_validated)
  moreover have "wf_list 1 8 wf_source ev" by (rule required_list [OF ev]) (auto simp: nested_iff source_validated)
  moreover have "wf_list 1 32 wf_cost co" by (rule required_list [OF co]) (auto simp: nested_iff cost_validated)
  ultimately show ?thesis
    using f [THEN required_str] t [THEN required_tick] by (simp add: wf_qualification_def q)
qed

lemma entry_validated: "entry_of_dict d = Inr e \<Longrightarrow> wf_entry e"
  by (auto simp: entry_of_dict_def res_simps wf_entry_def dest: required_str required_tick)

section \<open>What was written reads back\<close>

lemma cost_read: "wf_cost c \<Longrightarrow> cost_of_dict (cost_dump c) = Inr c"
  by (simp add: cost_of_dict_def cost_dump_def only_fields_def required_def optional_def literal_def strict_str_def
      wf_cost_def)

lemma source_read_back: "wf_source s \<Longrightarrow> source_of_dict (source_dump s) = Inr s"
  by (simp add: source_of_dict_def source_dump_def only_fields_def required_def strict_str_def wf_source_def)

lemma domain_json:
  assumes "wf_domain lo P vs" and rd: "\<And>s. P s \<Longrightarrow> rd (JStr s) = Inr s"
  shows "distinct_domain (bounded_list lo 8 rd (strs_json vs)) = Inr vs"
proof -
  from assms have "bounded_list lo 8 rd (JList (map JStr vs)) = Inr vs"
    by (intro bounded_list_json [where P = P]) (auto simp: wf_domain_def wf_list_def list_all_iff)
  then show ?thesis using assms(1) by (simp add: strs_json_def distinct_domain_iff wf_domain_def)
qed

lemma context_read:
  assumes "wf_context c"
  shows "context_of_dict (context_dump c) = Inr c"
proof -
  have "distinct_domain (bounded_list 1 8 str_value (strs_json (cx_inputs c))) = Inr (cx_inputs c)"
    "distinct_domain (bounded_list 1 8 hash_value (strs_json (cx_dependencies c))) = Inr (cx_dependencies c)"
    "distinct_domain (bounded_list 1 8 id_value (strs_json (cx_checks c))) = Inr (cx_checks c)"
    "distinct_domain (bounded_list 0 8 id_value (strs_json (cx_restrictions c))) = Inr (cx_restrictions c)"
    using assms by (auto simp: wf_context_def strict_str_iff intro!: domain_json)
  then show ?thesis using assms
    by (simp add: context_of_dict_def context_dump_def only_fields_def required_def optional_def literal_def
        strict_str_def wf_context_def)
qed

lemma tick_read: "t \<le> 2147483648 \<Longrightarrow> tick_value (JInt (int t)) = Inr t"
  by simp

lemma documents_json:
  "wf_list lo hi P xs \<Longrightarrow> (\<And>x. P x \<Longrightarrow> rd (w x) = Inr x) \<Longrightarrow>
   bounded_list lo hi (nested rd) (JList (map (\<lambda>x. JDict (w x)) xs)) = Inr xs"
  by (rule bounded_list_json [where P = P]) (auto simp: wf_list_def list_all_iff nested_def)

lemma qualification_read:
  assumes "wf_qualification q"
  shows "qualification_of_dict (qualification_dump q) = Inr q"
proof -
  have "bounded_list 2 8 (nested source_of_dict) (JList (map (\<lambda>s. JDict (source_dump s)) (qu_training q))) = Inr (qu_training q)"
    "bounded_list 1 8 (nested source_of_dict) (JList (map (\<lambda>s. JDict (source_dump s)) (qu_evaluation q))) = Inr (qu_evaluation q)"
    "bounded_list 1 32 (nested cost_of_dict) (JList (map (\<lambda>c. JDict (cost_dump c)) (qu_costs q))) = Inr (qu_costs q)"
    using assms by (auto simp: wf_qualification_def intro!: documents_json source_read_back cost_read)
  moreover have "nested context_of_dict (JDict (context_dump (qu_context q))) = Inr (qu_context q)"
    using assms by (simp add: nested_def wf_qualification_def context_read)
  ultimately show ?thesis using assms
    by (simp add: qualification_of_dict_def qualification_dump_def only_fields_def required_def optional_def
        literal_def strict_str_def wf_qualification_def)
qed

lemma entry_kind_read: "entry_kind_of (JStr (entry_kind_value k)) = Inr k"
  by (cases k) (simp_all add: entry_kind_of_def entry_kinds_def)

lemma entry_read: "wf_entry e \<Longrightarrow> entry_of_dict (entry_dump e) = Inr e"
  by (simp add: entry_of_dict_def entry_dump_def only_fields_def required_def optional_def literal_def
      strict_str_def wf_entry_def entry_kind_read)

text \<open>
  C40: the validated documents are exactly the values of their types. A qualification or an entry is
  the result of some validation if and only if its identifiers, digests, ticks, lengths and costs are
  in range, and then validating what it dumps gives it back.
\<close>

theorem documents_typed:
  "((\<exists>d. qualification_of_dict d = Inr q) \<longleftrightarrow> wf_qualification q) \<and>
   (qualification_of_dict (qualification_dump q) = Inr q \<longleftrightarrow> wf_qualification q) \<and>
   ((\<exists>d. entry_of_dict d = Inr e) \<longleftrightarrow> wf_entry e) \<and> (entry_of_dict (entry_dump e) = Inr e \<longleftrightarrow> wf_entry e)"
  using qualification_validated qualification_read entry_validated entry_read by blast

end
