(* ===== verification/Lab_Tables.thy ===== *)
theory Lab_Tables
  imports Eligibility_Properties Journal_Witness Wire_Types
begin

text \<open>
  A small world in which a qualification is eligible: two observed training operations and one
  evaluation of the registered tool, the certified memory with its contract, receipt and manifest
  in the kernel's tables, and companion packages that answer for them. Digests are flat.
\<close>

section \<open>The host\<close>

lemma flat_host_simps [simp]:
  "sha256 flat_host = (\<lambda>_. zeros)" "uuid4 flat_host = nat_text" "clock flat_host = (\<lambda>n. n)"
  "iso_time flat_host = nat_text" "dump_time flat_host = nat_text" "float_text flat_host = plain_float_text"
  by (simp_all add: flat_host_def)

lemma flat_host_ok [simp]: "host_ok flat_host"
  using plain_host_ok by (simp add: host_ok_def plain_hooks_def flat_host_def plain_host_def)

lemma flat_json [simp]: "finite_json v \<Longrightarrow> digest_json flat_host v = Inr zeros"
  by (simp add: digest_json_eq)

lemma flat_id32 [simp]: "finite_json v \<Longrightarrow> id32 flat_host p v = Inr (p @ take 32 zeros)"
  by (simp add: id32_def)

text \<open>The text of a stored document, and what a row gives back.\<close>

definition text_of :: "dict \<Rightarrow> string" where
  "text_of d = render plain_float_text (sort_keys (JDict d))"

lemma text_of_loads: "finite_json (JDict d) \<Longrightarrow> loads_json flat_host (text_of d) = Inr (JDict (stored_dict d))"
  by (rule loads_dump) (simp_all add: canonical_json_eq text_of_def del: sort_keys.simps render.simps)

section \<open>The tables\<close>

definition flat_id :: "string \<Rightarrow> string" where
  "flat_id p = p @ take 32 zeros"

definition lab_cost :: cost where
  "lab_cost = \<lparr>cst_id = ''v1'', cst_stage = ''verification'', cst_unit = ''work-unit'', cst_amount = ''1''\<rparr>"

definition formation_cost :: cost where
  "formation_cost = \<lparr>cst_id = ''f1'', cst_stage = ''formation'', cst_unit = ''work-unit'', cst_amount = ''1''\<rparr>"

definition lab_operation :: "string \<Rightarrow> nat \<Rightarrow> dict" where
  "lab_operation split t =
     [(''complete'', JBool True), (''context_digest'', JStr zeros), (''cost'', JDict (cost_dump lab_cost)),
      (''implementation'', JStr zeros), (''input'', JStr ''b''), (''outcome'', JStr ''success''),
      (''output'', JStr ''b''), (''receiver'', JStr ''r''), (''split'', JStr split),
      (''time'', JInt (int t)), (''tool'', JStr ''normalize-lines-v1''), (''version'', JStr ''oawm_normalize_v1'')]"

definition lab_raw :: "string \<Rightarrow> nat \<Rightarrow> string" where
  "lab_raw split t = render (dumps_float flat_host) (sort_keys (JDict (lab_operation split t)))"

definition observed :: "string \<Rightarrow> string \<Rightarrow> event" where
  "observed i raw =
     \<lparr>ev_schema = ''1'', ev_id = i, ev_nonce = ''n'', ev_run = ''run'', ev_agent = ''a'', ev_kind = ''registered_operation'',
      ev_payload = [(''raw'', JStr raw)], ev_digest = zeros, ev_parents = [], ev_created = 1\<rparr>"

definition lab_record :: memory where
  "lab_record =
     \<lparr>mem_schema = ''1'', mem_id = ''mem_1'', mem_update = flat_id ''upd_'', mem_lane = CERTIFIED, mem_claim = ''c'',
      mem_sources = [''evt_a'', ''evt_b''], mem_evidence = [], mem_supersedes = [], mem_contradicts = [],
      mem_contract = Some ''wfc_1'', mem_receipt = Some ''rcp_1'', mem_reason = [],
      mem_metadata = [(''resource_caps'', JDict [(''max_steps'', JInt 32)]), (''tools'', JList [JStr ''normalize-lines-v1''])],
      mem_created = 1, mem_updated = 1\<rparr>"

definition lab_manifest :: manifest where
  "lab_manifest =
     \<lparr>evm_schema = ''1'', evm_id = flat_id ''evm_'', evm_candidate = ''mem_1'', evm_update = flat_id ''upd_'',
      evm_events = [''evt_a'', ''evt_b''], evm_digests = [(''evt_a'', zeros), (''evt_b'', zeros)], evm_content = zeros,
      evm_replay = zeros, evm_tools = [''normalize-lines-v1''], evm_caps = [(''max_steps'', 32)], evm_created = 1\<rparr>"

definition lab_intent :: intent where
  "lab_intent =
     \<lparr>act_schema = ''1'', act_id = flat_id ''act_'', act_tool = ''normalize-lines-v1'', act_effect = ''local-external'',
      act_args = zeros, act_contract = None, act_receipt = None, act_caps = [(''max_steps'', 32)]\<rparr>"

definition lab_receipt :: receipt where
  "lab_receipt =
     \<lparr>rcp_schema = ''1'', rcp_id = ''rcp_1'', rcp_verification = ''ver_1'', rcp_digest = zeros, rcp_candidate = ''mem_1'',
      rcp_update = flat_id ''upd_'', rcp_action = Some (flat_id ''act_''), rcp_profile = Strict,
      rcp_checks = [passed_check ''ok''], rcp_result = Passed, rcp_refs = [flat_id ''evm_'', flat_id ''act_''],
      rcp_created = 1\<rparr>"

definition lab_contract :: contract where
  "lab_contract =
     \<lparr>wfc_schema = ''1'', wfc_id = ''wfc_1'', wfc_name = ''w'', wfc_description = [], wfc_interface = ''i'', wfc_pre = [],
      wfc_steps = [], wfc_post = [], wfc_tools = [], wfc_checkers = [], wfc_replay = [(''receipt_id'', JStr ''rcp_1'')],
      wfc_caps = [], wfc_version = ''1'', wfc_memory = Some ''mem_1'', wfc_update = Some (flat_id ''upd_''), wfc_created = 1\<rparr>"

definition event_row_of :: "event \<Rightarrow> event_row" where
  "event_row_of e =
     \<lparr>er_seq = 1, er_id = ev_id e, er_time = ''1'', er_run = ev_run e, er_kind = ev_kind e, er_digest = ev_digest e,
      er_raw = text_of (event_dump flat_host e)\<rparr>"

definition lab_db :: db where
  "lab_db =
     empty_db\<lparr>
      db_events := [event_row_of (observed ''evt_a'' (lab_raw ''training'' 1)),
        event_row_of (observed ''evt_b'' (lab_raw ''training'' 1)),
        event_row_of (observed ''evt_c'' (lab_raw ''evaluation'' 2))],
      db_memory := [\<lparr>mr_id = ''mem_1'', mr_lane = ''certified'', mr_claim = ''c'', mr_contract = Some ''wfc_1'',
        mr_receipt = Some ''rcp_1'', mr_raw = text_of (memory_dump flat_host lab_record)\<rparr>],
      db_contracts := [\<lparr>cr_id = ''wfc_1'', cr_raw = text_of (contract_dump flat_host lab_contract)\<rparr>],
      db_receipts := [\<lparr>pr_seq = 1, pr_id = ''rcp_1'', pr_candidate = ''mem_1'', pr_update = flat_id ''upd_'',
        pr_result = ''passed'', pr_raw = text_of (receipt_dump flat_host lab_receipt)\<rparr>],
      db_manifests := [\<lparr>nr_seq = 1, nr_id = flat_id ''evm_'', nr_candidate = ''mem_1'', nr_update = flat_id ''upd_'',
        nr_raw = text_of (manifest_dump flat_host lab_manifest)\<rparr>]\<rparr>"

section \<open>The qualification\<close>

definition lab_src :: "string \<Rightarrow> string \<Rightarrow> nat \<Rightarrow> source" where
  "lab_src i split t = \<lparr>src_event = i, src_producer = zeros, src_raw = lab_raw split t, src_sha = zeros\<rparr>"

definition lab_training :: "source list" where
  "lab_training = [lab_src ''evt_a'' ''training'' 1, lab_src ''evt_b'' ''training'' 1]"

definition lab_q :: qualification where
  "lab_q =
     \<lparr>qu_memory = ''mem_1'', qu_update = flat_id ''upd_'', qu_workflow = zeros, qu_context = lab_context,
      qu_from = 0, qu_until = 100, qu_cutoff = 1, qu_training = lab_training,
      qu_evaluation = [lab_src ''evt_c'' ''evaluation'' 2], qu_formation = [],
      qu_candidate = [(''artifact_digest'', JStr zeros)], qu_offer = [], qu_mapping = sort_key fst (slot_mapping lab_training),
      qu_costs = [formation_cost, lab_cost]\<rparr>"

section \<open>The companion packages\<close>

definition lab_trace :: "string \<Rightarrow> alt_trace" where
  "lab_trace i =
     \<lparr>tr_episode = i, tr_input_digest = zeros, tr_steps = [(''normalize-lines-v1'', [string_argument ''b''])],
      tr_artifact = zeros, tr_dependencies = [zeros], tr_time = 1, tr_version = ''oawm_normalize_v1'',
      tr_split = ''training'', tr_outcome = ''success'', tr_complete = True, tr_results = [''pass''],
      tr_costs = [''v1''], tr_guards = [''bounded-text''], tr_unresolved = [], tr_taint = False\<rparr>"

definition lab_request :: alt_request where
  "lab_request =
     \<lparr>rq_cutoff = 1, rq_scope = ''m'', rq_sources = [Inr [(''episode'', JStr ''evt_a'')], Inr [(''episode'', JStr ''evt_b'')]],
      rq_library = [\<lparr>lb_implementation = zeros, lb_inputs = [''string''], lb_output = ''string''\<rparr>],
      rq_cost_id = ''f1'', rq_cost_unit = ''work-unit'', rq_cost = ''1'', rq_dump = []\<rparr>"

definition lab_offer :: alt_offer where
  "lab_offer =
     \<lparr>ao_from = 0, ao_until = 100, ao_postconditions = [''sorted-unique-lines''], ao_preconditions = [''bounded-text''],
      ao_basis = ''source-replay'', ao_quality = ''exact'', ao_estimand = ''normalized-text'',
      ao_valuation = ''synthetic-work-v1'', ao_receiver = ''r'', ao_mission = ''m'', ao_context = ''x'', ao_family = ''f'',
      ao_protocol = ''normalize-protocol-v1'', ao_evaluator = ''normalize-checker-v1'', ao_dependencies = [zeros],
      ao_restrictions = [''local-only''], ao_inputs = [zeros], ao_checks = [Inr []], ao_costs = [''f1'', ''v1'']\<rparr>"

definition schema_rows :: json where
  "schema_rows =
     JList (map (\<lambda>f. JDict [(''file'', JStr (''alt-'' @ f @ ''.schema.json'')), (''sha256'', JStr zeros)])
       [''formation'', ''candidate'', ''offer''])"

definition lab_alt :: alt where
  "lab_alt =
     \<lparr>alt_version = (\<lambda>p. if p = ''alt-foundry-kernel'' then Some ''0.5.0'' else None), alt_digest = (\<lambda>_. zeros),
      alt_envelope = Inr, alt_request_of = (\<lambda>_. Inr lab_request),
      alt_candidate_of = (\<lambda>d. if ''artifact_digest'' \<in> dom (map_of d) then Inr \<lparr>cn_dump = d\<rparr>
        else Inl (ValueError ''artifact_digest'')),
      alt_offer_of = (\<lambda>_. Inr lab_offer),
      alt_trace_of = (\<lambda>d. case map_of d ''episode'' of Some (JStr i) \<Rightarrow> Inr (lab_trace i) | _ \<Rightarrow> Inl (ValueError ''episode'')),
      alt_check_of = (\<lambda>_. Inr \<lparr>ac_input_digest = zeros, ac_time = 2\<rparr>), alt_form = (\<lambda>_. Inr \<lparr>cn_dump = []\<rparr>),
      alt_reconstruct = (\<lambda>_ _. Inr ()), alt_qualify = (\<lambda>_ _ _ _. Inr ()), alt_validate = (\<lambda>_ _. Inr ()),
      alt_resources = (\<lambda>n. Some (if n = ''manifest.json'' then render plain_float_text (sort_keys schema_rows) else ''{}''))\<rparr>"

end
