(* ===== verification/Lab_World.thy ===== *)
theory Lab_World
  imports Lab_Tables
begin

text \<open>
  In the small world the promotion behind the qualification is found and its reconstruction
  succeeds.
\<close>

section \<open>Rows\<close>

lemma lab_row:
  "raw_of lab_db table value = Some (text_of d) \<Longrightarrow> (table, key) \<in> set row_keys \<Longrightarrow> finite_json (JDict d) \<Longrightarrow>
   row flat_host lab_db table key value = Inr (stored_dict d)"
  using text_of_loads [of d] by (simp add: row_def)

lemmas lab_docs = observed_def lab_record_def lab_manifest_def lab_receipt_def lab_contract_def lab_intent_def

lemma lab_raws:
  "raw_of lab_db ''memory_records'' ''mem_1'' = Some (text_of (memory_dump flat_host lab_record))"
  "raw_of lab_db ''workflow_contracts'' ''wfc_1'' = Some (text_of (contract_dump flat_host lab_contract))"
  "raw_of lab_db ''promotion_receipts'' ''rcp_1'' = Some (text_of (receipt_dump flat_host lab_receipt))"
  "raw_of lab_db ''evidence_manifests'' (flat_id ''evm_'') = Some (text_of (manifest_dump flat_host lab_manifest))"
  "raw_of lab_db ''events'' ''evt_a'' = Some (text_of (event_dump flat_host (observed ''evt_a'' (lab_raw ''training'' 1))))"
  "raw_of lab_db ''events'' ''evt_b'' = Some (text_of (event_dump flat_host (observed ''evt_b'' (lab_raw ''training'' 1))))"
  "raw_of lab_db ''events'' ''evt_c'' = Some (text_of (event_dump flat_host (observed ''evt_c'' (lab_raw ''evaluation'' 2))))"
  by (simp_all add: raw_of_def lab_db_def empty_db_def event_row_of_def observed_def)

lemma lab_finite:
  "finite_json (JDict (memory_dump flat_host lab_record))" "finite_json (JDict (contract_dump flat_host lab_contract))"
  "finite_json (JDict (receipt_dump flat_host lab_receipt))" "finite_json (JDict (manifest_dump flat_host lab_manifest))"
  "finite_json (JDict (event_dump flat_host (observed i raw)))"
  by (simp_all add: memory_dump_def contract_dump_def receipt_dump_def manifest_dump_def event_dump_def lab_docs
      strs_json_def str_map_json_def ints_json_def opt_str_json_def check_dump_def passed_check_def check_result_def)

lemma lab_canon:
  "memory_canon lab_record = lab_record" "contract_canon lab_contract = lab_contract"
  "receipt_canon lab_receipt = lab_receipt" "manifest_canon lab_manifest = lab_manifest"
  "event_canon (observed i raw) = observed i raw"
  by (simp_all add: memory_canon_def contract_canon_def receipt_canon_def manifest_canon_def event_canon_def lab_docs
      stored_dict_def stored_map_def dict_of_pairs_def put_def passed_check_def check_result_def check_canon_def)

lemma lab_rows:
  "row flat_host lab_db ''memory_records'' ''memory_id'' ''mem_1'' = Inr (stored_dict (memory_dump flat_host lab_record))"
  "row flat_host lab_db ''workflow_contracts'' ''contract_id'' ''wfc_1'' =
     Inr (stored_dict (contract_dump flat_host lab_contract))"
  "row flat_host lab_db ''promotion_receipts'' ''receipt_id'' ''rcp_1'' =
     Inr (stored_dict (receipt_dump flat_host lab_receipt))"
  "row flat_host lab_db ''evidence_manifests'' ''manifest_id'' (flat_id ''evm_'') =
     Inr (stored_dict (manifest_dump flat_host lab_manifest))"
  "row flat_host lab_db ''events'' ''event_id'' ''evt_a'' =
     Inr (stored_dict (event_dump flat_host (observed ''evt_a'' (lab_raw ''training'' 1))))"
  "row flat_host lab_db ''events'' ''event_id'' ''evt_b'' =
     Inr (stored_dict (event_dump flat_host (observed ''evt_b'' (lab_raw ''training'' 1))))"
  "row flat_host lab_db ''events'' ''event_id'' ''evt_c'' =
     Inr (stored_dict (event_dump flat_host (observed ''evt_c'' (lab_raw ''evaluation'' 2))))"
  using lab_row [OF lab_raws(1)] lab_row [OF lab_raws(2)] lab_row [OF lab_raws(3)] lab_row [OF lab_raws(4)]
    lab_row [OF lab_raws(5)] lab_row [OF lab_raws(6)] lab_row [OF lab_raws(7)] lab_finite
  by (simp_all add: row_keys_def)

section \<open>The promotion\<close>

lemma lab_claim: "claim_ok lab_record"
  by (simp add: claim_ok_def strip_def is_space_def lab_record_def)

lemma lab_reads_docs:
  "memory_of_dict flat_host n (stored_dict (memory_dump flat_host lab_record)) = Inr lab_record"
  "contract_of_dict flat_host n (stored_dict (contract_dump flat_host lab_contract)) = Inr lab_contract"
  "receipt_of_dict flat_host n (stored_dict (receipt_dump flat_host lab_receipt)) = Inr lab_receipt"
  "manifest_of_dict flat_host n (stored_dict (manifest_dump flat_host lab_manifest)) = Inr lab_manifest"
  by (simp_all add: memory_read_stored lab_claim contract_read_stored receipt_read_stored manifest_read_stored lab_canon)

lemma lab_content: "content_digest flat_host (lab_record\<lparr>mem_lane := l\<rparr>) = Inr zeros"
  by (simp add: content_digest_def content_seed_def lab_record_def strs_json_def)

lemma lab_content': "content_digest flat_host lab_record = Inr zeros"
  by (simp add: content_digest_def content_seed_def lab_record_def strs_json_def)

lemma lab_update: "compute_update_id flat_host i zeros = Inr (flat_id ''upd_'')"
  by (simp add: compute_update_id_def flat_id_def)

lemma lab_current: "current_memory flat_host n lab_db lab_q = Inr lab_record"
proof -
  have "qu_memory lab_q = ''mem_1''" "qu_update lab_q = flat_id ''upd_''" "qu_workflow lab_q = zeros"
    "mem_lane lab_record = CERTIFIED" "mem_update lab_record = flat_id ''upd_''"
    by (simp_all add: lab_q_def lab_record_def)
  then show ?thesis by (simp add: current_memory_def lab_rows lab_reads_docs lab_content' lab_update)
qed

lemma lab_bound: "bound_promotion flat_host n lab_db lab_record = Inr lab_manifest"
proof -
  have "compute_receipt_digest flat_host (rcp_candidate lab_receipt) (rcp_update lab_receipt) (rcp_action lab_receipt)
      (rcp_profile lab_receipt) (rcp_checks lab_receipt) (rcp_result lab_receipt) (rcp_refs lab_receipt) = Inr zeros"
    by (simp add: compute_receipt_digest_def receipt_seed_def lab_receipt_def strs_json_def check_dump_def
        passed_check_def check_result_def opt_str_json_def)
  then have "default_receipt_verifier flat_host lab_receipt lab_manifest (Some lab_record) = Inr (passed_check ''default-receipt'')"
    by (simp add: default_receipt_verifier_def) (simp add: lab_receipt_def lab_manifest_def lab_record_def)
  moreover have "or_str (mem_receipt lab_record) [] = ''rcp_1''" "or_str (mem_contract lab_record) [] = ''wfc_1''"
    by (simp_all add: lab_record_def or_str_def)
  moreover have "find (starts_with ''evm_'') (rcp_refs lab_receipt) = Some (flat_id ''evm_'')"
    by (simp add: lab_receipt_def flat_id_def starts_with_def)
  ultimately show ?thesis
    by (simp add: bound_promotion_def lab_rows lab_reads_docs)
      (simp add: lab_receipt_def lab_contract_def lab_record_def ensure_def passed_check_def check_result_def get_or_def)
qed

lemma raw_stored: "stored_dict [(''raw'', JStr raw)] = [(''raw'', JStr raw)]"
  by (simp add: stored_dict_def stored_map_def dict_of_pairs_def put_def)

lemma observed_fields:
  "map_of (stored_dict (event_dump flat_host (observed i raw))) ''payload'' = Some (JDict [(''raw'', JStr raw)])"
  "map_of (stored_dict (event_dump flat_host (observed i raw))) ''payload_digest'' = Some (JStr zeros)"
  "map_of (stored_dict (event_dump flat_host (observed i raw))) ''kind'' = Some (JStr ''registered_operation'')"
  by (simp_all add: map_of_stored_dict map_of_event_dump) (simp_all add: observed_def raw_stored)

lemma lab_observed:
  "observed_digest flat_host lab_db ''evt_a'' = Inr (''evt_a'', JStr zeros)"
  "observed_digest flat_host lab_db ''evt_b'' = Inr (''evt_b'', JStr zeros)"
  by (simp_all add: observed_digest_def lab_rows item_def observed_fields ensure_def)

definition shadowed :: memory where
  "shadowed = lab_record\<lparr>mem_lane := SHADOW\<rparr>"

lemma shadowed_fields:
  "mem_id shadowed = ''mem_1''" "mem_update shadowed = flat_id ''upd_''" "mem_lane shadowed = SHADOW"
  "mem_claim shadowed = ''c''" "mem_sources shadowed = [''evt_a'', ''evt_b'']"
  "mem_metadata shadowed = [(''resource_caps'', JDict [(''max_steps'', JInt 32)]), (''tools'', JList [JStr ''normalize-lines-v1''])]"
  by (simp_all add: shadowed_def lab_record_def)

definition lab_ctx :: check_context where
  "lab_ctx = \<lparr>ctx_intent = NoIntent, ctx_values =
     [(''actual_event_digests'', JDict [(''evt_a'', JStr zeros), (''evt_b'', JStr zeros)]),
      (''missing_source_event_ids'', JList [])]\<rparr>"

lemma lab_manifest_fields:
  "map_of (manifest_dump flat_host lab_manifest) ''input_event_ids'' = Some (strs_json [''evt_a'', ''evt_b''])"
  "map_of (manifest_dump flat_host lab_manifest) ''input_event_digests'' =
     Some (JDict [(''evt_a'', JStr zeros), (''evt_b'', JStr zeros)])"
  "map_of (manifest_dump flat_host lab_manifest) ''candidate_digest'' = Some (JStr zeros)"
  "map_of (manifest_dump flat_host lab_manifest) ''declared_tools'' = Some (strs_json [''normalize-lines-v1''])"
  "map_of (manifest_dump flat_host lab_manifest) ''resource_caps'' = Some (JDict [(''max_steps'', JInt 32)])"
  by (simp_all add: map_of_manifest_dump) (simp_all add: lab_manifest_def str_map_json_def ints_json_def)

lemma ctx_fields:
  "ctx_intent lab_ctx = NoIntent"
  "map_of (ctx_values lab_ctx) ''actual_event_digests'' = Some (JDict [(''evt_a'', JStr zeros), (''evt_b'', JStr zeros)])"
  "map_of (ctx_values lab_ctx) ''missing_source_event_ids'' = Some (JList [])"
  "k \<notin> {''actual_event_digests'', ''missing_source_event_ids''} \<Longrightarrow> map_of (ctx_values lab_ctx) k = None"
  by (auto simp: lab_ctx_def)

lemma lab_checkers:
  "candidate_schema_checker flat_host n shadowed (manifest_dump flat_host lab_manifest) lab_ctx = Inr (passed_check ''candidate-schema'')"
  "input_set_checker flat_host n shadowed (manifest_dump flat_host lab_manifest) lab_ctx = Inr (passed_check ''input-set'')"
  "candidate_digest_checker flat_host n shadowed (manifest_dump flat_host lab_manifest) lab_ctx = Inr (passed_check ''digest'')"
  "declared_tools_checker flat_host n shadowed (manifest_dump flat_host lab_manifest) lab_ctx = Inr (passed_check ''declared-tools'')"
  "resource_cap_checker 128 flat_host n shadowed (manifest_dump flat_host lab_manifest) lab_ctx = Inr (passed_check ''resource-caps'')"
proof -
  show "candidate_schema_checker flat_host n shadowed (manifest_dump flat_host lab_manifest) lab_ctx = Inr (passed_check ''candidate-schema'')"
    by (simp add: candidate_schema_checker_def candidate_schema_ok_def shadowed_fields flat_id_def
        starts_with_def Let_def)
  show "input_set_checker flat_host n shadowed (manifest_dump flat_host lab_manifest) lab_ctx = Inr (passed_check ''input-set'')"
    by (simp add: input_set_checker_def shadowed_fields lab_manifest_fields get_or_def ctx_fields context_get_def
        strs_json_def str_values_def is_str_def Let_def)
  show "candidate_digest_checker flat_host n shadowed (manifest_dump flat_host lab_manifest) lab_ctx = Inr (passed_check ''digest'')"
    using lab_content [of SHADOW] lab_update [of "''mem_1''"]
    by (simp add: candidate_digest_checker_def shadowed_fields lab_manifest_fields get_or_def)
      (simp add: shadowed_def [symmetric] shadowed_fields)
  show "declared_tools_checker flat_host n shadowed (manifest_dump flat_host lab_manifest) lab_ctx = Inr (passed_check ''declared-tools'')"
    using strs_value_strs_json [of "[''normalize-lines-v1'']"]
    by (simp add: declared_tools_checker_def shadowed_fields lab_manifest_fields get_or_def ctx_fields context_get_def
        strs_json_def str_list_def checker_intent_def contract_tools_check_def undeclared_tools_def)
  show "resource_cap_checker 128 flat_host n shadowed (manifest_dump flat_host lab_manifest) lab_ctx = Inr (passed_check ''resource-caps'')"
    by (simp add: resource_cap_checker_def shadowed_fields lab_manifest_fields get_or_def ctx_fields context_get_def
        checker_intent_def number_eq_def Let_def)
qed

lemma lab_manifest_checker:
  "evidence_manifest_checker flat_host n shadowed (manifest_dump flat_host lab_manifest) lab_ctx = Inr (passed_check ''evidence-manifest'')"
proof -
  have "manifest_of_dict flat_host n (manifest_dump flat_host lab_manifest) = Inr lab_manifest"
    by (simp add: manifest_read)
  moreover have "content_digest flat_host shadowed = Inr zeros" using lab_content by (simp add: shadowed_def)
  moreover have "digest_json flat_host (JDict (replay_seed shadowed (strs_json (evm_events lab_manifest))
      (str_map_json (evm_digests lab_manifest)) zeros (strs_json (evm_tools lab_manifest))
      (ints_json (evm_caps lab_manifest)))) = Inr zeros"
    by (rule flat_json) (simp add: replay_seed_def strs_json_def str_map_json_def ints_json_def lab_manifest_def)
  moreover have "id32 flat_host ''evm_'' (JDict (manifest_seed shadowed (strs_json (evm_events lab_manifest))
      (str_map_json (evm_digests lab_manifest)) zeros zeros)) = Inr (flat_id ''evm_'')"
    unfolding flat_id_def
    by (rule flat_id32) (simp add: manifest_seed_def strs_json_def str_map_json_def lab_manifest_def)
  moreover have "evm_candidate lab_manifest = ''mem_1''" "evm_update lab_manifest = flat_id ''upd_''"
    "evm_content lab_manifest = zeros" "evm_replay lab_manifest = zeros" "evm_id lab_manifest = flat_id ''evm_''"
    by (simp_all add: lab_manifest_def)
  ultimately show ?thesis by (simp add: evidence_manifest_checker_def shadowed_fields)
qed

lemma lab_boundary:
  "deterministic_boundary_checker flat_host n shadowed (manifest_dump flat_host lab_manifest) lab_ctx =
     Inr (passed_check ''deterministic-boundary'')"
  by (simp add: deterministic_boundary_checker_def shadowed_fields manifest_dump_def lab_manifest_def strs_json_def
      str_map_json_def ints_json_def time_json_def)

lemma rechecked:
  "\<exists>k. f n shadowed (manifest_dump flat_host lab_manifest) lab_ctx = Inr k \<and> chk_passed k \<Longrightarrow>
   recheck flat_host n lab_record lab_manifest [(''evt_a'', JStr zeros), (''evt_b'', JStr zeros)] (i, f) = Inr ()"
  by (auto simp: recheck_def shadowed_def lab_ctx_def ensure_def)

lemma lab_recheck:
  "all_res (recheck flat_host n lab_record lab_manifest [(''evt_a'', JStr zeros), (''evt_b'', JStr zeros)])
     (zip default_checker_names (create_default_checkers flat_host)) = Inr ()"
proof -
  have "chk_passed (passed_check i)" for i by (simp add: passed_check_def check_result_def)
  then show ?thesis
    by (simp add: default_checker_names_def create_default_checkers_def rechecked lab_checkers lab_manifest_checker
        lab_boundary)
qed

lemma lab_operation_modest: "modest 2000 (JDict (lab_operation sp t))" if "length sp \<le> 20" "t < 10"
proof -
  have "length (int_text (int t)) \<le> 10" using that(2) by (simp add: int_text_def nat_text.simps)
  then show ?thesis using that(1)
    by (simp add: modest_def lab_operation_def cost_dump_def lab_cost_def)
qed

lemma cost_sorted: "sort_keys (JDict (cost_dump c)) =
    JDict [(''amount'', JStr (cst_amount c)), (''id'', JStr (cst_id c)), (''stage'', JStr (cst_stage c)), (''unit'', JStr (cst_unit c))]"
  by (simp add: cost_dump_def)

lemma lab_loads:
  assumes "length sp \<le> 20" "t < 10"
  shows "wire_loads (lab_raw sp t) = Inr (sort_keys (JDict (lab_operation sp t)))"
proof -
  have m: "modest 2000 (JDict (lab_operation sp t))" by (rule lab_operation_modest [OF assms])
  then have ff: "float_free (JDict (lab_operation sp t))" "proper (JDict (lab_operation sp t))"
    by (simp_all add: modest_def)
  from modest_encoded [OF m] have "encoded flat_host (JDict (lab_operation sp t)) = Inr (lab_raw sp t)"
    by (simp add: lab_raw_def)
  with encoded_Inr [OF ff] show ?thesis by blast
qed

lemma lab_sources: "local_observation flat_host lab_db (lab_src ''evt_a'' ''training'' 1) = Inr ()"
  "local_observation flat_host lab_db (lab_src ''evt_b'' ''training'' 1) = Inr ()"
  "local_observation flat_host lab_db (lab_src ''evt_c'' ''evaluation'' 2) = Inr ()"
  by (simp_all add: local_observation_def lab_src_def lab_rows item_def observed_fields get_or_def lab_loads lab_operation_def cost_dump_def ensure_def)

lemma lab_promotion: "promotion flat_host n lab_db lab_q = Inr lab_record"
proof -
  have parts: "qu_training lab_q = [lab_src ''evt_a'' ''training'' 1, lab_src ''evt_b'' ''training'' 1]"
    "qu_evaluation lab_q = [lab_src ''evt_c'' ''evaluation'' 2]" "mem_sources lab_record = [''evt_a'', ''evt_b'']"
    "src_event (lab_src i sp t) = i" for i sp t
    by (simp_all add: lab_q_def lab_training_def lab_record_def lab_src_def)
  have "dict_of_pairs [(''evt_a'', JStr zeros), (''evt_b'', JStr zeros)] = [(''evt_a'', JStr zeros), (''evt_b'', JStr zeros)]"
    by (rule dict_of_pairs_id) simp
  moreover have "all_res (local_observation flat_host lab_db) (qu_training lab_q @ qu_evaluation lab_q) = Inr ()"
    using lab_sources by (simp add: parts)
  ultimately show ?thesis
    using lab_recheck
    by (simp add: promotion_def lab_current lab_bound lab_observed parts ensure_def del: all_res_Inr)
qed

section \<open>The reconstruction\<close>

lemma lab_op:
  assumes "sp \<in> {''training'', ''evaluation''}" "t < 10"
  shows "operation_of_source flat_host (lab_src i sp t) = Inr \<lparr>op_implementation = zeros, op_input = ''b'', op_output = ''b'',
    op_receiver = ''r'', op_context = zeros, op_time = t, op_split = sp, op_complete = True, op_outcome = ''success'',
    op_cost = lab_cost\<rparr>"
proof -
  have len: "length sp \<le> 20" using assms(1) by auto
  have costs: "cost_of_dict [(''amount'', JStr ''1''), (''id'', JStr ''v1''), (''stage'', JStr ''verification''), (''unit'', JStr ''work-unit'')] =
      Inr lab_cost"
    by (simp add: cost_of_dict_def lab_cost_def only_fields_def required_def optional_def strict_str_def
        is_id_def is_id_char_def literal_def stages_def exact_def zero_denominator_def split_slash_def fraction_def
        plain_numeral_def is_digit_def digits_val_def digit_val_def nat_text.simps digit_one strip_def is_space_def)
  obtain d where d: "sort_keys (JDict (lab_operation sp t)) = JDict d"
    "d = [(''complete'', JBool True), (''context_digest'', JStr zeros),
      (''cost'', JDict [(''amount'', JStr ''1''), (''id'', JStr ''v1''), (''stage'', JStr ''verification''), (''unit'', JStr ''work-unit'')]),
      (''implementation'', JStr zeros), (''input'', JStr ''b''), (''outcome'', JStr ''success''),
      (''output'', JStr ''b''), (''receiver'', JStr ''r''), (''split'', JStr sp),
      (''time'', JInt (int t)), (''tool'', JStr ''normalize-lines-v1''), (''version'', JStr ''oawm_normalize_v1'')]"
    by (simp add: lab_operation_def cost_dump_def lab_cost_def)
  have src: "source_read flat_host (lab_src i sp t) = Inr d"
    using lab_loads [OF len assms(2)] d(1) by (simp add: source_read_def lab_src_def sha_def)
  have fin: "finite_json (JDict d)" by (simp add: d(2))
  have "operation_of_dict d = Inr \<lparr>op_implementation = zeros, op_input = ''b'', op_output = ''b'',
    op_receiver = ''r'', op_context = zeros, op_time = t, op_split = sp, op_complete = True, op_outcome = ''success'',
    op_cost = lab_cost\<rparr>"
    using assms
    by (auto simp: d(2) operation_of_dict_def only_fields_def required_def optional_def strict_str_def literal_def
        text_value_def nested_def costs outcomes_def is_id_def is_id_char_def)
  then show ?thesis
    using src fin by (simp add: operation_of_source_def del: finite_json.simps) (simp add: lab_src_def)
qed

lemma lab_raw_short:
  assumes "sp \<in> {''training'', ''evaluation''}" "t < 10"
  shows "length (lab_raw sp t) \<le> 2000"
proof -
  have "length (int_text (int t)) = 1" using assms(2) by (simp add: int_text_def nat_text.simps)
  then have w: "weight (JDict (lab_operation sp t)) \<le> 2000" "float_free (JDict (lab_operation sp t))"
    using assms(1) by (auto simp: lab_operation_def cost_dump_def lab_cost_def)
  have "length (lab_raw sp t) \<le> weight (sort_keys (JDict (lab_operation sp t)))"
    unfolding lab_raw_def by (rule length_render) (use w(2) in \<open>simp only: sort_keys_float_free\<close>)
  also have "\<dots> \<le> 2000" using w(1) by (simp only: weight_sort_keys)
  finally show ?thesis .
qed

lemma slots: "slot_mapping lab_training =
    map (\<lambda>(slot, field). (''evt_a:'' @ slot, field)) SLOT_MAP @ map (\<lambda>(slot, field). (''evt_b:'' @ slot, field)) SLOT_MAP"
  by (simp add: slot_mapping_def lab_training_def lab_src_def SLOT_MAP_def dict_of_pairs_id)

lemma slots_json: "float_free (str_map_json (sort_key fst (slot_mapping lab_training)))"
  "proper (str_map_json (sort_key fst (slot_mapping lab_training)))"
  "nodes (str_map_json (sort_key fst (slot_mapping lab_training))) \<le> 30"
  "weight (str_map_json (sort_key fst (slot_mapping lab_training))) \<le> 12000"
  "within 2 (str_map_json (sort_key fst (slot_mapping lab_training)))"
proof -
  let ?v = "str_map_json (slot_mapping lab_training)"
  have v: "str_map_json (sort_key fst (slot_mapping lab_training)) = sort_keys ?v"
    using sort_key_fst_map [of JStr "slot_mapping lab_training"]
    by (simp add: str_map_json_def comp_def case_prod_unfold)
  have "float_free ?v" "proper ?v" "nodes ?v \<le> 30" "weight ?v \<le> 12000" "within 2 ?v"
    by (simp_all add: slots str_map_json_def SLOT_MAP_def)
  then show "float_free (str_map_json (sort_key fst (slot_mapping lab_training)))"
    "proper (str_map_json (sort_key fst (slot_mapping lab_training)))"
    "nodes (str_map_json (sort_key fst (slot_mapping lab_training))) \<le> 30"
    "weight (str_map_json (sort_key fst (slot_mapping lab_training))) \<le> 12000"
    "within 2 (str_map_json (sort_key fst (slot_mapping lab_training)))"
    unfolding v by (simp_all only: sort_keys_float_free sort_keys_proper nodes_sort_keys weight_sort_keys
        within_sort_keys)
qed

lemma flat_id_length: "length (flat_id p) = length p + 32"
  by (simp add: flat_id_def zeros_def)

lemma flat_id_ok: "list_all is_id_char p \<Longrightarrow> length p \<le> 80 \<Longrightarrow> is_id (flat_id p)"
  by (simp add: flat_id_def zeros_def is_id_def list_all_iff is_id_char_def)

lemma lab_q_modest:
  "modest 3400 (JDict (qualification_dump lab_q))" "within 15 (JDict (qualification_dump lab_q))"
proof -
  have "within 2 v \<Longrightarrow> within 14 v \<and> within 19 v" for v by (auto elim: within_mono)
  note deep = this [OF slots_json(5)]
  show "modest 3400 (JDict (qualification_dump lab_q))" "within 15 (JDict (qualification_dump lab_q))"
    using lab_raw_short [of "''training''" 1] lab_raw_short [of "''evaluation''" 2] slots_json(1-4) deep
    by (simp_all add: modest_def qualification_dump_def lab_q_def context_dump_def lab_context_def source_dump_def
        lab_training_def [symmetric] flat_id_length)
     (simp_all add: lab_training_def lab_src_def strs_json_def cost_dump_def lab_cost_def
        formation_cost_def int_text_def nat_text.simps source_dump_def flat_id_length)
qed

lemma lab_ids: "is_id ''mem_1''" "is_id ''evt_a''" "is_id ''evt_b''" "is_id ''evt_c''" "is_id ''f1''" "is_id ''v1''"
  by (simp_all add: is_id_def is_id_char_def)

lemma lab_q_reads: "qualification_of_dict (qualification_dump lab_q) = Inr lab_q"
proof (rule qualification_read)
  have "wf_context lab_context"
    using context_validated lab_reads(2) by blast
  moreover have "is_id (flat_id ''upd_'')" by (rule flat_id_ok) (simp_all add: is_id_char_def)
  moreover have "exact ''1'' = Inr ''1''"
    by (simp add: exact_def zero_denominator_def split_slash_def fraction_def
        plain_numeral_def is_digit_def digits_val_def digit_val_def nat_text.simps digit_one strip_def is_space_def)
  ultimately show "wf_qualification lab_q"
    by (simp add: wf_qualification_def lab_q_def lab_training_def wf_source_def lab_src_def wf_list_def wf_cost_def
        formation_cost_def lab_cost_def stages_def lab_ids)
qed

text \<open>The packaged schemas are pinned.\<close>

lemma lab_schemas: "f \<in> {''formation'', ''candidate'', ''offer''} \<Longrightarrow> schema_check flat_host lab_alt (f, d) = Inr ()"
proof -
  assume f: "f \<in> {''formation'', ''candidate'', ''offer''}"
  have "finite_json schema_rows" by (simp add: schema_rows_def)
  then have "loads_json flat_host (render plain_float_text (sort_keys schema_rows)) = Inr (stored_json schema_rows)"
    by (intro loads_canonical) (simp_all add: canonical_json_eq)
  moreover have "stored_json schema_rows = schema_rows"
    by (simp add: schema_rows_def stored_dict_def stored_map_def dict_of_pairs_def put_def)
  moreover have "loads_json flat_host ''{}'' = Inr (JDict [])"
    using text_of_loads [of "[]"] by (simp add: text_of_def stored_dict_def stored_map_def dict_of_pairs_def)
  ultimately have texts: "loads_json flat_host (render plain_float_text (sort_keys schema_rows)) = Inr schema_rows"
    "loads_json flat_host ''{}'' = Inr (JDict [])" by simp_all
  obtain rows where list: "py_list schema_rows = Inr rows"
    and rows: "find_row (''alt-'' @ f @ ''.schema.json'') rows =
      Inr (Some (JDict [(''file'', JStr (''alt-'' @ f @ ''.schema.json'')), (''sha256'', JStr zeros)]))"
    using f by (fastforce simp: schema_rows_def item_def)
  have "pinned flat_host lab_alt (''alt-'' @ f @ ''.schema.json'') = Inr (JDict [])"
    using f by (auto simp: pinned_def resource_def lab_alt_def texts list sha_def item_def rows [simplified])
  then show ?thesis by (simp add: schema_check_def lab_alt_def)
qed

lemma lab_normal: "normal_form ''b'' = ''b''"
  by (rule normal_form_line)

lemma lab_training_ok:
  "i \<in> {''evt_a'', ''evt_b''} \<Longrightarrow>
   check_training flat_host lab_alt zeros lab_q (lab_src i ''training'' 1, Inr [(''episode'', JStr i)]) = Inr ()"
  using lab_op [of "''training''" 1 i]
  by (auto simp: check_training_def lab_alt_def trace_origin_def checked_iff lab_normal lab_trace_def trace_matches_def
      ensure_def lab_src_def lab_q_def lab_cost_def)

end
