(* ===== verification/Lab_Decision.thy ===== *)
theory Lab_Decision
  imports Lab_World Receiver_Use
begin

text \<open>
  The reconstruction of the qualification of the small world, the journal that admits it, and the
  decision that it is eligible.
\<close>

lemma lab_evaluation_ok:
  "check_evaluation flat_host lab_alt zeros lab_q (lab_src ''evt_c'' ''evaluation'' 2, Inr []) = Inr ()"
proof -
  have "modest 3500 (JDict (context_dump lab_context))"
    by (simp add: modest_def context_dump_def lab_context_def strs_json_def)
  then have "digest flat_host (JDict (context_dump (qu_context lab_q))) = Inr zeros"
    unfolding lab_q_def by (simp add: flat_digest)
  then show ?thesis
    using lab_op [of "''evaluation''" 2 "''evt_c''"]
    by (simp add: check_evaluation_def lab_alt_def checked_iff lab_normal ensure_def)
      (simp add: lab_q_def lab_context_def)
qed

lemma formation_reads:
  "cost_of_dict [(''id'', JStr ''f1''), (''stage'', JStr ''formation''), (''unit'', JStr ''work-unit''), (''amount'', JStr ''1'')] =
     Inr formation_cost"
  by (simp add: cost_of_dict_def formation_cost_def only_fields_def required_def optional_def strict_str_def
      is_id_def is_id_char_def literal_def stages_def exact_def zero_denominator_def split_slash_def fraction_def
      plain_numeral_def is_digit_def digits_val_def digit_val_def nat_text.simps digit_one strip_def is_space_def)

lemma lab_expected: "expected_costs flat_host lab_q lab_request = Inr [(''v1'', lab_cost), (''f1'', formation_cost)]"
  using lab_op [of "''training''" 1] lab_op [of "''evaluation''" 2] formation_reads
  by (simp add: expected_costs_def lab_q_def lab_training_def lab_request_def lab_cost_def dict_of_pairs_def put_def)

lemma lab_costs: "check_costs lab_q lab_offer [(''v1'', lab_cost), (''f1'', formation_cost)] = Inr ()"
  by (simp add: check_costs_def lab_q_def lab_offer_def same_dict_def dict_of_pairs_def put_def ensure_def
      formation_cost_def lab_cost_def insert_commute)

lemma lab_parts:
  "qu_training lab_q = [lab_src ''evt_a'' ''training'' 1, lab_src ''evt_b'' ''training'' 1]"
  "qu_evaluation lab_q = [lab_src ''evt_c'' ''evaluation'' 2]" "qu_context lab_q = lab_context"
  "qu_cutoff lab_q = 1" "qu_mapping lab_q = sort_key fst (slot_mapping (qu_training lab_q))" "qu_from lab_q = 0" "qu_until lab_q = 100"
  "src_event (lab_src i sp t) = i"
  by (simp_all add: lab_q_def lab_training_def lab_src_def)

lemma lab_reconstructs: "reconstruct flat_host lab_alt zeros lab_q now = Inr ()"
proof -
  have enc: "\<exists>raw. encoded flat_host (JDict (qualification_dump lab_q)) = Inr raw"
    using modest_encoded [OF lab_q_modest(1), of flat_host] by simp
  have alt: "alt_runtime lab_alt = Inr ()" "alt_request_of lab_alt d = Inr lab_request"
    "alt_offer_of lab_alt d = Inr lab_offer" "alt_reconstruct lab_alt rq cn = Inr ()" "alt_qualify lab_alt rq cn off m = Inr ()"
    "alt_candidate_of lab_alt (qu_candidate lab_q) = Inr \<lparr>cn_dump = qu_candidate lab_q\<rparr>" for d rq cn off m
    by (simp_all add: lab_alt_def runtime_def lab_q_def)
  have policy: "registered_policy zeros lab_context" by (simp add: registered_policy_def lab_context_def)
  have scope: "rq_cutoff lab_request = 1" "rq_scope lab_request = cx_mission lab_context" "length (rq_sources lab_request) = 2"
    by (simp_all add: lab_request_def lab_context_def)
  have library: "mapped_library zeros lab_q lab_request = Inr ()"
  proof -
    have "distinct (map fst (slot_mapping (qu_training lab_q)))" by (simp add: slot_mapping_def)
    then have "same_dict (qu_mapping lab_q) (slot_mapping (qu_training lab_q))"
      by (auto simp: same_dict_def list_all_iff lab_parts(5))
    then show ?thesis by (simp add: mapped_library_def lab_request_def ensure_def)
  qed
  have training: "all_res (check_training flat_host lab_alt zeros lab_q) (zip (qu_training lab_q) (rq_sources lab_request)) = Inr ()"
    using lab_training_ok by (simp add: lab_parts lab_request_def)
  have offer: "semantic_scope lab_offer" "same_context lab_offer lab_context = Inr ()" "ao_from lab_offer = 0" "ao_until lab_offer = 100"
    "ao_inputs lab_offer = map (\<lambda>v. alt_digest lab_alt (JStr v)) (cx_inputs lab_context)" "length (ao_checks lab_offer) = 1"
    by (simp_all add: lab_offer_def lab_context_def semantic_scope_def same_context_def context_fields_def lab_alt_def)
  have evaluation: "all_res (check_evaluation flat_host lab_alt zeros lab_q) (zip (qu_evaluation lab_q) (ao_checks lab_offer)) = Inr ()"
    using lab_evaluation_ok by (simp add: lab_parts lab_offer_def)
  have schemas: "all_res (schema_check flat_host lab_alt)
      [(''formation'', qu_formation lab_q), (''candidate'', qu_candidate lab_q), (''offer'', qu_offer lab_q)] = Inr ()"
    using lab_schemas by simp
  have distinct_events: "distinct (map src_event (qu_training lab_q @ qu_evaluation lab_q))"
    and sizes: "length (qu_training lab_q) = 2" "length (qu_evaluation lab_q) = 1"
    by (simp_all add: lab_parts)
  show ?thesis
    using enc distinct_events
    by (elim exE) (simp add: reconstruct_def lab_q_reads alt lab_parts(3,4,6-) policy scope library training offer
        evaluation schemas lab_expected lab_costs ensure_def sizes del: all_res_Inr distinct_append map_append)
qed

end
