(* ===== verification/Journal_Order.thy ===== *)
theory Journal_Order
  imports Journal_Properties Wire_Types
begin

text \<open>
  The replay does not look at the order of keys. A journal that was written as canonical text and
  read back has the keys of its documents in order; the lemmas say that every reader, every kind of
  entry and the replay as a whole give results that are alike.
\<close>

section \<open>Documents that are alike\<close>

definition alike :: "json \<Rightarrow> json \<Rightarrow> bool" where
  "alike v w \<longleftrightarrow> sort_keys v = sort_keys w"

definition alikes :: "dict \<Rightarrow> dict \<Rightarrow> bool" where
  "alikes d e \<longleftrightarrow> alike (JDict d) (JDict e)"

lemma alike_refl [simp]: "alike v v" "alikes d d"
  by (simp_all add: alike_def alikes_def)

lemma alike_sort [simp]: "alike v (sort_keys v)"
  by (simp add: alike_def)

lemma alike_dict [simp]: "alike (JDict d) (JDict e) = alikes d e"
  by (simp add: alikes_def)

lemma alike_list [simp]: "alike (JList vs) (JList ws) = list_all2 alike vs ws"
proof -
  have "list_all2 alike vs ws \<longleftrightarrow> list_all2 (=) (map sort_keys vs) (map sort_keys ws)"
    by (simp only: list.rel_map alike_def [abs_def])
  then show ?thesis by (simp add: alike_def list.rel_eq)
qed

lemma alike_sym: "alike v w = alike w v"
  by (simp add: alike_def eq_commute)

lemma alike_atom [simp]:
  "alike JNull w = (w = JNull)" "alike (JBool b) w = (w = JBool b)" "alike (JInt i) w = (w = JInt i)"
  "alike (JFloat f) w = (w = JFloat f)" "alike (JStr s) w = (w = JStr s)"
  by (cases w; simp add: alike_def eq_commute)+

lemma alike_atom' [simp]:
  "alike w JNull = (w = JNull)" "alike w (JBool b) = (w = JBool b)" "alike w (JInt i) = (w = JInt i)"
  "alike w (JFloat f) = (w = JFloat f)" "alike w (JStr s) = (w = JStr s)"
  by (simp_all only: alike_sym [of w] alike_atom)

lemma alike_shape [simp]:
  "\<not> alike (JDict d) (JList ws)" "\<not> alike (JList vs) (JDict e)"
  by (simp_all add: alike_def)

lemma map_of_first: "map_of d k = (case filter (\<lambda>p. fst p = k) d of [] \<Rightarrow> None | p # _ \<Rightarrow> Some (snd p))"
  by (induction d) auto

lemma map_of_stable: "map_of (sort_key fst d) k = map_of d k"
  by (simp add: map_of_first sort_key_stable)

lemma sorted_field: "map_of (sort_key fst (map (\<lambda>(k, v). (k, sort_keys v)) d)) k = map_option sort_keys (map_of d k)"
  by (simp add: map_of_stable map_of_map_snd)

lemma alikes_field:
  assumes "alikes d e"
  shows "rel_option alike (map_of d k) (map_of e k)"
proof -
  have "map_option sort_keys (map_of d k) = map_option sort_keys (map_of e k)"
    using assms by (simp add: alikes_def alike_def flip: sorted_field)
  then show ?thesis by (cases "map_of d k"; cases "map_of e k") (simp_all add: alike_def)
qed

lemma alikes_fields:
  assumes "alikes d e"
  shows "fst ` set d = fst ` set e" "length d = length e"
proof -
  have "(k \<in> dom (map_of d)) = (k \<in> dom (map_of e))" for k
    using alikes_field [OF assms, of k] by (cases "map_of d k"; cases "map_of e k") auto
  then show "fst ` set d = fst ` set e" by (simp add: dom_map_of_conv_image_fst set_eq_iff)
  have "sort_key fst (map (\<lambda>(k, v). (k, sort_keys v)) d) = sort_key fst (map (\<lambda>(k, v). (k, sort_keys v)) e)"
    using assms by (simp add: alikes_def alike_def)
  from arg_cong [OF this, of length] show "length d = length e" by simp
qed

section \<open>Computations that succeed alike\<close>

definition sim :: "('a \<Rightarrow> 'b \<Rightarrow> bool) \<Rightarrow> 'a res \<Rightarrow> 'b res \<Rightarrow> bool" where
  "sim R r r' \<longleftrightarrow> (\<forall>x. r = Inr x \<longrightarrow> (\<exists>y. r' = Inr y \<and> R x y))"

named_theorems sim_intros

lemma simD: "sim R r r' \<Longrightarrow> r = Inr x \<Longrightarrow> (\<And>y. r' = Inr y \<Longrightarrow> R x y \<Longrightarrow> P) \<Longrightarrow> P"
  by (auto simp: sim_def)

lemma sim_refl [simp]: "(\<And>x. R x x) \<Longrightarrow> sim R r r"
  by (simp add: sim_def)

lemma sim_Inr [simp]: "sim R (Inr x) r' \<longleftrightarrow> (\<exists>y. r' = Inr y \<and> R x y)"
  by (simp add: sim_def)

lemma sim_Inl [simp]: "sim R (Inl e) r'"
  by (simp add: sim_def)

lemma sim_bind [sim_intros]:
  "sim R r r' \<Longrightarrow> (\<And>x y. R x y \<Longrightarrow> sim S (f x) (g y)) \<Longrightarrow> sim S (bind_res r f) (bind_res r' g)"
  by (cases r; cases r') (auto simp: sim_def)

lemma sim_bind_eq:
  "sim (=) r r' \<Longrightarrow> (\<And>x. sim S (f x) (g x)) \<Longrightarrow> sim S (bind_res r f) (bind_res r' g)"
  by (rule sim_bind [where R = "(=)"]) simp_all

lemma sim_if [sim_intros]:
  "(b \<longleftrightarrow> b') \<Longrightarrow> (b \<Longrightarrow> sim R r s) \<Longrightarrow> (\<not> b \<Longrightarrow> sim R r' s') \<Longrightarrow>
   sim R (if b then r else r') (if b' then s else s')"
  by simp

lemma sim_mono: "sim R r r' \<Longrightarrow> (\<And>x y. R x y \<Longrightarrow> S x y) \<Longrightarrow> sim S r r'"
  by (auto simp: sim_def)

lemma sim_required [sim_intros]:
  "alikes d e \<Longrightarrow> (\<And>v w. alike v w \<Longrightarrow> sim R (rd v) (rd' w)) \<Longrightarrow> sim R (required rd d k) (required rd' e k)"
  using alikes_field [of d e k] by (auto simp: required_def split: option.splits)

lemma sim_optional [sim_intros]:
  "alikes d e \<Longrightarrow> R x y \<Longrightarrow> (\<And>v w. alike v w \<Longrightarrow> sim R (rd v) (rd' w)) \<Longrightarrow>
   sim R (optional rd x d k) (optional rd' y e k)"
  using alikes_field [of d e k] by (auto simp: optional_def split: option.splits)

lemma sim_optional_eq:
  "alikes d e \<Longrightarrow> (\<And>v w. alike v w \<Longrightarrow> sim (=) (rd v) (rd' w)) \<Longrightarrow>
   sim (=) (optional rd x d k) (optional rd' x e k)"
  by (rule sim_optional [where R = "(=)"]) simp_all

lemma sim_item [sim_intros]: "alikes d e \<Longrightarrow> sim alike (item d k) (item e k)"
  using alikes_field [of d e k] by (auto simp: sim_def rel_option_iff split: option.splits)

lemma sim_map_res [sim_intros]:
  "list_all2 A vs ws \<Longrightarrow> (\<And>v w. A v w \<Longrightarrow> sim R (f v) (g w)) \<Longrightarrow> sim (list_all2 R) (map_res f vs) (map_res g ws)"
proof (induction rule: list_all2_induct)
  case (Cons v vs w ws)
  then show ?case by (auto intro!: sim_bind [where R = R] sim_bind [where R = "list_all2 R"])
qed simp

lemma sim_only_fields [sim_intros]:
  assumes "alikes d e"
  shows "sim (=) (only_fields names d) (only_fields names e)"
proof -
  have "list_all (\<lambda>p. fst p \<in> set names) d \<longleftrightarrow> fst ` set d \<subseteq> set names" for d :: dict
    by (auto simp: list_all_iff)
  then show ?thesis by (simp add: only_fields_def alikes_fields(1) [OF assms])
qed

section \<open>Readers\<close>

lemma alike_JDict: "alike (JDict d) w \<Longrightarrow> \<exists>e. w = JDict e \<and> alikes d e"
  by (cases w) auto

lemma alike_JList: "alike (JList vs) w \<Longrightarrow> \<exists>ws. w = JList ws \<and> list_all2 alike vs ws"
  by (cases w) auto

lemma sim_atoms [sim_intros]:
  assumes "alike v w"
  shows "sim (=) (str_value v) (str_value w)" "sim (=) (strict_str P v) (strict_str P w)"
    "sim (=) (literal L v) (literal L w)" "sim (=) (tick_value v) (tick_value w)"
    "sim (=) (strict_bool v) (strict_bool w)" "sim (=) (none_value v) (none_value w)"
    "sim alikes (dict_value v) (dict_value w)" "sim (=) (entry_kind_of v) (entry_kind_of w)"
  using assms
  by (cases v; auto simp: strict_str_def literal_def entry_kind_of_def dest: alike_JDict)+

lemma sim_exact [sim_intros]:
  "alike v w \<Longrightarrow> sim (=) (bind_res (str_value v) exact) (bind_res (str_value w) exact)"
  by (rule sim_bind_eq, erule sim_atoms) simp

lemma sim_list_value [sim_intros]:
  assumes "alike v w" "\<And>x y. alike x y \<Longrightarrow> sim R (rd x) (rd' y)"
  shows "sim (list_all2 R) (list_value rd v) (list_value rd' w)"
proof (cases "\<exists>vs. v = JList vs")
  case True
  then obtain vs ws where "v = JList vs" "w = JList ws" "list_all2 alike vs ws"
    using assms(1) alike_JList by blast
  then show ?thesis using sim_map_res [where A = alike, OF _ assms(2)] by (simp add: list_value_def)
next
  case False
  then show ?thesis by (cases v) (simp_all add: list_value_def)
qed

lemma sim_bounded [sim_intros]:
  assumes "alike v w" "\<And>x y. alike x y \<Longrightarrow> sim (=) (rd x) (rd y)"
  shows "sim (=) (bounded_list lo hi rd v) (bounded_list lo hi rd w)"
proof -
  have "sim (=) (list_value rd v) (list_value rd w)"
    using sim_list_value [where R = "(=)", OF assms] by (simp add: list.rel_eq)
  then show ?thesis unfolding bounded_list_def by (rule sim_bind_eq) simp
qed

lemma sim_domain [sim_intros]: "sim (=) r r' \<Longrightarrow> sim (=) (distinct_domain r) (distinct_domain r')"
  unfolding distinct_domain_def by (rule sim_bind_eq) simp_all

lemma sim_nested [sim_intros]:
  "alike v w \<Longrightarrow> (\<And>d e. alikes d e \<Longrightarrow> sim R (rd d) (rd' e)) \<Longrightarrow> sim R (nested rd v) (nested rd' w)"
  unfolding nested_def by (rule sim_bind, erule sim_atoms)

lemma sim_cost [sim_intros]: "alikes d e \<Longrightarrow> sim (=) (cost_of_dict d) (cost_of_dict e)"
  unfolding cost_of_dict_def
  by (intro sim_bind_eq sim_only_fields sim_required sim_optional_eq sim_atoms sim_exact; (assumption | simp))

lemma sim_source [sim_intros]: "alikes d e \<Longrightarrow> sim (=) (source_of_dict d) (source_of_dict e)"
  unfolding source_of_dict_def
  by (intro sim_bind_eq sim_only_fields sim_required sim_atoms; (assumption | simp))

lemma sim_context [sim_intros]: "alikes d e \<Longrightarrow> sim (=) (context_of_dict d) (context_of_dict e)"
  unfolding context_of_dict_def
  by (intro sim_bind_eq sim_only_fields sim_required sim_optional_eq sim_domain sim_bounded sim_atoms; (assumption | simp))

text \<open>A dictionary of strings.\<close>

lemma str_map_value_iff: "str_map_value v = Inr m \<longleftrightarrow> v = str_map_json m"
proof -
  have "map_res (\<lambda>(k, w). bind_res (str_value w) (\<lambda>x. Inr (k, x))) d = Inr m \<longleftrightarrow> d = map (\<lambda>(k, s). (k, JStr s)) m" for d
  proof (induction d arbitrary: m)
    case (Cons p d)
    then show ?case by (cases p; cases m) (auto simp: res_simps str_value_iff)
  qed auto
  then show ?thesis by (cases v) (auto simp: str_map_value_def map_value_def str_map_json_def)
qed

lemma alike_str_map: "alike (str_map_json m) w \<Longrightarrow> \<exists>m'. w = str_map_json m'"
proof -
  assume "alike (str_map_json m) w"
  then obtain e where w: "w = JDict e" and e: "alikes (map (\<lambda>(k, s). (k, JStr s)) m) e"
    by (auto simp: str_map_json_def dest: alike_JDict)
  have "\<exists>s. u = JStr s" if "(k, u) \<in> set e" for k u
  proof -
    have "(k, sort_keys u) \<in> set (sort_key fst (map (\<lambda>(k, v). (k, sort_keys v)) e))" using that by force
    also have "\<dots> = set (sort_key fst (map (\<lambda>(k, v). (k, sort_keys v)) (map (\<lambda>(k, s). (k, JStr s)) m)))"
      using e by (simp add: alikes_def alike_def)
    finally show ?thesis by (cases u) auto
  qed
  then have "e = map (\<lambda>(k, s). (k, JStr s)) (map (\<lambda>(k, u). (k, case u of JStr s \<Rightarrow> s | _ \<Rightarrow> [])) e)"
    by (induction e) fastforce+
  then show ?thesis unfolding w str_map_json_def by blast
qed

lemma sim_str_map [sim_intros]:
  "alike v w \<Longrightarrow> sim (\<lambda>m m'. alike (str_map_json m) (str_map_json m')) (str_map_value v) (str_map_value w)"
  unfolding sim_def str_map_value_iff using alike_str_map by blast

lemma alikes_pointwise:
  "list_all2 (\<lambda>p p'. fst p = fst p' \<and> alike (snd p) (snd p')) d e \<Longrightarrow> alikes d e"
proof -
  assume "list_all2 (\<lambda>p p'. fst p = fst p' \<and> alike (snd p) (snd p')) d e"
  then have "map (\<lambda>(k, v). (k, sort_keys v)) d = map (\<lambda>(k, v). (k, sort_keys v)) e"
    by (induction rule: list_all2_induct) (auto simp: alike_def)
  then show ?thesis by (simp add: alikes_def alike_def)
qed

definition qualike :: "qualification \<Rightarrow> qualification \<Rightarrow> bool" where
  "qualike q q' \<longleftrightarrow>
     qu_memory q = qu_memory q' \<and> qu_update q = qu_update q' \<and> qu_workflow q = qu_workflow q' \<and>
     qu_context q = qu_context q' \<and> qu_costs q = qu_costs q' \<and> qu_from q = qu_from q' \<and> qu_until q = qu_until q' \<and>
     qu_cutoff q = qu_cutoff q' \<and> qu_training q = qu_training q' \<and> qu_evaluation q = qu_evaluation q' \<and>
     alikes (qu_candidate q) (qu_candidate q') \<and> alike (str_map_json (qu_mapping q)) (str_map_json (qu_mapping q')) \<and>
     alikes (qualification_dump q) (qualification_dump q')"

lemma sim_qualification [sim_intros]:
  assumes d: "alikes d e"
  shows "sim qualike (qualification_of_dict d) (qualification_of_dict e)"
  unfolding qualification_of_dict_def
  apply (rule sim_bind_eq, (intro sim_only_fields sim_required sim_optional_eq sim_nested sim_bounded sim_context
      sim_source sim_cost sim_atoms; (rule d | assumption | (simp; fail))))+
  apply (rule sim_bind [where R = alikes], (intro sim_required sim_atoms(7); (rule d | assumption)))+
  apply (rule sim_bind [where R = "\<lambda>m m'. alike (str_map_json m) (str_map_json m')"],
      (intro sim_required sim_str_map; (rule d | assumption)))
  apply (rule sim_bind_eq, (intro sim_required sim_optional_eq sim_nested sim_bounded sim_cost sim_atoms;
      (rule d | assumption | (simp; fail))))+
  by (simp add: qualike_def qualification_dump_def alikes_pointwise)

section \<open>Comparison\<close>

lemma sort_keys_atom [simp]: "(sort_keys v = JFloat f) = (v = JFloat f)" "(sort_keys v = JNull) = (v = JNull)"
    "(sort_keys v = JStr s) = (v = JStr s)"
  by (cases v; simp)+

lemma number_eq_sort [simp]: "number_eq v (sort_keys w) = number_eq v w"
proof -
  have parts: "number_parts (sort_keys w) = number_parts w" by (cases w) simp_all
  show ?thesis unfolding number_eq_def parts sort_keys_atom ..
qed

lemma py_eq_sort: "py_eq (sort_keys v) (sort_keys w) = py_eq v w"
proof (induction v w rule: py_eq.induct)
  case (3 vs w)
  show ?case
  proof (cases w)
    case (JList ws)
    have "py_eq (sort_keys a) (sort_keys b) = py_eq a b" if "(a, b) \<in> set (zip vs ws)" for a b
      using 3 JList that by blast
    then show ?thesis using JList by (auto simp: list_all_iff zip_map_map)
  qed simp_all
next
  case (4 d w)
  show ?case
  proof (cases w)
    case (JDict e)
    have "(case map_of (sort_key fst (map (\<lambda>(k, v). (k, sort_keys v)) e)) k of None \<Rightarrow> False | Some u \<Rightarrow> py_eq (sort_keys v) u) =
        (case map_of e k of None \<Rightarrow> False | Some u \<Rightarrow> py_eq v u)" if "(k, v) \<in> set d" for k v
      using 4 JDict that by (cases "map_of e k") (auto simp: sorted_field)
    then have "list_all (\<lambda>(k, v). case map_of (sort_key fst (map (\<lambda>(k, v). (k, sort_keys v)) e)) k of
          None \<Rightarrow> False | Some u \<Rightarrow> py_eq v u) (map (\<lambda>(k, v). (k, sort_keys v)) d) =
        list_all (\<lambda>(k, v). case map_of e k of None \<Rightarrow> False | Some u \<Rightarrow> py_eq v u) d"
      by (auto simp: list_all_iff)
    then show ?thesis using JDict by (simp add: list_all_iff)
  qed simp_all
qed (auto simp: alike_def split: json.splits)

lemma py_eq_alike: "alike v v' \<Longrightarrow> alike w w' \<Longrightarrow> py_eq v w = py_eq v' w'"
  by (metis alike_def py_eq_sort)

lemma digest_alike: "alike v w \<Longrightarrow> digest H v = digest H w"
  by (simp add: digest_def encoded_def alike_def)

section \<open>States that are alike\<close>

definition alike_map :: "(string \<times> dict) list \<Rightarrow> (string \<times> dict) list \<Rightarrow> bool" where
  "alike_map a b \<longleftrightarrow> list_all2 (\<lambda>p p'. fst p = fst p' \<and> alikes (snd p) (snd p')) a b"

definition jalike :: "journal \<Rightarrow> journal \<Rightarrow> bool" where
  "jalike j j' \<longleftrightarrow>
     alike_map (jn_qualifications j) (jn_qualifications j') \<and> alike_map (jn_costs j) (jn_costs j') \<and>
     alike_map (jn_intents j) (jn_intents j') \<and> alike_map (jn_outcomes j) (jn_outcomes j') \<and>
     list_all2 alikes (jn_blocks j) (jn_blocks j') \<and> list_all2 alikes (jn_withdrawn j) (jn_withdrawn j') \<and>
     list_all2 alikes (jn_exposures j) (jn_exposures j') \<and> list_all2 alikes (jn_allegations j) (jn_allegations j') \<and>
     jn_attempts j = jn_attempts j' \<and> jn_checked j = jn_checked j' \<and> jn_services j = jn_services j'"

definition ealike :: "entry \<Rightarrow> entry \<Rightarrow> bool" where
  "ealike e e' \<longleftrightarrow>
     en_id e = en_id e' \<and> en_previous e = en_previous e' \<and> en_time e = en_time e' \<and> en_kind e = en_kind e' \<and>
     alikes (en_data e) (en_data e')"

lemma jalike_refl [simp]: "jalike j j"
  by (simp add: jalike_def alike_map_def list.rel_refl)

lemma alike_map_keys: "alike_map a b \<Longrightarrow> map fst a = map fst b"
  unfolding alike_map_def by (induction rule: list_all2_induct) auto

lemma alike_map_set: "alike_map a b \<Longrightarrow> fst ` set a = fst ` set b"
  by (metis alike_map_keys list.set_map)

lemma alike_map_of: "alike_map a b \<Longrightarrow> rel_option alikes (map_of a k) (map_of b k)"
  unfolding alike_map_def by (induction rule: list_all2_induct) auto

lemma alike_map_put: "alike_map a b \<Longrightarrow> alikes v w \<Longrightarrow> alike_map (put k v a) (put k w b)"
  unfolding alike_map_def put_def by (induction rule: list_all2_induct) auto

lemma sim_item_map: "alike_map a b \<Longrightarrow> sim alikes (item a k) (item b k)"
  using alike_map_of [of a b k] by (auto simp: sim_def rel_option_iff split: option.splits)

lemma sim_require_key:
  "alike v w \<Longrightarrow> fst ` set a = fst ` set b \<Longrightarrow> sim (=) (require_key v a p e) (require_key w b p e)"
  by (cases v) (auto simp: require_key_def dom_map_of_conv_image_fst)

lemma alike_has_fields: "alikes d e \<Longrightarrow> has_fields d names = has_fields e names"
  by (simp add: has_fields_def alikes_fields(1))

lemma alike_strings:
  assumes "alikes d e"
  shows "list_all (\<lambda>(_, v). is_str v) d = list_all (\<lambda>(_, v). is_str v) e"
proof -
  have sorted: "list_all (\<lambda>(_, v). is_str v) (sort_key fst (map (\<lambda>(k, v). (k, sort_keys v)) d)) =
      list_all (\<lambda>(_, v). is_str v) d" for d :: dict
  proof -
    have "is_str (sort_keys v) = is_str v" for v by (cases v) (simp_all add: is_str_def)
    then show ?thesis by (simp add: list_all_iff case_prod_unfold)
  qed
  have "sort_key fst (map (\<lambda>(k, v). (k, sort_keys v)) d) = sort_key fst (map (\<lambda>(k, v). (k, sort_keys v)) e)"
    using assms by (simp add: alikes_def alike_def)
  then show ?thesis by (metis sorted)
qed

lemma sort_key_sorted_prefix: "sort_key f (sort_key f xs @ ys) = sort_key f (xs @ ys)"
proof -
  have stable: "filter (\<lambda>x. f k = f x) (sort_key f zs) = filter (\<lambda>x. f k = f x) zs" for k zs
  proof -
    have swap: "(\<lambda>x. f k = f x) = (\<lambda>x. f x = f k)" by (rule ext, rule eq_commute)
    show ?thesis unfolding swap by (rule sort_key_stable)
  qed
  show ?thesis by (rule sym, rule properties_for_sort_key) (simp_all add: stable)
qed

lemma alikes_append:
  assumes "alikes d e"
  shows "alikes (d @ x) (e @ x)"
proof -
  let ?f = "map (\<lambda>(k, v). (k, sort_keys v))"
  have "sort_key fst (?f d) = sort_key fst (?f e)" using assms by (simp add: alikes_def alike_def)
  then have "sort_key fst (?f d @ ?f x) = sort_key fst (?f e @ ?f x)"
    by (simp only: sort_key_sorted_prefix [of fst "?f d", symmetric] sort_key_sorted_prefix [of fst "?f e", symmetric])
  then show ?thesis by (simp add: alikes_def alike_def)
qed

lemma alike_stamped:
  assumes e: "ealike e e'" and fields: "has_fields (en_data e) (blocking_fields k)"
  shows "alikes (stamped (en_data e) e) (stamped (en_data e') e')"
proof -
  have d: "alikes (en_data e) (en_data e')" using e by (simp add: ealike_def)
  have fresh: "put ''event'' x (put ''time'' y d) = d @ [(''time'', y), (''event'', x)]"
    if "has_fields d (blocking_fields k)" for d :: dict and x y
    using that by (simp add: has_fields_def blocking_fields_def put_absent split: if_splits)
  have "has_fields (en_data e') (blocking_fields k)" using fields by (simp add: alike_has_fields [OF d])
  then show ?thesis using fields e
    by (simp add: stamped_def fresh ealike_def alikes_append [OF d])
qed

end
