(* ===== verification/Journal_Durable.thy ===== *)
theory Journal_Durable
  imports Journal_Order
begin

text \<open>
  What is appended to the journal is what is read from it later: the rows of an append hold the
  entries up to the order of their keys, and their replay has the revision that the append returned.
\<close>

section \<open>Entries that are alike\<close>

declare py_eq.simps [simp del]

lemma py_eq_dicts: "alikes d d' \<Longrightarrow> alikes e e' \<Longrightarrow> py_eq (JDict d) (JDict e) = py_eq (JDict d') (JDict e')"
  by (rule py_eq_alike) simp_all

lemma sim_apply_cost:
  assumes j: "jalike j j'" and d: "alikes d d'"
  shows "sim jalike (apply_cost d j) (apply_cost d' j')"
proof -
  have costs: "alike_map (jn_costs j) (jn_costs j')" using j by (simp add: jalike_def)
  note put = alike_map_put [OF costs d]
  show ?thesis unfolding apply_cost_def
  proof (rule sim_bind_eq [OF sim_cost [OF d]])
    fix c
    show "sim jalike
      (case map_of (jn_costs j) (cst_id c) of
         Some x \<Rightarrow> if py_eq (JDict x) (JDict d) then Inr (j\<lparr>jn_costs := put (cst_id c) d (jn_costs j)\<rparr>)
           else Inl (ValueError ''conflicting physical cost'')
       | None \<Rightarrow> Inr (j\<lparr>jn_costs := put (cst_id c) d (jn_costs j)\<rparr>))
      (case map_of (jn_costs j') (cst_id c) of
         Some x \<Rightarrow> if py_eq (JDict x) (JDict d') then Inr (j'\<lparr>jn_costs := put (cst_id c) d' (jn_costs j')\<rparr>)
           else Inl (ValueError ''conflicting physical cost'')
       | None \<Rightarrow> Inr (j'\<lparr>jn_costs := put (cst_id c) d' (jn_costs j')\<rparr>))"
      using alike_map_of [OF costs, of "cst_id c"] put [of "cst_id c"] j py_eq_dicts [OF _ d]
      by (auto simp: jalike_def split: option.splits)
  qed
qed

lemma cost_paid_alike: "alike_map a b \<Longrightarrow> cost_paid a c = cost_paid b c"
  using alike_map_of [of a b "cst_id c"] py_eq_dicts [OF _ alike_refl(2)]
  by (auto simp: cost_paid_def split: option.splits)

lemma sim_apply_admit:
  assumes j: "jalike j j'" and d: "alikes d d'"
  shows "sim jalike (apply_admit H d j) (apply_admit H d' j')"
  unfolding apply_admit_def
proof (rule sim_bind [OF sim_qualification [OF d]])
  fix q q' assume q: "qualike q q'"
  have paid: "list_all (cost_paid (jn_costs j)) (qu_costs q) = list_all (cost_paid (jn_costs j')) (qu_costs q')"
  proof -
    have "cost_paid (jn_costs j) = cost_paid (jn_costs j')"
      using j cost_paid_alike by (auto simp: jalike_def fun_eq_iff)
    then show ?thesis using q by (simp add: qualike_def)
  qed
  have digests: "digest H (JDict (qualification_dump q)) = digest H (JDict (qualification_dump q'))"
    using q by (intro digest_alike) (simp add: qualike_def)
  have quals: "alike_map (jn_qualifications j) (jn_qualifications j')" using j by (simp add: jalike_def)
  show "sim jalike
    (if \<not> list_all (cost_paid (jn_costs j)) (qu_costs q) then Inl (ValueError ''unpaid qualification obligations'')
     else bind_res (digest H (JDict (qualification_dump q))) (\<lambda>k. Inr (j\<lparr>jn_qualifications := put k d (jn_qualifications j)\<rparr>)))
    (if \<not> list_all (cost_paid (jn_costs j')) (qu_costs q') then Inl (ValueError ''unpaid qualification obligations'')
     else bind_res (digest H (JDict (qualification_dump q'))) (\<lambda>k. Inr (j'\<lparr>jn_qualifications := put k d' (jn_qualifications j')\<rparr>)))"
    unfolding paid digests
    by (rule sim_if, simp, simp, rule sim_bind_eq, simp)
      (use j alike_map_put [OF quals d] in \<open>simp add: jalike_def\<close>)
qed

lemma sim_apply_blocking:
  assumes j: "jalike j j'" and e: "ealike e e'"
  shows "sim jalike (apply_blocking e j) (apply_blocking e' j')"
proof -
  have d: "alikes (en_data e) (en_data e')" and k: "en_kind e' = en_kind e" using e by (simp_all add: ealike_def)
  show ?thesis
    using j alike_stamped [OF e, of "en_kind e"] alike_has_fields [OF d] alike_strings [OF d]
    by (auto simp: apply_blocking_def Let_def k jalike_def intro: list_all2_appendI)
qed

text \<open>A guard on the fields of the data, and an access to one of them.\<close>

lemma sim_guard:
  "b = b' \<Longrightarrow> (\<not> b \<Longrightarrow> sim R r r') \<Longrightarrow> sim R (if b then Inl e else r) (if b' then Inl e' else r')"
  by simp

lemma sim_apply_exposure:
  assumes j: "jalike j j'" and d: "alikes d d'"
  shows "sim jalike (apply_exposure d j) (apply_exposure d' j')"
proof -
  have keys: "fst ` set (jn_qualifications j) = fst ` set (jn_qualifications j')"
    using j by (simp add: jalike_def alike_map_set)
  have "jalike (j\<lparr>jn_exposures := jn_exposures j @ [d]\<rparr>) (j'\<lparr>jn_exposures := jn_exposures j' @ [d']\<rparr>)"
    using j d by (simp add: jalike_def list_all2_appendI)
  then show ?thesis unfolding apply_exposure_def
    by (intro sim_guard sim_bind [OF sim_item [OF d]] sim_bind_eq [OF sim_require_key [OF _ keys]])
      (simp_all add: alike_has_fields [OF d])
qed

lemma sim_apply_intent:
  assumes j: "jalike j j'" and e: "ealike e e'"
  shows "sim jalike (apply_intent e j) (apply_intent e' j')"
proof -
  have d: "alikes (en_data e) (en_data e')" and i: "en_id e' = en_id e" using e by (simp_all add: ealike_def)
  have keys: "fst ` set (jn_qualifications j) = fst ` set (jn_qualifications j')"
    "fst ` set (jn_costs j) = fst ` set (jn_costs j')"
    using j by (simp_all add: jalike_def alike_map_set)
  have "jalike (j\<lparr>jn_intents := put (en_id e) (en_data e) (jn_intents j)\<rparr>)
      (j'\<lparr>jn_intents := put (en_id e) (en_data e') (jn_intents j')\<rparr>)"
    using j alike_map_put [OF _ d] by (simp add: jalike_def)
  then show ?thesis unfolding apply_intent_def Let_def i
    by (intro sim_guard sim_bind [OF sim_item [OF d]] sim_bind_eq [OF sim_require_key [OF _ keys(1)]]
        sim_bind_eq [OF sim_require_key [OF _ keys(2)]])
      (simp_all add: alike_has_fields [OF d])
qed

lemma sim_apply_attempt:
  assumes j: "jalike j j'" and e: "ealike e e'"
  shows "sim jalike (apply_attempt e j) (apply_attempt e' j')"
proof -
  have d: "alikes (en_data e) (en_data e')" and i: "en_id e' = en_id e" using e by (simp_all add: ealike_def)
  have same: "jn_attempts j' = jn_attempts j" and keys: "fst ` set (jn_intents j) = fst ` set (jn_intents j')"
    using j by (simp_all add: jalike_def alike_map_set)
  have "jalike (j\<lparr>jn_attempts := put k v (jn_attempts j)\<rparr>) (j'\<lparr>jn_attempts := put k v (jn_attempts j)\<rparr>)" for k v
    using j by (simp add: jalike_def)
  then show ?thesis unfolding apply_attempt_def Let_def i same
    by (intro sim_guard sim_bind [OF sim_item [OF d]] sim_bind_eq [OF sim_require_key [OF _ keys]]
        sim_bind_eq [OF sim_require_key [OF _ refl]])
      (simp_all add: alike_has_fields [OF d])
qed

lemma sim_status_in: "alike v w \<Longrightarrow> sim (=) (status_in v L) (status_in w L)"
  by (cases v) auto

lemma sim_apply_outcome:
  assumes j: "jalike j j'" and d: "alikes d d'"
  shows "sim jalike (apply_outcome d j) (apply_outcome d' j')"
proof -
  have same: "jn_attempts j' = jn_attempts j" and keys: "fst ` set (jn_outcomes j) = fst ` set (jn_outcomes j')"
    using j by (simp_all add: jalike_def alike_map_set)
  have "jalike (j\<lparr>jn_outcomes := put k d (jn_outcomes j)\<rparr>) (j'\<lparr>jn_outcomes := put k d' (jn_outcomes j')\<rparr>)" for k
    using j alike_map_put [OF _ d] by (simp add: jalike_def)
  then show ?thesis unfolding apply_outcome_def Let_def same
    by (intro sim_guard sim_bind [OF sim_item [OF d]] sim_bind_eq [OF sim_require_key [OF _ refl]]
        sim_bind_eq [OF sim_require_key [OF _ keys]] sim_bind_eq [OF sim_status_in])
      (simp_all add: alike_has_fields [OF d])
qed

lemma sim_outcome_operation:
  assumes i: "alikes i i'" and r: "alikes r r'" and c: "alikes c c'"
  shows "sim (=) (outcome_operation H implementation i r t c) (outcome_operation H implementation i' r' t c')"
proof -
  have received: "(v = JStr s) = (w = JStr s)" if "alike v w" for v w s using that by (cases v) auto
  show ?thesis unfolding outcome_operation_def text_value_def
    by (intro sim_bind [OF sim_item [OF i]] sim_bind [OF sim_item [OF r]] sim_bind_eq [OF sim_cost [OF c]]
        sim_bind_eq [OF sim_atoms(2)] sim_bind_eq [OF sim_refl]) (auto simp: received)
qed

lemma sim_negative_block:
  assumes q: "alikes q q'" and i: "alikes i i'" and e: "ealike e e'"
  shows "sim alikes (negative_block H q i e) (negative_block H q' i' e')"
proof -
  have same: "en_time e' = en_time e" "en_id e' = en_id e" using e by (simp_all add: ealike_def)
  show ?thesis unfolding negative_block_def
  proof (rule sim_bind [OF sim_qualification [OF q]])
    fix u u' assume u: "qualike u u'"
    then have ctx: "qu_context u' = qu_context u" and cand: "alikes (qu_candidate u) (qu_candidate u')"
      by (simp_all add: qualike_def)
    show "sim alikes
      (bind_res (item (qu_candidate u) ''artifact_digest'') (\<lambda>a.
       bind_res (digest H (JDict (context_dump (qu_context u)))) (\<lambda>cx.
       bind_res (item i ''input'') (\<lambda>iv.
       Inr [(''artifact'', a), (''context'', JStr cx), (''input'', iv), (''time'', JInt (int (en_time e))),
         (''event'', JStr (en_id e)), (''reason'', JStr ''checked-negative'')]))))
      (bind_res (item (qu_candidate u') ''artifact_digest'') (\<lambda>a.
       bind_res (digest H (JDict (context_dump (qu_context u')))) (\<lambda>cx.
       bind_res (item i' ''input'') (\<lambda>iv.
       Inr [(''artifact'', a), (''context'', JStr cx), (''input'', iv), (''time'', JInt (int (en_time e'))),
         (''event'', JStr (en_id e')), (''reason'', JStr ''checked-negative'')]))))"
      unfolding ctx same
      by (intro sim_bind [OF sim_item [OF cand]] sim_bind_eq [OF sim_refl] sim_bind [OF sim_item [OF i]])
        (simp_all add: alikes_pointwise)
  qed
qed

lemma alike_key_text: "alike v w \<Longrightarrow> key_text v = key_text w"
  by (cases v; cases w) auto

lemma sim_apply_checked:
  assumes j: "jalike j j'" and e: "ealike e e'"
  shows "sim jalike (apply_checked H implementation e j) (apply_checked H implementation e' j')"
proof -
  have d: "alikes (en_data e) (en_data e')" and t: "en_time e' = en_time e" using e by (simp_all add: ealike_def)
  have maps: "alike_map (jn_outcomes j) (jn_outcomes j')" "alike_map (jn_intents j) (jn_intents j')"
    "alike_map (jn_costs j) (jn_costs j')" "alike_map (jn_qualifications j) (jn_qualifications j')"
    using j by (simp_all add: jalike_def)
  note keys = alike_map_set [OF maps(1)] and items = maps [THEN sim_item_map]
  have same: "jn_checked j' = jn_checked j" using j by (simp add: jalike_def)
  have step: "jalike (j\<lparr>jn_checked := c\<rparr>) (j'\<lparr>jn_checked := c\<rparr>)" for c using j by (simp add: jalike_def)
  have block: "jalike (j\<lparr>jn_checked := c, jn_blocks := jn_blocks j @ [b]\<rparr>)
      (j'\<lparr>jn_checked := c, jn_blocks := jn_blocks j' @ [b']\<rparr>)" if "alikes b b'" for b b' c
    using j that by (simp add: jalike_def list_all2_appendI)
  have named: "(v = JStr s) = (w = JStr s)" if "alike v w" for v w s using that by (cases v) auto
  show ?thesis unfolding apply_checked_def Let_def t same
    apply (rule sim_guard, simp add: alike_has_fields [OF d])
    apply (rule sim_bind [OF sim_item [OF d]])
    apply (rule sim_guard, simp add: named)
    apply (rule sim_bind [OF sim_item [OF d]])
    apply (rule sim_bind_eq [OF sim_require_key [OF _ keys]], assumption)
    apply (rule sim_bind [OF items(1)])
    apply (rule sim_bind [OF items(2)])
    apply (rule sim_bind [OF sim_item], assumption)
    apply (simp only: alike_key_text)
    apply (rule sim_bind [OF items(3)])
    apply (rule sim_bind_eq [OF sim_outcome_operation], assumption, assumption, assumption)
    apply (rule sim_if, simp)
     apply (rule sim_bind [OF sim_item], assumption)
     apply (simp only: alike_key_text)
     apply (rule sim_bind [OF items(4)])
     apply (rule sim_bind [OF sim_negative_block [OF _ _ e]], assumption, assumption)
     apply (simp add: block)
    by (simp add: step)
qed

lemma sim_apply_reconciled:
  assumes j: "jalike j j'" and d: "alikes d d'"
  shows "sim jalike (apply_reconciled d j) (apply_reconciled d' j')"
proof -
  have same: "jn_checked j' = jn_checked j" "jn_services j' = jn_services j" using j by (simp_all add: jalike_def)
  have "jalike (j\<lparr>jn_services := s\<rparr>) (j'\<lparr>jn_services := s\<rparr>)" for s using j by (simp add: jalike_def)
  then show ?thesis unfolding apply_reconciled_def Let_def same
    by (intro sim_guard sim_bind [OF sim_item [OF d]] sim_bind_eq [OF sim_require_key [OF _ refl]]
        sim_bind_eq [OF sim_refl]) (simp_all add: alike_has_fields [OF d] j)
qed

lemma sim_apply_entry:
  assumes j: "jalike j j'" and e: "ealike e e'"
  shows "sim jalike (apply_entry H implementation e j) (apply_entry H implementation e' j')"
proof -
  have d: "alikes (en_data e) (en_data e')" and k: "en_kind e' = en_kind e" using e by (simp_all add: ealike_def)
  show ?thesis
    using sim_apply_cost [OF j d] sim_apply_admit [OF j d] sim_apply_blocking [OF j e] sim_apply_exposure [OF j d]
      sim_apply_intent [OF j e] sim_apply_attempt [OF j e] sim_apply_outcome [OF j d] sim_apply_checked [OF j e]
      sim_apply_reconciled [OF j d]
    by (cases "en_kind e") (simp_all add: apply_entry_def k)
qed

section \<open>The replay\<close>

definition ryalike :: "replaying \<Rightarrow> replaying \<Rightarrow> bool" where
  "ryalike s s' \<longleftrightarrow>
     jalike (ry_state s) (ry_state s') \<and> list_all2 ealike (ry_unique s) (ry_unique s') \<and> ry_ids s = ry_ids s'"

lemma ealike_refl [simp]: "ealike e e"
  by (simp add: ealike_def)

lemma alikes_entry_dump: "ealike e e' \<Longrightarrow> alikes (entry_dump e) (entry_dump e')"
  by (rule alikes_pointwise) (simp add: entry_dump_def ealike_def)

lemma digest_entries: "list_all2 ealike es es' \<Longrightarrow> digest H (entries_json es) = digest H (entries_json es')"
  unfolding entries_json_def
  by (rule digest_alike) (auto simp: list.rel_map elim!: list.rel_mono_strong dest: alikes_entry_dump)

lemma sim_entry: "alikes d d' \<Longrightarrow> sim ealike (entry_of_dict d) (entry_of_dict d')"
  unfolding entry_of_dict_def
  apply (rule sim_bind_eq, (intro sim_only_fields sim_required sim_optional_eq sim_atoms; (assumption | (simp; fail))))+
  apply (rule sim_bind [where R = alikes], (intro sim_required sim_atoms(7); assumption))
  by (simp add: ealike_def)

lemma sim_replay_step:
  assumes s: "ryalike s s'" and e: "ealike e e'"
  shows "sim ryalike (replay_step H implementation e s) (replay_step H implementation e' s')"
  unfolding replay_step_def
proof (rule sim_bind [OF sim_entry [OF alikes_entry_dump [OF e]]])
  fix d d' assume d: "ealike d d'"
  have ids: "ry_ids s' = ry_ids s" "en_id d' = en_id d" "en_previous d' = en_previous d"
    and dump: "digest H (JDict (entry_dump d')) = digest H (JDict (entry_dump d))"
    and unique: "digest H (entries_json (ry_unique s')) = digest H (entries_json (ry_unique s))"
    and j: "jalike (ry_state s) (ry_state s')"
    using s d digest_alike [of "JDict (entry_dump d)" "JDict (entry_dump d')"] alikes_entry_dump [OF d]
      digest_entries [of "ry_unique s" "ry_unique s'"]
    by (simp_all add: ryalike_def ealike_def)
  show "sim ryalike
    (bind_res (digest H (JDict (entry_dump d))) (\<lambda>value.
     case map_of (ry_ids s) (en_id d) of
       Some seen \<Rightarrow> if seen \<noteq> value then Inl (ValueError ''conflicting event id'') else Inr s
     | None \<Rightarrow>
         bind_res (digest H (entries_json (ry_unique s))) (\<lambda>current.
         if en_previous d \<noteq> current then Inl (ValueError ''missing parent or stale revision'')
         else bind_res (apply_entry H implementation d (ry_state s)) (\<lambda>j.
           Inr \<lparr>ry_state = j, ry_unique = ry_unique s @ [d], ry_ids = put (en_id d) value (ry_ids s)\<rparr>))))
    (bind_res (digest H (JDict (entry_dump d'))) (\<lambda>value.
     case map_of (ry_ids s') (en_id d') of
       Some seen \<Rightarrow> if seen \<noteq> value then Inl (ValueError ''conflicting event id'') else Inr s'
     | None \<Rightarrow>
         bind_res (digest H (entries_json (ry_unique s'))) (\<lambda>current.
         if en_previous d' \<noteq> current then Inl (ValueError ''missing parent or stale revision'')
         else bind_res (apply_entry H implementation d' (ry_state s')) (\<lambda>j.
           Inr \<lparr>ry_state = j, ry_unique = ry_unique s' @ [d'], ry_ids = put (en_id d') value (ry_ids s')\<rparr>))))"
    unfolding ids dump unique
  proof (rule sim_bind_eq [OF sim_refl [OF refl]], cases "map_of (ry_ids s) (en_id d)")
    fix v assume none: "map_of (ry_ids s) (en_id d) = None"
    show "sim ryalike
      (case map_of (ry_ids s) (en_id d) of
         Some seen \<Rightarrow> if seen \<noteq> v then Inl (ValueError ''conflicting event id'') else Inr s
       | None \<Rightarrow>
           bind_res (digest H (entries_json (ry_unique s))) (\<lambda>current.
           if en_previous d \<noteq> current then Inl (ValueError ''missing parent or stale revision'')
           else bind_res (apply_entry H implementation d (ry_state s)) (\<lambda>j.
             Inr \<lparr>ry_state = j, ry_unique = ry_unique s @ [d], ry_ids = put (en_id d) v (ry_ids s)\<rparr>)))
      (case map_of (ry_ids s) (en_id d) of
         Some seen \<Rightarrow> if seen \<noteq> v then Inl (ValueError ''conflicting event id'') else Inr s'
       | None \<Rightarrow>
           bind_res (digest H (entries_json (ry_unique s))) (\<lambda>current.
           if en_previous d \<noteq> current then Inl (ValueError ''missing parent or stale revision'')
           else bind_res (apply_entry H implementation d' (ry_state s')) (\<lambda>j.
             Inr \<lparr>ry_state = j, ry_unique = ry_unique s' @ [d'], ry_ids = put (en_id d) v (ry_ids s)\<rparr>)))"
      unfolding none option.case
      by (rule sim_bind_eq [OF sim_refl [OF refl]], rule sim_guard [OF refl], rule sim_bind [OF sim_apply_entry [OF j d]])
        (use s d in \<open>simp add: ryalike_def list_all2_appendI\<close>)
  qed (use s in simp)
qed

lemma sim_fold:
  "list_all2 ealike es es' \<Longrightarrow> ryalike s s' \<Longrightarrow>
   sim ryalike (fold_res (replay_step H implementation) es s) (fold_res (replay_step H implementation) es' s')"
proof (induction arbitrary: s s' rule: list_all2_induct)
  case (Cons e es e' es')
  then show ?case by (auto intro!: sim_bind [OF sim_replay_step])
qed simp

lemma alike_unresolved: "jalike j j' \<Longrightarrow> unresolved_ids j = unresolved_ids j'"
proof -
  assume j: "jalike j j'"
  then have maps: "alike_map (jn_outcomes j) (jn_outcomes j')" "alike_map (jn_intents j) (jn_intents j')"
    and same: "jn_checked j = jn_checked j'" by (simp_all add: jalike_def)
  have "(case map_of (jn_outcomes j) i of None \<Rightarrow> True | Some d \<Rightarrow> map_of d ''status'' \<noteq> Some (JStr ''received'')) =
      (case map_of (jn_outcomes j') i of None \<Rightarrow> True | Some d \<Rightarrow> map_of d ''status'' \<noteq> Some (JStr ''received''))" for i
  proof -
    have status: "(map_of d ''status'' = Some (JStr ''received'')) = (map_of d' ''status'' = Some (JStr ''received''))"
      if "alikes d d'" for d d'
      using alikes_field [OF that, of "''status''"] by (auto simp: rel_option_iff split: option.splits)
    show ?thesis using alike_map_of [OF maps(1), of i] status by (auto split: option.splits)
  qed
  then show ?thesis unfolding unresolved_ids_def same alike_map_keys [OF maps(2)] by (simp only:)
qed

lemma sim_replay:
  assumes es: "list_all2 ealike es es'"
  shows "sim (\<lambda>r r'. jalike (rp_state r) (rp_state r') \<and> rp_revision r = rp_revision r' \<and>
      rp_unresolved r = rp_unresolved r')
    (replay H implementation es) (replay H implementation es')"
  unfolding replay_def list_all2_lengthD [OF es]
  by (rule sim_guard [OF refl], rule sim_bind [OF sim_fold [OF es]])
    (auto simp: ryalike_def replay_start_def digest_entries alike_unresolved intro!: sim_bind_eq)

section \<open>The rows of an append\<close>

text \<open>The \<open>id\<close> column is the id of the entry.\<close>

definition rows_ok :: "journal_rows \<Rightarrow> bool" where
  "rows_ok rows \<longleftrightarrow> list_all (\<lambda>(i, raw). case entry_of_text raw of Inl _ \<Rightarrow> True | Inr e \<Rightarrow> en_id e = i) rows"

definition rows_size :: "journal_rows \<Rightarrow> nat" where
  "rows_size rows = sum_list (map (\<lambda>(_, raw). length raw) rows)"

text \<open>The entries of a batch whose ids are not there yet.\<close>

fun fresh_entries :: "string list \<Rightarrow> entry list \<Rightarrow> entry list" where
  "fresh_entries ids [] = []"
| "fresh_entries ids (e # es) =
     (if en_id e \<in> set ids then fresh_entries ids es else e # fresh_entries (ids @ [en_id e]) es)"

lemma insert_rows:
  "fold_res (insert_entry H) batch rows = Inr rows' \<Longrightarrow>
   \<exists>new. rows' = rows @ new \<and>
     list_all2 (\<lambda>e (i, raw). i = en_id e \<and> encoded H (JDict (entry_dump e)) = Inr raw)
       (fresh_entries (map fst rows) batch) new"
proof (induction batch arbitrary: rows)
  case (Cons e batch)
  then obtain rows1 where r1: "insert_entry H e rows = Inr rows1"
    and rest: "fold_res (insert_entry H) batch rows1 = Inr rows'" by (auto simp: res_simps)
  show ?case
  proof (cases "en_id e \<in> fst ` set rows")
    case True
    then show ?thesis using r1 Cons.IH [OF rest] by (simp add: insert_entry_def)
  next
    case False
    then obtain raw where raw: "encoded H (JDict (entry_dump e)) = Inr raw" "rows1 = rows @ [(en_id e, raw)]"
      using r1 by (auto simp: insert_entry_def res_simps)
    from Cons.IH [OF rest] obtain new where "rows' = rows1 @ new"
      "list_all2 (\<lambda>e (i, raw). i = en_id e \<and> encoded H (JDict (entry_dump e)) = Inr raw)
         (fresh_entries (map fst rows @ [en_id e]) batch) new"
      using raw(2) by auto
    then show ?thesis using False raw by (intro exI [of _ "(en_id e, raw) # new"]) simp
  qed
qed simp

lemma fold_ids:
  "fold_res (replay_step H implementation) es s = Inr s' \<Longrightarrow>
   dom (map_of (ry_ids s')) = dom (map_of (ry_ids s)) \<union> en_id ` set es"
proof (induction es arbitrary: s)
  case (Cons e es)
  then obtain s1 where s1: "replay_step H implementation e s = Inr s1"
    and rest: "fold_res (replay_step H implementation) es s1 = Inr s'" by (auto simp: res_simps)
  from s1 have "dom (map_of (ry_ids s1)) = insert (en_id e) (dom (map_of (ry_ids s)))"
    by (cases rule: replay_step_cases) auto
  then show ?case using Cons.IH [OF rest] by auto
qed simp

lemma fold_fresh:
  "fold_res (replay_step H implementation) es s = Inr s' \<Longrightarrow> set ids = dom (map_of (ry_ids s)) \<Longrightarrow>
   fold_res (replay_step H implementation) (fresh_entries ids es) s = Inr s'"
proof (induction es arbitrary: s ids)
  case (Cons e es)
  then obtain s1 where s1: "replay_step H implementation e s = Inr s1"
    and rest: "fold_res (replay_step H implementation) es s1 = Inr s'" by (auto simp: res_simps)
  from s1 show ?case
  proof (cases rule: replay_step_cases)
    case known
    then show ?thesis using Cons.IH [of s ids] Cons.prems(2) rest by auto
  next
    case (fresh v j)
    then have "set (ids @ [en_id e]) = dom (map_of (ry_ids s1))" using Cons.prems(2) by auto
    from Cons.IH [OF rest this] fresh(2) Cons.prems(2) s1 show ?thesis by simp
  qed
qed simp

lemma fold_valid:
  "fold_res (replay_step H implementation) es s = Inr s' \<Longrightarrow>
   list_all (\<lambda>e. entry_of_dict (entry_dump e) = Inr e) es"
proof (induction es arbitrary: s)
  case (Cons e es)
  then obtain s1 where s1: "replay_step H implementation e s = Inr s1"
    and rest: "fold_res (replay_step H implementation) es s1 = Inr s'" by (auto simp: res_simps)
  from s1 obtain e' where "entry_of_dict (entry_dump e) = Inr e'" by (auto simp: replay_step_def res_simps)
  with entry_revalidates [OF this] Cons.IH [OF rest] show ?case by simp
qed simp

lemma read_back:
  assumes valid: "entry_of_dict (entry_dump e) = Inr e" and plain: "plain_data e"
    and raw: "encoded H (JDict (entry_dump e)) = Inr raw"
  shows "\<exists>e'. entry_of_text raw = Inr e' \<and> ealike e e'"
proof -
  have "float_free (JDict (entry_dump e))" "proper (JDict (entry_dump e))"
    using plain by (simp_all add: plain_data_def entry_dump_def)
  from encoded_Inr [OF this] raw have "wire_loads raw = Inr (sort_keys (JDict (entry_dump e)))" by blast
  then obtain d where d: "wire_loads raw = Inr (JDict d)" "alikes (entry_dump e) d"
    using alike_JDict [OF alike_sort [of "JDict (entry_dump e)"]] by auto
  from simD [OF sim_entry [OF d(2)] valid] obtain e' where "entry_of_dict d = Inr e'" "ealike e e'" by blast
  then show ?thesis using d by (simp add: entry_of_text_def nested_def)
qed

lemma read_back_rows:
  assumes "list_all2 (\<lambda>e (i, raw). i = en_id e \<and> encoded H (JDict (entry_dump e)) = Inr raw) es new"
    and "list_all (\<lambda>e. entry_of_dict (entry_dump e) = Inr e) es" "list_all plain_data es"
  shows "\<exists>es'. map_res (\<lambda>(_, raw). entry_of_text raw) new = Inr es' \<and> list_all2 ealike es es' \<and> rows_ok new"
  using assms
proof (induction rule: list_all2_induct)
  case (Cons e es p new)
  obtain i raw where p: "p = (i, raw)" "i = en_id e" "encoded H (JDict (entry_dump e)) = Inr raw"
    using Cons.hyps(1) by (cases p) auto
  have "entry_of_dict (entry_dump e) = Inr e" "plain_data e" using Cons.prems by simp_all
  from read_back [OF this p(3)] obtain e' where e': "entry_of_text raw = Inr e'" "ealike e e'" by blast
  have "en_id e' = en_id e" using e'(2) by (simp add: ealike_def)
  then show ?case using Cons p e' by (auto simp: rows_ok_def)
qed (simp add: rows_ok_def)

lemma set_fresh: "set (fresh_entries ids es) \<subseteq> set es"
  by (induction ids es rule: fresh_entries.induct) auto

lemma length_fresh: "length (fresh_entries ids es) \<le> length es"
  by (induction ids es rule: fresh_entries.induct) auto

lemma rows_ids:
  assumes "rows_ok rows" "map_res (\<lambda>(_, raw). entry_of_text raw) rows = Inr es"
  shows "map fst rows = map en_id es"
  using assms
proof (induction rows arbitrary: es)
  case (Cons p rows)
  then show ?case by (cases p) (auto simp: rows_ok_def res_simps)
qed simp

lemma fresh_ids: "en_id ` set (fresh_entries ids es) \<union> set ids = en_id ` set es \<union> set ids"
  by (induction ids es rule: fresh_entries.induct) auto

text \<open>The row of an entry: its id and its canonical text.\<close>

abbreviation row_of_entry :: "host \<Rightarrow> entry \<Rightarrow> string \<times> string \<Rightarrow> bool" where
  "row_of_entry H e p \<equiv> (case p of (i, raw) \<Rightarrow> i = en_id e \<and> encoded H (JDict (entry_dump e)) = Inr raw)"

lemma row_ids: "list_all2 (row_of_entry H) es new \<Longrightarrow> map fst new = map en_id es"
  by (induction rule: list_all2_induct) auto

lemma append_rows_full:
  assumes ids: "rows_ok rows" and plain: "list_all plain_data batch"
    and run: "append_rows H implementation batch expected rows = Inr (latest, rows')"
  shows "\<exists>old cur res new. entries rows = Inr old \<and> replay H implementation old = Inr cur \<and> rp_revision cur = expected \<and>
    replay H implementation (old @ batch) = Inr res \<and> rp_revision res = latest \<and>
    rows' = rows @ new \<and> list_all2 (row_of_entry H) (fresh_entries (map fst rows) batch) new \<and> rows_ok rows' \<and>
    (if 2000000 < rows_size rows' then entries rows' = Inl (ValueError ''journal byte limit'')
     else \<exists>es r. entries rows' = Inr (old @ es) \<and> list_all2 ealike (fresh_entries (map fst rows) batch) es \<and>
       replay H implementation (old @ es) = Inr r \<and> jalike (rp_state res) (rp_state r) \<and>
       rp_revision r = latest \<and> rp_unresolved r = rp_unresolved res)"
proof -
  from run obtain old cur res where old: "entries rows = Inr old" and cur: "replay H implementation old = Inr cur"
    and expected: "rp_revision cur = expected" and res: "replay H implementation (old @ batch) = Inr res"
    and ins: "fold_res (insert_entry H) batch rows = Inr rows'" and latest: "latest = rp_revision res"
    by (auto simp: append_rows_def res_simps split: if_splits)
  have map_old: "map_res (\<lambda>(_, raw). entry_of_text raw) rows = Inr old"
    using old by (auto simp: entries_def split: if_splits)
  have fst_rows: "map fst rows = map en_id old" by (rule rows_ids [OF ids map_old])
  define fr where "fr = fresh_entries (map fst rows) batch"
  obtain new where new: "rows' = rows @ new"
    "list_all2 (\<lambda>e (i, raw). i = en_id e \<and> encoded H (JDict (entry_dump e)) = Inr raw) fr new"
    using insert_rows [OF ins] unfolding fr_def by blast
  obtain s where s: "fold_res (replay_step H implementation) (old @ batch) replay_start = Inr s"
    and rp: "rp_state res = ry_state s" "digest H (entries_json (ry_unique s)) = Inr (rp_revision res)"
      "rp_unresolved res = unresolved_ids (ry_state s)" and len: "length (old @ batch) \<le> 256"
    by (rule replay_Inr [OF res])
  from s obtain s0 where s0: "fold_res (replay_step H implementation) old replay_start = Inr s0"
    and s1: "fold_res (replay_step H implementation) batch s0 = Inr s"
    by (auto simp: fold_res_append res_simps)
  have "set (map fst rows) = dom (map_of (ry_ids s0))"
    using fold_ids [OF s0] unfolding fst_rows by (simp add: replay_start_def)
  from fold_fresh [OF s1 this] have fresh: "fold_res (replay_step H implementation) (old @ fr) replay_start = Inr s"
    using s0 by (simp add: fold_res_append fr_def)
  have len_fr: "length fr \<le> length batch" unfolding fr_def by (rule length_fresh)
  then have "replay H implementation (old @ fr) = Inr res"
    using fresh rp len by (simp add: replay_def)
  moreover have "list_all plain_data fr" using plain set_fresh unfolding fr_def list_all_iff by blast
  moreover have "list_all (\<lambda>e. entry_of_dict (entry_dump e) = Inr e) fr" using fold_valid [OF fresh] by simp
  ultimately obtain fr' where fr': "map_res (\<lambda>(_, raw). entry_of_text raw) new = Inr fr'"
      "list_all2 ealike fr fr'" "rows_ok new" and res': "replay H implementation (old @ fr) = Inr res"
    using read_back_rows [OF new(2)] by blast
  have "list_all2 ealike (old @ fr) (old @ fr')" using fr'(2) by (simp add: list_all2_appendI list.rel_refl)
  from simD [OF sim_replay [OF this] res'] obtain r where r: "replay H implementation (old @ fr') = Inr r"
    "rp_revision r = latest" "jalike (rp_state res) (rp_state r)" "rp_unresolved r = rp_unresolved res"
    unfolding latest by metis
  have len_new: "length new = length fr" using new(2) by (simp add: list_all2_lengthD)
  moreover have "length rows = length old" using arg_cong [OF fst_rows, of length] by simp
  ultimately have "\<not> 256 < length rows'" using new(1) len len_fr by simp
  then have "entries rows' = (if 2000000 < rows_size rows' then Inl (ValueError ''journal byte limit'') else Inr (old @ fr'))"
    using new(1) fr'(1) map_old by (simp add: entries_def rows_size_def)
  then have "if 2000000 < rows_size rows' then entries rows' = Inl (ValueError ''journal byte limit'')
     else \<exists>es r. entries rows' = Inr (old @ es) \<and> list_all2 ealike (fresh_entries (map fst rows) batch) es \<and>
       replay H implementation (old @ es) = Inr r \<and> jalike (rp_state res) (rp_state r) \<and>
       rp_revision r = latest \<and> rp_unresolved r = rp_unresolved res"
    using r fr'(2) by (auto simp: fr_def)
  moreover have "rows_ok rows'" using ids fr'(3) by (simp add: new(1) rows_ok_def)
  moreover note new [unfolded fr_def]
  ultimately show ?thesis
    by (intro exI [of _ old] exI [of _ cur] exI [of _ res] exI [of _ new] conjI old cur expected res latest [symmetric])
qed

text \<open>
  C32: appends are fenced, complete and durable. An append that raises leaves the rows of the journal
  as they were. One that succeeds was made against the current revision and returns the revision of
  the journal followed by the batch. It adds at the end, in the order of the batch, one row for each
  entry whose id is not there yet: this id with the canonical text of the entry; afterwards every
  entry of the batch has its row. Opening the journal again gives the entries that were there
  followed by the added ones, each equal up to the order of its keys, and they replay to the revision
  returned. The one exception is a journal that the append has pushed over the two million characters
  that opening allows: it no longer opens.
\<close>

theorem append_durable:
  assumes "rows_ok rows" "list_all plain_data batch"
  shows "case store_append H implementation batch expected rows of
      (Inl e, rows') \<Rightarrow> rows' = rows
    | (Inr latest, rows') \<Rightarrow>
        \<exists>old cur res new. entries rows = Inr old \<and> replay H implementation old = Inr cur \<and>
          rp_revision cur = expected \<and> replay H implementation (old @ batch) = Inr res \<and> rp_revision res = latest \<and>
          rows' = rows @ new \<and> list_all2 (row_of_entry H) (fresh_entries (map fst rows) batch) new \<and>
          fst ` set rows' = fst ` set rows \<union> en_id ` set batch \<and> rows_ok rows' \<and>
          (if 2000000 < rows_size rows' then store_inspect H implementation rows' = Inl (ValueError ''journal byte limit'')
           else \<exists>es r. entries rows' = Inr (old @ es) \<and>
             list_all2 ealike (fresh_entries (map fst rows) batch) es \<and>
             store_inspect H implementation rows' = Inr r \<and> rp_revision r = latest)"
proof (cases "append_rows H implementation batch expected rows")
  case (Inr p)
  obtain latest rows' where p: "p = (latest, rows')" by (cases p)
  from append_rows_full [OF assms Inr [unfolded p]] obtain old cur res new where
    old: "entries rows = Inr old" "replay H implementation old = Inr cur" "rp_revision cur = expected"
      "replay H implementation (old @ batch) = Inr res" "rp_revision res = latest" and
    new: "rows' = rows @ new" "list_all2 (row_of_entry H) (fresh_entries (map fst rows) batch) new" "rows_ok rows'" and
    re: "if 2000000 < rows_size rows' then entries rows' = Inl (ValueError ''journal byte limit'')
     else \<exists>es r. entries rows' = Inr (old @ es) \<and> list_all2 ealike (fresh_entries (map fst rows) batch) es \<and>
       replay H implementation (old @ es) = Inr r \<and> jalike (rp_state res) (rp_state r) \<and>
       rp_revision r = latest \<and> rp_unresolved r = rp_unresolved res" by blast
  have "fst ` set new = en_id ` set (fresh_entries (map fst rows) batch)"
    using arg_cong [OF row_ids [OF new(2)], of set] by simp
  then have "fst ` set rows' = fst ` set rows \<union> en_id ` set batch"
    using fresh_ids [of "map fst rows" batch] by (auto simp: new(1) image_Un)
  moreover have "if 2000000 < rows_size rows' then store_inspect H implementation rows' = Inl (ValueError ''journal byte limit'')
     else \<exists>es r. entries rows' = Inr (old @ es) \<and> list_all2 ealike (fresh_entries (map fst rows) batch) es \<and>
       store_inspect H implementation rows' = Inr r \<and> rp_revision r = latest"
    using re by (auto simp: store_inspect_def split: if_splits)
  ultimately show ?thesis
    using old new by (simp only: store_append_def Inr p sum.case prod.case) blast
qed (simp add: store_append_def)

end
