(* ===== verification/Flat_Rows.thy ===== *)
theory Flat_Rows
  imports Flat_Journal Journal_Durable Receiver_Runtime
begin

text \<open>
  The journal's rows under a host with flat digests: what is written for an entry, what is read back
  from it, and the appends that go through.
\<close>

section \<open>What is read back\<close>

definition sorted_dict :: "dict \<Rightarrow> dict" where
  "sorted_dict d = sort_key fst (map (\<lambda>(k, v). (k, sort_keys v)) d)"

lemma sort_keys_dict: "sort_keys (JDict d) = JDict (sorted_dict d)"
  by (simp add: sorted_dict_def)

lemma sorted_dict_field: "map_of (sorted_dict d) k = map_option sort_keys (map_of d k)"
  by (simp add: sorted_dict_def sorted_field)

lemma sorted_dict_alikes [simp]: "alikes d (sorted_dict d)"
  using alike_sort [of "JDict d"] by (simp only: sort_keys_dict alike_dict)

lemma sorted_dict_idem [simp]: "sorted_dict (sorted_dict d) = sorted_dict d"
  using sort_keys_idem [of "JDict d"] by (simp only: sort_keys_dict json.inject)

definition stored_entry :: "entry \<Rightarrow> entry" where
  "stored_entry e = e\<lparr>en_data := sorted_dict (en_data e)\<rparr>"

lemma stored_entry_simps [simp]:
  "en_id (stored_entry e) = en_id e" "en_previous (stored_entry e) = en_previous e" "en_time (stored_entry e) = en_time e"
  "en_kind (stored_entry e) = en_kind e" "en_data (stored_entry e) = sorted_dict (en_data e)"
  "stored_entry (stored_entry e) = stored_entry e"
  by (simp_all add: stored_entry_def)

lemma ealike_stored [simp]: "ealike e (stored_entry e)"
  by (simp add: ealike_def)

lemma stored_unique:
  assumes "entry_of_dict (sorted_dict (entry_dump e)) = Inr e'" "ealike e e'"
  shows "e' = stored_entry e"
proof -
  have "required dict_value (sorted_dict (entry_dump e)) ''data'' = Inr (en_data e')"
    using assms(1) by (auto simp: entry_of_dict_def res_simps)
  then have "en_data e' = sorted_dict (en_data e)"
    by (simp add: required_def sorted_dict_field entry_dump_def sort_keys_dict del: sort_keys.simps(1))
  then show ?thesis using assms(2) by (simp add: stored_entry_def ealike_def)
qed

text \<open>The dump depends on the data only through these measures.\<close>

lemma dump_measures:
  assumes "en_id e' = en_id e" "en_previous e' = en_previous e" "en_time e' = en_time e" "en_kind e' = en_kind e"
    and "float_free (JDict (en_data e'))" "proper (JDict (en_data e'))"
    and "weight (JDict (en_data e')) = weight (JDict (en_data e))" "nodes (JDict (en_data e')) = nodes (JDict (en_data e))"
    and "\<And>n. within n (JDict (en_data e')) = within n (JDict (en_data e))"
  shows "modest k (JDict (entry_dump e)) \<Longrightarrow> modest k (JDict (entry_dump e'))"
    "within n (JDict (entry_dump e')) = within n (JDict (entry_dump e))"
proof -
  obtain v v' where v: "JDict (en_data e) = v" "JDict (en_data e') = v'" by blast
  show "modest k (JDict (entry_dump e)) \<Longrightarrow> modest k (JDict (entry_dump e'))"
    "within n (JDict (entry_dump e')) = within n (JDict (entry_dump e))"
    using assms(5-9) unfolding modest_def entry_dump_def assms(1-4) v by simp_all
qed

lemma stored_flat:
  assumes "flat_entry e"
  shows "flat_entry (stored_entry e)" "entry_of_dict (sorted_dict (entry_dump e)) = Inr (stored_entry e)"
proof -
  have valid: "entry_of_dict (entry_dump e) = Inr e" using assms by (simp add: flat_entry_def)
  from simD [OF sim_entry [OF sorted_dict_alikes] valid] obtain e' where
    e': "entry_of_dict (sorted_dict (entry_dump e)) = Inr e'" "ealike e e'" by blast
  then show read: "entry_of_dict (sorted_dict (entry_dump e)) = Inr (stored_entry e)" using stored_unique by blast
  have "proper (JDict (en_data e))" "float_free (JDict (en_data e))"
    using assms by (simp_all add: flat_entry_def modest_def entry_dump_def)
  then have p: "proper (JDict (sorted_dict (en_data e)))" "float_free (JDict (sorted_dict (en_data e)))"
    using sort_keys_proper [of "JDict (en_data e)"] sort_keys_float_free [of "JDict (en_data e)"]
    by (simp_all only: sort_keys_dict)
  have w: "weight (JDict (sorted_dict (en_data e))) = weight (JDict (en_data e))"
    "nodes (JDict (sorted_dict (en_data e))) = nodes (JDict (en_data e))"
    "within n (JDict (sorted_dict (en_data e))) = within n (JDict (en_data e))" for n
    using weight_sort_keys [of "JDict (en_data e)"] nodes_sort_keys [of "JDict (en_data e)"]
      within_sort_keys [of n "JDict (en_data e)"]
    by (simp_all only: sort_keys_dict)
  have same: "modest 3500 (JDict (entry_dump e)) \<Longrightarrow> modest 3500 (JDict (entry_dump (stored_entry e)))"
    "within 19 (JDict (entry_dump (stored_entry e))) = within 19 (JDict (entry_dump e))"
    by (rule dump_measures; simp only: stored_entry_simps p w)+
  have "entry_of_dict (entry_dump (stored_entry e)) = Inr (stored_entry e)" by (rule entry_read [OF entry_validated [OF read]])
  then show "flat_entry (stored_entry e)"
    using assms same by (simp add: flat_entry_def del: within.simps)
qed

section \<open>Rows\<close>

definition text_row :: "entry \<Rightarrow> string \<times> string" where
  "text_row e = (en_id e, render (dumps_float flat_host) (sort_keys (JDict (entry_dump e))))"

lemma text_row_encoded: "flat_entry e \<Longrightarrow> encoded flat_host (JDict (entry_dump e)) = Inr (snd (text_row e))"
  using modest_encoded [of 3500 "JDict (entry_dump e)" flat_host]
  by (simp add: flat_entry_def text_row_def del: sort_keys.simps within.simps)

lemma text_row_reads:
  assumes "flat_entry e"
  shows "entry_of_text (snd (text_row e)) = Inr (stored_entry e)" "length (snd (text_row e)) \<le> 70000"
proof -
  have m: "modest 3500 (JDict (entry_dump e))" using assms by (simp add: flat_entry_def)
  then have ff: "float_free (JDict (entry_dump e))" "proper (JDict (entry_dump e))" by (simp_all add: modest_def)
  from text_row_encoded [OF assms] have "wire_loads (snd (text_row e)) = Inr (JDict (sorted_dict (entry_dump e)))"
    unfolding encoded_Inr [OF ff] sort_keys_dict by blast
  then show "entry_of_text (snd (text_row e)) = Inr (stored_entry e)"
    using stored_flat [OF assms] by (simp add: entry_of_text_def nested_def)
  have "length (snd (text_row e)) \<le> weight (sort_keys (JDict (entry_dump e)))"
    unfolding text_row_def snd_conv by (rule length_render) (use ff in \<open>simp only: sort_keys_float_free\<close>)
  also have "\<dots> \<le> 70000" using m unfolding weight_sort_keys modest_def by simp
  finally show "length (snd (text_row e)) \<le> 70000" .
qed

lemma flat_entries_read:
  assumes "list_all flat_entry es" "length es \<le> 10"
  shows "entries (map text_row es) = Inr (map stored_entry es)"
proof -
  have "sum_list (map (\<lambda>(_, raw). length raw) (map text_row es)) \<le> 70000 * length es"
    using assms(1) by (induction es) (auto simp: case_prod_unfold dest: text_row_reads(2))
  moreover have "map_res (\<lambda>(_, raw). entry_of_text raw) (map text_row es) = Inr (map stored_entry es)"
    using assms(1) by (induction es) (simp_all add: case_prod_unfold text_row_reads)
  ultimately show ?thesis using assms(2) by (simp add: entries_def)
qed

lemma flat_inserts:
  "list_all flat_entry batch \<Longrightarrow> distinct (map en_id batch) \<Longrightarrow> fst ` set rows \<inter> en_id ` set batch = {} \<Longrightarrow>
   fold_res (insert_entry flat_host) batch rows = Inr (rows @ map text_row batch)"
proof (induction batch arbitrary: rows)
  case (Cons e batch)
  have "insert_entry flat_host e rows = Inr (rows @ [text_row e])"
    using Cons.prems text_row_encoded [of e] by (simp add: insert_entry_def) (simp add: text_row_def)
  moreover have "fold_res (insert_entry flat_host) batch (rows @ [text_row e]) = Inr ((rows @ [text_row e]) @ map text_row batch)"
    by (rule Cons.IH) (use Cons.prems in \<open>auto simp: text_row_def\<close>)
  ultimately show ?case by simp
qed simp

definition flat_state :: "journal \<Rightarrow> replayed" where
  "flat_state j = \<lparr>rp_state = j, rp_revision = zeros, rp_unresolved = unresolved_ids j\<rparr>"

lemma apply_all_append:
  "apply_all H implementation (xs @ ys) i = bind_res (apply_all H implementation xs i) (apply_all H implementation ys)"
proof (induction xs arbitrary: i)
  case (Cons x xs)
  then show ?case by (cases "apply_entry H implementation x i") simp_all
qed simp

lemma stored_all: "list_all flat_entry es \<Longrightarrow> list_all flat_entry (map stored_entry es)"
  using stored_flat(1) by (auto simp: list_all_iff)

lemma flat_replay_stored:
  assumes "apply_all flat_host zeros (map stored_entry es) empty_journal = Inr j" "list_all flat_entry es"
    and "length es \<le> 10" "distinct (map en_id es)"
  shows "replay flat_host zeros (map stored_entry es) = Inr (flat_state j)"
  unfolding flat_state_def
  by (rule flat_replay) (use assms stored_all in \<open>simp_all add: comp_def\<close>)

lemma flat_append:
  assumes "apply_all flat_host zeros (map stored_entry es) empty_journal = Inr j"
    and "apply_all flat_host zeros batch j = Inr j'"
    and "list_all flat_entry (es @ batch)" "length (es @ batch) \<le> 10" "distinct (map en_id (es @ batch))"
  shows "append_rows flat_host zeros batch zeros (map text_row es) = Inr (zeros, map text_row (es @ batch))"
proof -
  have flat: "list_all flat_entry (map stored_entry es)" "list_all flat_entry batch"
    using assms(3) stored_flat(1) by (auto simp: list_all_iff)
  have ids: "map en_id (map stored_entry es) = map en_id es" by simp
  have "replay flat_host zeros (map stored_entry es) = Inr (flat_state j)"
    unfolding flat_state_def by (rule flat_replay) (use assms flat ids in \<open>simp_all del: map_map\<close>)
  moreover have "replay flat_host zeros (map stored_entry es @ batch) = Inr (flat_state j')"
    unfolding flat_state_def by (rule flat_replay) (use assms flat ids in \<open>simp_all add: apply_all_append del: map_map\<close>)
  moreover have "fold_res (insert_entry flat_host) batch (map text_row es) = Inr (map text_row es @ map text_row batch)"
    by (rule flat_inserts) (use assms flat in \<open>auto simp: text_row_def image_image\<close>)
  ultimately show ?thesis
    using flat_entries_read [of es] assms(3,4) by (simp add: append_rows_def flat_state_def)
qed

end
