(* ===== verification/Lab_Journal.thy ===== *)
theory Lab_Journal
  imports Lab_Decision Flat_Rows
begin

text \<open>
  The journal of the small world: two paid costs and the admitted qualification, as they are read
  back from their rows, and the decision over it.
\<close>

section \<open>Documents with sorted keys\<close>

lemma sim_eqD: "sim (=) r r' \<Longrightarrow> r = Inr x \<Longrightarrow> r' = Inr x"
  by (auto simp: sim_def)

lemma sorted_parts:
  "cost_of_dict (cost_dump c) = Inr c \<Longrightarrow> cost_of_dict (sorted_dict (cost_dump c)) = Inr c"
  "context_of_dict (context_dump cx) = Inr cx \<Longrightarrow> context_of_dict (sorted_dict (context_dump cx)) = Inr cx"
  "source_of_dict (source_dump s) = Inr s \<Longrightarrow> source_of_dict (sorted_dict (source_dump s)) = Inr s"
  by (rule sim_eqD; (rule sim_cost sim_context sim_source, rule sorted_dict_alikes)?; assumption)+

text \<open>A qualification whose free parts have their keys in order is read back as it was written.\<close>

lemma sorted_qualification:
  assumes wf: "wf_qualification q" and free: "sorted_dict (qu_formation q) = qu_formation q"
    "sorted_dict (qu_candidate q) = qu_candidate q" "sorted_dict (qu_offer q) = qu_offer q"
    and mapping: "sort_keys (str_map_json (qu_mapping q)) = str_map_json (qu_mapping q)"
  shows "qualification_of_dict (sorted_dict (qualification_dump q)) = Inr q"
proof -
  have docs: "sort_keys (JList (map (\<lambda>x. JDict (w x)) xs)) = JList (map (\<lambda>x. JDict (sorted_dict (w x))) xs)" for w :: "'a \<Rightarrow> dict" and xs
    by (simp add: sort_keys_dict del: sort_keys.simps(1))
  have parts: "bounded_list 2 8 (nested source_of_dict) (JList (map (\<lambda>s. JDict (sorted_dict (source_dump s))) (qu_training q))) = Inr (qu_training q)"
    "bounded_list 1 8 (nested source_of_dict) (JList (map (\<lambda>s. JDict (sorted_dict (source_dump s))) (qu_evaluation q))) = Inr (qu_evaluation q)"
    "bounded_list 1 32 (nested cost_of_dict) (JList (map (\<lambda>c. JDict (sorted_dict (cost_dump c))) (qu_costs q))) = Inr (qu_costs q)"
    "nested context_of_dict (JDict (sorted_dict (context_dump (qu_context q)))) = Inr (qu_context q)"
    using wf by (auto simp: wf_qualification_def nested_def
        intro!: documents_json sorted_parts source_read_back cost_read context_read)
  have names: "only_fields names (sorted_dict (qualification_dump q)) = Inr ()" if "only_fields names (qualification_dump q) = Inr ()" for names
    by (rule sim_eqD [OF sim_only_fields [OF sorted_dict_alikes] that])
  have fields: "only_fields (map fst (qualification_dump q)) (qualification_dump q) = Inr ()"
    by (simp add: only_fields_def list_all_iff)
  note sorted_fields = names [OF fields, unfolded qualification_dump_def list.map fst_conv]
  show ?thesis
    unfolding qualification_of_dict_def required_def optional_def sorted_dict_field
    using wf sorted_fields parts
    by (simp add: qualification_dump_def docs sort_keys_dict free mapping literal_def strict_str_def wf_qualification_def
        del: sort_keys.simps(1,2))
qed

lemma lab_q_wf: "wf_qualification lab_q"
  by (rule qualification_validated [OF lab_q_reads])

lemma lab_q_sorted: "qualification_of_dict (sorted_dict (qualification_dump lab_q)) = Inr lab_q"
proof (rule sorted_qualification [OF lab_q_wf])
  show "sort_keys (str_map_json (qu_mapping lab_q)) = str_map_json (qu_mapping lab_q)"
    using sort_key_fst_map [of JStr "qu_mapping lab_q"]
    by (simp add: lab_parts(5) str_map_json_def comp_def case_prod_unfold)
qed (simp_all add: lab_q_def sorted_dict_def)

section \<open>The decision\<close>

definition lab_view :: view where
  "lab_view =
     \<lparr>vw_reasons = [], vw_eligibility = ''eligible'', vw_snapshot = zeros, vw_qualification = zeros,
      vw_memory = ''mem_1'', vw_update = flat_id ''upd_'', vw_workflow = zeros, vw_context = zeros, vw_expiry = 100,
      vw_authority = JNull, vw_authentication = JNull, vw_claim = None\<rparr>"

lemma lab_digests [simp]:
  "digest flat_host (JDict (qualification_dump lab_q)) = Inr zeros"
  "digest flat_host (JDict (context_dump lab_context)) = Inr zeros"
  by (rule flat_digest [OF lab_q_modest(1)], simp)
    (rule flat_digest [of 3500], simp_all add: modest_def context_dump_def lab_context_def strs_json_def)

lemma lab_eligible:
  assumes "jn_withdrawn j = []" "jn_blocks j = []" "list_all (cost_paid (jn_costs j)) (qu_costs lab_q)" "0 \<le> now" "now < 100"
  shows "decision flat_host lab_alt zeros n lab_db lab_q lab_context ''b'' now (flat_state j) = Inr lab_view"
proof -
  have "''b'' \<in> set (cx_inputs lab_context)" "cx_expose lab_context" by (simp_all add: lab_context_def)
  then have "decision_reasons flat_host lab_alt zeros n lab_db lab_q lab_context ''b'' now (flat_state j) = Inr []"
    using assms by (simp add: decision_reasons_def flat_state_def failure_reason_def lab_promotion lab_reconstructs lab_parts(3,6,7))
  then show ?thesis
    using assms(4,5) by (simp add: decision_def ensure_def flat_state_def lab_view_def) (simp add: lab_q_def)
qed

section \<open>The journal\<close>

definition lab_entry :: "string \<Rightarrow> entry_kind \<Rightarrow> dict \<Rightarrow> entry" where
  "lab_entry i k d = \<lparr>en_id = i, en_previous = zeros, en_time = 3, en_kind = k, en_data = d\<rparr>"

lemma lab_entry_simps [simp]:
  "en_id (lab_entry i k d) = i" "en_previous (lab_entry i k d) = zeros" "en_time (lab_entry i k d) = 3"
  "en_kind (lab_entry i k d) = k" "en_data (lab_entry i k d) = d"
  "stored_entry (lab_entry i k d) = lab_entry i k (sorted_dict d)"
  by (simp_all add: lab_entry_def stored_entry_def)

lemma lab_entry_flat:
  assumes "is_id i" "modest 3400 (JDict d)" "within 15 (JDict d)"
  shows "flat_entry (lab_entry i k d)"
proof -
  obtain v where v: "JDict d = v" by blast
  have "length (entry_kind_value k) \<le> 10" by (cases k) simp_all
  moreover have "length i \<le> 120" using assms(1) by (simp add: is_id_def)
  moreover have "within 18 v" "within 19 v" using assms(3) unfolding v by (auto elim: within_mono)
  ultimately have "modest 3500 (JDict (entry_dump (lab_entry i k d)))" "within 19 (JDict (entry_dump (lab_entry i k d)))"
    using assms(2) unfolding modest_def entry_dump_def lab_entry_simps v by (simp_all add: int_text_def nat_text.simps)
  moreover have "entry_of_dict (entry_dump (lab_entry i k d)) = Inr (lab_entry i k d)"
    using assms(1) by (intro entry_read) (simp add: wf_entry_def)
  ultimately show ?thesis by (simp add: flat_entry_def del: within.simps)
qed

definition lab_batch :: "entry list" where
  "lab_batch = [lab_entry ''e1'' CostEntry (cost_dump formation_cost), lab_entry ''e2'' CostEntry (cost_dump lab_cost),
     lab_entry ''e3'' Admit (qualification_dump lab_q)]"

definition lab_rows :: journal_rows where
  "lab_rows = map text_row lab_batch"

definition lab_costs_map :: "(string \<times> dict) list" where
  "lab_costs_map = [(''f1'', sorted_dict (cost_dump formation_cost)), (''v1'', sorted_dict (cost_dump lab_cost))]"

definition lab_admitted :: journal where
  "lab_admitted = empty_journal\<lparr>jn_qualifications := [(zeros, sorted_dict (qualification_dump lab_q))],
     jn_costs := lab_costs_map\<rparr>"

lemma batch_flat: "list_all flat_entry lab_batch"
proof -
  have "is_id ''e1''" "is_id ''e2''" "is_id ''e3''" by (simp_all add: is_id_def is_id_char_def)
  moreover have "modest 3400 (JDict (cost_dump formation_cost))" "modest 3400 (JDict (cost_dump lab_cost))"
    by (simp_all add: modest_def cost_dump_def formation_cost_def lab_cost_def)
  moreover have "within 15 (JDict (cost_dump formation_cost))" "within 15 (JDict (cost_dump lab_cost))"
    by (simp_all add: cost_dump_def)
  ultimately show ?thesis using lab_q_modest by (simp add: lab_batch_def lab_entry_flat del: within.simps)
qed

lemma paid_sorted:
  assumes "map_of costs (cst_id c) = Some (sorted_dict (cost_dump c))"
  shows "cost_paid costs c"
proof -
  have "py_eq (JDict (sorted_dict (cost_dump c))) (JDict (cost_dump c))"
    by (simp add: cost_dump_def sorted_dict_def)
  then show ?thesis using assms by (simp add: cost_paid_def)
qed

lemma lab_paid: "map_of costs ''f1'' = Some (sorted_dict (cost_dump formation_cost)) \<Longrightarrow>
    map_of costs ''v1'' = Some (sorted_dict (cost_dump lab_cost)) \<Longrightarrow> list_all (cost_paid costs) (qu_costs lab_q)"
  using paid_sorted [of costs formation_cost] paid_sorted [of costs lab_cost]
  by (simp add: lab_q_def formation_cost_def lab_cost_def)

lemma lab_cost_reads:
  "cost_of_dict (sorted_dict (cost_dump formation_cost)) = Inr formation_cost"
  "cost_of_dict (sorted_dict (cost_dump lab_cost)) = Inr lab_cost"
proof -
  have "exact ''1'' = Inr ''1''"
    by (simp add: exact_def zero_denominator_def split_slash_def fraction_def
        plain_numeral_def is_digit_def digits_val_def digit_val_def nat_text.simps digit_one strip_def is_space_def)
  then have "wf_cost lab_cost" "wf_cost formation_cost"
    by (simp_all add: wf_cost_def lab_cost_def formation_cost_def stages_def lab_ids)
  then show "cost_of_dict (sorted_dict (cost_dump formation_cost)) = Inr formation_cost"
    "cost_of_dict (sorted_dict (cost_dump lab_cost)) = Inr lab_cost"
    by (simp_all add: sorted_parts cost_read)
qed

lemma lab_applies: "apply_all flat_host zeros (map stored_entry lab_batch) empty_journal = Inr lab_admitted"
proof -
  have ids: "cst_id formation_cost = ''f1''" "cst_id lab_cost = ''v1''" by (simp_all add: formation_cost_def lab_cost_def)
  have "list_all (cost_paid lab_costs_map) (qu_costs lab_q)"
    by (rule lab_paid) (simp_all add: lab_costs_map_def)
  then show ?thesis
    by (simp add: lab_batch_def apply_entry_def apply_cost_def lab_cost_reads ids empty_journal_def put_def
        apply_admit_def lab_q_sorted lab_costs_map_def lab_admitted_def)
qed

lemma lab_entries: "entries lab_rows = Inr (map stored_entry lab_batch)"
  unfolding lab_rows_def by (rule flat_entries_read [OF batch_flat]) (simp add: lab_batch_def)

lemma lab_replays: "replay flat_host zeros (map stored_entry lab_batch) = Inr (flat_state lab_admitted)"
  by (rule flat_replay_stored [OF lab_applies batch_flat]) (simp_all add: lab_batch_def)

lemma lab_decides: "0 \<le> now \<Longrightarrow> now < 100 \<Longrightarrow>
    decision flat_host lab_alt zeros n lab_db lab_q lab_context ''b'' now (flat_state lab_admitted) = Inr lab_view"
  using lab_paid [of lab_costs_map]
  by (intro lab_eligible) (simp_all add: lab_admitted_def empty_journal_def lab_costs_map_def)

end
