(* ===== verification/Use_Properties.thy ===== *)
theory Use_Properties
  imports Eligibility_Properties Journal_Durable
begin

text \<open>
  Fenced use (\<open>ReceiverRuntime.use\<close>): a use that is recorded does not run the tool again, a failure
  after the reservation leaves the use unresolved, and a service is what the tool really returned.
\<close>

section \<open>The gate does not see the tools\<close>

lemma kernel_tools:
  "k_storage (K\<lparr>k_tools := T\<rparr>) = k_storage K" "k_host (K\<lparr>k_tools := T\<rparr>) = k_host K"
  "k_verifier (K\<lparr>k_tools := T\<rparr>) = k_verifier K" "k_profile (K\<lparr>k_tools := T\<rparr>) = k_profile K"
  by simp_all

lemma load_receipt_tools: "load_receipt (K\<lparr>k_tools := T\<rparr>) = load_receipt K"
  unfolding fun_eq_iff load_receipt_def kernel_tools by simp

lemma verify_receipt_tools: "verify_receipt (K\<lparr>k_tools := T\<rparr>) = verify_receipt K"
  unfolding fun_eq_iff verify_receipt_def load_receipt_tools kernel_tools by simp

lemma verify_all_tools: "verify_all (K\<lparr>k_tools := T\<rparr>) rs = verify_all K rs"
  by (induction rs) (simp_all add: verify_receipt_tools cong: if_cong)

lemma use_gate_tools: "use_gate (K\<lparr>k_tools := T\<rparr>) = use_gate K"
  unfolding fun_eq_iff use_gate_def registered_use_def strict_profile_def load_receipt_tools
    verify_all_tools kernel_tools by simp

section \<open>Recorded uses\<close>

definition use_recorded :: "replayed \<Rightarrow> string \<Rightarrow> string \<Rightarrow> string \<Rightarrow> bool" where
  "use_recorded st qid input_text identity \<longleftrightarrow>
     identity \<in> dom (map_of (jn_intents (rp_state st))) \<or>
     (\<exists>i \<in> set (rp_unresolved st). pending_same (rp_state st) qid input_text i = Inr True)"

lemma any_res_found: "x \<in> set xs \<Longrightarrow> f x = Inr True \<Longrightarrow> any_res f xs \<noteq> Inr False"
  by (force simp: any_res_False list_all_iff)

lemma reserve_recorded:
  assumes journal: "entries rows = Inr es" "journal_of R es = Inr st"
    and seen: "use_recorded st qid input_text identity"
  shows "(\<exists>e. reserve_rows R qid input_text identity now expected a c n s rows = Inl e) \<or>
    (\<exists>b. reserve_rows R qid input_text identity now expected a c n s rows = Inr (Duplicate b, rows) \<and>
      identity \<in> dom (map_of (jn_intents (rp_state st))))"
proof (cases "map_of (jn_intents (rp_state st)) identity")
  case None
  then obtain i where "i \<in> set (rp_unresolved st)" "pending_same (rp_state st) qid input_text i = Inr True"
    using seen by (auto simp: use_recorded_def)
  then have "any_res (pending_same (rp_state st) qid input_text) (rp_unresolved st) \<noteq> Inr False"
    by (rule any_res_found)
  with None journal show ?thesis
    by (cases "any_res (pending_same (rp_state st) qid input_text) (rp_unresolved st)")
      (auto simp: reserve_rows_def Let_def)
next
  case (Some previous)
  then show ?thesis using journal
    by (cases "same_use (rp_state st) previous (use_data qid input_text a c expected) c")
      (auto simp: reserve_rows_def Let_def)
qed

lemma profiles_kernel: "rr_profiles (R\<lparr>rr_kernel := k\<rparr>) = rr_profiles R"
  by simp

lemma host_kernel: "rr_host (R\<lparr>rr_kernel := k\<rparr>) = rr_host R"
  by simp

lemma journal_of_kernel: "journal_of (R\<lparr>rr_kernel := k\<rparr>) = journal_of R"
  by (simp add: fun_eq_iff journal_of_def)

lemma decide_kernel: "decide (R\<lparr>rr_kernel := k\<rparr>) = decide R"
  by (simp add: fun_eq_iff decide_def)

lemma new_event_kernel: "new_event (R\<lparr>rr_kernel := k\<rparr>) = new_event R"
  by (simp add: fun_eq_iff new_event_def)

lemma append_batch_kernel: "append_batch (R\<lparr>rr_kernel := k\<rparr>) = append_batch R"
  by (simp add: fun_eq_iff append_batch_def)

lemma reserve_rows_kernel: "reserve_rows (R\<lparr>rr_kernel := k\<rparr>) = reserve_rows R"
  unfolding fun_eq_iff reserve_rows_def journal_of_kernel decide_kernel new_event_kernel append_batch_kernel
    profiles_kernel host_kernel
  by simp

text \<open>
  C30: a use happens at most once. If the journal already has an intent under the identity of the
  use, or an unresolved intent of the same qualification and input, then the call cannot tell one
  set of tools from another, so none of them runs; the journal stays as it is, and the only result
  other than an exception is that of a duplicate.
\<close>

theorem use_at_most_once:
  assumes "rr_kernel R = Some K" "entries (dk_rows dk) = Inr es" "journal_of R es = Inr st"
    and "use_recorded st qid input_text identity"
  shows "receiver_use (R\<lparr>rr_kernel := Some (K\<lparr>k_tools := T\<rparr>)\<rparr>) qid input_text identity now expected a receipts c dk =
      receiver_use R qid input_text identity now expected a receipts c dk \<and>
    dk_rows (snd (receiver_use R qid input_text identity now expected a receipts c dk)) = dk_rows dk \<and>
    (case fst (receiver_use R qid input_text identity now expected a receipts c dk) of
       Inl e \<Rightarrow> True | Inr x \<Rightarrow> us_status x = ''duplicate'' \<and> identity \<in> dom (map_of (jn_intents (rp_state st))))"
proof -
  note same = reserve_rows_kernel
  obtain g w where g: "use_gate K input_text a receipts c (dk_world dk) = (g, w)" by (metis surj_pair)
  have "entries (dk_rows (dk\<lparr>dk_world := w\<rparr>)) = Inr es" using assms(2) by simp
  from reserve_recorded [OF this assms(3,4), of now expected a c "w_tick w" "w_store w"]
  show ?thesis
  proof (elim disjE exE conjE)
    fix e assume e: "reserve_rows R qid input_text identity now expected a c (w_tick w) (w_store w)
      (dk_rows (dk\<lparr>dk_world := w\<rparr>)) = Inl e"
    show ?thesis
      by (cases g) (use e in \<open>simp_all add: use_gate_tools receiver_use_def assms(1) on_world_def bind_io_def g transaction_def same\<close>)
  next
    fix b assume b: "reserve_rows R qid input_text identity now expected a c (w_tick w) (w_store w)
      (dk_rows (dk\<lparr>dk_world := w\<rparr>)) = Inr (Duplicate b, dk_rows (dk\<lparr>dk_world := w\<rparr>))"
      and i: "identity \<in> dom (map_of (jn_intents (rp_state st)))"
    show ?thesis
      by (cases g) (use b i in \<open>simp_all add: use_gate_tools receiver_use_def assms(1) on_world_def bind_io_def g transaction_def same\<close>)
  qed
qed

end
