(* ===== verification/Lab_Use.thy ===== *)
theory Lab_Use
  imports Lab_Journal Use_Properties Kernel_Open
begin

text \<open>
  A whole use in the small world: the gate, the reservation, the fence, the tool, the outcome, its
  check and the reconciliation; and then the same use again.
\<close>

section \<open>The kernel\<close>

definition normalize_tool :: tool_fn where
  "normalize_tool args ctx =
     (case map_of args ''text'' of
        Some (JStr t) \<Rightarrow> (case normalize t of Inr u \<Rightarrow> Inr [(''text'', JStr u)] | Inl e \<Rightarrow> Inl (''ValueError'', error_text e))
      | _ \<Rightarrow> Inl (''KeyError'', ''text''))"

definition lab_tools :: tool_adapter where
  "lab_tools = local_adapter (register_tool ''normalize-lines-v1'' normalize_tool (local_tools_new flat_host 0))"

definition lab_kernel :: "db kernel" where
  "lab_kernel = open_kernel plain_engine flat_host (\<lambda>_. mock_complete ''lite'') 0 None ''strict''
     (no_plugins\<lparr>pl_tools := Some lab_tools\<rparr>)"

definition lab_runtime :: receiver_runtime where
  "lab_runtime = \<lparr>rr_host = flat_host, rr_alt = lab_alt, rr_implementation = zeros, rr_kernel = Some lab_kernel,
     rr_profiles = [(''r'', lab_context)]\<rparr>"

definition lab_world :: "db world" where
  "lab_world = \<lparr>w_tick = 5, w_store = lab_db\<rparr>"

definition use_cost :: cost where
  "use_cost = \<lparr>cst_id = ''u1'', cst_stage = ''use'', cst_unit = ''work-unit'', cst_amount = ''1''\<rparr>"

lemma lab_kernel_parts [simp]:
  "k_host lab_kernel = flat_host" "k_storage lab_kernel = sqlite_port plain_engine flat_host"
  "k_profile lab_kernel = ''strict''" "k_verifier lab_kernel = default_receipt_verifier flat_host"
  "k_tools lab_kernel = lab_tools"
  by (simp_all add: lab_kernel_def open_kernel_def or_default_def no_plugins_def)

lemma lab_canonical: "finite_json (JDict d) \<Longrightarrow> canonical_json flat_host (JDict d) = Inr (text_of d)"
  by (simp add: canonical_json_eq text_of_def del: sort_keys.simps render.simps)

lemma lab_gets:
  "sqlite_get_receipt flat_host n ''rcp_1'' lab_db = Inr lab_receipt"
  "sqlite_get_memory_record flat_host n ''mem_1'' lab_db = Inr lab_record"
  "sqlite_get_evidence_manifest flat_host n (flat_id ''evm_'') lab_db = Inr lab_manifest"
  using receipt_row_reads [OF flat_host_ok lab_canonical [OF lab_finite(3)], of n]
    memory_row_reads [OF flat_host_ok lab_claim lab_canonical [OF lab_finite(1)], of n]
    manifest_row_reads [OF flat_host_ok lab_canonical [OF lab_finite(4)], of n]
  by (simp_all add: sqlite_get_receipt_def sqlite_get_memory_record_def sqlite_get_evidence_manifest_def lab_db_def
      empty_db_def lab_canon)

lemma lab_receipt_loads: "load_receipt lab_kernel ''rcp_1'' lab_world = (Inr lab_receipt, lab_world)"
  by (simp add: load_receipt_def reads_def sqlite_port_def lab_world_def lab_gets)

lemma lab_receipt_fields:
  "manifest_ref lab_receipt = flat_id ''evm_''" "rcp_candidate lab_receipt = ''mem_1''" "flat_id ''evm_'' \<noteq> []"
  "rcp_action lab_receipt = Some (flat_id ''act_'')" "receipt_passes lab_receipt"
  by (simp_all add: manifest_ref_def lab_receipt_def flat_id_def starts_with_def receipt_passes_def passed_check_def check_result_def)

lemma lab_verifies: "default_receipt_verifier flat_host lab_receipt lab_manifest (Some lab_record) = Inr (passed_check ''default-receipt'')"
proof -
  have "compute_receipt_digest flat_host (rcp_candidate lab_receipt) (rcp_update lab_receipt) (rcp_action lab_receipt)
      (rcp_profile lab_receipt) (rcp_checks lab_receipt) (rcp_result lab_receipt) (rcp_refs lab_receipt) = Inr zeros"
    by (simp add: compute_receipt_digest_def receipt_seed_def lab_receipt_def strs_json_def check_dump_def
        passed_check_def check_result_def opt_str_json_def)
  then show ?thesis
    by (simp add: default_receipt_verifier_def) (simp add: lab_receipt_def lab_manifest_def lab_record_def)
qed

lemma lab_verify_receipt: "verify_receipt lab_kernel ''rcp_1'' lab_world = (Inr (passed_check ''default-receipt''), lab_world)"
proof -
  have "load_memory (k_storage lab_kernel) ''mem_1'' lab_world = (Inr lab_record, lab_world)"
    "reads (\<lambda>n. get_evidence_manifest (k_storage lab_kernel) n (flat_id ''evm_'')) lab_world = (Inr lab_manifest, lab_world)"
    by (simp_all add: load_memory_def reads_def sqlite_port_def lab_world_def lab_gets)
  then show ?thesis
    by (simp add: verify_receipt_def bind_io_Inr lab_receipt_loads lab_receipt_fields or_missing_def bind_io_Inr lab_verifies)
qed

lemma lab_intent_id: "intent_id flat_host lab_intent = Inr (flat_id ''act_'')"
  unfolding intent_id_def flat_id_def
  by (rule flat_id32) (simp add: action_seed_def lab_intent_def ints_json_def)

lemma lab_allowed: "ensure_allowed flat_host True True [lab_receipt] (Some lab_intent) [] = Inr ()"
proof -
  have "act_id lab_intent = flat_id ''act_''" "act_receipt lab_intent = None" by (simp_all add: lab_intent_def)
  then show ?thesis by (simp add: ensure_allowed_def lab_intent_id lab_receipt_fields)
qed

lemma lab_gate: "use_gate lab_kernel ''b'' lab_intent [''rcp_1''] use_cost lab_world = (Inr (), lab_world)"
proof -
  have "registered_use lab_kernel lab_intent use_cost" "act_args lab_intent = zeros"
    by (simp_all add: registered_use_def strict_profile_def lab_intent_def use_cost_def)
  moreover have "digest_json flat_host (JDict (use_arguments ''b'')) = Inr zeros"
    by (simp add: use_arguments_def)
  moreover have "map_io (load_receipt lab_kernel) [''rcp_1''] lab_world = (Inr [lab_receipt], lab_world)"
    by (simp add: bind_io_Inr lab_receipt_loads)
  moreover have "verify_all lab_kernel [''rcp_1''] lab_world = (Inr (), lab_world)"
    by (simp add: bind_io_Inr lab_verify_receipt) (simp add: passed_check_def check_result_def)
  ultimately show ?thesis
    using lab_allowed
    by (simp add: use_gate_def bind_io_Inr strict_profile_def ensure_def del: map_io.simps verify_all.simps)
qed

section \<open>The tool\<close>

lemma lab_invokes:
  "invoke_tool lab_kernel \<lparr>tc_name = act_tool lab_intent, tc_arguments = use_arguments ''b'', tc_external = True\<rparr> lab_intent
     [''rcp_1''] lab_world =
   (Inr \<lparr>tr_call = ''normalize-lines-v1'', tr_ok = True, tr_output = [(''text'', JStr ''b'')], tr_error = []\<rparr>, lab_world)"
proof -
  have a: "act_tool lab_intent = ''normalize-lines-v1''" "act_args lab_intent = zeros" "act_contract lab_intent = None"
    by (simp_all add: lab_intent_def)
  have "digest_json flat_host (JDict (use_arguments ''b'')) = Inr zeros"
    by (simp add: use_arguments_def)
  moreover have "map_io (load_receipt lab_kernel) [''rcp_1''] lab_world = (Inr [lab_receipt], lab_world)"
    by (simp add: bind_io_Inr lab_receipt_loads)
  moreover have "ta_invoke lab_tools \<lparr>tc_name = ''normalize-lines-v1'', tc_arguments = use_arguments ''b'', tc_external = True\<rparr>
      (authorized_context (register_tool ''normalize-lines-v1'' normalize_tool (local_tools_new flat_host 0)) ctx) =
      Inr \<lparr>tr_call = ''normalize-lines-v1'', tr_ok = True, tr_output = [(''text'', JStr ''b'')], tr_error = []\<rparr>" for ctx
    by (simp add: lab_tools_def local_adapter_def local_invoke_def authorized_context_def get_or_def register_tool_def
        local_tools_new_def use_arguments_def normalize_tool_def normalize_def lab_normal)
  moreover have "ta_authorize lab_tools = Some (authorized_context (register_tool ''normalize-lines-v1'' normalize_tool (local_tools_new flat_host 0)))"
    by (simp add: lab_tools_def local_adapter_def)
  ultimately show ?thesis
    using lab_allowed
    by (simp add: invoke_tool_def a bind_io_Inr strict_profile_def ensure_def required_contract_check_def Let_def del: map_io.simps)
qed

section \<open>The entries of the use\<close>

definition use_intent :: dict where
  "use_intent = use_data zeros ''b'' lab_intent use_cost zeros"

definition reserving :: "entry list" where
  "reserving = [lab_entry (''use-cost-'' @ take 24 zeros) CostEntry (cost_dump use_cost), lab_entry ''u'' IntentEntry use_intent]"

definition settling :: "entry list" where
  "settling =
     [lab_entry ''u-attempt'' Attempt [(''intent'', JStr ''u'')],
      lab_entry ''u-outcome'' OutcomeEntry [(''intent'', JStr ''u''), (''output'', JStr ''b''), (''status'', JStr ''received'')],
      lab_entry ''u-check'' Checked [(''intent'', JStr ''u''), (''checker'', JStr ''normalize-checker-v1'')],
      lab_entry ''u-reconcile'' Reconciled [(''intent'', JStr ''u'')]]"

lemma lab_new_event:
  assumes "replay flat_host zeros old = Inr (flat_state j)" "is_id i"
  shows "event_entry flat_host zeros k i d 3 old = Inr (lab_entry i k d)"
  using assms entry_kind_read [of k]
  by (simp add: event_entry_def flat_state_def entry_of_dict_def only_fields_def required_def optional_def strict_str_def
      lab_entry_def)

lemma use_ids: "is_id (''use-cost-'' @ take 24 zeros)" "is_id ''u''" "is_id ''u-attempt''" "is_id ''u-outcome''"
  "is_id ''u-check''" "is_id ''u-reconcile''"
  by (simp_all add: is_id_def is_id_char_def zeros_def list_all_iff)

lemma use_flat: "list_all flat_entry reserving" "list_all flat_entry settling"
proof -
  have "modest 3400 (JDict (cost_dump use_cost))" "within 15 (JDict (cost_dump use_cost))"
    by (simp_all add: modest_def cost_dump_def use_cost_def)
  moreover have "modest 3400 (JDict use_intent)" "within 15 (JDict use_intent)"
    by (simp_all add: modest_def use_intent_def use_data_def intent_dump_def lab_intent_def opt_str_json_def ints_json_def
        use_cost_def flat_id_length int_text_def nat_text.simps)
  ultimately show "list_all flat_entry reserving"
    unfolding reserving_def list.pred_inject using use_ids by (auto intro!: lab_entry_flat simp del: within.simps append.simps)
  show "list_all flat_entry settling"
    by (simp add: settling_def lab_entry_flat use_ids modest_def)
qed

definition reserved_state :: "dict \<Rightarrow> dict \<Rightarrow> journal" where
  "reserved_state c d = lab_admitted\<lparr>jn_costs := lab_costs_map @ [(''u1'', c)], jn_intents := [(''u'', d)]\<rparr>"

lemma use_cost_reads: "cost_of_dict (cost_dump use_cost) = Inr use_cost" "cost_of_dict (sorted_dict (cost_dump use_cost)) = Inr use_cost"
proof -
  have "exact ''1'' = Inr ''1''"
    by (simp add: exact_def zero_denominator_def split_slash_def fraction_def
        plain_numeral_def is_digit_def digits_val_def digit_val_def nat_text.simps digit_one strip_def is_space_def)
  then have "wf_cost use_cost"
    by (simp add: wf_cost_def use_cost_def stages_def is_id_def is_id_char_def)
  then show "cost_of_dict (cost_dump use_cost) = Inr use_cost" "cost_of_dict (sorted_dict (cost_dump use_cost)) = Inr use_cost"
    by (simp_all add: sorted_parts cost_read)
qed

lemma use_intent_fields:
  assumes "d = use_intent \<or> d = sorted_dict use_intent"
  shows "map_of d ''qualification'' = Some (JStr zeros)" "map_of d ''input'' = Some (JStr ''b'')"
    "map_of d ''cost'' = Some (JStr ''u1'')" "has_fields d [''qualification'', ''input'', ''action'', ''cost'', ''snapshot'']"
proof -
  have f: "has_fields (sorted_dict use_intent) names = has_fields use_intent names" for names
    by (rule alike_has_fields [OF sorted_dict_alikes, symmetric])
  have "has_fields use_intent [''qualification'', ''input'', ''action'', ''cost'', ''snapshot'']"
    by (simp add: use_intent_def use_data_def has_fields_def)
  then show "has_fields d [''qualification'', ''input'', ''action'', ''cost'', ''snapshot'']" using assms f by metis
  show "map_of d ''qualification'' = Some (JStr zeros)" "map_of d ''input'' = Some (JStr ''b'')" "map_of d ''cost'' = Some (JStr ''u1'')"
    using assms by (auto simp: sorted_dict_field) (simp_all add: use_intent_def use_data_def use_cost_def)
qed

lemma reserving_applies:
  assumes "c = cost_dump use_cost \<or> c = sorted_dict (cost_dump use_cost)" "d = use_intent \<or> d = sorted_dict use_intent"
  shows "apply_all flat_host zeros [lab_entry i CostEntry c, lab_entry ''u'' IntentEntry d] lab_admitted = Inr (reserved_state c d)"
    "apply_all flat_host zeros [lab_entry i CostEntry c] lab_admitted =
       Inr (lab_admitted\<lparr>jn_costs := lab_costs_map @ [(''u1'', c)]\<rparr>)"
proof -
  have c: "cost_of_dict c = Inr use_cost" "cst_id use_cost = ''u1''"
    using assms(1) use_cost_reads by (auto simp: use_cost_def)
  show "apply_all flat_host zeros [lab_entry i CostEntry c] lab_admitted =
      Inr (lab_admitted\<lparr>jn_costs := lab_costs_map @ [(''u1'', c)]\<rparr>)"
    by (simp add: apply_entry_def apply_cost_def c lab_admitted_def lab_costs_map_def put_def)
  show "apply_all flat_host zeros [lab_entry i CostEntry c, lab_entry ''u'' IntentEntry d] lab_admitted = Inr (reserved_state c d)"
    by (simp add: apply_entry_def apply_cost_def c apply_intent_def use_intent_fields [OF assms(2)] item_def require_key_def
        reserved_state_def lab_admitted_def lab_costs_map_def put_def empty_journal_def)
qed

section \<open>The reservation\<close>

abbreviation old_entries :: "entry list" where
  "old_entries \<equiv> map stored_entry lab_batch"

lemma old_ids: "map en_id lab_batch = [''e1'', ''e2'', ''e3'']" "length lab_batch = 3"
  by (simp_all add: lab_batch_def)

lemma new_ids: "distinct (map en_id (lab_batch @ reserving @ settling))" "length (lab_batch @ reserving @ settling) = 9"
  by (simp_all add: lab_batch_def reserving_def settling_def)

lemma lab_runtime_parts [simp]:
  "rr_host lab_runtime = flat_host" "rr_alt lab_runtime = lab_alt" "rr_implementation lab_runtime = zeros"
  "rr_kernel lab_runtime = Some lab_kernel" "map_of (rr_profiles lab_runtime) ''r'' = Some lab_context"
  by (simp_all add: lab_runtime_def)

lemma use_cost_digest: "digest flat_host (JDict (cost_dump use_cost)) = Inr zeros"
  by (rule flat_digest [of 3500]) (simp_all add: modest_def cost_dump_def use_cost_def)

lemma reserving_events:
  "event_entry flat_host zeros CostEntry (''use-cost-'' @ take 24 zeros) (cost_dump use_cost) 3 old_entries = Inr (reserving ! 0)"
  "event_entry flat_host zeros IntentEntry ''u'' use_intent 3 (old_entries @ [reserving ! 0]) = Inr (reserving ! 1)"
proof -
  show "event_entry flat_host zeros CostEntry (''use-cost-'' @ take 24 zeros) (cost_dump use_cost) 3 old_entries = Inr (reserving ! 0)"
    using lab_new_event [OF lab_replays use_ids(1)] by (simp add: reserving_def)
  have "replay flat_host zeros (old_entries @ [reserving ! 0]) =
      Inr (flat_state (lab_admitted\<lparr>jn_costs := lab_costs_map @ [(''u1'', cost_dump use_cost)]\<rparr>))"
    unfolding flat_state_def
  proof (rule flat_replay)
    show "apply_all flat_host zeros (old_entries @ [reserving ! 0]) empty_journal =
        Inr (lab_admitted\<lparr>jn_costs := lab_costs_map @ [(''u1'', cost_dump use_cost)]\<rparr>)"
      using reserving_applies(2) [OF disjI1 disjI1, OF refl refl]
      by (simp add: apply_all_append lab_applies reserving_def del: apply_all.simps append.simps)
    show "list_all flat_entry (old_entries @ [reserving ! 0])"
      using stored_all [OF batch_flat] use_flat(1) by (simp add: reserving_def)
  qed (simp_all add: lab_batch_def reserving_def)
  from lab_new_event [OF this use_ids(2)]
  show "event_entry flat_host zeros IntentEntry ''u'' use_intent 3 (old_entries @ [reserving ! 0]) = Inr (reserving ! 1)"
    by (simp add: reserving_def)
qed

lemma lab_reserves:
  "reserve_rows lab_runtime zeros ''b'' ''u'' 3 zeros lab_intent use_cost n lab_db lab_rows =
     Inr (Reserved zeros lab_q lab_context, map text_row (lab_batch @ reserving))"
proof -
  have append: "append_rows flat_host zeros [reserving ! 0, reserving ! 1] zeros lab_rows =
      Inr (zeros, map text_row (lab_batch @ reserving))"
  proof -
    have r: "[reserving ! 0, reserving ! 1] = reserving" by (simp add: reserving_def)
    have "append_rows flat_host zeros reserving zeros (map text_row lab_batch) = Inr (zeros, map text_row (lab_batch @ reserving))"
    proof (rule flat_append [OF lab_applies])
      show "apply_all flat_host zeros reserving lab_admitted = Inr (reserved_state (cost_dump use_cost) use_intent)"
        unfolding reserving_def by (rule reserving_applies(1)) simp_all
    qed (use batch_flat use_flat new_ids in auto)
    then show ?thesis by (simp only: r lab_rows_def)
  qed
  have none: "map_of (jn_intents lab_admitted) ''u'' = None" "unresolved_ids lab_admitted = []"
    by (simp_all add: lab_admitted_def empty_journal_def unresolved_ids_def)
  have qual: "item (jn_qualifications lab_admitted) zeros = Inr (sorted_dict (qualification_dump lab_q))"
    by (simp add: lab_admitted_def item_def)
  have ctx: "map_of (rr_profiles lab_runtime) (cx_receiver (qu_context lab_q)) = Some lab_context"
    by (simp add: lab_parts(3) lab_runtime_def) (simp add: lab_context_def)
  have state: "rp_state (flat_state j) = j" "rp_revision (flat_state j) = zeros" "rp_unresolved (flat_state j) = unresolved_ids j" for j
    by (simp_all add: flat_state_def)
  have elig: "vw_eligibility lab_view = ''eligible''" by (simp add: lab_view_def)
  show ?thesis
    unfolding reserve_rows_def lab_entries bind_res.simps journal_of_def lab_runtime_parts(1,3) lab_replays Let_def state none option.case
      any_res.simps qual lab_q_sorted ctx decide_def lab_runtime_parts(2) new_event_def append_batch_def use_intent_def [symmetric]
      lab_decides [of 3 n, simplified] use_cost_digest reserving_events append elig
    by simp
qed

section \<open>The fence\<close>

definition lab_reserved :: journal where
  "lab_reserved = reserved_state (sorted_dict (cost_dump use_cost)) (sorted_dict use_intent)"

abbreviation reserved_entries :: "entry list" where
  "reserved_entries \<equiv> map stored_entry (lab_batch @ reserving)"

lemma reserved_applies: "apply_all flat_host zeros reserved_entries empty_journal = Inr lab_reserved"
proof -
  have "map stored_entry reserving = [lab_entry (''use-cost-'' @ take 24 zeros) CostEntry (sorted_dict (cost_dump use_cost)),
      lab_entry ''u'' IntentEntry (sorted_dict use_intent)]"
    by (simp add: reserving_def del: append.simps)
  then have "apply_all flat_host zeros (map stored_entry reserving) lab_admitted = Inr lab_reserved"
    unfolding lab_reserved_def using reserving_applies(1) [OF disjI2 disjI2, OF refl refl] by (simp only:)
  then show ?thesis by (simp add: apply_all_append lab_applies)
qed

lemma reserved_flat: "list_all flat_entry (lab_batch @ reserving)" "length (lab_batch @ reserving) \<le> 10"
    "distinct (map en_id (lab_batch @ reserving))"
  using batch_flat use_flat new_ids by auto

lemma reserved_entries_read: "entries (map text_row (lab_batch @ reserving)) = Inr reserved_entries"
  by (rule flat_entries_read [OF reserved_flat(1,2)])

lemma reserved_replays: "replay flat_host zeros reserved_entries = Inr (flat_state lab_reserved)"
  by (rule flat_replay_stored [OF reserved_applies reserved_flat])

lemma reserved_decides:
  "decision flat_host lab_alt zeros n lab_db lab_q lab_context ''b'' 3 (flat_state lab_reserved) = Inr lab_view"
proof (rule lab_eligible)
  show "list_all (cost_paid (jn_costs lab_reserved)) (qu_costs lab_q)"
    by (rule lab_paid) (simp_all add: lab_reserved_def reserved_state_def lab_costs_map_def)
qed (simp_all add: lab_reserved_def reserved_state_def lab_admitted_def empty_journal_def)

lemma lab_fences:
  "fence lab_runtime lab_q lab_context ''b'' ''u'' 3 zeros n lab_db (map text_row (lab_batch @ reserving)) =
     Inr (reserved_entries, settling ! 0)"
proof -
  have "event_entry flat_host zeros Attempt (''u'' @ ''-attempt'') [(''intent'', JStr ''u'')] 3 reserved_entries = Inr (settling ! 0)"
    using lab_new_event [OF reserved_replays use_ids(3)] by (simp add: settling_def)
  moreover have "rp_revision (flat_state lab_reserved) = zeros" "vw_eligibility lab_view = ''eligible''"
    by (simp_all add: flat_state_def lab_view_def)
  ultimately show ?thesis
    unfolding fence_def Let_def reserved_entries_read bind_res.simps journal_of_def lab_runtime_parts(1,2,3) reserved_replays
      decide_def new_event_def reserved_decides
    by simp
qed

section \<open>The outcome\<close>

definition settled_state :: "(string \<times> dict) list \<Rightarrow> (string \<times> bool) list \<Rightarrow> string list \<Rightarrow> journal" where
  "settled_state outs checks services =
     lab_reserved\<lparr>jn_attempts := [(''u'', ''u-attempt'')], jn_outcomes := outs, jn_checked := checks, jn_services := services\<rparr>"

definition use_outcome :: dict where
  "use_outcome = [(''intent'', JStr ''u''), (''output'', JStr ''b''), (''status'', JStr ''received'')]"

lemma reserved_maps:
  "jn_costs lab_reserved = lab_costs_map @ [(''u1'', sorted_dict (cost_dump use_cost))]"
  "jn_intents lab_reserved = [(''u'', sorted_dict use_intent)]" "jn_attempts lab_reserved = []" "jn_outcomes lab_reserved = []"
  "jn_checked lab_reserved = []" "jn_services lab_reserved = []"
  by (simp_all add: lab_reserved_def reserved_state_def lab_admitted_def empty_journal_def)

lemma settling_applies:
  "apply_all flat_host zeros (take 1 settling) lab_reserved = Inr (settled_state [] [] [])"
  "apply_all flat_host zeros (take 2 settling) lab_reserved = Inr (settled_state [(''u'', use_outcome)] [] [])"
  "apply_all flat_host zeros (take 3 settling) lab_reserved = Inr (settled_state [(''u'', use_outcome)] [(''u'', True)] [])"
  "apply_all flat_host zeros (take 4 settling) lab_reserved = Inr (settled_state [(''u'', use_outcome)] [(''u'', True)] [''u''])"
proof -
  note fields = use_intent_fields [OF disjI2, OF refl]
  have 1: "apply_entry flat_host zeros (settling ! 0) lab_reserved = Inr (settled_state [] [] [])"
    by (simp add: settling_def apply_entry_def apply_attempt_def has_fields_def item_def require_key_def reserved_maps
        settled_state_def put_def)
  have 2: "apply_entry flat_host zeros (settling ! 1) (settled_state [] [] []) = Inr (settled_state [(''u'', use_outcome)] [] [])"
    by (simp add: settling_def apply_entry_def apply_outcome_def has_fields_def item_def require_key_def
        settled_state_def put_def use_outcome_def)
  have 3: "apply_entry flat_host zeros (settling ! 2) (settled_state [(''u'', use_outcome)] [] []) =
      Inr (settled_state [(''u'', use_outcome)] [(''u'', True)] [])"
    by (simp add: settling_def apply_entry_def apply_checked_def has_fields_def item_def require_key_def reserved_maps
        settled_state_def put_def use_outcome_def fields lab_costs_map_def outcome_operation_def text_value_def strict_str_def
        use_cost_reads checked_iff lab_normal)
  have 4: "apply_entry flat_host zeros (settling ! 3) (settled_state [(''u'', use_outcome)] [(''u'', True)] []) =
      Inr (settled_state [(''u'', use_outcome)] [(''u'', True)] [''u''])"
    by (simp add: settling_def apply_entry_def apply_reconciled_def has_fields_def item_def require_key_def settled_state_def)
  have "settling = [settling ! 0, settling ! 1, settling ! 2, settling ! 3]" by (simp add: settling_def)
  then have s: "take 1 settling = [settling ! 0]" "take 2 settling = [settling ! 0, settling ! 1]"
    "take 3 settling = [settling ! 0, settling ! 1, settling ! 2]"
    "take 4 settling = [settling ! 0, settling ! 1, settling ! 2, settling ! 3]"
    by (simp_all add: settling_def)
  show "apply_all flat_host zeros (take 1 settling) lab_reserved = Inr (settled_state [] [] [])"
    "apply_all flat_host zeros (take 2 settling) lab_reserved = Inr (settled_state [(''u'', use_outcome)] [] [])"
    "apply_all flat_host zeros (take 3 settling) lab_reserved = Inr (settled_state [(''u'', use_outcome)] [(''u'', True)] [])"
    "apply_all flat_host zeros (take 4 settling) lab_reserved = Inr (settled_state [(''u'', use_outcome)] [(''u'', True)] [''u''])"
    unfolding s by (simp_all only: apply_all.simps 1 2 3 4 bind_res.simps)
qed

lemma settling_replays:
  assumes "k \<le> 4" "apply_all flat_host zeros (take k settling) lab_reserved = Inr j"
  shows "replay flat_host zeros (reserved_entries @ take k settling) = Inr (flat_state j)"
  unfolding flat_state_def
proof (rule flat_replay)
  show "apply_all flat_host zeros (reserved_entries @ take k settling) empty_journal = Inr j"
    by (simp only: apply_all_append [of _ _ reserved_entries] reserved_applies assms(2) bind_res.simps)
  have "list_all flat_entry (take k settling)" using use_flat(2) by (auto simp: list_all_iff dest: in_set_takeD)
  then show "list_all flat_entry (reserved_entries @ take k settling)"
    using stored_all [OF reserved_flat(1)] by simp
  have "length settling = 4" "length (lab_batch @ reserving) = 5" by (simp_all add: settling_def lab_batch_def reserving_def)
  then show "length (reserved_entries @ take k settling) \<le> 10" using assms(1) by simp
  have ids: "map en_id reserved_entries = map en_id (lab_batch @ reserving)" by simp
  have "distinct (map en_id ((lab_batch @ reserving) @ settling))" using new_ids(1) by simp
  then have "distinct (take (5 + k) (map en_id ((lab_batch @ reserving) @ settling)))" by (rule distinct_take)
  moreover have "take (5 + k) (map en_id ((lab_batch @ reserving) @ settling)) = map en_id (reserved_entries @ take k settling)"
    using \<open>length (lab_batch @ reserving) = 5\<close> by (simp add: take_map comp_def)
  ultimately show "distinct (map en_id (reserved_entries @ take k settling))" by (simp only:)
qed

definition tool_answer :: tool_result where
  "tool_answer = \<lparr>tr_call = ''normalize-lines-v1'', tr_ok = True, tr_output = [(''text'', JStr ''b'')], tr_error = []\<rparr>"

definition used_rows :: journal_rows where
  "used_rows = map text_row ((lab_batch @ reserving) @ settling)"

definition use_done :: use_result where
  "use_done = \<lparr>us_status = ''checked'', us_service = True, us_snapshot = Some zeros\<rparr>"

lemma lab_settles:
  "settle_rows lab_runtime ''u'' 3 zeros reserved_entries (settling ! 0) tool_answer (map text_row (lab_batch @ reserving)) =
     Inr (use_done, used_rows)"
proof -
  have takes: "[settling ! 0] = take 1 settling" "[settling ! 0, settling ! 1] = take 2 settling"
    "[settling ! 0, settling ! 1, settling ! 2] = take 3 settling"
    "[settling ! 0, settling ! 1, settling ! 2, settling ! 3] = take 4 settling" "take 4 settling = settling"
    by (simp_all add: settling_def)
  note replays = settling_replays [OF _ settling_applies(1)] settling_replays [OF _ settling_applies(2)]
    settling_replays [OF _ settling_applies(3)] settling_replays [OF _ settling_applies(4)]
  have e1: "event_entry flat_host zeros OutcomeEntry (''u'' @ ''-outcome'') (outcome_data ''u'' tool_answer) 3
      (reserved_entries @ [settling ! 0]) = Inr (settling ! 1)"
    using lab_new_event [OF replays(1) use_ids(4)]
    by (simp add: takes(1) del: map_append) (simp add: settling_def outcome_data_def outcome_status_def tool_answer_def get_or_def)
  have e2: "event_entry flat_host zeros Checked (''u'' @ ''-check'') [(''intent'', JStr ''u''), (''checker'', JStr ''normalize-checker-v1'')] 3
      (reserved_entries @ [settling ! 0, settling ! 1]) = Inr (settling ! 2)"
    using lab_new_event [OF replays(2) use_ids(5)] by (simp add: takes(2) del: map_append) (simp add: settling_def)
  have e3: "event_entry flat_host zeros Reconciled (''u'' @ ''-reconcile'') [(''intent'', JStr ''u'')] 3
      (reserved_entries @ [settling ! 0, settling ! 1, settling ! 2]) = Inr (settling ! 3)"
    using lab_new_event [OF replays(3) use_ids(6)] by (simp add: takes(3) del: map_append) (simp add: settling_def)
  have app: "append_rows flat_host zeros settling zeros (map text_row (lab_batch @ reserving)) = Inr (zeros, used_rows)"
    unfolding used_rows_def
  proof (rule flat_append [OF reserved_applies])
    show "apply_all flat_host zeros settling lab_reserved = Inr (settled_state [(''u'', use_outcome)] [(''u'', True)] [''u''])"
      using settling_applies(4) by (simp only: takes(5))
    show "list_all flat_entry ((lab_batch @ reserving) @ settling)" using reserved_flat use_flat by simp
    show "length ((lab_batch @ reserving) @ settling) \<le> 10" "distinct (map en_id ((lab_batch @ reserving) @ settling))"
      using new_ids by simp_all
  qed
  have fin: "replay flat_host zeros (reserved_entries @ settling) =
      Inr (flat_state (settled_state [(''u'', use_outcome)] [(''u'', True)] [''u'']))"
    using replays(4) by (simp only: takes(5))
  have service: "''u'' \<in> set (jn_services (rp_state (flat_state (settled_state [(''u'', use_outcome)] [(''u'', True)] [''u'']))))"
    by (simp add: flat_state_def settled_state_def)
  show ?thesis
    unfolding settle_rows_def new_event_def lab_runtime_parts(1,3) e1 e2 e3 bind_res.simps Let_def takes(4) takes(5) append_batch_def app
      journal_of_def fin
    using service by (simp add: use_done_def)
qed

lemma lab_use:
  "receiver_use lab_runtime zeros ''b'' ''u'' 3 zeros lab_intent [''rcp_1''] use_cost \<lparr>dk_world = lab_world, dk_rows = lab_rows\<rparr> =
     (Inr use_done, \<lparr>dk_world = lab_world, dk_rows = used_rows\<rparr>)"
proof -
  have world: "w_store lab_world = lab_db" by (simp add: lab_world_def)
  have answer: "invoke_tool lab_kernel \<lparr>tc_name = act_tool lab_intent, tc_arguments = use_arguments ''b'', tc_external = True\<rparr> lab_intent
     [''rcp_1''] lab_world = (Inr tool_answer, lab_world)"
    using lab_invokes by (simp add: tool_answer_def)
  show ?thesis
    unfolding receiver_use_def lab_runtime_parts(4) option.case use_effect_def
    by (simp add: bind_io_def on_world_def lab_gate transaction_def world lab_reserves lab_fences answer lab_settles
        del: map_append)
qed

end
