(* ===== verification/Durable_Witness.thy ===== *)
theory Durable_Witness
  imports Journal_Durable Journal_Witness
begin

text \<open>
  The rows that the entries of one complete use leave in an empty journal, and the durability of
  their append.
\<close>

lemma flat_digest_zeros: "digest flat_host v = Inr d \<Longrightarrow> d = zeros"
  by (auto simp: digest_def sha_def flat_host_def res_simps)

lemma life_plain: "list_all plain_data life"
  using life_small by (auto simp: list_all_iff modest_def plain_data_def entry_dump_def)

lemma life_inserted:
  "list_all (\<lambda>e. \<exists>raw. encoded H (JDict (entry_dump e)) = Inr raw) es \<Longrightarrow>
   \<exists>rows'. fold_res (insert_entry H) es rows = Inr rows'"
  by (induction es arbitrary: rows) (auto simp: insert_entry_def)

definition life_rows :: journal_rows where
  "life_rows = snd (store_append flat_host zeros life zeros [])"

lemma empty_inspect: "store_inspect flat_host zeros [] = Inr \<lparr>rp_state = empty_journal, rp_revision = zeros, rp_unresolved = []\<rparr>"
proof -
  have "digest flat_host (entries_json []) = Inr zeros" by (rule flat_entries) simp_all
  then show ?thesis
    by (simp add: store_inspect_def entries_def replay_def replay_start_def unresolved_ids_def empty_journal_def)
qed

lemma life_appends: "store_append flat_host zeros life zeros [] = (Inr zeros, life_rows)"
proof -
  obtain r where r: "replay flat_host zeros life = Inr r" by (rule life_replays)
  have rev_r: "rp_revision r = zeros" using replay_delivered [OF r] flat_digest_zeros by blast
  have "list_all (\<lambda>e. \<exists>raw. encoded flat_host (JDict (entry_dump e)) = Inr raw) life"
    using life_small modest_encoded [of 2000] by (auto simp: list_all_iff)
  from life_inserted [OF this, of "[]"] obtain rows where rows: "fold_res (insert_entry flat_host) life [] = Inr rows" by blast
  have "replay flat_host zeros [] = Inr \<lparr>rp_state = empty_journal, rp_revision = zeros, rp_unresolved = []\<rparr>"
    using empty_inspect by (simp add: store_inspect_def entries_def)
  then have "append_rows flat_host zeros life zeros [] = Inr (zeros, rows)"
    using r rev_r rows by (simp add: append_rows_def entries_def)
  then show ?thesis by (simp add: store_append_def life_rows_def)
qed

text \<open>The seven entries of a complete use are the seven new rows of the empty journal.\<close>

theorem append_durable_witness:
  "\<exists>cur. store_append flat_host zeros life zeros [] = (Inr zeros, life_rows) \<and> rows_ok life_rows \<and>
     replay flat_host zeros [] = Inr cur \<and> rp_revision cur = zeros \<and>
     list_all2 (row_of_entry flat_host) life life_rows \<and> length life_rows = 7"
proof -
  have fresh: "fresh_entries [] life = life" by (simp add: life_def)
  have "entries [] = Inr []" by (simp add: entries_def)
  then obtain cur where rows: "rows_ok life_rows" "replay flat_host zeros [] = Inr cur" "rp_revision cur = zeros"
    "list_all2 (row_of_entry flat_host) life life_rows"
    using append_durable [of "[]" life flat_host zeros zeros, OF _ life_plain] life_appends fresh
    by (auto simp: rows_ok_def)
  moreover have "length life = 7" by (simp add: life_def)
  ultimately show ?thesis using life_appends list_all2_lengthD [OF rows(4)] by metis
qed

end
