(* ===== verification/Use_Crash.thy ===== *)
theory Use_Crash
  imports Use_Properties
begin

text \<open>
  What a use leaves behind when it raises: either it raised before the reservation, with the journal
  as it was, or its intent is in the journal, unresolved, and the journal opens again.
\<close>

section \<open>The phases of a use\<close>

definition with_tools :: "receiver_runtime \<Rightarrow> db kernel \<Rightarrow> tool_adapter \<Rightarrow> receiver_runtime" where
  "with_tools R K T = R\<lparr>rr_kernel := Some (K\<lparr>k_tools := T\<rparr>)\<rparr>"

lemma effect_rows:
  assumes "use_effect R K q context t i now reserved a receipts dk = (Inl e, dk')"
  shows "dk_rows dk' = dk_rows dk"
  using assms
  by (auto simp: use_effect_def bind_io_def on_world_def transaction_def split: sum.splits prod.splits)

lemma use_raises:
  assumes K: "rr_kernel R = Some K"
    and run: "receiver_use R qid t i now expected a receipts c dk = (Inl e, dk')"
  shows "dk_rows dk' = dk_rows dk \<and>
      (\<forall>T. receiver_use (with_tools R K T) qid t i now expected a receipts c dk = (Inl e, dk')) \<or>
    (\<exists>n s reserved q context. reserve_rows R qid t i now expected a c n s (dk_rows dk) =
      Inr (Reserved reserved q context, dk_rows dk'))"
proof -
  have kernel: "rr_kernel (with_tools R K T) = Some (K\<lparr>k_tools := T\<rparr>)" "reserve_rows (with_tools R K T) = reserve_rows R" for T
    by (simp_all add: with_tools_def reserve_rows_kernel)
  note unfold = receiver_use_def kernel K option.case use_gate_tools on_world_def bind_io_def transaction_def
  obtain g w where g: "use_gate K t a receipts c (dk_world dk) = (g, w)" by (metis surj_pair)
  show ?thesis
  proof (cases g)
    case (Inl e')
    then show ?thesis using run by (auto simp: unfold g)
  next
    case (Inr u)
    show ?thesis
    proof (cases "reserve_rows R qid t i now expected a c (w_tick w) (w_store w) (dk_rows dk)")
      case (Inl e')
      then show ?thesis using run Inr by (auto simp: unfold g)
    next
      case (Inr r)
      obtain x rows where r: "r = (x, rows)" by (cases r)
      show ?thesis
      proof (cases x)
        case (Duplicate b)
        then show ?thesis using run \<open>g = Inr u\<close> Inr r by (simp add: unfold g)
      next
        case (Reserved reserved q "context")
        have "use_effect R K q context t i now reserved a receipts (dk\<lparr>dk_world := w, dk_rows := rows\<rparr>) = (Inl e, dk')"
          using run \<open>g = Inr u\<close> Inr r Reserved by (simp add: unfold g)
        from effect_rows [OF this] have "dk_rows dk' = rows" by simp
        then show ?thesis using Inr r Reserved by blast
      qed
    qed
  qed
qed

section \<open>The reservation, opened again\<close>

lemma event_entry_fields:
  assumes "event_entry H implementation k i d now old = Inr e"
  shows "en_id e = i" "en_kind e = k" "en_data e = d"
proof -
  have "required entry_kind_of [(''id'', JStr i), (''previous'', JStr p), (''time'', JInt now),
      (''kind'', JStr (entry_kind_value k)), (''data'', JDict d)] ''kind'' = Inr k" for p
    by (simp add: required_def entry_kind_read)
  with assms show "en_id e = i" "en_kind e = k" "en_data e = d"
    by (auto simp: event_entry_def entry_of_dict_def res_simps) (simp_all add: required_def)
qed

text \<open>The two entries of a reservation leave the intent unresolved.\<close>

lemma intent_unresolved:
  assumes old: "replay H implementation old = Inr st" and fresh: "i \<notin> en_id ` set old" "en_id ce \<noteq> i"
    and ce: "en_kind ce = CostEntry" and ie: "en_kind ie = IntentEntry" "en_id ie = i"
    and res: "replay H implementation (old @ [ce, ie]) = Inr res"
  shows "i \<in> dom (map_of (jn_intents (rp_state res))) \<and> i \<in> set (rp_unresolved res)"
proof -
  obtain s0 where s0: "fold_res (replay_step H implementation) old replay_start = Inr s0" "replay_inv H s0"
    by (rule replay_Inr [OF old])
  obtain s where s: "fold_res (replay_step H implementation) (old @ [ce, ie]) replay_start = Inr s" "rp_state res = ry_state s"
    "rp_unresolved res = unresolved_ids (ry_state s)" by (rule replay_Inr [OF res])
  from s(1) s0 obtain s1 where s1: "replay_step H implementation ce s0 = Inr s1" and s2: "replay_step H implementation ie s1 = Inr s"
    by (auto simp: fold_res_append res_simps)
  have i0: "i \<notin> dom (map_of (ry_ids s0))" using fold_ids [OF s0(1)] fresh(1) by (simp add: replay_start_def)
  have i1: "i \<notin> dom (map_of (ry_ids s1))" using s1 i0 fresh(2) by (cases rule: replay_step_cases) auto
  have inv1: "replay_inv H s1" using replay_step_inv [OF s1 s0(2)] by blast
  have no_check: "i \<notin> dom (map_of (jn_checked (ry_state s1)))"
  proof -
    have "journal_inv (ry_state s1)" "dom (map_of (jn_intents (ry_state s1))) \<subseteq> dom (map_of (ry_ids s1))"
      using inv1 unfolding replay_inv_def by iprover+
    moreover from this(1) have "dom (map_of (jn_attempts (ry_state s1))) \<subseteq> dom (map_of (jn_intents (ry_state s1)))"
      "dom (map_of (jn_outcomes (ry_state s1))) \<subseteq> dom (map_of (jn_attempts (ry_state s1)))"
      "dom (map_of (jn_checked (ry_state s1))) \<subseteq> dom (map_of (jn_outcomes (ry_state s1)))"
      by (simp_all add: journal_inv_def)
    ultimately show ?thesis using i1 by (meson subsetD)
  qed
  from s2 obtain j where j: "apply_entry H implementation ie (ry_state s1) = Inr j" "ry_state s = j"
    using i1 ie(2) by (cases rule: replay_step_cases) auto
  have "j = (ry_state s1)\<lparr>jn_intents := put i (en_data ie) (jn_intents (ry_state s1))\<rparr>"
    using j(1) ie by (auto simp: apply_entry_def apply_intent_def Let_def res_simps split: if_splits)
  then have "i \<in> dom (map_of (jn_intents j))" "map_of (jn_checked j) i = None"
    using no_check by auto
  moreover have "fst ` set (jn_intents j) = dom (map_of (jn_intents j))" by (rule dom_map_of_conv_image_fst [symmetric])
  ultimately show ?thesis
    unfolding s(2,3) j(2) by (simp add: unresolved_ids_def)
qed

lemma reserve_reopens:
  assumes run: "reserve_rows R qid t i now expected a c n s rows = Inr (Reserved reserved q context, rows')"
    and ok: "rows_ok rows" "entries rows = Inr es" and caps: "distinct (map fst (act_caps a))"
    and fresh: "i \<notin> en_id ` set es" "\<not> starts_with ''use-cost-'' i"
  shows "rows_ok rows' \<and> (\<exists>new. rows' = rows @ new) \<and> i \<in> fst ` set rows' \<and>
    (if 2000000 < rows_size rows' then entries rows' = Inl (ValueError ''journal byte limit'')
     else \<exists>es' st. entries rows' = Inr es' \<and> journal_of R es' = Inr st \<and>
       i \<in> dom (map_of (jn_intents (rp_state st))) \<and> i \<in> set (rp_unresolved st))"
proof -
  from run ok(2) obtain st d ce ie where st: "journal_of R es = Inr st"
    and ce: "new_event R CostEntry (''use-cost-'' @ take 24 d) (cost_dump c) now es = Inr ce"
    and ie: "new_event R IntentEntry i (use_data qid t a c expected) now (es @ [ce]) = Inr ie"
    and app: "append_batch R [ce, ie] expected rows = Inr (reserved, rows')"
    by (auto simp: reserve_rows_def Let_def res_simps split: option.splits if_splits)
  note cf = event_entry_fields [OF ce [unfolded new_event_def]] and f = event_entry_fields [OF ie [unfolded new_event_def]]
  have "en_id ce \<noteq> i" using fresh(2) cf(1) by (auto simp: starts_with_def)
  have "list_all plain_data [ce, ie]"
    using caps by (auto simp: plain_data_def cf f cost_dump_def use_data_def intent_dump_def opt_str_json_def ints_json_def
        comp_def case_prod_unfold split: option.splits)
  from append_rows_full [OF ok(1) this app [unfolded append_batch_def]] ok(2)
  obtain res new where res: "replay (rr_host R) (rr_implementation R) (es @ [ce, ie]) = Inr res" "rows_ok rows'"
    and new: "rows' = rows @ new" "list_all2 (row_of_entry (rr_host R)) (fresh_entries (map fst rows) [ce, ie]) new"
    and re: "if 2000000 < rows_size rows' then entries rows' = Inl (ValueError ''journal byte limit'')
     else \<exists>es' r. entries rows' = Inr es' \<and> replay (rr_host R) (rr_implementation R) es' = Inr r \<and>
       jalike (rp_state res) (rp_state r) \<and> rp_revision r = reserved \<and> rp_unresolved r = rp_unresolved res"
    by (auto split: if_splits)
  have "fst ` set new = en_id ` set (fresh_entries (map fst rows) [ce, ie])"
    using arg_cong [OF row_ids [OF new(2)], of set] by simp
  then have there: "i \<in> fst ` set rows'"
    using fresh_ids [of "map fst rows" "[ce, ie]"] f(1) by (auto simp: new(1) image_Un)
  have un: "i \<in> dom (map_of (jn_intents (rp_state res))) \<and> i \<in> set (rp_unresolved res)"
    by (rule intent_unresolved [OF st [unfolded journal_of_def] fresh(1) \<open>en_id ce \<noteq> i\<close> cf(2) f(2,1) res(1)])
  have "i \<in> dom (map_of (jn_intents (rp_state r)))" if "jalike (rp_state res) (rp_state r)" for r
  proof -
    have "alike_map (jn_intents (rp_state res)) (jn_intents (rp_state r))" using that by (simp add: jalike_def)
    from alike_map_set [OF this] un show ?thesis by (simp add: dom_map_of_conv_image_fst)
  qed
  note reopened = this
  show ?thesis
  proof (cases "2000000 < rows_size rows'")
    case False
    then obtain es' r where r: "entries rows' = Inr es'" "replay (rr_host R) (rr_implementation R) es' = Inr r"
      "jalike (rp_state res) (rp_state r)" "rp_unresolved r = rp_unresolved res" using re by auto
    have "i \<in> set (rp_unresolved r)" using un r(4) by simp
    with False r reopened [OF r(3)] res(2) there new(1) show ?thesis unfolding journal_of_def by auto
  qed (use re res(2) there new(1) in simp)
qed

text \<open>
  C31: a use that fails cannot have been forgotten. Take a journal that opens, a use whose identity is
  not in it and does not begin with \<open>use-cost-\<close>, the prefix of the cost entries, and an intent whose
  caps have distinct names. Let the use raise. Then either it raised before its reservation: the journal
  is as it was, and with any other tools the same exception would have been raised, so none of them ran.
  Or the journal has been extended at its end and holds the intent; and it opens again with the intent
  recorded and unresolved, so that the same use will not run a tool again until the host has
  reconciled it. The exception is a reservation that has pushed the journal over the two million
  characters that opening allows, which the code does not prevent: the intent is in the file then, and
  the journal does not open.
\<close>

theorem failed_use_recorded:
  assumes "rr_kernel R = Some K" "rows_ok (dk_rows dk)" "entries (dk_rows dk) = Inr es"
    and "i \<notin> en_id ` set es" "\<not> starts_with ''use-cost-'' i" "distinct (map fst (act_caps a))"
    and "receiver_use R qid t i now expected a receipts c dk = (Inl e, dk')"
  shows "dk_rows dk' = dk_rows dk \<and>
      (\<forall>T. receiver_use (with_tools R K T) qid t i now expected a receipts c dk = (Inl e, dk')) \<or>
    (\<exists>new. dk_rows dk' = dk_rows dk @ new) \<and> i \<in> fst ` set (dk_rows dk') \<and>
    (if 2000000 < rows_size (dk_rows dk') then entries (dk_rows dk') = Inl (ValueError ''journal byte limit'')
     else \<exists>es' st. entries (dk_rows dk') = Inr es' \<and> journal_of R es' = Inr st \<and>
       i \<in> set (rp_unresolved st) \<and> use_recorded st qid t i)"
  using use_raises [OF assms(1,7)]
proof (elim disjE exE)
  fix n s reserved q "context"
  assume "reserve_rows R qid t i now expected a c n s (dk_rows dk) = Inr (Reserved reserved q context, dk_rows dk')"
  from reserve_reopens [OF this assms(2,3,6,4,5)] show ?thesis
    by (auto simp: use_recorded_def split: if_splits)
qed simp

end
