(* ===== verification/Receiver_Eligibility.thy ===== *)
theory Receiver_Eligibility
  imports Receiver_Session Use_Crash
begin

text \<open>
  What eligibility is good for: the receiver hands out a memory and lets a tool run only on a
  decision made on the file and the journal as they are at that moment, and everything the decision
  asks for then holds.
\<close>

section \<open>What must hold\<close>

text \<open>A block of the journal that was recorded for this artifact, context and input since the qualification began.\<close>

definition invalidates :: "host \<Rightarrow> qualification \<Rightarrow> receiver_context \<Rightarrow> string \<Rightarrow> dict \<Rightarrow> bool" where
  "invalidates H q cx t b \<longleftrightarrow>
     (\<exists>a cd tm. map_of b ''artifact'' = Some a \<and> py_eq a (get_or (qu_candidate q) ''artifact_digest'' JNull) \<and>
        map_of b ''context'' = Some (JStr cd) \<and> digest H (JDict (context_dump cx)) = Inr cd \<and>
        map_of b ''input'' = Some (JStr t) \<and> map_of b ''time'' = Some (JInt tm) \<and> int (qu_from q) \<le> tm)"

text \<open>
  The record of the qualification: it is in the file, certified and unchanged, formed from the
  training events, and its receipt and contract are there, passing and bound to it.
\<close>

definition certified_source :: "host \<Rightarrow> nat \<Rightarrow> db \<Rightarrow> qualification \<Rightarrow> memory \<Rightarrow> bool" where
  "certified_source H n s q m \<longleftrightarrow>
     bind_res (row H s ''memory_records'' ''memory_id'' (qu_memory q)) (memory_of_dict H n) = Inr m \<and>
     mem_lane m = CERTIFIED \<and> mem_update m = qu_update q \<and> content_digest H m = Inr (qu_workflow q) \<and>
     set (mem_sources m) = src_event ` set (qu_training q) \<and>
     (\<exists>rcp c. bind_res (row H s ''promotion_receipts'' ''receipt_id'' (or_str (mem_receipt m) [])) (receipt_of_dict H n) = Inr rcp \<and>
        rcp_result rcp = Passed \<and> rcp_checks rcp \<noteq> [] \<and> list_all chk_passed (rcp_checks rcp) \<and>
        bind_res (row H s ''workflow_contracts'' ''contract_id'' (or_str (mem_contract m) [])) (contract_of_dict H n) = Inr c \<and>
        wfc_update c = Some (mem_update m) \<and> wfc_memory c = Some (mem_id m))"

definition clear_for ::
  "receiver_runtime \<Rightarrow> nat \<Rightarrow> db \<Rightarrow> journal \<Rightarrow> qualification \<Rightarrow> receiver_context \<Rightarrow> string \<Rightarrow> int \<Rightarrow> memory \<Rightarrow> bool"
where
  "clear_for R n s j q cx t now m \<longleftrightarrow>
     0 \<le> now \<and> now \<le> 2 ^ 31 \<and> int (qu_from q) \<le> now \<and> now < int (qu_until q) \<and>
     qu_context q = cx \<and> t \<in> set (cx_inputs cx) \<and> cx_expose cx \<and>
     (\<forall>c \<in> set (qu_costs q). \<exists>d. map_of (jn_costs j) (cst_id c) = Some d \<and> py_eq (JDict d) (JDict (cost_dump c))) \<and>
     (\<forall>w \<in> set (jn_withdrawn j). \<forall>d \<in> set (cx_dependencies cx). map_of w ''dependency'' \<noteq> Some (JStr d)) \<and>
     (\<forall>b \<in> set (jn_blocks j). \<not> invalidates (rr_host R) q cx t b) \<and>
     reconstruct (rr_host R) (rr_alt R) (rr_implementation R) q now = Inr () \<and>
     certified_source (rr_host R) n s q m"

section \<open>From the decision\<close>

lemma not_invalidated: "block_reason H q cx t b = Inr [] \<Longrightarrow> \<not> invalidates H q cx t b"
  by (auto simp: block_reason_def invalidates_def res_simps split: if_splits)

lemma not_withdrawn: "depends_on cx w = Inr False \<Longrightarrow> d \<in> set (cx_dependencies cx) \<Longrightarrow> map_of w ''dependency'' \<noteq> Some (JStr d)"
  by (auto simp: depends_on_def res_simps)

lemma cost_paidD: "cost_paid costs c \<Longrightarrow> \<exists>d. map_of costs (cst_id c) = Some d \<and> py_eq (JDict d) (JDict (cost_dump c))"
  by (auto simp: cost_paid_def split: option.splits)

lemma promotion_source: "promotion H n s q = Inr m \<Longrightarrow> certified_source H n s q m"
  by (auto simp: promotion_def current_memory_def bound_promotion_def certified_source_def Let_def res_simps ensure_def
      split: if_splits)

lemma decision_shape:
  assumes "decide R n s q cx t now st = Inr v"
  shows "vw_eligibility v = (if vw_reasons v = [] then ''eligible'' else ''blocked'')" "vw_authority v = JNull"
    "vw_snapshot v = rp_revision st"
  using assms by (auto simp: decide_def decision_def res_simps)

lemma eligible_clear:
  assumes "decide R n s q cx t now st = Inr v" "vw_eligibility v = ''eligible''"
  shows "\<exists>m. promotion (rr_host R) n s q = Inr m \<and> clear_for R n s (rp_state st) q cx t now m"
proof -
  have "\<exists>v. decision (rr_host R) (rr_alt R) (rr_implementation R) n s q cx t now st = Inr v \<and> vw_eligibility v = ''eligible''"
    using assms unfolding decide_def by blast
  note holds = this [unfolded decision_eligible_iff]
  then obtain m where m: "promotion (rr_host R) n s q = Inr m" by blast
  have "\<forall>c \<in> set (qu_costs q). \<exists>d. map_of (jn_costs (rp_state st)) (cst_id c) = Some d \<and> py_eq (JDict d) (JDict (cost_dump c))"
    using holds cost_paidD unfolding list_all_iff by blast
  moreover have "\<forall>w \<in> set (jn_withdrawn (rp_state st)). \<forall>d \<in> set (cx_dependencies cx). map_of w ''dependency'' \<noteq> Some (JStr d)"
    using holds not_withdrawn unfolding list_all_iff by blast
  moreover have "\<forall>b \<in> set (jn_blocks (rp_state st)). \<not> invalidates (rr_host R) q cx t b"
    using holds not_invalidated unfolding list_all_iff by blast
  ultimately have "clear_for R n s (rp_state st) q cx t now m"
    unfolding clear_for_def using holds promotion_source [OF m] by blast
  with m show ?thesis by blast
qed

section \<open>Retrieval\<close>

lemma checked_view_Inr:
  assumes "checked_view R n s cx t now st p = Inr v"
  obtains q v0 where "qualification_of_dict (snd p) = Inr q" "decide R n s q cx t now st = Inr v0"
    "if vw_eligibility v0 = ''eligible''
     then \<exists>m. promotion (rr_host R) n s q = Inr m \<and> v = v0\<lparr>vw_claim := Some (mem_claim m)\<rparr> else v = v0"
  using assms by (auto simp: checked_view_def res_simps split: if_splits)

lemma set_distinct_views: "set (distinct_views vs) \<subseteq> set vs"
proof -
  have "set (dict_of_pairs ps) \<subseteq> set ps" for ps :: "(string \<times> view) list"
  proof -
    have put: "set (put k v d) \<subseteq> insert (k, v) (set d)" for k and v :: view and d
      unfolding put_def by (induction d) auto
    show ?thesis by (induction ps rule: rev_induct) (use put in \<open>fastforce simp: dict_of_pairs_def\<close>)+
  qed
  then show ?thesis by (fastforce simp: distinct_views_def)
qed

lemma retrieved_views:
  assumes "receiver_retrieve R receiver t now query limit dk = (Inr rt, dk')"
  obtains cx st where "map_of (rr_profiles R) receiver = Some cx"
    "store_inspect (rr_host R) (rr_implementation R) (dk_rows dk) = Inr st"
    "\<And>v. v \<in> set (rt_views rt) \<union> set (rt_excluded rt) \<Longrightarrow> \<exists>p \<in> set (jn_qualifications (rp_state st)).
       checked_view R (w_tick (dk_world dk)) (w_store (dk_world dk)) cx t now st p = Inr v"
    "\<And>v. v \<in> set (rt_views rt) \<Longrightarrow> vw_eligibility v = ''eligible''"
    "\<And>v. v \<in> set (rt_excluded rt) \<Longrightarrow> vw_eligibility v \<noteq> ''eligible''"
proof -
  from assms obtain cx st all where cx: "map_of (rr_profiles R) receiver = Some cx"
    and st: "store_inspect (rr_host R) (rr_implementation R) (dk_rows dk) = Inr st"
    and all: "map_res (checked_view R (w_tick (dk_world dk)) (w_store (dk_world dk)) cx t now st) (jn_qualifications (rp_state st)) = Inr all"
    and found: "rt = \<lparr>rt_views = take (nat limit) (distinct_views (sort_key (relevance query)
        (filter (\<lambda>v. vw_eligibility v = ''eligible'') all))),
      rt_excluded = filter (\<lambda>v. vw_eligibility v \<noteq> ''eligible'') all, rt_snapshot = rp_revision st\<rparr>"
    unfolding receiver_retrieve_def retrieve_inner_def store_inspect_def journal_of_def Let_def
    by (auto simp: res_simps split: option.splits if_splits)
  have rt: "set (rt_views rt) \<subseteq> set (distinct_views (sort_key (relevance query) (filter (\<lambda>v. vw_eligibility v = ''eligible'') all)))"
      "rt_excluded rt = filter (\<lambda>v. vw_eligibility v \<noteq> ''eligible'') all"
    using set_take_subset by (simp_all add: found) fast
  have views: "set (rt_views rt) \<subseteq> {v \<in> set all. vw_eligibility v = ''eligible''}"
    using subset_trans [OF rt(1) set_distinct_views] by auto
  have "\<exists>p \<in> set ps. f p = Inr v" if "map_res f ps = Inr vs" "v \<in> set vs" for f :: "string \<times> dict \<Rightarrow> view res" and ps vs v
    using that by (induction ps arbitrary: vs) (auto simp: res_simps)
  from this [OF all] show thesis
    using views rt(2) by (intro that [OF cx st]) auto
qed

section \<open>Use\<close>

lemma gate_reads: "use_gate K t a rs c w = (g, w') \<Longrightarrow> w' = w"
  using keepsD [OF keeps_use_gate, of "\<lambda>v. v = w" w K t a rs c] by simp

lemma reserved_clear:
  assumes "reserve_rows R qid t i now expected a c n s rows = Inr (Reserved reserved q cx, rows')"
  shows "\<exists>st d m. store_inspect (rr_host R) (rr_implementation R) rows = Inr st \<and> rp_revision st = expected \<and>
    map_of (jn_qualifications (rp_state st)) qid = Some d \<and> qualification_of_dict d = Inr q \<and>
    map_of (rr_profiles R) (cx_receiver (qu_context q)) = Some cx \<and> clear_for R n s (rp_state st) q cx t now m"
proof -
  from assms obtain old st d v where "entries rows = Inr old" "journal_of R old = Inr st" "rp_revision st = expected"
    "map_of (jn_qualifications (rp_state st)) qid = Some d" "qualification_of_dict d = Inr q"
    "map_of (rr_profiles R) (cx_receiver (qu_context q)) = Some cx"
    "decide R n s q cx t now st = Inr v" "vw_eligibility v = ''eligible''"
    by (auto simp: reserve_rows_def Let_def res_simps split: option.splits if_splits)
  then show ?thesis using eligible_clear [of R n s q cx t now st v]
    by (auto simp: store_inspect_def journal_of_def)
qed

lemma use_reaches_tool:
  assumes K: "rr_kernel R = Some K"
    and differ: "receiver_use (with_tools R K T) qid t i now expected a receipts c dk \<noteq>
      receiver_use R qid t i now expected a receipts c dk"
  shows "\<exists>reserved q cx rows. reserve_rows R qid t i now expected a c (w_tick (dk_world dk)) (w_store (dk_world dk)) (dk_rows dk) =
    Inr (Reserved reserved q cx, rows)"
proof -
  have kernel: "rr_kernel (with_tools R K T) = Some (K\<lparr>k_tools := T\<rparr>)" "reserve_rows (with_tools R K T) = reserve_rows R"
    by (simp_all add: with_tools_def reserve_rows_kernel)
  note unfold = receiver_use_def kernel K option.case use_gate_tools on_world_def bind_io_def transaction_def
  obtain g w where g: "use_gate K t a receipts c (dk_world dk) = (g, w)" by (metis surj_pair)
  note same = gate_reads [OF g]
  show ?thesis
    using differ by (auto simp: unfold g same split: sum.splits prod.splits reservation.splits)
qed

lemma retrieval_clear:
  assumes "receiver_retrieve R receiver t now query limit dk = (Inr rt, dk')"
  shows "\<exists>cx st. map_of (rr_profiles R) receiver = Some cx \<and>
    store_inspect (rr_host R) (rr_implementation R) (dk_rows dk) = Inr st \<and>
    (\<forall>v \<in> set (rt_views rt). vw_reasons v = [] \<and> vw_authority v = JNull \<and> vw_snapshot v = rp_revision st \<and>
      (\<exists>p \<in> set (jn_qualifications (rp_state st)). \<exists>q m. qualification_of_dict (snd p) = Inr q \<and>
         clear_for R (w_tick (dk_world dk)) (w_store (dk_world dk)) (rp_state st) q cx t now m \<and>
         vw_claim v = Some (mem_claim m))) \<and>
    (\<forall>v \<in> set (rt_excluded rt). vw_eligibility v = ''blocked'' \<and> vw_reasons v \<noteq> [] \<and> vw_authority v = JNull)"
proof -
  from assms obtain cx st where start: "map_of (rr_profiles R) receiver = Some cx"
      "store_inspect (rr_host R) (rr_implementation R) (dk_rows dk) = Inr st"
    and found: "\<And>v. v \<in> set (rt_views rt) \<union> set (rt_excluded rt) \<Longrightarrow> \<exists>p \<in> set (jn_qualifications (rp_state st)).
       checked_view R (w_tick (dk_world dk)) (w_store (dk_world dk)) cx t now st p = Inr v"
    and kept: "\<And>v. v \<in> set (rt_views rt) \<Longrightarrow> vw_eligibility v = ''eligible''"
      "\<And>v. v \<in> set (rt_excluded rt) \<Longrightarrow> vw_eligibility v \<noteq> ''eligible''"
    by (rule retrieved_views) blast
  have views: "vw_reasons v = [] \<and> vw_authority v = JNull \<and> vw_snapshot v = rp_revision st \<and>
      (\<exists>p \<in> set (jn_qualifications (rp_state st)). \<exists>q m. qualification_of_dict (snd p) = Inr q \<and>
         clear_for R (w_tick (dk_world dk)) (w_store (dk_world dk)) (rp_state st) q cx t now m \<and>
         vw_claim v = Some (mem_claim m))" if v: "v \<in> set (rt_views rt)" for v
  proof -
    from \<open>v \<in> set (rt_views rt)\<close> obtain p where p: "p \<in> set (jn_qualifications (rp_state st))"
      "checked_view R (w_tick (dk_world dk)) (w_store (dk_world dk)) cx t now st p = Inr v" using found by blast
    from p(2) obtain q v0 where q: "qualification_of_dict (snd p) = Inr q"
      "decide R (w_tick (dk_world dk)) (w_store (dk_world dk)) q cx t now st = Inr v0"
      and cases: "if vw_eligibility v0 = ''eligible''
        then \<exists>m. promotion (rr_host R) (w_tick (dk_world dk)) (w_store (dk_world dk)) q = Inr m \<and>
          v = v0\<lparr>vw_claim := Some (mem_claim m)\<rparr> else v = v0"
      by (rule checked_view_Inr)
    have el: "vw_eligibility v0 = ''eligible''" using cases kept(1) [OF v] by (auto split: if_splits)
    from eligible_clear [OF q(2) el] cases el decision_shape [OF q(2)] show ?thesis
      using p(1) q(1) by (auto split: if_splits)
  qed
  have excluded: "vw_eligibility v = ''blocked'' \<and> vw_reasons v \<noteq> [] \<and> vw_authority v = JNull"
    if v: "v \<in> set (rt_excluded rt)" for v
  proof -
    from v obtain p where
      "checked_view R (w_tick (dk_world dk)) (w_store (dk_world dk)) cx t now st p = Inr v" using found by blast
    then obtain q where q: "decide R (w_tick (dk_world dk)) (w_store (dk_world dk)) q cx t now st = Inr v"
      using kept(2) [OF v] by (elim checked_view_Inr) (auto split: if_splits)
    show ?thesis using decision_shape [OF q] kept(2) [OF v] by metis
  qed
  show ?thesis
    by (rule exI [of _ cx], rule exI [of _ st], rule conjI, rule start(1), rule conjI, rule start(2), rule conjI,
        rule ballI, erule views, rule ballI, erule excluded)
qed

lemma use_clear:
  assumes "rr_kernel R = Some K" "receiver_use (with_tools R K T) qid t i now expected a receipts c dk \<noteq>
    receiver_use R qid t i now expected a receipts c dk"
  shows "\<exists>st d q cx m. store_inspect (rr_host R) (rr_implementation R) (dk_rows dk) = Inr st \<and> rp_revision st = expected \<and>
    map_of (jn_qualifications (rp_state st)) qid = Some d \<and> qualification_of_dict d = Inr q \<and>
    map_of (rr_profiles R) (cx_receiver (qu_context q)) = Some cx \<and>
    clear_for R (w_tick (dk_world dk)) (w_store (dk_world dk)) (rp_state st) q cx t now m"
proof -
  obtain reserved q cx rows where
    "reserve_rows R qid t i now expected a c (w_tick (dk_world dk)) (w_store (dk_world dk)) (dk_rows dk) =
      Inr (Reserved reserved q cx, rows)" using use_reaches_tool [OF assms] by (elim exE) (rule that)
  from reserved_clear [OF this] obtain st d m where
    "store_inspect (rr_host R) (rr_implementation R) (dk_rows dk) = Inr st \<and> rp_revision st = expected \<and>
     map_of (jn_qualifications (rp_state st)) qid = Some d \<and> qualification_of_dict d = Inr q \<and>
     map_of (rr_profiles R) (cx_receiver (qu_context q)) = Some cx \<and>
     clear_for R (w_tick (dk_world dk)) (w_store (dk_world dk)) (rp_state st) q cx t now m" by (elim exE) (rule that)
  then show ?thesis by (intro exI)
qed

text \<open>
  C34: nothing happens without fresh eligibility. Every view that a retrieval returns belongs to a
  qualification that the journal has admitted, carries the claim of its record, no reasons, no
  authority and the revision of the journal, and at that moment everything holds: the trusted time is
  in range and in the validity, context and input are those of the qualification, the host permits
  exposure, every cost is paid, no dependency is withdrawn, no block applies, the reconstruction
  succeeds and the record is certified, unchanged and backed in the file. A view that is left out is
  blocked and names a reason. And a use in which the choice of tools can make any difference, so that
  a tool may have run, is of an admitted qualification for which all this holds. Nothing is said of a
  retrieval or use that raises instead, as the code does for a time out of range or a source that
  fails its schema.
\<close>

theorem acts_only_when_eligible:
  "(\<forall>rt dk'. receiver_retrieve R receiver t now query limit dk = (Inr rt, dk') \<longrightarrow>
     (\<exists>cx st. map_of (rr_profiles R) receiver = Some cx \<and>
       store_inspect (rr_host R) (rr_implementation R) (dk_rows dk) = Inr st \<and>
       (\<forall>v \<in> set (rt_views rt). vw_reasons v = [] \<and> vw_authority v = JNull \<and> vw_snapshot v = rp_revision st \<and>
         (\<exists>p \<in> set (jn_qualifications (rp_state st)). \<exists>q m. qualification_of_dict (snd p) = Inr q \<and>
            clear_for R (w_tick (dk_world dk)) (w_store (dk_world dk)) (rp_state st) q cx t now m \<and>
            vw_claim v = Some (mem_claim m))) \<and>
       (\<forall>v \<in> set (rt_excluded rt). vw_eligibility v = ''blocked'' \<and> vw_reasons v \<noteq> [] \<and> vw_authority v = JNull))) \<and>
   (\<forall>K T. rr_kernel R = Some K \<longrightarrow>
     receiver_use (with_tools R K T) qid t i now expected a receipts c dk \<noteq>
       receiver_use R qid t i now expected a receipts c dk \<longrightarrow>
     (\<exists>st d q cx m. store_inspect (rr_host R) (rr_implementation R) (dk_rows dk) = Inr st \<and> rp_revision st = expected \<and>
       map_of (jn_qualifications (rp_state st)) qid = Some d \<and> qualification_of_dict d = Inr q \<and>
       map_of (rr_profiles R) (cx_receiver (qu_context q)) = Some cx \<and>
       clear_for R (w_tick (dk_world dk)) (w_store (dk_world dk)) (rp_state st) q cx t now m))"
  using retrieval_clear use_clear by (intro conjI allI impI)

end
