(* ===== verification/Use_Witness.thy ===== *)
theory Use_Witness
  imports Lab_Use Durable_Witness Receiver_Eligibility
begin

text \<open>The properties of decisions and uses at work in the small world.\<close>

theorem consumer_check_agrees_witness:
  "check_view flat_host lab_alt zeros 0 lab_db lab_rows (lab_view\<lparr>vw_claim := Some ''c''\<rparr>) lab_context ''b'' 3 = Inr () \<and>
   check_view flat_host lab_alt zeros 0 lab_db lab_rows (lab_view\<lparr>vw_claim := Some ''d''\<rparr>) lab_context ''b'' 3 \<noteq> Inr ()"
proof -
  have law: "alt_candidate_of lab_alt d = Inr k \<Longrightarrow> ''artifact_digest'' \<in> dom (map_of d)" for d k
    by (simp add: lab_alt_def split: if_splits)
  have admitted: "map_of (jn_qualifications (rp_state (flat_state lab_admitted))) zeros = Some (sorted_dict (qualification_dump lab_q))"
    by (simp add: flat_state_def lab_admitted_def)
  have decided: "decision flat_host lab_alt zeros 0 lab_db lab_q lab_context ''b'' 3 (flat_state lab_admitted) = Inr lab_view"
    by (rule lab_decides) simp_all
  have "mem_claim lab_record = ''c''" "vw_eligibility lab_view = ''eligible''"
    by (simp_all add: lab_record_def lab_view_def)
  moreover note consumer_check_agrees [OF law lab_entries lab_replays admitted lab_q_sorted decided]
  ultimately show ?thesis using lab_promotion [of 0] by simp
qed

lemma used_entries: "entries used_rows = Inr (map stored_entry ((lab_batch @ reserving) @ settling))"
  unfolding used_rows_def
  by (rule flat_entries_read) (use reserved_flat use_flat new_ids in simp_all)

text \<open>The second use finds the first, and a tool that always fails is not called.\<close>

theorem use_at_most_once_witness:
  "\<exists>st. journal_of lab_runtime (map stored_entry ((lab_batch @ reserving) @ settling)) = Inr st \<and>
     use_recorded st zeros ''b'' ''u'' \<and>
     receiver_use
       (lab_runtime\<lparr>rr_kernel := Some (lab_kernel\<lparr>k_tools := lab_tools\<lparr>ta_invoke := \<lambda>_ _. Inl (ValueError ''called'')\<rparr>\<rparr>)\<rparr>)
       zeros ''b'' ''u'' 3 zeros lab_intent [''rcp_1''] use_cost \<lparr>dk_world = lab_world, dk_rows = used_rows\<rparr> =
     receiver_use lab_runtime zeros ''b'' ''u'' 3 zeros lab_intent [''rcp_1''] use_cost
       \<lparr>dk_world = lab_world, dk_rows = used_rows\<rparr>"
proof -
  have "list_all2 ealike (reserved_entries @ settling) (map stored_entry ((lab_batch @ reserving) @ settling))"
    unfolding map_append [of _ "lab_batch @ reserving"]
    by (rule list_all2_appendI) (simp_all add: list.rel_refl list.rel_map)
  moreover have "replay flat_host zeros (reserved_entries @ take 4 settling) =
      Inr (flat_state (settled_state [(''u'', use_outcome)] [(''u'', True)] [''u'']))"
    by (rule settling_replays [OF _ settling_applies(4)]) simp
  moreover have "take 4 settling = settling" by (simp add: settling_def)
  ultimately obtain st where st: "replay flat_host zeros (map stored_entry ((lab_batch @ reserving) @ settling)) = Inr st"
    "jalike (settled_state [(''u'', use_outcome)] [(''u'', True)] [''u'']) (rp_state st)"
    using simD [OF sim_replay] by (metis flat_state_def replayed.select_convs(1))
  have "alike_map (jn_intents lab_reserved) (jn_intents (rp_state st))"
    using st(2) by (simp add: jalike_def settled_state_def)
  from alike_map_set [OF this] have "''u'' \<in> dom (map_of (jn_intents (rp_state st)))"
    by (simp add: reserved_maps dom_map_of_conv_image_fst) blast
  then have rec: "use_recorded st zeros ''b'' ''u''" by (simp add: use_recorded_def)
  have j: "journal_of lab_runtime (map stored_entry ((lab_batch @ reserving) @ settling)) = Inr st"
    using st(1) by (simp add: journal_of_def)
  have "entries (dk_rows \<lparr>dk_world = lab_world, dk_rows = used_rows\<rparr>) = Inr (map stored_entry ((lab_batch @ reserving) @ settling))"
    using used_entries by simp
  from use_at_most_once [OF lab_runtime_parts(4) this j rec] show ?thesis using j rec by blast
qed

section \<open>A tool that fails\<close>

definition broken_tools :: tool_adapter where
  "broken_tools = lab_tools\<lparr>ta_invoke := \<lambda>_ _. Inl (ValueError ''called'')\<rparr>"

definition broken_runtime :: receiver_runtime where
  "broken_runtime = with_tools lab_runtime lab_kernel broken_tools"

lemma broken_parts:
  "rr_kernel broken_runtime = Some (lab_kernel\<lparr>k_tools := broken_tools\<rparr>)" "reserve_rows broken_runtime = reserve_rows lab_runtime"
  "fence broken_runtime = fence lab_runtime" "journal_of broken_runtime = journal_of lab_runtime"
proof -
  show "rr_kernel broken_runtime = Some (lab_kernel\<lparr>k_tools := broken_tools\<rparr>)" "reserve_rows broken_runtime = reserve_rows lab_runtime"
    "journal_of broken_runtime = journal_of lab_runtime"
    by (simp_all add: broken_runtime_def with_tools_def reserve_rows_kernel journal_of_kernel)
  show "fence broken_runtime = fence lab_runtime"
    unfolding broken_runtime_def with_tools_def fun_eq_iff fence_def journal_of_kernel decide_kernel new_event_kernel by simp
qed

lemma broken_invokes:
  "invoke_tool (lab_kernel\<lparr>k_tools := broken_tools\<rparr>)
     \<lparr>tc_name = act_tool lab_intent, tc_arguments = use_arguments ''b'', tc_external = True\<rparr> lab_intent [''rcp_1''] lab_world =
   (Inl (ValueError ''called''), lab_world)"
proof -
  have a: "act_args lab_intent = zeros" "act_contract lab_intent = None" by (simp_all add: lab_intent_def)
  have "digest_json flat_host (JDict (use_arguments ''b'')) = Inr zeros" by (simp add: use_arguments_def)
  moreover have "map_io (load_receipt (lab_kernel\<lparr>k_tools := broken_tools\<rparr>)) [''rcp_1''] lab_world = (Inr [lab_receipt], lab_world)"
    by (simp add: bind_io_Inr lab_receipt_loads load_receipt_tools)
  ultimately show ?thesis
    using lab_allowed
    by (simp add: invoke_tool_def a bind_io_Inr strict_profile_def ensure_def required_contract_check_def Let_def
        broken_tools_def lab_tools_def local_adapter_def del: map_io.simps)
qed

lemma broken_use:
  "receiver_use broken_runtime zeros ''b'' ''u'' 3 zeros lab_intent [''rcp_1''] use_cost \<lparr>dk_world = lab_world, dk_rows = lab_rows\<rparr> =
     (Inl (ValueError ''called''), \<lparr>dk_world = lab_world, dk_rows = map text_row (lab_batch @ reserving)\<rparr>)"
proof -
  have world: "w_store lab_world = lab_db" by (simp add: lab_world_def)
  show ?thesis
    unfolding receiver_use_def broken_parts option.case use_effect_def use_gate_tools
    by (simp add: bind_io_def on_world_def lab_gate transaction_def world lab_reserves lab_fences broken_invokes del: map_append)
qed

lemma lab_rows_ok: "rows_ok lab_rows"
proof -
  have "list_all (\<lambda>e. en_id (stored_entry e) = en_id e \<and> entry_of_text (snd (text_row e)) = Inr (stored_entry e)) lab_batch"
    using batch_flat text_row_reads(1) by (auto simp: list_all_iff)
  then show ?thesis by (auto simp: lab_rows_def rows_ok_def list_all_iff case_prod_unfold text_row_def)
qed

theorem failed_use_recorded_witness:
  "\<exists>e dk' es st. receiver_use broken_runtime zeros ''b'' ''u'' 3 zeros lab_intent [''rcp_1''] use_cost
       \<lparr>dk_world = lab_world, dk_rows = lab_rows\<rparr> = (Inl e, dk') \<and>
     entries (dk_rows dk') = Inr es \<and> journal_of broken_runtime es = Inr st \<and> rp_unresolved st = [''u'']"
proof -
  have start: "rows_ok (dk_rows \<lparr>dk_world = lab_world, dk_rows = lab_rows\<rparr>)"
    "entries (dk_rows \<lparr>dk_world = lab_world, dk_rows = lab_rows\<rparr>) = Inr (map stored_entry lab_batch)"
    by (simp_all add: lab_rows_ok lab_entries)
  have id: "''u'' \<notin> en_id ` set (map stored_entry lab_batch)" "\<not> starts_with ''use-cost-'' ''u''"
    by (simp_all add: lab_batch_def starts_with_def)
  have caps: "distinct (map fst (act_caps lab_intent))" by (simp add: lab_intent_def)
  have "length lab_rows \<noteq> length (map text_row (lab_batch @ reserving))" by (simp add: lab_rows_def reserving_def)
  then have changed: "map text_row (lab_batch @ reserving) \<noteq> lab_rows" by metis
  have read: "entries (map text_row (lab_batch @ reserving)) = Inr reserved_entries" by (rule reserved_entries_read)
  from failed_use_recorded [OF broken_parts(1) start id caps broken_use] changed read
  obtain st where st: "journal_of broken_runtime reserved_entries = Inr st" "''u'' \<in> set (rp_unresolved st)"
    by (auto split: if_splits simp del: map_append)
  have "journal_of broken_runtime reserved_entries = Inr (flat_state lab_reserved)"
    using reserved_replays by (simp add: broken_parts journal_of_def)
  then have "rp_unresolved st = unresolved_ids lab_reserved" using st(1) by (auto simp: flat_state_def)
  also have "\<dots> = [''u'']" by (simp add: unresolved_ids_def reserved_maps)
  finally show ?thesis using broken_use read st(1) by auto
qed

lemma lab_checked_view:
  "checked_view lab_runtime n lab_db lab_context ''b'' 3 (flat_state lab_admitted)
     (zeros, sorted_dict (qualification_dump lab_q)) = Inr (lab_view\<lparr>vw_claim := Some ''c''\<rparr>)"
proof -
  have "decide lab_runtime n lab_db lab_q lab_context ''b'' 3 (flat_state lab_admitted) = Inr lab_view"
    unfolding decide_def lab_runtime_parts by (rule lab_decides) simp_all
  moreover have "mem_claim lab_record = ''c''" "vw_eligibility lab_view = ''eligible''"
    by (simp_all add: lab_record_def lab_view_def)
  ultimately show ?thesis by (simp add: checked_view_def lab_q_sorted lab_promotion)
qed

lemma lab_retrieves:
  "\<exists>rt. receiver_retrieve lab_runtime ''r'' ''b'' 3 [] 8 \<lparr>dk_world = lab_world, dk_rows = lab_rows\<rparr> =
     (Inr rt, \<lparr>dk_world = lab_world, dk_rows = lab_rows\<rparr>) \<and> rt_views rt = [lab_view\<lparr>vw_claim := Some ''c''\<rparr>]"
proof -
  have world: "w_store lab_world = lab_db" by (simp add: lab_world_def)
  have "jn_qualifications (rp_state (flat_state lab_admitted)) = [(zeros, sorted_dict (qualification_dump lab_q))]"
    by (simp add: flat_state_def lab_admitted_def)
  moreover have "journal_of lab_runtime (map stored_entry lab_batch) = Inr (flat_state lab_admitted)"
    using lab_replays by (simp add: journal_of_def)
  moreover have "vw_eligibility lab_view = ''eligible''" by (simp add: lab_view_def)
  ultimately show ?thesis
    by (simp add: receiver_retrieve_def retrieve_inner_def world lab_entries lab_checked_view distinct_views_def
        dict_of_pairs_def put_def)
qed

text \<open>One view is retrieved, and a tool that fails makes a difference: both times everything holds.\<close>

theorem acts_only_when_eligible_witness:
  "\<exists>rt. receiver_retrieve lab_runtime ''r'' ''b'' 3 [] 8 \<lparr>dk_world = lab_world, dk_rows = lab_rows\<rparr> =
       (Inr rt, \<lparr>dk_world = lab_world, dk_rows = lab_rows\<rparr>) \<and>
     (\<exists>v \<in> set (rt_views rt). \<exists>j q m. clear_for lab_runtime 5 lab_db j q lab_context ''b'' 3 m \<and>
       vw_claim v = Some (mem_claim m)) \<and>
     (\<exists>j q cx m. clear_for lab_runtime 5 lab_db j q cx ''b'' 3 m)"
proof -
  let ?dk = "\<lparr>dk_world = lab_world, dk_rows = lab_rows\<rparr>"
  have world: "w_store (dk_world ?dk) = lab_db" "w_tick (dk_world ?dk) = 5" by (simp_all add: lab_world_def)
  obtain rt where rt: "receiver_retrieve lab_runtime ''r'' ''b'' 3 [] 8 ?dk = (Inr rt, ?dk)"
    "rt_views rt = [lab_view\<lparr>vw_claim := Some ''c''\<rparr>]" using lab_retrieves by blast
  have differ: "receiver_use (with_tools lab_runtime lab_kernel broken_tools) zeros ''b'' ''u'' 3 zeros lab_intent [''rcp_1''] use_cost ?dk \<noteq>
      receiver_use lab_runtime zeros ''b'' ''u'' 3 zeros lab_intent [''rcp_1''] use_cost ?dk"
    using broken_use by (simp add: broken_runtime_def lab_use)
  note law = acts_only_when_eligible [of lab_runtime "''r''" "''b''" 3 "[]" 8 ?dk zeros "''u''" zeros lab_intent
      "[''rcp_1'']" use_cost, unfolded world]
  from law [THEN conjunct2, THEN spec, THEN spec, THEN mp, OF lab_runtime_parts(4), THEN mp, OF differ]
  obtain j q cx m where "clear_for lab_runtime 5 lab_db j q cx ''b'' 3 m"
    by blast
  then have "\<exists>j q cx m. clear_for lab_runtime 5 lab_db j q cx ''b'' 3 m" by (intro exI)
  moreover have "\<exists>v \<in> set (rt_views rt). \<exists>j q m. clear_for lab_runtime 5 lab_db j q lab_context ''b'' 3 m \<and>
       vw_claim v = Some (mem_claim m)"
  proof -
    from law [THEN conjunct1, THEN spec, THEN spec, THEN mp, OF rt(1)] obtain cx and st :: replayed where
      "map_of (rr_profiles lab_runtime) ''r'' = Some cx"
      "\<forall>v \<in> set (rt_views rt). \<exists>q m. clear_for lab_runtime 5 lab_db (rp_state st) q cx ''b'' 3 m \<and> vw_claim v = Some (mem_claim m)"
      by (elim exE conjE) fast
    then show ?thesis using rt(2) lab_runtime_parts(5) by auto
  qed
  ultimately show ?thesis using rt(1) by blast
qed

end
