(* ===== verification/Promotion_Frame.thy ===== *)
theory Promotion_Frame
  imports Kernel_Open
begin

text \<open>
  Which operations record a promotion. The promotions of a record are the revisions that name it
  with the operation \<open>promote\<close>; every operation of a kernel leaves them alone, except the
  promotion of that very record.
\<close>

definition promotions :: "string \<Rightarrow> store \<Rightarrow> revision list" where
  "promotions i st = filter (\<lambda>v. rev_memory v = i \<and> rev_operation v = PROMOTE) (st_revisions st)"

definition still :: "('s \<Rightarrow> store) \<Rightarrow> ('s \<Rightarrow> bool) \<Rightarrow> string \<Rightarrow> revision list \<Rightarrow> 's world \<Rightarrow> bool" where
  "still view ok i ps w \<longleftrightarrow> ok (w_store w) \<and> promotions i (view (w_store w)) = ps"

lemma still_draw [keeps_intros]: "keeps (still view ok i ps) draw"
  by (simp add: keeps_def draw_def still_def)

section \<open>Writes\<close>

context storage_backend
begin

lemma still_log_write:
  assumes "\<And>n s r s'. ok s \<Longrightarrow> f n s = (r, s') \<Longrightarrow> ok s' \<and> st_revisions (view s') = st_revisions (view s)"
  shows "keeps (still view ok i ps) (writes f)"
proof (rule keepsI)
  fix w assume I: "still view ok i ps w"
  obtain r w' where run: "writes f w = (r, w')" by fastforce
  from run obtain s where "f (w_tick w) (w_store w) = (r, s)"
    and w': "w' = w\<lparr>w_tick := w_tick w + 2, w_store := s\<rparr>" by (rule writes_cases)
  with assms [of "w_store w" "w_tick w" r s] I have "still view ok i ps w'"
    by (auto simp: still_def promotions_def)
  then show "still view ok i ps (snd (writes f w))" by (simp add: run)
qed

lemma still_append [keeps_intros]: "keeps (still view ok i ps) (writes (\<lambda>n. append_event P n e))"
proof (rule still_log_write)
  fix n s r s' assume "ok s" "append_event P n e s = (r, s')"
  then show "ok s' \<and> st_revisions (view s') = st_revisions (view s)"
    using append_ok [of s n e _ s'] append_error [of s n e _ s'] by (cases r) auto
qed

lemma still_create_receipt [keeps_intros]: "keeps (still view ok i ps) (writes (\<lambda>n. create_receipt P rcp))"
proof (rule still_log_write)
  fix n s r s' assume "ok s" "create_receipt P rcp s = (r, s')"
  then show "ok s' \<and> st_revisions (view s') = st_revisions (view s)"
    using create_receipt_ok [of s rcp _ s'] create_receipt_error [of s rcp _ s'] by (cases r) auto
qed

lemma still_create_manifest [keeps_intros]:
  "keeps (still view ok i ps) (writes (\<lambda>n. create_evidence_manifest P m))"
proof (rule still_log_write)
  fix n s r s' assume "ok s" "create_evidence_manifest P m s = (r, s')"
  then show "ok s' \<and> st_revisions (view s') = st_revisions (view s)"
    using create_manifest_ok [of s m _ s'] create_manifest_error [of s m _ s'] by (cases r) auto
qed

lemma still_create_contract [keeps_intros]: "keeps (still view ok i ps) (writes (\<lambda>n. create_contract P c))"
proof (rule still_log_write)
  fix n s r s' assume "ok s" "create_contract P c s = (r, s')"
  then show "ok s' \<and> st_revisions (view s') = st_revisions (view s)"
    using create_contract_ok [of s c _ s'] create_contract_error [of s c _ s'] by (cases r) auto
qed

lemma still_save [keeps_intros]:
  assumes "claim_ok r" "operation \<noteq> PROMOTE \<or> mem_id r \<noteq> i"
  shows "keeps (still view ok i ps) (save_memory P r operation reason rid eid)"
proof (rule keepsI)
  fix w assume I: "still view ok i ps w"
  then have ok: "ok (w_store w)" by (simp add: still_def)
  obtain x w' where run: "save_memory P r operation reason rid eid w = (x, w')" by fastforce
  from run obtain s where s: "upsert_memory_record P (w_tick w) r operation reason rid eid (w_store w) = (x, s)"
    and w': "w' = w\<lparr>w_tick := w_tick w + 2, w_store := s\<rparr>"
    unfolding save_memory_def by (rule writes_cases)
  have "ok s \<and> promotions i (view s) = promotions i (view (w_store w))"
  proof (cases x)
    case (Inl err)
    then show ?thesis using upsert_error [OF ok] s ok by fastforce
  next
    case (Inr y)
    from upsert_ok [OF ok assms(1) s [unfolded Inr]] assms(2) show ?thesis
      by (auto simp: promotions_def revises_def)
  qed
  then show "still view ok i ps (snd (save_memory P r operation reason rid eid w))"
    using I by (simp add: run w' still_def)
qed

lemma still_store_event [keeps_intros]:
  "keeps (still view ok i ps) (store_event P H kind payload run_id parents)"
  unfolding store_event_def by (intro keeps_intros)

lemma still_move_save:
  assumes "\<And>s. claim_ok s \<Longrightarrow> keeps (still view ok i ps) (f s)"
  shows "keeps (still view ok i ps) (bind_io (move_to H l reason rid r) f)"
proof -
  have "bind_io (move_to H l reason rid r) f = bind_io draw (\<lambda>n. bind_io (lift (moved H n l reason rid r)) f)"
    by (auto simp: move_to_def bind_io_def fun_eq_iff split: prod.split sum.split)
  moreover have "keeps (still view ok i ps) (bind_io draw (\<lambda>n. bind_io (lift (moved H n l reason rid r)) f))"
    using assms moved_Inr by (intro keeps_intros) blast
  ultimately show ?thesis by simp
qed

lemma still_collect [keeps_intros]:
  "keeps (still view ok i ps) (collect_event_digests P is digests missing)"
proof -
  have "snd (collect_event_digests P is digests missing w) = w" for w
    by (induction "is" arbitrary: digests missing) (auto split: sum.split)
  then show ?thesis by (simp add: keeps_def)
qed

section \<open>The pipeline\<close>

lemma still_build_evidence [keeps_intros]: "keeps (still view ok i ps) (build_evidence P H r)"
  unfolding build_evidence_def by (intro keeps_intros)

lemma still_append_verify [keeps_intros]: "keeps (still view ok i ps) (append_verify_event P H r rcp ev)"
  unfolding append_verify_event_def by (intro keeps_intros)

lemma still_append_promote [keeps_intros]: "keeps (still view ok i ps) (append_promote_event P H r rcp c)"
  unfolding append_promote_event_def by (intro keeps_intros)

lemma still_settle [keeps_intros]: "keeps (still view ok i ps) (settle_candidate P H r rcp checks)"
  unfolding settle_candidate_def Let_def
  by (cases "rcp_result rcp") (simp_all, (rule still_move_save; simp add: still_save)+)

lemma still_verify_candidate [keeps_intros]:
  "keeps (still view ok i ps) (verify_candidate P H checkers prof j evidence ctx)"
  unfolding verify_candidate_def Let_def by (intro keeps_intros)

lemma still_supersede_one [keeps_intros]: "keeps (still view ok i ps) (supersede_one P H r rcp j)"
  unfolding supersede_one_def Let_def
  by (rule keeps_bind, rule keeps_load, rule keeps_bind_lift, rule still_move_save) (auto intro!: keeps_intros)

lemma still_promote_with:
  "mem_id r \<noteq> i \<Longrightarrow> keeps (still view ok i ps) (promote_with_receipt P H r rcp)"
  unfolding promote_with_receipt_def
  by (intro keeps_intros) (auto dest!: certified_record_Inr)

text \<open>The promotion of another record.\<close>

lemma still_promote:
  assumes "j \<noteq> i"
  shows "keeps (still view ok i ps) (promote_candidate P H j)"
proof (rule keepsI)
  fix w assume I: "still view ok i ps w"
  then have ok: "ok (w_store w)" by (simp add: still_def)
  show "still view ok i ps (snd (promote_candidate P H j w))"
  proof (cases "load_memory P j w")
    case (Pair x w')
    show ?thesis
    proof (cases x)
      case (Inl e)
      then show ?thesis
        using I Pair by (auto simp: promote_candidate_def bind_io_def load_memory_def reads_def)
    next
      case (Inr r)
      then have r: "w' = w" "st_memory (view (w_store w)) j = Some r"
        using load_memory_Inr [OF ok] Pair by blast+
      then have "mem_id r \<noteq> i" using memory_wf [OF ok r(2)] assms by blast
      then have "keeps (still view ok i ps)
          (bind_io (reads (\<lambda>n. list_receipts P n (Some j))) (\<lambda>receipts.
           let passing = filter (passing_receipt r) receipts in
           if passing = []
           then throw (FailClosedError ''promotion requires a passing receipt for this candidate update'')
           else promote_with_receipt P H r (last passing)))"
        unfolding Let_def by (intro keeps_intros still_promote_with)
      from keepsD [OF this, of w] show ?thesis
        using I Pair Inr r(1) by (simp add: promote_candidate_def bind_io_def)
    qed
  qed
qed

end

section \<open>The kernel\<close>

context wired_kernel
begin

lemma still_run_id [keeps_intros]: "keeps (still view ok i ps) (actual_run_id K rid)"
  unfolding actual_run_id_def by (intro keeps_intros)

lemma still_observe [keeps_intros]: "keeps (still view ok i ps) (observe K kind payload rid parents raw)"
  unfolding observe_def by (intro keeps_intros) (auto dest!: memory_create_Inr)

lemma still_record [keeps_intros]:
  "keeps (still view ok i ps) (record_memory_operation K operation rid is details)"
  unfolding record_memory_operation_def by (intro keeps_intros)

lemma still_propose [keeps_intros]: "keeps (still view ok i ps) (propose_memory K rid scope tools caps sig)"
  unfolding propose_memory_def by (intro keeps_intros) (auto dest!: memory_create_Inr)

lemma still_verify [keeps_intros]: "keeps (still view ok i ps) (verify K j a)"
  unfolding verify_def by (intro keeps_intros)

lemma still_promote_op: "j \<noteq> i \<Longrightarrow> keeps (still view ok i ps) (promote K j)"
  unfolding promote_def by (rule still_promote)

lemma still_correct [keeps_intros]: "keeps (still view ok i ps) (correct_memory K j claim rid sources)"
  unfolding correct_memory_def Let_def by (intro keeps_intros) (auto dest!: memory_create_Inr)

lemma still_contradict [keeps_intros]: "keeps (still view ok i ps) (contradict K j claim sources reason)"
  unfolding contradict_def by (intro keeps_intros) (auto dest!: memory_create_Inr)

lemma still_retrieve [keeps_intros]: "keeps (still view ok i ps) (retrieve K query mode limit rid)"
  unfolding retrieve_def by (intro keeps_intros)

lemma still_run_task [keeps_intros]:
  "keeps (still view ok i ps) (run_task K task tools effects model rid gates a)"
  unfolding run_task_def by (intro keeps_intros)

lemma still_retire [keeps_intros]: "keeps (still view ok i ps) (retire K j reason)"
  unfolding retire_def
  by (rule keeps_bind, rule keeps_load, rule keeps_bind_lift, rule still_move_save)
     (auto intro!: keeps_intros)

lemma still_supersede [keeps_intros]: "keeps (still view ok i ps) (supersede K old new rid)"
  unfolding supersede_def Let_def
  by (rule keeps_bind, rule keeps_load, rule keeps_bind, rule keeps_load, rule keeps_bind,
      rule keeps_load_receipt, rule keeps_bind_lift, rule keeps_bind_lift, rule keeps_bind_lift,
      rule still_move_save)
     (auto intro!: keeps_intros)

lemma still_verify_receipt [keeps_intros]: "keeps (still view ok i ps) (verify_receipt K rid)"
  unfolding verify_receipt_def by (intro keeps_intros)

lemma still_strict_recheck [keeps_intros]: "keeps (still view ok i ps) (strict_recheck_receipt K rcp)"
  unfolding strict_recheck_receipt_def Let_def by (intro keeps_intros)

lemma still_audit_receipts [keeps_intros]: "keeps (still view ok i ps) (audit_receipts K strict)"
  unfolding audit_receipts_def audit_receipt_def by (intro keeps_intros)

end

section \<open>A new certified record has been promoted\<close>

lemma lane_trail_certified:
  assumes "lane_trail f vs = Some g" "g i = Some CERTIFIED" "f i \<noteq> Some CERTIFIED"
  shows "\<exists>v \<in> set vs. rev_memory v = i \<and> rev_after v = CERTIFIED"
  using assms
proof (induction vs arbitrary: f)
  case (Cons v vs)
  let ?f = "f(rev_memory v \<mapsto> rev_after v)"
  have t: "lane_trail ?f vs = Some g" using Cons.prems(1) by (simp split: if_splits)
  show ?case
  proof (cases "?f i = Some CERTIFIED")
    case True
    then show ?thesis using Cons.prems(3) by (auto split: if_splits)
  next
    case False
    then show ?thesis using Cons.IH [OF t Cons.prems(2)] by auto
  qed
qed simp

lemma lane_trail_split:
  "lane_trail f (us @ vs) = Some g \<Longrightarrow> \<exists>h. lane_trail f us = Some h \<and> lane_trail h vs = Some g"
  by (induction us arbitrary: f) (auto split: if_splits)

lemma certified_needs_promotion:
  assumes "store_inv st" "store_inv st'" "store_grows st st'"
    and "lanes st' i = Some CERTIFIED" "lanes st i \<noteq> Some CERTIFIED"
  shows "promotions i st' \<noteq> promotions i st"
proof -
  obtain vs where vs: "st_revisions st' = st_revisions st @ vs"
    using assms(3) by (auto simp: store_grows_def)
  have "lane_trail Map.empty (st_revisions st) = Some (lanes st)"
    "lane_trail Map.empty (st_revisions st @ vs) = Some (lanes st')"
    using assms(1,2) by (simp_all add: store_inv_def vs [symmetric])
  then have "lane_trail (lanes st) vs = Some (lanes st')" by (auto dest!: lane_trail_split)
  from lane_trail_certified [OF this assms(4,5)] obtain v
    where v: "v \<in> set vs" "rev_memory v = i" "rev_after v = CERTIFIED" by blast
  moreover have "promoted_properly v"
    using assms(2) v(1) by (simp add: store_inv_def vs list_all_iff)
  ultimately have "filter (\<lambda>v. rev_memory v = i \<and> rev_operation v = PROMOTE) vs \<noteq> []"
    by (auto simp: promoted_properly_def filter_empty_conv)
  then show ?thesis by (simp add: promotions_def vs)
qed

end
