(* ===== verification/Kernel_Properties.thy ===== *)
theory Kernel_Properties
  imports Kernel_Open Storage_Properties
begin

text \<open>
  What a kernel over a SQLite file guarantees in every state it can reach, on the adapter's own
  read functions.
\<close>

section \<open>Reading the invariant off the adapter\<close>

text \<open>A passing receipt and a contract in the file that certify a record.\<close>

definition backed :: "host \<Rightarrow> nat \<Rightarrow> db \<Rightarrow> memory \<Rightarrow> bool" where
  "backed H m s r \<longleftrightarrow>
     (\<exists>rcp c rs. sqlite_list_receipts H m (Some (mem_id r)) s = Inr rs \<and> rcp \<in> set rs \<and>
        mem_receipt r = Some (rcp_id rcp) \<and> rcp_result rcp = Passed \<and> rcp_checks rcp \<noteq> [] \<and>
        list_all chk_passed (rcp_checks rcp) \<and> rcp_update rcp = mem_update r \<and>
        mem_contract r = Some (wfc_id c) \<and> sqlite_get_contract H m (wfc_id c) s = Inr c \<and>
        wfc_memory c = Some (mem_id r) \<and> wfc_update c = Some (mem_update r) \<and>
        map_of (wfc_replay c) ''receipt_id'' = Some (JStr (rcp_id rcp)))"

lemma certified_backed_in:
  assumes ok: "sqlite_ok E H s" and cert: "certified_by (sqlite_view H s) r"
  shows "backed H m s r"
proof -
  obtain rcp c where b: "rcp \<in> set (st_receipts (sqlite_view H s))" "rcp_candidate rcp = mem_id r"
      "st_contracts (sqlite_view H s) (wfc_id c) = Some c"
    and t: "mem_receipt r = Some (rcp_id rcp)" "passing_receipt r rcp" "mem_contract r = Some (wfc_id c)"
      "wfc_memory c = Some (mem_id r)" "wfc_update c = Some (mem_update r)"
      "map_of (wfc_replay c) ''receipt_id'' = Some (JStr (rcp_id rcp))"
    using cert unfolding certified_by_def by blast
  show ?thesis
    unfolding backed_def sqlite_list_receipts_eq [OF ok] sqlite_get_contract_eq [OF ok]
    using b t by (intro exI [of _ rcp] exI [of _ c]) (simp add: set_select passing_receipt_def)
qed

lemma reach_laws:
  assumes "safe_plugins pl" "sqlite_ok E H (w_store w0)" "store_inv (sqlite_view H (w_store w0))"
    and "kernel_reach (open_kernel E H lite n model prof pl) w0 w"
  shows "sqlite_ok E H (w_store w)" "store_inv (sqlite_view H (w_store w))"
    "store_grows (sqlite_view H (w_store w0)) (sqlite_view H (w_store w))"
  using wired_kernel.reach_grows [OF open_kernel_wired [OF assms(1)] assms(4,2,3)] by blast+

lemma fresh_laws:
  "host_ok H \<Longrightarrow> engine_ok E \<Longrightarrow> sqlite_ok E H (w_store fresh_world)"
  "store_inv (sqlite_view H (w_store fresh_world))"
  by (simp_all add: fresh_world_def sqlite_ok_empty sqlite_view_empty store_inv_empty)

section \<open>Certified records\<close>

text \<open>
  C1: whatever the kernel is asked to do, in any order and with any outcome, a record in the
  certified lane is backed: the file holds a receipt of that record, for its present content, that
  passed a nonempty list of checks, and a contract for that content which names the receipt; the
  record names both. The plugins are arbitrary, save that a proposer may not certify its own
  proposals; the start is a new file or any file where this holds.
\<close>

theorem certified_records_backed:
  assumes "safe_plugins pl" "sqlite_ok E H (w_store w0)" "store_inv (sqlite_view H (w_store w0))"
    and "kernel_reach (open_kernel E H lite n model prof pl) w0 w"
    and get: "sqlite_get_memory_record H m i (w_store w) = Inr r" and lane: "mem_lane r = CERTIFIED"
  shows "mem_id r = i \<and> backed H m (w_store w) r"
proof -
  note laws = reach_laws [OF assms(1-4)]
  have r: "st_memory (sqlite_view H (w_store w)) i = Some r"
    using get by (simp add: sqlite_get_memory_eq [OF laws(1)] res_simps)
  then have "certified_by (sqlite_view H (w_store w)) r"
    using laws(2) lane by (simp add: store_inv_def)
  then show ?thesis
    using certified_backed_in [OF laws(1)] sqlite_memory_wf [OF laws(1) r] by blast
qed

section \<open>The trail\<close>

definition current_lane :: "host \<Rightarrow> nat \<Rightarrow> db \<Rightarrow> string \<Rightarrow> lane option" where
  "current_lane H m s i =
     (case sqlite_get_memory_record H m i s of Inr r \<Rightarrow> Some (mem_lane r) | Inl _ \<Rightarrow> None)"

lemma current_lane_eq: "sqlite_ok E H s \<Longrightarrow> current_lane H m s = lanes (sqlite_view H s)"
  by (auto simp: current_lane_def lanes_def sqlite_get_memory_eq fun_eq_iff of_option_def split: option.split)

text \<open>
  C2: the revision table is a complete account of the lanes. Replayed from nothing, each revision
  starts from the lane the one before it left the record in, and the end is the lane every record
  now has; a record enters the certified lane only by a promotion, from the shadow lane or the
  certified lane itself.
\<close>

theorem revisions_explain_lanes:
  assumes "safe_plugins pl" "sqlite_ok E H (w_store w0)" "store_inv (sqlite_view H (w_store w0))"
    and "kernel_reach (open_kernel E H lite n model prof pl) w0 w"
  shows "\<exists>vs. sqlite_list_memory_revisions H m None (w_store w) = Inr vs \<and>
    lane_trail Map.empty vs = Some (current_lane H m (w_store w)) \<and>
    list_all (\<lambda>v. rev_after v = CERTIFIED \<longrightarrow>
      rev_operation v = PROMOTE \<and> rev_before v \<in> {Some SHADOW, Some CERTIFIED}) vs"
proof -
  note laws = reach_laws [OF assms]
  show ?thesis
    using laws(2)
    by (simp add: sqlite_list_revisions_eq [OF laws(1)] current_lane_eq [OF laws(1)] store_inv_def
        select_def promoted_properly_def [abs_def])
qed

section \<open>Nothing is erased\<close>

text \<open>
  C3: the logs are append-only under every operation. Later lists of events, receipts and revisions
  extend the earlier ones; a receipt and a contract read the same ever after; and no memory record
  disappears.
\<close>

theorem logs_append_only:
  assumes "safe_plugins pl" "sqlite_ok E H (w_store w0)" "store_inv (sqlite_view H (w_store w0))"
    and "kernel_reach (open_kernel E H lite n model prof pl) w0 w"
  shows "(\<exists>es es'. sqlite_list_events H m None None (w_store w0) = Inr es \<and>
      sqlite_list_events H m None None (w_store w) = Inr (es @ es')) \<and>
    (\<exists>rs rs'. sqlite_list_receipts H m None (w_store w0) = Inr rs \<and>
      sqlite_list_receipts H m None (w_store w) = Inr (rs @ rs')) \<and>
    (\<exists>vs vs'. sqlite_list_memory_revisions H m None (w_store w0) = Inr vs \<and>
      sqlite_list_memory_revisions H m None (w_store w) = Inr (vs @ vs')) \<and>
    (\<forall>i x. sqlite_get_receipt H m i (w_store w0) = Inr x \<longrightarrow> sqlite_get_receipt H m i (w_store w) = Inr x) \<and>
    (\<forall>i x. sqlite_get_event H m i (w_store w0) = Inr x \<longrightarrow> sqlite_get_event H m i (w_store w) = Inr x) \<and>
    (\<forall>i c. sqlite_get_contract H m i (w_store w0) = Inr c \<longrightarrow> sqlite_get_contract H m i (w_store w) = Inr c) \<and>
    (\<forall>i r. sqlite_get_memory_record H m i (w_store w0) = Inr r \<longrightarrow>
      (\<exists>r'. sqlite_get_memory_record H m i (w_store w) = Inr r'))"
proof -
  let ?a = "sqlite_view H (w_store w0)" and ?b = "sqlite_view H (w_store w)"
  note laws = reach_laws [OF assms] and ok = assms(2)
  obtain es rs vs where g: "st_events ?b = st_events ?a @ es" "st_receipts ?b = st_receipts ?a @ rs"
      "st_revisions ?b = st_revisions ?a @ vs" "st_contracts ?a \<subseteq>\<^sub>m st_contracts ?b"
      "dom (st_memory ?a) \<subseteq> dom (st_memory ?b)"
    using laws(3) by (auto simp: store_grows_def)
  have "find_receipt i ?a = Some x \<Longrightarrow> find_receipt i ?b = Some x" for i x
    by (simp add: find_receipt_def g find_append)
  moreover have "find_event i ?a = Some x \<Longrightarrow> find_event i ?b = Some x" for i x
    by (simp add: find_event_def g find_append)
  moreover have "st_contracts ?a i = Some c \<Longrightarrow> st_contracts ?b i = Some c" for i c
    using g(4) by (force simp: map_le_def)
  moreover have "st_memory ?a i = Some r \<Longrightarrow> \<exists>r'. st_memory ?b i = Some r'" for i r
    using g(5) by blast
  ultimately show ?thesis
    by (auto simp: sqlite_list_events_eq [OF ok] sqlite_list_events_eq [OF laws(1)]
        sqlite_list_receipts_eq [OF ok] sqlite_list_receipts_eq [OF laws(1)]
        sqlite_list_revisions_eq [OF ok] sqlite_list_revisions_eq [OF laws(1)]
        sqlite_get_receipt_eq [OF ok] sqlite_get_receipt_eq [OF laws(1)]
        sqlite_get_event_eq [OF ok] sqlite_get_event_eq [OF laws(1)]
        sqlite_get_contract_eq [OF ok] sqlite_get_contract_eq [OF laws(1)]
        sqlite_get_memory_eq [OF ok] sqlite_get_memory_eq [OF laws(1)]
        first_rows_def select_def g res_simps)
qed

section \<open>Retrieval\<close>

text \<open>
  C4: admissible retrieval with the default retriever hands out at most the number of items asked
  for; each is the current state of a certified record, with its claim, update and content digest,
  and that record is backed by a receipt and a contract in the file.
\<close>

theorem retrieval_is_backed:
  assumes "safe_plugins pl" "pl_retriever pl = None"
    and "sqlite_ok E H (w_store w0)" "store_inv (sqlite_view H (w_store w0))"
    and "kernel_reach (open_kernel E H lite n model prof pl) w0 w"
    and run: "retrieve (open_kernel E H lite n model prof pl) query ''admissible'' limit rid w = (Inr items, w')"
  shows "(0 \<le> limit \<longrightarrow> length items \<le> nat limit) \<and>
    (\<forall>item \<in> set items. ret_lane item = CERTIFIED \<and>
       (\<exists>r. sqlite_get_memory_record H m (ret_id item) (w_store w) = Inr r \<and> mem_lane r = CERTIFIED \<and>
          retrieved_from H r item \<and> backed H m (w_store w) r))"
proof -
  note laws = reach_laws [OF assms(1,3-5)]
  let ?st = "sqlite_view H (w_store w)"
  have "sqlite_search_memory E H (w_tick w) query [CERTIFIED] limit (w_store w) = Inr items"
    using run assms(2)
    by (auto simp: retrieve_def admissible_lanes_for_mode_def open_kernel_def or_default_def fts_search_def
        reads_def sqlite_port_ops elim!: bind_io_InrE)
  from sqlite_search_sound [OF laws(1) this]
  have len: "0 \<le> limit \<longrightarrow> length items \<le> nat limit"
    and it: "\<forall>item \<in> set items. \<exists>r. st_memory ?st (mem_id r) = Some r \<and> mem_lane r \<in> set [CERTIFIED] \<and>
      retrieved_from H r item" by blast+
  have "ret_lane item = CERTIFIED \<and>
      (\<exists>r. sqlite_get_memory_record H m (ret_id item) (w_store w) = Inr r \<and> mem_lane r = CERTIFIED \<and>
        retrieved_from H r item \<and> backed H m (w_store w) r)" if item: "item \<in> set items" for item
  proof -
    obtain r where r: "st_memory ?st (mem_id r) = Some r" "mem_lane r = CERTIFIED" "retrieved_from H r item"
      using it item by auto
    moreover have "certified_by ?st r" using laws(2) r by (simp add: store_inv_def)
    then have "backed H m (w_store w) r" by (rule certified_backed_in [OF laws(1)])
    ultimately show ?thesis by (auto simp: sqlite_get_memory_eq [OF laws(1)] retrieved_from_def)
  qed
  then show ?thesis using len by blast
qed

end
