(* ===== verification/Command_Properties.thy ===== *)
theory Command_Properties
  imports Command_Line Promotion_Frame Promotion_Effects Kernel_Properties
begin

text \<open>
  What a sequence of commands does to the state file: the invariant of the store survives every
  command and every failure, only \<open>promote\<close> certifies, and \<open>observe\<close> records a file row
  by row.
\<close>

section \<open>Commands keep what the kernel keeps\<close>

lemma cli_kernel_eq:
  "cli_kernel T model = bind_io draw (\<lambda>n. ret (open_kernel (cl_engine T) (cl_host T)
     (\<lambda>m. litellm_complete (cl_host T) (cl_litellm T) (Some m)) n model ''strict'' no_plugins))"
  by (simp add: cli_kernel_def kernel_open_default ret_def lift_def)

lemma bind_cli_kernel:
  "bind_io (cli_kernel T model) f = bind_io draw (\<lambda>n. f (open_kernel (cl_engine T) (cl_host T)
     (\<lambda>m. litellm_complete (cl_host T) (cl_litellm T) (Some m)) n model ''strict'' no_plugins))"
  by (simp add: cli_kernel_eq bind_io_def draw_def fun_eq_iff)

lemma keeps_prints [keeps_intros]: "keeps I (prints s)"
  by (simp add: prints_def keeps_ret)

lemma keeps_exits [keeps_intros]: "keeps I (exits s code)"
  by (simp add: exits_def keeps_ret)

lemma keeps_prints_record [keeps_intros]: "keeps I (prints_record H r)"
  by (simp add: prints_record_def keeps_prints)

lemma keeps_observe_payload [keeps_intros]:
  "(\<And>kind body. keeps I (observe K kind body rid [] True)) \<Longrightarrow> keeps I (observe_payload K rid kind p)"
  by (simp add: observe_payload_def keeps_bind keeps_ret)

lemmas command_defs = cli_init_def cli_observe_def cli_search_def cli_propose_def cli_verify_def
  cli_promote_def cli_retire_def cli_contradict_def cli_supersede_def cli_correct_def cli_run_def
  cli_audit_def cli_plugins_list_def bind_cli_kernel Let_def

lemma keeps_intent_create [keeps_intros]: "keeps I (cli_intent_create T tool effect args steps cid rid)"
  unfolding cli_intent_create_def
  by (rule keeps_bind_lift) (auto split: json.split intro!: keeps_intros)

lemma execute_keeps_inv:
  "keeps (world_inv (sqlite_view (cl_host T)) (sqlite_ok (cl_engine T) (cl_host T)) st0) (execute T c)"
  by (cases c; simp only: execute.simps command_defs; intro keeps_intros)

lemma execute_still:
  "c \<noteq> Promote i \<Longrightarrow>
   keeps (still (sqlite_view (cl_host T)) (sqlite_ok (cl_engine T) (cl_host T)) i ps) (execute T c)"
  by (cases c; simp only: execute.simps command_defs command.inject; intro keeps_intros default_kernel.still_promote_op)
     simp_all

text \<open>Rules for a sequence of commands.\<close>

lemma shell_keeps:
  "(\<And>c. c \<in> set cs \<Longrightarrow> keeps I (execute T c)) \<Longrightarrow> I w \<Longrightarrow> I (snd (shell T cs w))"
proof (induction cs arbitrary: w)
  case (Cons c cs)
  obtain r w1 where c: "execute T c w = (r, w1)" by fastforce
  obtain rs w2 where cs: "shell T cs w1 = (rs, w2)" by fastforce
  have "I w1" using keepsD [of I "execute T c" w] Cons.prems c by simp
  then have "I (snd (shell T cs w1))" using Cons.IH Cons.prems(1) by simp
  then show ?case by (simp add: c cs)
qed simp

lemma shell_laws:
  assumes "sqlite_ok (cl_engine T) (cl_host T) (w_store w0)" "store_inv (sqlite_view (cl_host T) (w_store w0))"
    and "shell T cs w0 = (rs, w)"
  shows "sqlite_ok (cl_engine T) (cl_host T) (w_store w)" "store_inv (sqlite_view (cl_host T) (w_store w))"
    "store_grows (sqlite_view (cl_host T) (w_store w0)) (sqlite_view (cl_host T) (w_store w))"
proof -
  let ?I = "world_inv (sqlite_view (cl_host T)) (sqlite_ok (cl_engine T) (cl_host T)) (sqlite_view (cl_host T) (w_store w0))"
  have "?I (snd (shell T cs w0))"
    using assms(1,2) by (intro shell_keeps [of cs ?I] execute_keeps_inv) (simp add: world_inv_def)
  then show "sqlite_ok (cl_engine T) (cl_host T) (w_store w)" "store_inv (sqlite_view (cl_host T) (w_store w))"
    "store_grows (sqlite_view (cl_host T) (w_store w0)) (sqlite_view (cl_host T) (w_store w))"
    by (simp_all add: assms(3) world_inv_def)
qed

section \<open>Sessions\<close>

text \<open>
  C36: a whole session of commands, each of which may fail at any point, started on a new file or
  on any file where the invariant holds: every record that is certified at the end is backed by a
  passing receipt and a contract in the file, and the events, receipts and revisions that were
  there are still there, in the same order, before whatever the session added.
\<close>

theorem session_keeps_trust:
  assumes "sqlite_ok (cl_engine T) (cl_host T) (w_store w0)"
    and "store_inv (sqlite_view (cl_host T) (w_store w0))" "shell T cs w0 = (rs, w)"
  shows "(\<forall>i r. sqlite_get_memory_record (cl_host T) m i (w_store w) = Inr r \<longrightarrow> mem_lane r = CERTIFIED \<longrightarrow>
      backed (cl_host T) m (w_store w) r) \<and>
    (\<exists>es es'. sqlite_list_events (cl_host T) m None None (w_store w0) = Inr es \<and>
      sqlite_list_events (cl_host T) m None None (w_store w) = Inr (es @ es')) \<and>
    (\<exists>ps ps'. sqlite_list_receipts (cl_host T) m None (w_store w0) = Inr ps \<and>
      sqlite_list_receipts (cl_host T) m None (w_store w) = Inr (ps @ ps')) \<and>
    (\<exists>vs vs'. sqlite_list_memory_revisions (cl_host T) m None (w_store w0) = Inr vs \<and>
      sqlite_list_memory_revisions (cl_host T) m None (w_store w) = Inr (vs @ vs'))"
proof (intro conjI allI impI)
  let ?a = "sqlite_view (cl_host T) (w_store w0)" and ?b = "sqlite_view (cl_host T) (w_store w)"
  note laws = shell_laws [OF assms] and ok = assms(1)
  obtain es ps vs where g: "st_events ?b = st_events ?a @ es" "st_receipts ?b = st_receipts ?a @ ps"
      "st_revisions ?b = st_revisions ?a @ vs"
    using laws(3) by (auto simp: store_grows_def)
  show "backed (cl_host T) m (w_store w) r"
    if "sqlite_get_memory_record (cl_host T) m i (w_store w) = Inr r" "mem_lane r = CERTIFIED" for i r
  proof -
    have "st_memory ?b i = Some r"
      using that(1) by (simp add: sqlite_get_memory_eq [OF laws(1)] res_simps)
    then have "certified_by ?b r" using laws(2) that(2) by (simp add: store_inv_def)
    then show ?thesis by (rule certified_backed_in [OF laws(1)])
  qed
  show "\<exists>es es'. sqlite_list_events (cl_host T) m None None (w_store w0) = Inr es \<and>
      sqlite_list_events (cl_host T) m None None (w_store w) = Inr (es @ es')"
    using g(1) by (simp add: sqlite_list_events_eq [OF ok] sqlite_list_events_eq [OF laws(1)] select_def
        first_rows_def)
  show "\<exists>ps ps'. sqlite_list_receipts (cl_host T) m None (w_store w0) = Inr ps \<and>
      sqlite_list_receipts (cl_host T) m None (w_store w) = Inr (ps @ ps')"
    using g(2) by (simp add: sqlite_list_receipts_eq [OF ok] sqlite_list_receipts_eq [OF laws(1)] select_def)
  show "\<exists>vs vs'. sqlite_list_memory_revisions (cl_host T) m None (w_store w0) = Inr vs \<and>
      sqlite_list_memory_revisions (cl_host T) m None (w_store w) = Inr (vs @ vs')"
    using g(3) by (simp add: sqlite_list_revisions_eq [OF ok] sqlite_list_revisions_eq [OF laws(1)] select_def)
qed

text \<open>
  C37: no command but \<open>promote\<close> certifies. If a record is in the certified lane after a session
  and was not before it, the session contains the command that promotes exactly this record,
  whatever observed rows, proposals, verifications or model runs the session also had.
\<close>

theorem only_promote_certifies:
  assumes "sqlite_ok (cl_engine T) (cl_host T) (w_store w0)"
    and "store_inv (sqlite_view (cl_host T) (w_store w0))" "shell T cs w0 = (rs, w)"
    and "current_lane (cl_host T) m (w_store w) i = Some CERTIFIED"
    and "current_lane (cl_host T) m (w_store w0) i \<noteq> Some CERTIFIED"
  shows "Promote i \<in> set cs"
proof (rule ccontr)
  let ?v = "sqlite_view (cl_host T)"
  let ?I = "still ?v (sqlite_ok (cl_engine T) (cl_host T)) i (promotions i (?v (w_store w0)))"
  note laws = shell_laws [OF assms(1-3)]
  assume "Promote i \<notin> set cs"
  then have "?I (snd (shell T cs w0))"
    using assms(1) by (intro shell_keeps [of cs ?I] execute_still) (auto simp: still_def)
  then have "promotions i (?v (w_store w)) = promotions i (?v (w_store w0))"
    by (simp add: assms(3) still_def)
  moreover have "lanes (?v (w_store w)) i = Some CERTIFIED" "lanes (?v (w_store w0)) i \<noteq> Some CERTIFIED"
    using assms(4,5) by (simp_all add: current_lane_eq [OF laws(1)] current_lane_eq [OF assms(1)])
  ultimately show False
    using certified_needs_promotion [OF assms(2) laws(2,3)] by blast
qed

end
