(* ===== verification/Command_Observe.thy ===== *)
theory Command_Observe
  imports Command_Properties
begin

text \<open>
  The \<open>observe\<close> command as a refinement of the event log: the rows of a file become the
  events of the log in their order, and a row that fails ends the run, with the events of exactly the earlier rows kept.
\<close>

text \<open>What an event records of a row of the file.\<close>

definition records_row :: "host \<Rightarrow> string \<Rightarrow> string option \<Rightarrow> dict \<Rightarrow> stored_event \<Rightarrow> bool" where
  "records_row H kind run_id p e \<longleftrightarrow>
     ev_kind e = payload_kind H kind p \<and> ev_payload e = stored_dict (payload_body p) \<and>
     (case run_id of None \<Rightarrow> True | Some r \<Rightarrow> r = [] \<or> ev_run e = r)"

text \<open>
  Where a loop over rows stopped: the rows before it went through one by one and have their events,
  and the row itself raised in the state they left; its own event may have been appended before.
\<close>

definition stopped_at ::
  "'s kernel \<Rightarrow> string option \<Rightarrow> string \<Rightarrow> dict list \<Rightarrow> 's world \<Rightarrow> nat \<Rightarrow> error \<Rightarrow> 's world \<Rightarrow> 's world \<Rightarrow> bool"
where
  "stopped_at K rid kind ps w k err w1 w' \<longleftrightarrow>
     k < length ps \<and> for_each (observe_payload K rid kind) (take k ps) w = (Inr (), w1) \<and>
     observe_payload K rid kind (ps ! k) w1 = (Inl err, w')"

lemma stopped_at_Cons:
  "observe_payload K rid kind p w = (Inr (), w0) \<Longrightarrow> stopped_at K rid kind ps w0 k err w1 w' \<Longrightarrow>
   stopped_at K rid kind (p # ps) w (Suc k) err w1 w'"
  by (simp add: stopped_at_def bind_io_def)

context storage_backend
begin

lemma store_event_Inl:
  assumes "ok (w_store w)" "store_event P H kind payload rid parents w = (Inl err, w')"
  shows "w_store w' = w_store w"
  using assms append_error
  by (auto simp: store_event_def bind_io_def draw_def writes_def lift_def split: prod.splits sum.splits)

lemma save_Inl:
  assumes "ok (w_store w)" "save_memory P r operation reason rid eid w = (Inl err, w')"
  shows "w_store w' = w_store w"
  using assms(2) upsert_error [OF assms(1)] unfolding save_memory_def
  by (auto elim!: writes_cases)

end

context wired_kernel
begin

text \<open>Observing adds one event, or none and then it raises.\<close>

lemma observe_adds:
  assumes ok: "ok (w_store w)" and run: "observe K kind payload rid [] True w = (r, w')"
  obtains es where "ok (w_store w')"
    "st_events (view (w_store w')) = st_events (view (w_store w)) @ es"
    "es = [] \<and> (\<exists>err. r = Inl err) \<or>
      (\<exists>e. es = [e] \<and> ev_kind e = kind \<and> ev_payload e = stored_dict payload \<and>
        (case rid of None \<Rightarrow> True | Some i \<Rightarrow> i = [] \<or> ev_run e = i))"
proof -
  obtain i w1 where w1: "actual_run_id K rid w = (Inr i, w1)" "w_store w1 = w_store w"
    "case rid of None \<Rightarrow> True | Some j \<Rightarrow> j = [] \<or> i = j"
    by (fastforce simp: actual_run_id_def bind_io_def draw_def or_str_def split: option.split)
  obtain x w2 where w2: "store_event (k_storage K) (k_host K) kind payload i [] w1 = (x, w2)" by fastforce
  note ok1 = ok [folded w1(2)]
  show thesis
  proof (cases x)
    case (Inl err)
    then have "w_store w2 = w_store w" using store_event_Inl [OF ok1] w2 w1(2) by metis
    moreover have "r = Inl err" "w' = w2"
      using run w1(1) w2 Inl by (simp_all add: observe_def bind_io_def)
    ultimately show thesis using ok by (intro that [of "[]"]) simp_all
  next
    case (Inr se)
    note e = store_event_Inr [OF ok1 w2 [unfolded Inr]]
    have rest: "bind_io draw (\<lambda>n. bind_io (lift (memory_create (k_host K) n RAW
         (payload_to_claim (k_host K) kind payload) [ev_id se]
         [(''kind'', JStr kind), (''run_id'', JStr i), (''obs_seq'', JInt (se_seq se))] [] [] []))
       (\<lambda>raw. bind_io (save_memory (k_storage K) raw WRITE [] None (Some (ev_id se))) (\<lambda>_. ret se))) w2 = (r, w')"
      using run w1(1) w2 Inr by (simp add: observe_def bind_io_def)
    have "ok (w_store w') \<and> st_events (view (w_store w')) = st_events (view (w_store w2))"
      using rest
    proof (cases rule: bind_io_cases)
      case (error err)
      then show ?thesis by (simp add: draw_def)
    next
      case (ok n w3)
      from ok(1) have w3: "w_store w3 = w_store w2" by (auto simp: draw_def)
      from ok(2) show ?thesis
      proof (cases rule: bind_io_cases)
        case (error err)
        then show ?thesis using w3 e by simp
      next
        case (ok raw w4)
        from ok(1) have w4: "w4 = w3" and claim: "claim_ok raw" by (auto dest!: memory_create_Inr)
        from ok(2) show ?thesis
        proof (cases rule: bind_io_cases)
          case (error err)
          then show ?thesis using save_Inl [of w4] w4 w3 e by metis
        next
          case (ok q w5)
          from e w3 w4 have ok4: "ok (w_store w4)" by simp
          obtain v where "ok (w_store w5)" "view (w_store w5) = write_record (view (w_store w4)) raw v"
            by (rule save_Inr [OF ok4 claim ok(1)])
          moreover have "w' = w5" using ok(2) by simp
          ultimately show ?thesis using w3 w4 by (simp add: write_record_def)
        qed
      qed
    qed
    then show thesis
      using e w1(2,3) by (intro that [of "[event_canon se]"]) (auto split: option.splits)
  qed
qed

lemma observe_rows:
  assumes "ok (w_store w)" "for_each (observe_payload K rid kind) ps w = (r, w')"
  shows "ok (w_store w') \<and> (\<exists>es. st_events (view (w_store w')) = st_events (view (w_store w)) @ es \<and>
    (case r of
       Inr _ \<Rightarrow> list_all2 (records_row (k_host K) kind rid) ps es
     | Inl err \<Rightarrow> \<exists>k w1. stopped_at K rid kind ps w k err w1 w' \<and> ok (w_store w1) \<and>
         st_events (view (w_store w1)) = st_events (view (w_store w)) @ take k es \<and>
         (length es = k \<or> length es = Suc k) \<and>
         list_all2 (records_row (k_host K) kind rid) (take (length es) ps) es))"
  using assms
proof (induction ps arbitrary: w)
  case (Cons p ps)
  let ?o = "observe K (payload_kind (k_host K) kind p) (payload_body p) rid [] True"
  obtain x w1 where x: "?o w = (x, w1)" by fastforce
  from observe_adds [OF Cons.prems(1) x] obtain es where es: "ok (w_store w1)"
    "st_events (view (w_store w1)) = st_events (view (w_store w)) @ es"
    "es = [] \<and> (\<exists>err. x = Inl err) \<or> (\<exists>e. es = [e] \<and> records_row (k_host K) kind rid p e)"
    by (auto simp: records_row_def)
  show ?case
  proof (cases x)
    case (Inl err)
    then have r: "r = Inl err" "w' = w1"
      using Cons.prems(2) x by (simp_all add: observe_payload_def bind_io_def)
    have "stopped_at K rid kind (p # ps) w 0 err w w'"
      using x Inl r(2) by (simp add: stopped_at_def observe_payload_def bind_io_def)
    then show ?thesis
      using es Cons.prems(1) unfolding r(1) sum.case
      by (intro conjI exI [of _ es] exI [of _ 0] exI [of _ w]) (auto simp: r(2))
  next
    case (Inr se)
    then obtain e where e: "es = [e]" "records_row (k_host K) kind rid p e" using es(3) by auto
    have p: "observe_payload K rid kind p w = (Inr (), w1)"
      using x Inr by (simp add: observe_payload_def bind_io_def)
    then have "for_each (observe_payload K rid kind) ps w1 = (r, w')"
      using Cons.prems(2) by (simp add: bind_io_def)
    from Cons.IH [OF es(1) this] obtain fs where fs: "ok (w_store w')"
      "st_events (view (w_store w')) = st_events (view (w_store w1)) @ fs"
      "case r of
         Inr _ \<Rightarrow> list_all2 (records_row (k_host K) kind rid) ps fs
       | Inl err \<Rightarrow> \<exists>k w2. stopped_at K rid kind ps w1 k err w2 w' \<and> ok (w_store w2) \<and>
           st_events (view (w_store w2)) = st_events (view (w_store w1)) @ take k fs \<and>
           (length fs = k \<or> length fs = Suc k) \<and>
           list_all2 (records_row (k_host K) kind rid) (take (length fs) ps) fs" by blast
    show ?thesis
    proof (cases r)
      case (Inl err)
      with fs(3) obtain k w2 where k: "stopped_at K rid kind ps w1 k err w2 w'" "ok (w_store w2)"
        "st_events (view (w_store w2)) = st_events (view (w_store w1)) @ take k fs"
        "length fs = k \<or> length fs = Suc k" "list_all2 (records_row (k_host K) kind rid) (take (length fs) ps) fs"
        by auto
      show ?thesis unfolding Inl sum.case
        using stopped_at_Cons [OF p k(1)] k(2-) es(2) e fs(1,2)
        by (intro conjI exI [of _ "e # fs"] exI [of _ "Suc k"] exI [of _ w2]) auto
    next
      case (Inr u)
      then show ?thesis using fs es(2) e by (intro conjI exI [of _ "e # fs"]) auto
    qed
  qed
qed auto

end

text \<open>
  C38: \<open>observe\<close> records a file row by row. When the file cannot be read or parsed, the command
  raises that error and the store is untouched. Otherwise the log afterwards is the log before
  followed by one event for each row, in the order of the file, with the row's own kind or the default
  one, the rest of the row as payload and the run asked for, and the command prints their count. Or a
  row raises: then exactly the rows before it went through, in the state they left it is this row that
  raises, and their events stay in the log, followed at most by the event of the row itself.
\<close>

theorem observe_file_appends:
  assumes "sqlite_ok (cl_engine T) (cl_host T) (w_store w)"
    and "execute T (Observe file run_id kind) w = (r, w')"
  shows "case read_payloads T file of
      Inl err \<Rightarrow> r = Inl err \<and> w_store w' = w_store w
    | Inr rows \<Rightarrow>
        \<exists>old es. sqlite_list_events (cl_host T) m None None (w_store w) = Inr old \<and>
          sqlite_list_events (cl_host T) m None None (w_store w') = Inr (old @ es) \<and>
          (case r of
             Inr out \<Rightarrow> list_all2 (records_row (cl_host T) kind run_id) rows es \<and>
               out = ([Line (''Observed '' @ nat_text (length rows) @ '' event(s).'')], 0)
           | Inl err \<Rightarrow> \<exists>K w0 k w1. cli_kernel T None w = (Inr K, w0) \<and>
               stopped_at K run_id kind rows w0 k err w1 w' \<and>
               sqlite_list_events (cl_host T) m None None (w_store w1) = Inr (old @ take k es) \<and>
               (length es = k \<or> length es = Suc k) \<and>
               list_all2 (records_row (cl_host T) kind run_id) (take (length es) rows) es)"
proof (cases "read_payloads T file")
  case (Inl err)
  then show ?thesis
    using assms(2) unfolding execute.simps cli_observe_def bind_cli_kernel
    by (auto simp: bind_io_def draw_def)
next
  case (Inr rows)
  let ?v = "sqlite_view (cl_host T)" and ?w0 = "w\<lparr>w_tick := w_tick w + 2\<rparr>"
  define K where "K = open_kernel (cl_engine T) (cl_host T)
    (\<lambda>m. litellm_complete (cl_host T) (cl_litellm T) (Some m)) (w_tick w) None ''strict'' no_plugins"
  obtain x w1 where run: "for_each (observe_payload K run_id kind) rows ?w0 = (x, w1)" by fastforce
  have r: "w' = w1" "r = (case x of Inl e \<Rightarrow> Inl e
      | Inr _ \<Rightarrow> Inr ([Line (''Observed '' @ nat_text (length rows) @ '' event(s).'')], 0))"
    using assms(2) run [unfolded K_def] Inr unfolding execute.simps cli_observe_def bind_cli_kernel
    by (auto simp: bind_io_def draw_def prints_def split: sum.splits)
  have start: "cli_kernel T None w = (Inr K, ?w0)" by (simp add: cli_kernel_eq bind_io_def draw_def K_def)
  have w0: "w_store ?w0 = w_store w" by simp
  have host: "k_host K = cl_host T" by (simp add: K_def open_kernel_def)
  have ok: "sqlite_ok (cl_engine T) (cl_host T) (w_store ?w0)" using assms(1) by simp
  from default_kernel.observe_rows [OF ok run [unfolded K_def]] obtain es where es:
    "sqlite_ok (cl_engine T) (cl_host T) (w_store w1)"
    "st_events (?v (w_store w1)) = st_events (?v (w_store w)) @ es"
    "case x of
       Inr _ \<Rightarrow> list_all2 (records_row (cl_host T) kind run_id) rows es
     | Inl err \<Rightarrow> \<exists>k w2. stopped_at K run_id kind rows ?w0 k err w2 w1 \<and>
         sqlite_ok (cl_engine T) (cl_host T) (w_store w2) \<and>
         st_events (?v (w_store w2)) = st_events (?v (w_store w)) @ take k es \<and>
         (length es = k \<or> length es = Suc k) \<and>
         list_all2 (records_row (cl_host T) kind run_id) (take (length es) rows) es"
    unfolding K_def [symmetric] host w0 by blast
  have lists: "sqlite_list_events (cl_host T) m None None s = Inr (st_events (?v s))"
    if "sqlite_ok (cl_engine T) (cl_host T) s" for s
    by (simp add: sqlite_list_events_eq [OF that] select_def first_rows_def)
  show ?thesis
  proof (cases x)
    case (Inl err)
    with es(3) obtain k w2 where k: "stopped_at K run_id kind rows ?w0 k err w2 w1"
      "sqlite_ok (cl_engine T) (cl_host T) (w_store w2)"
      "st_events (?v (w_store w2)) = st_events (?v (w_store w)) @ take k es" "length es = k \<or> length es = Suc k"
      "list_all2 (records_row (cl_host T) kind run_id) (take (length es) rows) es" by auto
    have "r = Inl err" using r(2) Inl by simp
    then show ?thesis
      unfolding \<open>read_payloads T file = Inr rows\<close> sum.case r(1) lists [OF assms(1)] lists [OF es(1)] es(2)
      using start k lists [OF k(2)] by (intro exI conjI) (simp_all, blast)
  next
    case (Inr u)
    then show ?thesis
      unfolding \<open>read_payloads T file = Inr rows\<close> sum.case r lists [OF assms(1)] lists [OF es(1)] es(2)
      using es(3) by auto
  qed
qed

end
