(* ===== verification/Kernel_Witnesses.thy ===== *)
theory Kernel_Witnesses
  imports Kernel_Properties Search_Properties
begin

text \<open>
  The kernel's guarantees at work: the default kernel over the file with one record in the shadow
  lane, which it promotes, and over the file that holds the certified record.
\<close>

definition plain_kernel :: "db kernel" where
  "plain_kernel = open_kernel plain_engine plain_host (\<lambda>_. mock_complete ''lite'') 0 None ''strict'' no_plugins"

lemma no_plugins_safe: "safe_plugins no_plugins"
  by (simp add: safe_plugins_def no_plugins_def)

lemma shadow_start:
  "sqlite_ok plain_engine plain_host (w_store shadow_world)"
  "store_inv (sqlite_view plain_host (w_store shadow_world))"
  by (simp_all add: shadow_world_def shadow_facts)

lemma promotion_result:
  obtains w where
    "promote_candidate (sqlite_port plain_engine plain_host) plain_host ''mem_1'' shadow_world =
      (Inr promoted_record, w)"
    "sqlite_ok plain_engine plain_host (w_store w)"
    "sqlite_get_memory_record plain_host 0 ''mem_1'' (w_store w) = Inr promoted_record"
proof -
  let ?P = "sqlite_port plain_engine plain_host"
  obtain w where run: "promote_candidate ?P plain_host ''mem_1'' shadow_world = (Inr promoted_record, w)"
    by (rule shadow_promotion)
  then have "promote plain_kernel ''mem_1'' shadow_world = (Inr promoted_record, w)"
    by (simp add: promote_def plain_kernel_def)
  then have reach: "kernel_reach plain_kernel shadow_world w"
    by (rule kernel_reach.reach_step [OF kernel_reach.reach_start kernel_step.step_promote])
  have "st_memory (sqlite_view plain_host (w_store w)) ''mem_1'' = Some promoted_record"
  proof (rule sqlite.promote_Inr [OF shadow_start(1) run])
    fix r rcp c k e
    assume r: "st_memory (sqlite_view plain_host (w_store shadow_world)) ''mem_1'' = Some r"
      and st: "\<exists>st1. superseded_only (set (mem_supersedes r))
         ((sqlite_view plain_host (w_store shadow_world))
            \<lparr>st_contracts := (st_contracts (sqlite_view plain_host (w_store shadow_world)))(wfc_id c \<mapsto> contract_canon c),
             st_memory := (st_memory (sqlite_view plain_host (w_store shadow_world)))
               (''mem_1'' \<mapsto> memory_canon promoted_record)\<rparr>) st1 \<and>
         st_memory (sqlite_view plain_host (w_store w)) = st_memory st1 \<and>
         st_contracts (sqlite_view plain_host (w_store w)) = st_contracts st1 \<and>
         st_receipts (sqlite_view plain_host (w_store w)) = st_receipts st1 \<and>
         st_events (sqlite_view plain_host (w_store w)) = st_events st1 @ [e]"
    have "r = shadow_record" using r by (simp add: shadow_world_def shadow_facts)
    then show ?thesis using st by (auto simp: superseded_only_def)
  qed
  moreover have "sqlite_ok plain_engine plain_host (w_store w)"
    using reach_laws [OF no_plugins_safe shadow_start] reach unfolding plain_kernel_def by blast
  ultimately show thesis by (intro that [OF run]) (simp_all add: sqlite_get_memory_eq)
qed

lemma promoted_reached:
  obtains w where "kernel_reach plain_kernel shadow_world w"
    "sqlite_get_memory_record plain_host 0 ''mem_1'' (w_store w) = Inr promoted_record"
proof -
  obtain w where run: "promote_candidate (sqlite_port plain_engine plain_host) plain_host ''mem_1'' shadow_world =
      (Inr promoted_record, w)"
    and get: "sqlite_get_memory_record plain_host 0 ''mem_1'' (w_store w) = Inr promoted_record"
    by (rule promotion_result)
  from run have "promote plain_kernel ''mem_1'' shadow_world = (Inr promoted_record, w)"
    by (simp add: promote_def plain_kernel_def)
  then have "kernel_reach plain_kernel shadow_world w"
    by (rule kernel_reach.reach_step [OF kernel_reach.reach_start kernel_step.step_promote])
  then show thesis using get by (rule that)
qed

theorem certified_records_backed_witness:
  "\<exists>w r. kernel_reach plain_kernel shadow_world w \<and>
     sqlite_get_memory_record plain_host 0 ''mem_1'' (w_store w) = Inr r \<and> mem_lane r = CERTIFIED \<and>
     mem_id r = ''mem_1'' \<and> backed plain_host 0 (w_store w) r"
proof -
  obtain w where w: "kernel_reach plain_kernel shadow_world w"
    "sqlite_get_memory_record plain_host 0 ''mem_1'' (w_store w) = Inr promoted_record" by (rule promoted_reached)
  have "mem_id promoted_record = ''mem_1'' \<and> backed plain_host 0 (w_store w) promoted_record"
    by (rule certified_records_backed [OF no_plugins_safe shadow_start w(1) [unfolded plain_kernel_def] w(2)]) simp
  then show ?thesis using w promoted_record_simps(3) by (intro exI conjI) auto
qed

theorem revisions_explain_lanes_witness:
  "\<exists>w vs. kernel_reach plain_kernel shadow_world w \<and>
     sqlite_get_memory_record plain_host 0 ''mem_1'' (w_store w) = Inr promoted_record \<and>
     sqlite_list_memory_revisions plain_host 0 None (w_store w) = Inr vs \<and>
     lane_trail Map.empty vs = Some (current_lane plain_host 0 (w_store w))"
proof -
  obtain w where w: "kernel_reach plain_kernel shadow_world w"
    "sqlite_get_memory_record plain_host 0 ''mem_1'' (w_store w) = Inr promoted_record" by (rule promoted_reached)
  from revisions_explain_lanes [OF no_plugins_safe shadow_start w(1) [unfolded plain_kernel_def], of 0] w
  show ?thesis by (elim exE conjE) (intro exI conjI)
qed

theorem logs_append_only_witness:
  "\<exists>w. kernel_reach plain_kernel shadow_world w \<and>
     sqlite_get_memory_record plain_host 0 ''mem_1'' (w_store w) = Inr promoted_record \<and>
     (\<exists>rs rs'. sqlite_list_receipts plain_host 0 None (w_store shadow_world) = Inr rs \<and>
       sqlite_list_receipts plain_host 0 None (w_store w) = Inr (rs @ rs'))"
proof -
  obtain w where w: "kernel_reach plain_kernel shadow_world w"
    "sqlite_get_memory_record plain_host 0 ''mem_1'' (w_store w) = Inr promoted_record" by (rule promoted_reached)
  note logs = logs_append_only [OF no_plugins_safe shadow_start w(1) [unfolded plain_kernel_def], of 0]
  show ?thesis by (rule exI [of _ w]) (intro conjI w logs [THEN conjunct2, THEN conjunct1])
qed

section \<open>Retrieval\<close>

definition certified_world :: "db world" where
  "certified_world = \<lparr>w_tick = 20, w_store = certified_db\<rparr>"

lemma certified_start:
  "sqlite_ok plain_engine plain_host (w_store certified_world)"
  "store_inv (sqlite_view plain_host (w_store certified_world))"
  by (simp_all add: certified_world_def certified_facts)

lemma certified_found:
  obtains item where "sqlite_search_memory plain_engine plain_host 20 [] [CERTIFIED] 5 certified_db = Inr [item]"
    "ret_id item = ''mem_1''"
proof -
  have "mr_id ` {row \<in> set (db_memory certified_db). in_lanes [CERTIFIED] (mr_lane row)} = {''mem_1''}"
    by (auto simp: stored_ids [OF certified_facts(1)] certified_facts)
  moreover have "distinct (map mr_id (db_memory certified_db))"
    using certified_facts(1) by (simp add: sqlite_ok_def)
  ultimately have ids: "map mr_id (filter (\<lambda>r. in_lanes [CERTIFIED] (mr_lane r)) (db_memory certified_db)) = [''mem_1'']"
    by (intro distinct_singleton) (auto simp: distinct_map_filter)
  then have "length (filter (\<lambda>r. in_lanes [CERTIFIED] (mr_lane r)) (db_memory certified_db)) = 1"
    by (metis One_nat_def length_map list.size(3) length_Cons)
  then have "map (mr_id \<circ> fst) (search_rows plain_engine [] [CERTIFIED] 5 certified_db) = [''mem_1'']"
    using ids by (simp add: search_rows_def sql_limit_def strip_def comp_def)
  moreover obtain items where items: "sqlite_search_memory plain_engine plain_host 20 [] [CERTIFIED] 5 certified_db = Inr items"
    "map ret_id items = map (mr_id \<circ> fst) (search_rows plain_engine [] [CERTIFIED] 5 certified_db)"
    by (rule search_ids [OF certified_facts(1), of "[CERTIFIED]" 20 "[]" 5]) simp_all
  ultimately obtain item where "items = [item]" "ret_id item = ''mem_1''" by (auto simp: map_eq_Cons_conv)
  then show thesis using items(1) that by simp
qed

lemma certified_retrieve:
  obtains item w where "retrieve plain_kernel [] ''admissible'' 5 None certified_world = (Inr [item], w)"
    "ret_id item = ''mem_1''"
proof -
  obtain item where item: "sqlite_search_memory plain_engine plain_host 20 [] [CERTIFIED] 5 certified_db = Inr [item]"
    "ret_id item = ''mem_1''" by (rule certified_found)
  have lanes: "admissible_lanes_for_mode ''admissible'' = Inr [CERTIFIED]"
    by (simp add: admissible_lanes_for_mode_def)
  obtain d where d: "content_digest plain_host promoted_record = Inr d"
    using finite_content [of promoted_record plain_host] by auto
  have get: "sqlite_get_memory_record plain_host n ''mem_1'' certified_db = Inr promoted_record" for n
    by (simp add: sqlite_get_memory_eq [OF certified_facts(1)] certified_facts)
  let ?payload = "[(''operation'', JStr (operation_value READ)), (''memory_ids'', strs_json [''mem_1'']),
        (''memory_refs'', JList (map JDict [[(''memory_id'', JStr ''mem_1''), (''update_id'', JStr ''upd_1''),
           (''content_digest'', JStr d)]])),
        (''details'', JDict [(''query'', JStr []), (''mode'', JStr ''admissible''),
           (''lane_filter'', strs_json (map lane_value [CERTIFIED]))])]"
  obtain se w where "store_event (sqlite_port plain_engine plain_host) plain_host (''memory_'' @ operation_value READ)
      ?payload ''retrieval'' [] (certified_world\<lparr>w_tick := 22\<rparr>) = (Inr se, w)"
    by (rule store_event_succeeds [OF plain_host_ok, of ?payload "certified_world\<lparr>w_tick := 22\<rparr>"
          "''memory_'' @ operation_value READ" "''retrieval''" "[]" plain_engine])
       (auto simp: strs_json_def certified_world_def certified_facts)
  then have "retrieve plain_kernel [] ''admissible'' 5 None certified_world = (Inr [item], w)"
    using item get d lanes
    by (simp add: retrieve_def bind_io_def reads_def plain_kernel_def open_kernel_def or_default_def no_plugins_def
        fts_search_def sqlite_port_ops record_memory_operation_def kernel_memory_ref_def load_memory_def memory_ref_def
        observe_def actual_run_id_def draw_def certified_world_def or_str_def)
  then show thesis using item(2) by (rule that)
qed

theorem retrieval_is_backed_witness:
  "\<exists>item w. retrieve plain_kernel [] ''admissible'' 5 None certified_world = (Inr [item], w) \<and>
     ret_lane item = CERTIFIED \<and> (\<exists>r. backed plain_host 0 certified_db r \<and> mem_id r = ret_id item)"
proof -
  obtain item w where run: "retrieve plain_kernel [] ''admissible'' 5 None certified_world = (Inr [item], w)"
    by (rule certified_retrieve)
  have "pl_retriever no_plugins = None" by (simp add: no_plugins_def)
  from retrieval_is_backed [OF no_plugins_safe this certified_start kernel_reach.reach_start run [unfolded plain_kernel_def], of 0]
  show ?thesis using run by (auto simp: certified_world_def retrieved_from_def)
qed

end
