(* ===== verification/Command_Witnesses.thy ===== *)
theory Command_Witnesses
  imports Command_Observe Kernel_Witnesses
begin

text \<open>
  The properties of the command line at work: a terminal with one file to observe, and a session
  that promotes the record of the shadow file.
\<close>

definition no_registry :: registry where
  "no_registry =
     \<lparr>rg_points = [], rg_retriever = (\<lambda>_. Inl (LookupError [])), rg_llm = (\<lambda>_. Inl (LookupError [])),
      rg_checkers = (\<lambda>_. Inl (LookupError [])), rg_proposer = (\<lambda>_. Inl (LookupError [])),
      rg_tools = (\<lambda>_. Inl (LookupError [])), rg_verifier = (\<lambda>_. Inl (LookupError []))\<rparr>"

definition desk :: terminal where
  "desk =
     \<lparr>cl_host = plain_host, cl_engine = plain_engine, cl_litellm = None, cl_registry = no_registry,
      cl_read = (\<lambda>p. if p = ''log.json'' then Inr (CHR 0x22 # ''hi'' @ [CHR 0x22]) else Inl (OSError p)),
      cl_score = (\<lambda>_. ''0'')\<rparr>"

lemma desk_simps [simp]: "cl_host desk = plain_host" "cl_engine desk = plain_engine"
  by (simp_all add: desk_def)

section \<open>A session\<close>

text \<open>The shadow file one draw earlier, so that opening the kernel takes that draw.\<close>

definition early_world :: "db world" where
  "early_world = shadow_world\<lparr>w_tick := 8\<rparr>"

lemma early_start:
  "sqlite_ok (cl_engine desk) (cl_host desk) (w_store early_world)"
  "store_inv (sqlite_view (cl_host desk) (w_store early_world))"
  using shadow_start by (simp_all add: early_world_def)

lemma desk_promotes:
  obtains w where "shell desk [Plugins_List, Promote ''mem_1''] early_world =
      ([Inr ([Grid [''group'', ''name'', ''value''] []], 0), Inr ([Document (memory_dump plain_host promoted_record)], 0)], w)"
    "sqlite_ok plain_engine plain_host (w_store w)"
    "sqlite_get_memory_record plain_host 0 ''mem_1'' (w_store w) = Inr promoted_record"
proof -
  obtain w where w: "promote_candidate (sqlite_port plain_engine plain_host) plain_host ''mem_1'' shadow_world =
      (Inr promoted_record, w)" "sqlite_ok plain_engine plain_host (w_store w)"
    "sqlite_get_memory_record plain_host 0 ''mem_1'' (w_store w) = Inr promoted_record"
    by (rule promotion_result)
  have tick: "early_world\<lparr>w_tick := 10\<rparr> = shadow_world" "w_tick early_world = 8"
    by (simp_all add: early_world_def shadow_world_def)
  have "execute desk (Promote ''mem_1'') early_world = (Inr ([Document (memory_dump plain_host promoted_record)], 0), w)"
    unfolding execute.simps cli_promote_def bind_cli_kernel
    using w(1) by (simp add: bind_io_def draw_def tick promote_def prints_record_def prints_def)
  moreover have "execute desk Plugins_List early_world = (Inr ([Grid [''group'', ''name'', ''value''] []], 0), early_world)"
    by (simp add: cli_plugins_list_def list_entry_points_def desk_def no_registry_def prints_def PLUGIN_GROUPS_def)
  ultimately show thesis using w(2,3) by (intro that) simp_all
qed

theorem session_keeps_trust_witness:
  "\<exists>rs w r. shell desk [Plugins_List, Promote ''mem_1''] early_world = (rs, w) \<and>
    sqlite_get_memory_record plain_host 0 ''mem_1'' (w_store w) = Inr r \<and> mem_lane r = CERTIFIED \<and>
    backed plain_host 0 (w_store w) r"
proof -
  obtain rs w where run: "shell desk [Plugins_List, Promote ''mem_1''] early_world = (rs, w)"
    and get: "sqlite_get_memory_record plain_host 0 ''mem_1'' (w_store w) = Inr promoted_record"
    by (rule desk_promotes)
  have "backed plain_host 0 (w_store w) promoted_record"
    using session_keeps_trust [OF early_start run, of 0] get by simp
  then show ?thesis using run get by (intro exI conjI) simp_all
qed

theorem only_promote_certifies_witness:
  "Promote ''mem_1'' \<in> set [Plugins_List, Promote ''mem_1'']"
proof -
  obtain rs w where run: "shell desk [Plugins_List, Promote ''mem_1''] early_world = (rs, w)"
    and get: "sqlite_get_memory_record plain_host 0 ''mem_1'' (w_store w) = Inr promoted_record"
    by (rule desk_promotes)
  have "current_lane (cl_host desk) 0 (w_store w) ''mem_1'' = Some CERTIFIED"
    by (simp add: current_lane_def get)
  moreover have "current_lane (cl_host desk) 0 (w_store early_world) ''mem_1'' \<noteq> Some CERTIFIED"
    using shadow_get [of 0] by (simp add: current_lane_def early_world_def shadow_world_def)
  ultimately show ?thesis by (rule only_promote_certifies [OF early_start run])
qed

section \<open>A file\<close>

lemma desk_file: "read_payloads desk ''log.json'' = Inr [[(''text'', JStr ''hi'')]]"
  by code_simp

definition desk_kernel :: "db kernel" where
  "desk_kernel = open_kernel (cl_engine desk) (cl_host desk)
     (\<lambda>m. litellm_complete (cl_host desk) (cl_litellm desk) (Some m)) 0 None ''strict'' no_plugins"

lemma desk_kernel_parts:
  "k_storage desk_kernel = sqlite_port plain_engine plain_host" "k_host desk_kernel = plain_host"
  by (simp_all add: desk_kernel_def open_kernel_def no_plugins_def)

text \<open>The row of the file goes through on a new store.\<close>

lemma desk_row:
  obtains w' where "observe_payload desk_kernel (Some ''r'') ''note'' [(''text'', JStr ''hi'')] (fresh_world\<lparr>w_tick := 2\<rparr>) = (Inr (), w')"
proof -
  let ?P = "sqlite_port plain_engine plain_host" and ?w = "fresh_world\<lparr>w_tick := 4\<rparr>"
  let ?pl = "[(''text'', JStr ''hi'')]"
  have ok: "sqlite_ok plain_engine plain_host (w_store ?w)"
    by (simp add: fresh_world_def sqlite_ok_empty plain_host_ok plain_engine_ok)
  obtain se w1 where e: "store_event ?P plain_host ''note'' ?pl ''r'' [] ?w = (Inr se, w1)"
    by (rule store_event_succeeds [OF plain_host_ok, of ?pl ?w "''note''" "''r''" "[]" plain_engine])
       (simp_all add: fresh_world_def empty_db_def)
  note law = sqlite.store_event_Inr [OF ok e]
  have ok1: "sqlite_ok plain_engine plain_host (w_store w1)" using law by blast
  have none: "db_revisions (w_store w1) = []"
    using e by (auto simp: store_event_def bind_io_def draw_def writes_def sqlite_port_ops sqlite_append_event_def
        append_event_row_def res_simps fresh_world_def empty_db_def split: sum.splits prod.splits)
  let ?meta = "[(''kind'', JStr ''note''), (''run_id'', JStr ''r''), (''obs_seq'', JInt (se_seq se))]"
  obtain raw where raw: "memory_create plain_host (w_tick w1) RAW (payload_to_claim plain_host ''note'' ?pl)
      [ev_id se] ?meta [] [] [] = Inr raw" "mem_metadata raw = ?meta"
    by (simp add: memory_create_def Let_def digest_json_eq id32_def content_seed_def strs_json_def payload_to_claim_def
        compute_update_id_def mk_memory_def claim_must_not_be_empty_def strip_def is_space_def)
  obtain s2 where s2: "sqlite_upsert_memory_record plain_host (w_tick w1 + 2) raw WRITE [] None (Some (ev_id se)) (w_store w1) =
      (Inr raw, s2)"
    by (rule upsert_succeeds [OF ok1, of raw "w_tick w1 + 2" WRITE "[]" None "Some (ev_id se)"]) (simp_all add: raw none)
  have "observe desk_kernel ''note'' ?pl (Some ''r'') [] True (fresh_world\<lparr>w_tick := 2\<rparr>) = (Inr se, w1\<lparr>w_tick := w_tick w1 + 4, w_store := s2\<rparr>)"
    using e raw(1) s2
    by (simp add: numeral_eq_Suc observe_def desk_kernel_parts actual_run_id_def bind_io_def draw_def or_str_def save_memory_def
        writes_def sqlite_port_ops)
  moreover have "payload_kind plain_host ''note'' ?pl = ''note''" "payload_body ?pl = ?pl" by code_simp+
  ultimately show thesis
    by (intro that) (simp add: observe_payload_def desk_kernel_parts bind_io_def)
qed

lemma desk_count: "nat_text (Suc 0) = ''1''"
  by code_simp

lemma desk_observe:
  obtains w' where "execute desk (Observe ''log.json'' (Some ''r'') ''note'') fresh_world =
    (Inr ([Line ''Observed 1 event(s).''], 0), w')"
proof -
  obtain w' where "observe_payload desk_kernel (Some ''r'') ''note'' [(''text'', JStr ''hi'')] (fresh_world\<lparr>w_tick := 2\<rparr>) = (Inr (), w')"
    by (rule desk_row)
  then show thesis
    unfolding desk_kernel_def
    by (intro that [of w']) (simp add: cli_observe_def cli_kernel_eq bind_io_def draw_def desk_file prints_def fresh_world_def
        desk_count numeral_2_eq_2)
qed

theorem observe_file_appends_witness:
  "\<exists>w e. execute desk (Observe ''log.json'' (Some ''r'') ''note'') fresh_world = (Inr ([Line ''Observed 1 event(s).''], 0), w) \<and>
    sqlite_list_events plain_host 0 None None (w_store w) = Inr [e] \<and>
    ev_kind e = ''note'' \<and> ev_payload e = [(''text'', JStr ''hi'')] \<and> ev_run e = ''r''"
proof -
  let ?c = "Observe ''log.json'' (Some ''r'') ''note''"
  have ok: "sqlite_ok (cl_engine desk) (cl_host desk) (w_store fresh_world)"
    by (simp add: fresh_world_def sqlite_ok_empty plain_host_ok plain_engine_ok)
  have none: "sqlite_list_events plain_host 0 None None (w_store fresh_world) = Inr []"
    using sqlite_list_events_eq [OF ok]
    by (simp add: fresh_world_def sqlite_view_empty empty_store_def select_def first_rows_def)
  have body: "stored_dict (payload_body [(''text'', JStr ''hi'')]) = [(''text'', JStr ''hi'')]"
    "payload_kind plain_host ''note'' [(''text'', JStr ''hi'')] = ''note''"
    by code_simp+
  obtain w where w: "execute desk ?c fresh_world = (Inr ([Line ''Observed 1 event(s).''], 0), w)" by (rule desk_observe)
  obtain es where es: "sqlite_list_events plain_host 0 None None (w_store w) = Inr es"
    "list_all2 (records_row plain_host ''note'' (Some ''r'')) [[(''text'', JStr ''hi'')]] es"
    using observe_file_appends [OF ok w, of 0] by (auto simp: desk_file none)
  then obtain e where "es = [e]" "records_row plain_host ''note'' (Some ''r'') [(''text'', JStr ''hi'')] e"
    by (auto simp: list_all2_Cons1)
  then show ?thesis using w es(1) body by (auto simp: records_row_def)
qed

end
