(* ===== verification/Session_Witness.thy ===== *)
theory Session_Witness
  imports Receiver_Session Use_Witness Command_Witnesses
begin

text \<open>A day of one command and one use, in the small world of the receiver.\<close>

abbreviation lab_day :: "turn list" where
  "lab_day \<equiv> [Shell Plugins_List, Receiver (Use_Op zeros ''b'' ''u'' 3 zeros lab_intent [''rcp_1''] use_cost)]"

lemma plugins_list_desk: "execute desk Plugins_List w = (Inr ([Grid [''group'', ''name'', ''value''] []], 0), w)"
  by (simp add: cli_plugins_list_def list_entry_points_def desk_def no_registry_def prints_def PLUGIN_GROUPS_def)

lemma lab_day_runs:
  "day desk lab_runtime lab_day \<lparr>dk_world = lab_world, dk_rows = lab_rows\<rparr> =
     ([Inr ([Grid [''group'', ''name'', ''value''] []], 0)], \<lparr>dk_world = lab_world, dk_rows = used_rows\<rparr>)"
  by (simp add: on_world_def plugins_list_desk bind_io_def lab_use del: execute.simps)

theorem receiver_beside_kernel_witness:
  "\<exists>rs dk'. day desk lab_runtime lab_day \<lparr>dk_world = lab_world, dk_rows = lab_rows\<rparr> = (rs, dk') \<and>
     shell desk [Plugins_List] lab_world = (rs, dk_world dk') \<and>
     (\<exists>new. dk_rows dk' = lab_rows @ new \<and> new \<noteq> [])"
proof -
  have "used_rows = lab_rows @ map text_row (reserving @ settling)" by (simp add: used_rows_def lab_rows_def)
  then show ?thesis using receiver_beside_kernel [OF lab_day_runs] lab_day_runs
    by (intro exI conjI) (auto simp: reserving_def)
qed

end
