(* ===== verification/Qualified_Exports.thy ===== *)
theory Qualified_Exports
  imports Receiver_Runtime
begin

text \<open>
  What leaves the receiver: the inert CCR task (\<open>ccr_proposal\<close> of \<open>qualified/native.py\<close>), the
  comparison delegated to ALT's planner (\<open>qualified/economics.py\<close>). Neither grants authority to
  execute.
\<close>

section \<open>Assigning into a loaded document\<close>

fun json_put :: "json \<Rightarrow> string \<Rightarrow> json \<Rightarrow> json res" where
  "json_put (JDict d) k v = Inr (JDict (put k v d))"
| "json_put (JList _) k v = Inl (TypeError ''list indices must be integers or slices, not str'')"
| "json_put w k v = Inl (TypeError ([CHR 0x27] @ type_name w @ [CHR 0x27] @
     '' object does not support item assignment''))"

text \<open>\<open>document[k][j] = v\<close>: the inner object is the one inside the document.\<close>

definition json_put2 :: "json \<Rightarrow> string \<Rightarrow> string \<Rightarrow> json \<Rightarrow> json res" where
  "json_put2 d k j v =
     bind_res (json_item d k) (\<lambda>inner. bind_res (json_put inner j v) (json_put d k))"

text \<open>\<open>document[k][0][j] = v\<close>.\<close>

fun put_in_first :: "json \<Rightarrow> string \<Rightarrow> json \<Rightarrow> json res" where
  "put_in_first (JList []) j v = Inl (IndexError ''list index out of range'')"
| "put_in_first (JList (x # xs)) j v = bind_res (json_put x j v) (\<lambda>y. Inr (JList (y # xs)))"
| "put_in_first (JDict _) j v = Inl (KeyError ''0'')"
| "put_in_first (JStr []) j v = Inl (IndexError ''string index out of range'')"
| "put_in_first (JStr (_ # _)) j v = Inl (TypeError ([CHR 0x27] @ ''str'' @ [CHR 0x27] @
     '' object does not support item assignment''))"
| "put_in_first w j v = Inl (TypeError ([CHR 0x27] @ type_name w @ [CHR 0x27] @ '' object is not subscriptable''))"

section \<open>The CCR task\<close>

text \<open>The installed CCR validator: \<open>None\<close> when the document is valid, else the text of the errors.\<close>

type_synonym ccr_validator = "string \<Rightarrow> json \<Rightarrow> string option"

definition ccr_inputs :: "string \<Rightarrow> json" where
  "ccr_inputs d =
     JList [JDict [(''kind'', JStr ''file''), (''ref'', JStr ''oawm-qualification.json''),
       (''required'', JBool True), (''notes'', JStr (''Digest-bound inert sidecar: '' @ d))]]"

definition ccr_task :: "string \<Rightarrow> json \<Rightarrow> json res" where
  "ccr_task d task =
     bind_res (json_put task ''task_id'' (JStr (''oawm-'' @ take 24 d))) (\<lambda>task.
     bind_res (json_put task ''title'' (JStr ''Review receiver-qualified OAWM procedure'')) (\<lambda>task.
     bind_res (json_put task ''objective''
       (JStr ''Revalidate the exact OAWM revision, receiver and source evidence.'')) (\<lambda>task.
     bind_res (json_put task ''inputs'' (ccr_inputs d)) (\<lambda>task.
     bind_res (json_put2 task ''pic_interop'' ''enabled'' (JBool False)) (\<lambda>task.
     bind_res (json_put2 task ''pic_interop'' ''recommended_pic_commands'' (JList [])) (\<lambda>task.
     bind_res (json_item task ''expected_outputs'') (\<lambda>outs.
     bind_res (put_in_first outs ''acceptance_criteria'' (strs_json
       [''Current OAWM revision and receiver evidence independently rechecked.'',
        ''Host admission remains required; no lease or execution is granted.''])) (\<lambda>outs.
     bind_res (json_put task ''expected_outputs'' outs) (\<lambda>task.
     json_put task ''extensions'' (JDict [(''x_oawm_qualification_digest'', JStr d)]))))))))))"

definition partial_status :: "string \<Rightarrow> json" where
  "partial_status missing = JDict [(''status'', JStr ''partial''), (''missing'', strs_json [missing])]"

definition ccr_export :: "qualification \<Rightarrow> json \<Rightarrow> dict" where
  "ccr_export q task =
     [(''native_task'', task), (''host_admission_required'', JBool True),
      (''sidecar'', JDict
        [(''qualification'', JDict (qualification_dump q)),
         (''completion'', JStr (''Recheck current local revision and exact receiver evidence; '' @
            ''obtain host admission before any use.'')),
         (''unmapped_obligations'', strs_json
           [''CCR does not enforce OAWM receiver sidecars'',
            ''current OAWM invalidation snapshot required''])]),
      (''execution_authority'', JNull),
      (''vek'', partial_status ''native capacity registration and source journal''),
      (''cait'', partial_status ''registered source-accounting contract and origin evidence'')]"

definition ccr_proposal :: "host \<Rightarrow> alt \<Rightarrow> ccr_validator \<Rightarrow> qualification \<Rightarrow> dict res" where
  "ccr_proposal H A validate q =
     bind_res (runtime A ''collective-capability-runtime'' ''1.8.0'') (\<lambda>_.
     bind_res (pinned H A ''ccr-task.json'') (\<lambda>template.
     bind_res (digest H (JDict (qualification_dump q))) (\<lambda>d.
     bind_res (ccr_task d template) (\<lambda>task.
     case validate ''task'' task of
       Some errors \<Rightarrow> Inl (ValueError errors)
     | None \<Rightarrow> Inr (ccr_export q task)))))"

section \<open>The comparison\<close>

text \<open>
  The planner of the ALT package: the validation of a contract, which gives back its dump, the
  plans by name and the independent check of one plan.
\<close>

record alt_plan =
  apl_score :: "json option"
  apl_dump :: dict

record alt_planner =
  ap_contract :: "dict \<Rightarrow> dict res"
  ap_compare :: "dict \<Rightarrow> (string \<times> alt_plan) list res"
  ap_check :: "dict \<Rightarrow> alt_plan \<Rightarrow> unit res"

definition cost_row :: "string \<Rightarrow> string \<Rightarrow> string \<Rightarrow> string \<Rightarrow> string \<Rightarrow> json" where
  "cost_row receiver i stage cost_unit amount =
     JDict [(''id'', JStr i), (''stage'', JStr stage), (''unit'', JStr cost_unit), (''amount'', JStr amount),
       (''allocations'', JDict [(receiver, JStr amount)])]"

definition registered_cost :: "string \<Rightarrow> cost \<Rightarrow> json" where
  "registered_cost receiver c =
     cost_row receiver (cst_id c) (if cst_stage c = ''verification'' then ''checking'' else cst_stage c)
       (cst_unit c) (cst_amount c)"

definition execution_cost :: "string \<Rightarrow> string \<times> string \<Rightarrow> json" where
  "execution_cost receiver p = cost_row receiver (fst p) ''execution'' ''work-unit'' (snd p)"

definition plan_option :: "string \<Rightarrow> string \<Rightarrow> json" where
  "plan_option transfer_id name =
     JDict [(''id'', JStr name), (''kind'', JStr name), (''prerequisites'', JList []),
       (''offer'', if name = ''reuse'' then JStr ''qualified'' else JNull),
       (''opportunities'', strs_json [''local-use'']),
       (''costs'', strs_json (name # (if name = ''reuse'' then [transfer_id] else []))),
       (''occupancy'', JList [JDict [(''resource'', JStr ''verifier''), (''slot'', JInt 0), (''quantity'', JInt 1)]]),
       (''start'', JInt 0), (''end'', JInt 1), (''succeeds'', JDict [(''finite'', JBool True)]),
       (''hazard_cleared'', JBool True), (''conflicts'', JList [])]"

definition opportunity :: "qualification \<Rightarrow> string \<Rightarrow> json \<Rightarrow> json \<Rightarrow> json" where
  "opportunity q input_digest quality estimand =
     JDict [(''id'', JStr ''local-use''), (''receiver'', JStr (cx_receiver (qu_context q))),
       (''context'', JStr (cx_context (qu_context q))), (''input_digest'', JStr input_digest),
       (''task_family'', JStr (cx_family (qu_context q))), (''task'', JStr ''normalize-task''),
       (''quality'', quality), (''estimand'', estimand), (''deadline'', JInt 2), (''required'', JBool True),
       (''value'', JDict [(''finite'', JStr ''10'')])]"

definition first_input :: "qualification \<Rightarrow> string res" where
  "first_input q =
     (case cx_inputs (qu_context q) of [] \<Rightarrow> Inl (IndexError ''list index out of range'') | v # _ \<Rightarrow> Inr v)"

definition comparison_contract ::
  "host \<Rightarrow> alt \<Rightarrow> qualification \<Rightarrow> int \<Rightarrow> cost \<Rightarrow> int \<Rightarrow> dict res"
where
  "comparison_contract H A q now transfer_cost limit =
     (let receiver = cx_receiver (qu_context q);
          costs = map (registered_cost receiver) (qu_costs q @ [transfer_cost]) @
            map (execution_cost receiver) [(''scratch'', ''5''), (''reuse'', ''1'')] in
      bind_res (first_input q) (\<lambda>v.
      let input_digest = alt_digest A (JStr v);
          offer = put ''inputs'' (strs_json [input_digest]) (qu_offer q) in
      bind_res (digest H (JDict (qualification_dump q))) (\<lambda>d.
      bind_res (item offer ''valuation'') (\<lambda>valuation.
      bind_res (item offer ''quality'') (\<lambda>quality.
      bind_res (item offer ''estimand'') (\<lambda>estimand.
      Inr
       [(''version'', JStr ''alt_reuse_contract_v1''), (''scope'', JStr (cx_mission (qu_context q))),
        (''study'', JStr (cx_workspace (qu_context q))), (''split'', JStr ''training''),
        (''checkpoint'', JInt now), (''evidence_cutoff'', JInt now), (''initial_revision'', JStr d),
        (''time_origin'', JStr (cx_clock (qu_context q))), (''slot_seconds'', JStr ''1''), (''horizon'', JInt 2),
        (''valuation'', valuation), (''value_unit'', JStr ''work-unit''),
        (''cost_rates'', JDict [(''work-unit'', JStr ''1'')]), (''budgets'', JDict [(''work-unit'', JStr ''1000'')]),
        (''capacities'', JDict [(''verifier'', JInt 1)]), (''scenarios'', strs_json [''finite'']),
        (''opportunities'', JList [opportunity q input_digest quality estimand]),
        (''options'', JList (map (plan_option (cst_id transfer_cost)) [''scratch'', ''reuse''])),
        (''bundles'', JList []),
        (''qualifications'', JList [JDict [(''id'', JStr ''qualified''), (''request'', JDict (qu_formation q)),
           (''candidate'', JDict (qu_candidate q)), (''offer'', JDict offer)]]),
        (''costs'', JList costs), (''sunk_cost_ids'', strs_json (map cst_id (qu_costs q))),
        (''objective'', JStr ''worst-net-value-then-cost''),
        (''joint_model'', JStr ''registered-separable-opportunities''),
        (''expansion_limit'', JInt limit), (''execution_authority'', JNull)]))))))"

definition check_scored :: "alt_planner \<Rightarrow> dict \<Rightarrow> string \<times> alt_plan \<Rightarrow> unit res" where
  "check_scored B contract p =
     (case apl_score (snd p) of None \<Rightarrow> Inr () | Some _ \<Rightarrow> ap_check B contract (snd p))"

definition compare ::
  "host \<Rightarrow> alt \<Rightarrow> alt_planner \<Rightarrow> string \<Rightarrow> qualification \<Rightarrow> int \<Rightarrow> string \<Rightarrow> int \<Rightarrow> dict res"
where
  "compare H A B implementation q now transfer limit =
     bind_res (reconstruct H A implementation q now) (\<lambda>_.
     bind_res (cost_of_dict [(''id'', JStr ''model-transfer''), (''stage'', JStr ''transfer''),
       (''amount'', JStr transfer)]) (\<lambda>transfer_cost.
     bind_res (alt_runtime A) (\<lambda>_.
     bind_res (comparison_contract H A q now transfer_cost limit) (\<lambda>document.
     bind_res (ap_contract B document) (\<lambda>contract.
     bind_res (ap_compare B contract) (\<lambda>plans.
     bind_res (all_res (check_scored B contract) plans) (\<lambda>_.
     Inr [(''contract'', JDict contract),
       (''plans'', JDict (map (\<lambda>(k, p). (k, JDict (apl_dump p))) plans)),
       (''technical_eligibility'', JBool True),
       (''economic_basis'', JStr ''declared finite cost model''),
       (''empirical_benefit'', JNull), (''execution_authority'', JNull)])))))))"

end
