(* ===== verification/Qualified_Commands.thy ===== *)
theory Qualified_Commands
  imports Qualified_Exports
begin

text \<open>
  Opening the journal file (\<open>Store\<close> of \<open>qualified/store.py\<close>), the commands of
  \<open>qualified/cli.py\<close> and the kernel's opt-in entry point \<open>run_qualified\<close>.
\<close>

section \<open>The journal file\<close>

text \<open>
  \<open>Store\<close>: whether the file exists, the bytes of its write-ahead log (0 when there is none) and the
  rows of the journal table, if the table has been created.
\<close>

record store_file =
  sf_exists :: bool
  sf_wal :: nat
  sf_rows :: "journal_rows option"

definition store_initialize :: "store_file \<Rightarrow> store_file res" where
  "store_initialize f =
     (if \<not> sf_exists f then Inl (ValueError ''initialize legacy OAWM first'')
      else Inr (f\<lparr>sf_rows := Some (case sf_rows f of None \<Rightarrow> [] | Some rows \<Rightarrow> rows)\<rparr>))"

definition store_readonly :: "(journal_rows \<Rightarrow> 'a res) \<Rightarrow> store_file \<Rightarrow> 'a res" where
  "store_readonly body f =
     (if \<not> sf_exists f then Inl (ValueError ''state does not exist'')
      else if sf_wal f \<noteq> 0
      then Inl (ValueError ''active WAL: use a transaction snapshot or checkpoint before read-only inspection'')
      else case sf_rows f of
        None \<Rightarrow> Inl (OSError ''no such table: receiver_events'')
      | Some rows \<Rightarrow> body rows)"

text \<open>The dictionary that \<open>replay\<close> returns.\<close>

definition replayed_dict :: "replayed \<Rightarrow> dict" where
  "replayed_dict r =
     (let j = rp_state r; dicts = (\<lambda>d. JDict (map (\<lambda>(k, v). (k, JDict v)) d)) in
      [(''qualifications'', dicts (jn_qualifications j)), (''costs'', dicts (jn_costs j)),
       (''blocks'', JList (map JDict (jn_blocks j))), (''withdrawn'', JList (map JDict (jn_withdrawn j))),
       (''intents'', dicts (jn_intents j)), (''attempts'', str_map_json (jn_attempts j)),
       (''outcomes'', dicts (jn_outcomes j)),
       (''checked'', JDict (map (\<lambda>(k, b). (k, JBool b)) (jn_checked j))),
       (''services'', strs_json (jn_services j)), (''exposures'', JList (map JDict (jn_exposures j))),
       (''allegations'', JList (map JDict (jn_allegations j))), (''revision'', JStr (rp_revision r)),
       (''unresolved'', strs_json (rp_unresolved r))])"

definition inspect_file :: "host \<Rightarrow> string \<Rightarrow> store_file \<Rightarrow> dict res" where
  "inspect_file H implementation f =
     bind_res (store_readonly (store_inspect H implementation) f) (\<lambda>r. Inr (replayed_dict r))"

section \<open>Commands\<close>

text \<open>
  Every command prints one document, whose keys are sorted at every depth; the state and the files
  it reads are arguments, and no command writes.
\<close>

definition printed_document :: "json \<Rightarrow> json res" where
  "printed_document v = Inr (sort_keys v)"

definition read_qualification :: "string \<Rightarrow> qualification res" where
  "read_qualification text =
     bind_res (wire_loads text) (\<lambda>v.
     case v of
       JDict d \<Rightarrow> qualification_of_dict d
     | _ \<Rightarrow> Inl (ValidationError ''Input should be a valid dictionary or instance of Qualification''))"

definition command_inspect :: "host \<Rightarrow> string \<Rightarrow> store_file \<Rightarrow> json res" where
  "command_inspect H implementation f =
     bind_res (inspect_file H implementation f) (\<lambda>d. printed_document (JDict d))"

definition command_check :: "host \<Rightarrow> alt \<Rightarrow> string \<Rightarrow> string \<Rightarrow> int \<Rightarrow> json res" where
  "command_check H A implementation text now =
     bind_res (read_qualification text) (\<lambda>q.
     bind_res (reconstruct H A implementation q now) (\<lambda>_.
     printed_document (JDict [(''structural_qualification'', JStr ''checked''), (''local_admission'', JNull),
       (''execution_authority'', JNull)])))"

definition command_export :: "host \<Rightarrow> alt \<Rightarrow> ccr_validator \<Rightarrow> string \<Rightarrow> json res" where
  "command_export H A validate text =
     bind_res (read_qualification text) (\<lambda>q.
     bind_res (ccr_proposal H A validate q) (\<lambda>d. printed_document (JDict d)))"

text \<open>\<open>listing\<close> gives the names in a directory of the installed package.\<close>

definition command_resources :: "(string \<Rightarrow> string list) \<Rightarrow> json res" where
  "command_resources listing =
     printed_document (JDict (map (\<lambda>name. (name, strs_json (sort (listing name)))) [''schemas'', ''migrations'']))"

definition context_of_json :: "json \<Rightarrow> receiver_context res" where
  "context_of_json v =
     (case v of
        JDict d \<Rightarrow> context_of_dict d
      | _ \<Rightarrow> Inl (ValidationError ''Input should be a valid dictionary or instance of Context''))"

definition retrieval_dict :: "retrieval \<Rightarrow> dict" where
  "retrieval_dict r =
     [(''views'', JList (map (\<lambda>v. JDict (view_dict v)) (rt_views r))),
      (''excluded'', JList (map (\<lambda>v. JDict (view_dict v)) (rt_excluded r))),
      (''search_completeness'', JStr ''complete-within-256-event-store''),
      (''snapshot'', JStr (rt_snapshot r)), (''execution_authority'', JNull)]"

definition command_retrieve ::
  "host \<Rightarrow> alt \<Rightarrow> string \<Rightarrow> nat \<Rightarrow> db \<Rightarrow> store_file \<Rightarrow> string \<Rightarrow> string \<Rightarrow> string \<Rightarrow> int \<Rightarrow> json res"
where
  "command_retrieve H A implementation n s f policy receiver input_text now =
     bind_res (wire_loads policy) (\<lambda>listed.
     bind_res (bind_res (py_list listed) (map_res context_of_json)) (\<lambda>profiles.
     bind_res (receiver_runtime_new H A implementation None profiles) (\<lambda>R.
     bind_res (store_readonly (retrieve_inner R receiver input_text now [] 8 n s) f) (\<lambda>r.
     printed_document (JDict (retrieval_dict r))))))"

section \<open>The kernel's entry point\<close>

text \<open>\<open>own\<close> says whether the runtime was built over this very kernel object.\<close>

definition run_qualified ::
  "bool \<Rightarrow> receiver_runtime \<Rightarrow> string \<Rightarrow> string \<Rightarrow> string \<Rightarrow> int \<Rightarrow> (desk, llm_result) io"
where
  "run_qualified own R task receiver input_text now =
     (if \<not> own then throw (FailClosedError ''receiver runtime belongs to another kernel'')
      else receiver_run R task receiver input_text now)"

section \<open>No command grants authority\<close>

definition grants_nothing :: "json \<Rightarrow> bool" where
  "grants_nothing v \<longleftrightarrow>
     (case v of JDict d \<Rightarrow> map_of d ''execution_authority'' \<in> {None, Some JNull} | _ \<Rightarrow> True)"

lemma sorted_authority:
  "distinct (map fst d) \<Longrightarrow> map_of d ''execution_authority'' \<in> {None, Some JNull} \<Longrightarrow>
   grants_nothing (sort_keys (JDict d))"
  unfolding grants_nothing_def sort_keys.simps json.case map_of_sort_keys by auto

lemma export_grants_nothing:
  "command_export H A validate text = Inr v \<Longrightarrow> grants_nothing v"
  by (auto simp: command_export_def ccr_proposal_def ccr_export_def printed_document_def res_simps
      simp del: sort_keys.simps split: option.splits intro!: sorted_authority)

lemma retrieve_grants_nothing:
  "command_retrieve H A implementation n s f policy receiver input_text now = Inr v \<Longrightarrow> grants_nothing v"
  by (auto simp: command_retrieve_def retrieval_dict_def printed_document_def res_simps
      simp del: sort_keys.simps intro!: sorted_authority)

end
