(* ===== verification/Storage_Contract.thy ===== *)
theory Storage_Contract
  imports Sqlite_Success Kernel_Open
begin

text \<open>
  The contract checks for plugin authors (\<open>testing/contracts.py\<close>) and what they
  accept. \<open>assert\<close> raises an \<open>AssertionError\<close> without a message.
\<close>

section \<open>The checks\<close>

definition assert_that :: "bool \<Rightarrow> unit res" where
  "assert_that b = ensure b (AssertionError [])"

definition assert_llm_provider_contract :: "llm_provider \<Rightarrow> unit res" where
  "assert_llm_provider_contract provider =
     bind_res (provider [\<lparr>msg_role = ''user'', msg_content = ''contract check''\<rparr>] None None) (\<lambda>outcome.
     assert_that (llm_content outcome \<noteq> []))"

text \<open>\<open>n\<close> is the draw of the record and \<open>k\<close> the one of the check.\<close>

definition assert_checker_contract :: "host \<Rightarrow> nat \<Rightarrow> nat \<Rightarrow> checker \<Rightarrow> unit res" where
  "assert_checker_contract H n k checker =
     (let event_id = ''evt_contract'' in
      bind_res (memory_create H n CANDIDATE ''contract-check candidate'' [event_id] [] [] [] []) (\<lambda>candidate.
      bind_res (content_digest H candidate) (\<lambda>d.
      bind_res (checker k candidate
        [(''input_event_ids'', strs_json [event_id]), (''candidate_digest'', JStr d)]
        \<lparr>ctx_intent = NoIntent, ctx_values = []\<rparr>) (\<lambda>outcome.
      assert_that (chk_name outcome \<noteq> [])))))"

definition first_event_is :: "string \<Rightarrow> stored_event list \<Rightarrow> unit res" where
  "first_event_is i es =
     (case es of [] \<Rightarrow> Inl (IndexError ''list index out of range'') | e # _ \<Rightarrow> assert_that (ev_id e = i))"

definition contract_reads ::
  "'s storage_port \<Rightarrow> stored_event \<Rightarrow> memory \<Rightarrow> manifest \<Rightarrow> ('s world, unit) io"
where
  "contract_reads P stored record m =
     bind_io (load_memory P (mem_id record)) (\<lambda>r.
     bind_io (lift (assert_that (mem_id r = mem_id record))) (\<lambda>_.
     bind_io (reads (\<lambda>n. list_events P n (Some ''contract'') None)) (\<lambda>es.
     bind_io (lift (first_event_is (ev_id stored) es)) (\<lambda>_.
     bind_io (reads (\<lambda>n. get_evidence_manifest P n (evm_id m))) (\<lambda>found.
     bind_io (lift (assert_that (evm_candidate found = mem_id record))) (\<lambda>_.
     bind_io (reads (\<lambda>n. list_memory_revisions P n (Some (mem_id record)))) (\<lambda>vs.
     lift (assert_that (vs \<noteq> [])))))))))"

definition assert_storage_backend_contract ::
  "('s world, unit) io \<Rightarrow> 's storage_port \<Rightarrow> host \<Rightarrow> ('s world, unit) io"
where
  "assert_storage_backend_contract initialize P H =
     bind_io initialize (\<lambda>_.
     bind_io (store_event P H ''contract'' [(''text'', JStr ''storage'')] ''contract'' []) (\<lambda>stored.
     bind_io draw (\<lambda>n.
     bind_io (lift (memory_create H n RAW ''contract storage memory'' [ev_id stored] [] [] [] [])) (\<lambda>record.
     bind_io (save_memory P record WRITE [] None None) (\<lambda>_.
     bind_io draw (\<lambda>k.
     bind_io (lift (manifest_create H k record [ev_id stored] [] [] [])) (\<lambda>m.
     bind_io (writes (\<lambda>_. create_evidence_manifest P m)) (\<lambda>_.
     contract_reads P stored record m))))))))"

section \<open>The default parts\<close>

lemma mock_provider_contract: "assert_llm_provider_contract (mock_complete ''mock'') = Inr ()"
  by (simp add: assert_llm_provider_contract_def mock_complete_def assert_that_def)

section \<open>Any backend that keeps the storage contract\<close>

context storage_backend
begin

lemma contract_reads_outcome:
  assumes ok: "ok (w_store w)"
    and r: "st_memory (view (w_store w)) (mem_id record) = Some r"
    and m: "find_manifest (evm_id m) (view (w_store w)) = Some found" "evm_candidate found = mem_id record"
    and vs: "select rev_memory (Some (mem_id record)) (st_revisions (view (w_store w))) \<noteq> []"
    and es: "select ev_run (Some ''contract'') (st_events (view (w_store w))) = e # es"
  shows "contract_reads P stored record m w =
    (if ev_id e = ev_id stored then Inr () else Inl (AssertionError []), w)"
proof -
  have "mem_id r = mem_id record" using memory_wf [OF ok r] by blast
  then show ?thesis
    using r m vs es
    by (simp add: contract_reads_def bind_io_def load_memory_def reads_def get_memory_eq [OF ok]
        list_events_eq [OF ok] get_manifest_eq [OF ok] list_revisions_eq [OF ok] assert_that_def
        first_event_is_def first_rows_def)
qed

text \<open>
  Once the writes of the check have gone through, its outcome depends on the earlier events of
  the run \<open>contract\<close> alone.
\<close>

lemma contract_outcome:
  assumes ok: "ok s"
    and e: "append_event P n e s = (Inr se, s1)" "ev_run e = ''contract''"
    and r: "claim_ok record"
      "upsert_memory_record P k record WRITE [] None None s1 = (Inr r', s2)"
    and m: "evm_candidate m = mem_id record" "create_evidence_manifest P m s2 = (Inr m', s3)"
  shows "contract_reads P se record m \<lparr>w_tick = t, w_store = s3\<rparr> =
    (if select ev_run (Some ''contract'') (st_events (view s)) = [] then Inr () else Inl (AssertionError []),
     \<lparr>w_tick = t, w_store = s3\<rparr>)"
proof -
  let ?w = "\<lparr>w_tick = t, w_store = s3\<rparr>" and ?old = "select ev_run (Some ''contract'') (st_events (view s))"
  note a = append_ok [OF ok e(1)]
  have ok1: "ok s1" and old: "find_event (ev_id e) (view s) = None"
    and se: "ev_id se = ev_id e" "ev_run se = ''contract''"
    and s1: "view s1 = (view s)\<lparr>st_events := st_events (view s) @ [event_canon se]\<rparr>"
    using a e(2) by (auto simp: stored_event_of_fields dest: arg_cong [where f = ev_id] arg_cong [where f = ev_run])
  from upsert_ok [OF ok1 r] obtain v where ok2: "ok s2" and v: "rev_memory v = mem_id record"
    and s2: "view s2 = (view s1)\<lparr>st_memory := (st_memory (view s1))(mem_id record \<mapsto> memory_canon record),
      st_revisions := st_revisions (view s1) @ [v]\<rparr>"
    by (auto simp: revises_def)
  note c = create_manifest_ok [OF ok2 m(2)]
  have ok3: "ok s3" and s3: "view s3 = (view s2)\<lparr>st_manifests := st_manifests (view s2) @ [manifest_canon m]\<rparr>"
    using c by blast+
  have mem: "st_memory (view s3) (mem_id record) = Some (memory_canon record)"
    by (simp add: s3 s2)
  have man: "find_manifest (evm_id m) (view s3) = Some (manifest_canon m)"
    by (simp add: find_manifest_def s3)
  have rev: "select rev_memory (Some (mem_id record)) (st_revisions (view s3)) \<noteq> []"
    by (simp add: s3 s2 select_def v)
  have ev: "select ev_run (Some ''contract'') (st_events (view s3)) = ?old @ [event_canon se]"
    by (simp add: s3 s2 s1 select_def se)
  show ?thesis
  proof (cases ?old)
    case Nil
    then show ?thesis
      using contract_reads_outcome [of ?w "record" "memory_canon record" m "manifest_canon m" "event_canon se" "[]"]
        ok3 mem man rev ev m(1) by simp
  next
    case (Cons e0 es)
    then have "e0 \<in> set ?old" by simp
    then have "e0 \<in> set (st_events (view s))" unfolding set_select by simp
    then have "ev_id e0 \<noteq> ev_id se" using old se by (auto simp: find_event_def find_None_iff)
    then show ?thesis
      using contract_reads_outcome [of ?w "record" "memory_canon record" m "manifest_canon m" e0 "es @ [event_canon se]"]
        ok3 mem man rev ev m(1) Cons by simp
  qed
qed

end

section \<open>The SQLite adapter\<close>

lemma contract_record_created:
  obtains r where "memory_create H n RAW ''contract storage memory'' [i] [] [] [] [] = Inr r"
    "claim_ok r" "mem_metadata r = []"
proof -
  obtain r where r: "memory_create H n RAW ''contract storage memory'' [i] [] [] [] [] = Inr r"
    by (simp add: memory_create_def Let_def digest_json_eq id32_def content_seed_def strs_json_def
        compute_update_id_def mk_memory_def claim_must_not_be_empty_def strip_def is_space_def)
  moreover from r have "claim_ok r" by (auto dest!: memory_create_Inr)
  moreover from r have "mem_metadata r = []"
    by (auto simp: memory_create_def Let_def res_simps mk_memory_def)
  ultimately show thesis by (rule that)
qed

lemma contract_manifest_created:
  assumes "mem_metadata r = []"
  obtains m where "manifest_create H n r [i] [] [] [] = Inr m" "evm_candidate m = mem_id r"
proof -
  obtain d where d: "content_digest H r = Inr d"
    using finite_content [of r H] assms by auto
  have caps: "ints_value H (JDict []) = Inr []"
    using ints_value_ints_json [of H "[]"] by (simp add: ints_json_def)
  obtain m where m: "manifest_create H n r [i] [] [] [] = Inr m"
    by (simp add: manifest_create_def Let_def d digest_json_eq id32_def replay_seed_def manifest_seed_def
        strs_json_def str_map_json_def caps)
  moreover from m have "evm_candidate m = mem_id r"
    by (auto simp: manifest_create_def Let_def res_simps)
  ultimately show thesis by (rule that)
qed

lemma create_manifest_succeeds:
  obtains s' where "sqlite_create_evidence_manifest H m s = (Inr m, s')"
proof -
  obtain raw where "canonical_json H (JDict (manifest_dump H m)) = Inr raw"
    using finite_dumps(4) [of H m] by (simp add: canonical_json_eq del: finite_json.simps(3))
  then show thesis
    by (intro that) (simp add: sqlite_create_evidence_manifest_def create_manifest_rows_def)
qed

lemma world_eq: "w\<lparr>w_tick := t, w_store := s\<rparr> = \<lparr>w_tick = t, w_store = s\<rparr>"
  by (cases w) simp

text \<open>
  C39: the storage contract check on the SQLite adapter. Let the identifier of the one event the
  check creates and that of the one revision it adds be unused in the file. Then every write of the
  check succeeds, and it returns exactly when the store holds no earlier event of the run
  \<open>contract\<close>; when it holds one, on a file the check has been run on before for instance, it
  raises an \<open>AssertionError\<close>, because the first event of that run is then the older one.
\<close>

theorem storage_contract_exact:
  assumes ok: "sqlite_ok E H (w_store w)"
    and ev: "\<forall>e. event_create H (w_tick w) ''contract'' [(''text'', JStr ''storage'')] ''contract'' [] = Inr e \<longrightarrow>
      ev_id e \<notin> er_id ` set (db_events (w_store w))"
    and rv: "\<forall>e r v. event_create H (w_tick w) ''contract'' [(''text'', JStr ''storage'')] ''contract'' [] = Inr e \<longrightarrow>
      memory_create H (w_tick w + 4) RAW ''contract storage memory'' [ev_id e] [] [] [] [] = Inr r \<longrightarrow>
      revision_create H (w_tick w + 6) r WRITE
        (map_option mem_lane (st_memory (sqlite_view H (w_store w)) (mem_id r))) [] None None = Inr v \<longrightarrow>
      rev_id v \<notin> vr_id ` set (db_revisions (w_store w))"
  shows "\<exists>w'. assert_storage_backend_contract (ret ()) (sqlite_port E H) H w =
    (if ''contract'' \<in> ev_run ` set (st_events (sqlite_view H (w_store w))) then Inl (AssertionError [])
     else Inr (), w')"
proof -
  let ?P = "sqlite_port E H" and ?s = "w_store w"
  note H = sqlite_ok_host [OF ok]
  obtain e where e: "event_create H (w_tick w) ''contract'' [(''text'', JStr ''storage'')] ''contract'' [] = Inr e"
    by (simp add: event_create_def Let_def digest_json_eq id32_def strs_json_def)
  have fields: "digest_json H (JDict (ev_payload e)) = Inr (ev_digest e)" "ev_run e = ''contract''"
    using e by (auto simp: event_create_def Let_def res_simps)
  obtain se s1 where s1: "sqlite_append_event H (w_tick w + 2) e ?s = (Inr se, s1)"
    using sqlite_append_succeeds [OF H fields(1)] ev e by blast
  have ok1: "sqlite_ok E H s1" using sqlite_append_ok [OF ok s1] by blast
  have revs: "db_revisions s1 = db_revisions ?s"
    using s1 by (auto simp: sqlite_append_event_def append_event_row_def res_simps split: sum.splits)
  have mems: "st_memory (sqlite_view H s1) = st_memory (sqlite_view H ?s)" and id: "ev_id se = ev_id e"
    using sqlite_append_ok [OF ok s1] by (auto simp: stored_event_of_fields dest: arg_cong [where f = ev_id])
  obtain r where r: "memory_create H (w_tick w + 4) RAW ''contract storage memory'' [ev_id se] [] [] [] [] = Inr r"
    "claim_ok r" "mem_metadata r = []" by (rule contract_record_created)
  have fin: "finite_json (JDict (mem_metadata r))" by (simp add: r(3))
  have rcp: "mem_receipt r = None" using r(1) by (auto simp: memory_create_def Let_def res_simps mk_memory_def)
  obtain s2 where s2: "sqlite_upsert_memory_record H (w_tick w + 6) r WRITE [] None None s1 = (Inr r, s2)"
    by (rule upsert_succeeds [OF ok1 fin, of "w_tick w + 6" WRITE "[]" None None])
       (use rv e r(1) id mems revs rcp in \<open>auto simp: or_opt_def\<close>)
  obtain m where m: "manifest_create H (w_tick w + 8) r [ev_id se] [] [] [] = Inr m" "evm_candidate m = mem_id r"
    by (rule contract_manifest_created [OF r(3)])
  obtain s3 where s3: "sqlite_create_evidence_manifest H m s2 = (Inr m, s3)"
    by (rule create_manifest_succeeds)
  have "assert_storage_backend_contract (ret ()) ?P H w =
      contract_reads ?P se r m \<lparr>w_tick = w_tick w + 12, w_store = s3\<rparr>"
    using e s1 r(1) s2 m(1) s3
    by (simp add: assert_storage_backend_contract_def bind_io_def store_event_def draw_def writes_def
        save_memory_def sqlite_port_ops numeral_eq_Suc world_eq)
  also have "\<dots> = (if select ev_run (Some ''contract'') (st_events (sqlite_view H ?s)) = []
      then Inr () else Inl (AssertionError []), \<lparr>w_tick = w_tick w + 12, w_store = s3\<rparr>)"
    using s1 s2 s3 fields(2) r(2) m(2)
    by (intro sqlite.contract_outcome [OF ok]) (simp_all add: sqlite_port_ops)
  also have "\<dots> = (if ''contract'' \<in> ev_run ` set (st_events (sqlite_view H ?s))
      then Inl (AssertionError []) else Inr (), \<lparr>w_tick = w_tick w + 12, w_store = s3\<rparr>)"
    by (auto simp: select_def filter_empty_conv image_iff) (metis (mono_tags))
  finally show ?thesis by (rule exI)
qed

text \<open>A file with one event of the run \<open>contract\<close>, and the check on the new and on that file.\<close>

definition older_event :: event where
  "older_event =
     \<lparr>ev_schema = SCHEMA_VERSION, ev_id = ''older'', ev_nonce = ''n'', ev_run = ''contract'', ev_agent = ''default'',
      ev_kind = ''contract'', ev_payload = [], ev_digest = ''{}'', ev_parents = [], ev_created = 0\<rparr>"

lemma older_store:
  obtains s where "sqlite_ok plain_engine plain_host s" "''contract'' \<in> ev_run ` set (st_events (sqlite_view plain_host s))"
    "er_id ` set (db_events s) = {''older''}" "db_revisions s = []"
proof -
  have ok: "sqlite_ok plain_engine plain_host empty_db" by (simp add: sqlite_ok_empty plain_host_ok plain_engine_ok)
  have "digest_json plain_host (JDict (ev_payload older_event)) = Inr (ev_digest older_event)" by code_simp
  then obtain se s where s: "sqlite_append_event plain_host 0 older_event empty_db = (Inr se, s)"
    using sqlite_append_succeeds [OF plain_host_ok, of older_event empty_db 0] by (auto simp: empty_db_def)
  note law = sqlite_append_ok [OF ok s]
  have "ev_run se = ''contract''"
    using law by (auto simp: stored_event_of_fields older_event_def dest: arg_cong [where f = ev_run])
  then have "ev_run (event_canon se) = ''contract''" by simp
  moreover have "event_canon se \<in> set (st_events (sqlite_view plain_host s))" using law by auto
  ultimately have "''contract'' \<in> ev_run ` set (st_events (sqlite_view plain_host s))" by (metis imageI)
  moreover have "er_id ` set (db_events s) = {''older''}" "db_revisions s = []"
    using s by (auto simp: sqlite_append_event_def append_event_row_def res_simps older_event_def empty_db_def split: sum.splits)
  ultimately show thesis using law by (intro that) auto
qed

theorem storage_contract_exact_witness:
  "(\<exists>w'. assert_storage_backend_contract (ret ()) (sqlite_port plain_engine plain_host) plain_host fresh_world =
      (Inr (), w')) \<and>
   (\<exists>w w'. assert_storage_backend_contract (ret ()) (sqlite_port plain_engine plain_host) plain_host w =
      (Inl (AssertionError []), w'))"
proof -
  obtain s where s: "sqlite_ok plain_engine plain_host s" "''contract'' \<in> ev_run ` set (st_events (sqlite_view plain_host s))"
    "er_id ` set (db_events s) = {''older''}" "db_revisions s = []" by (rule older_store)
  have id: "ev_id e \<noteq> ''older''" if "event_create plain_host n k p r ps = Inr e" for n k p r ps e
    using that by (auto simp: event_create_def Let_def res_simps id32_def)
  have "\<exists>w'. assert_storage_backend_contract (ret ()) (sqlite_port plain_engine plain_host) plain_host \<lparr>w_tick = 0, w_store = s\<rparr> =
      (Inl (AssertionError []), w')"
    using storage_contract_exact [of plain_engine plain_host "\<lparr>w_tick = 0, w_store = s\<rparr>"] s id by simp
  moreover have "\<exists>w'. assert_storage_backend_contract (ret ()) (sqlite_port plain_engine plain_host) plain_host fresh_world =
      (Inr (), w')"
    using storage_contract_exact [of plain_engine plain_host fresh_world]
      sqlite_ok_empty [OF plain_host_ok plain_engine_ok]
    by (simp add: fresh_world_def empty_db_def sqlite_view_def)
  ultimately show ?thesis by blast
qed

end
