(* ===== verification/Demonstration.thy ===== *)
theory Demonstration
  imports Qualified_Commands Receiver_Use Storage_Contract Plugin_Loading
begin

text \<open>
  The receiver's demonstration (\<open>qualified/example.py\<close>), which composes every part: observe,
  propose, verify, promote, qualify, admit, use, fail a use, refresh, hand off and withdraw. The
  files that the tools write are read back at once, so a tool is the function of its arguments;
  the model opens no socket.
\<close>

section \<open>Tools, context and sources\<close>

text \<open>The keyword arguments of the demonstration's tools have a \<open>text\<close>.\<close>

definition text_tool :: "(string \<Rightarrow> string res) \<Rightarrow> tool_fn" where
  "text_tool f arguments _ =
     (case map_of arguments ''text'' of
        None \<Rightarrow> Inl (''KeyError'', repr_str ''text'')
      | Some (JStr t) \<Rightarrow>
          (case f t of
             Inr v \<Rightarrow> Inr [(''text'', JStr v)]
           | Inl e \<Rightarrow> Inl (''ValueError'', error_text e))
      | Some _ \<Rightarrow> Inl (''ValueError'', ''bounded text required''))"

definition demo_normalize :: tool_fn where
  "demo_normalize = text_tool normalize"

definition faulty_tool :: tool_fn where
  "faulty_tool = text_tool (\<lambda>t. Inr (t @ [CHR 0x0A] @ ''wrong''))"

definition demo_input :: string where
  "demo_input = ''b'' @ [CHR 0x0A] @ ''a'' @ [CHR 0x0A] @ ''b''"

definition demo_context :: "string \<Rightarrow> string \<Rightarrow> receiver_context res" where
  "demo_context implementation receiver =
     context_of_dict
       [(''workspace'', JStr ''synthetic-study''), (''receiver'', JStr receiver),
        (''mission'', JStr ''normalize-mission''), (''task_family'', JStr ''normalize-text''),
        (''context'', JStr ''local-context''), (''inputs'', strs_json [demo_input]),
        (''clock'', JStr ''host-tick''), (''dependencies'', strs_json [implementation]),
        (''checks'', strs_json [''normalize-checker-v1'']), (''expose'', JBool True)]"

definition demo_cost :: "string \<Rightarrow> string \<Rightarrow> cost res" where
  "demo_cost i stage = cost_of_dict [(''id'', JStr i), (''stage'', JStr stage), (''amount'', JStr ''1'')]"

text \<open>The dump of an \<open>Operation\<close>.\<close>

definition operation_dump :: "operation \<Rightarrow> dict" where
  "operation_dump p =
     [(''version'', JStr ''oawm_normalize_v1''), (''tool'', JStr ''normalize-lines-v1''),
      (''implementation'', JStr (op_implementation p)), (''input'', JStr (op_input p)),
      (''output'', JStr (op_output p)), (''receiver'', JStr (op_receiver p)),
      (''context_digest'', JStr (op_context p)), (''time'', JInt (int (op_time p))),
      (''split'', JStr (op_split p)), (''complete'', JBool (op_complete p)),
      (''outcome'', JStr (op_outcome p)), (''cost'', JDict (cost_dump (op_cost p)))]"

definition demo_operation ::
  "host \<Rightarrow> string \<Rightarrow> receiver_context \<Rightarrow> string \<Rightarrow> nat \<Rightarrow> string \<Rightarrow> string \<Rightarrow> operation res"
where
  "demo_operation H implementation ctx text time split identity =
     bind_res (normalize text) (\<lambda>out.
     bind_res (digest H (JDict (context_dump ctx))) (\<lambda>cx.
     bind_res (demo_cost identity (if split = ''training'' then ''formation'' else ''verification'')) (\<lambda>c.
     operation_of_dict
       [(''implementation'', JStr implementation), (''input'', JStr text), (''output'', JStr out),
        (''receiver'', JStr (cx_receiver ctx)), (''context_digest'', JStr cx), (''time'', JInt (int time)),
        (''split'', JStr split), (''outcome'', JStr ''success''), (''cost'', JDict (cost_dump c))])))"

definition demo_observe ::
  "string \<Rightarrow> db kernel \<Rightarrow> receiver_context \<Rightarrow> string \<Rightarrow> nat \<Rightarrow> string \<Rightarrow> string \<Rightarrow> (db world, source) io"
where
  "demo_observe implementation K ctx text time split identity =
     (let H = k_host K in
      bind_io (lift (demo_operation H implementation ctx text time split identity)) (\<lambda>p.
      bind_io (lift (encoded H (JDict (operation_dump p)))) (\<lambda>raw.
      bind_io (observe K ''registered_operation'' [(''raw'', JStr raw)]
        (Some (if split = ''training'' then ''training'' else identity)) [] False) (\<lambda>e.
      bind_io (lift (digest_json H (JDict (operation_dump p)))) (\<lambda>d.
      lift (source_of_dict [(''event_id'', JStr (ev_id e)), (''producer_digest'', JStr d),
        (''raw'', JStr raw), (''sha256'', JStr (sha H raw))]))))))"

text \<open>\<open>propose(...)\<close> as the demonstration calls it: a failed attempt is an exception.\<close>

definition proposed_res :: "proposed \<Rightarrow> qualification res" where
  "proposed_res p =
     (case p of
        Proposed q \<Rightarrow> Inr q
      | AttemptError reason _ _ \<Rightarrow> Inl (ValueError reason)
      | Raised e \<Rightarrow> Inl e)"

section \<open>Setting up\<close>

text \<open>The run starts on an empty file, in which \<open>initialize\<close> creates the journal table with no rows.\<close>

definition demo_tools :: "string \<Rightarrow> tool_fn \<Rightarrow> host \<Rightarrow> nat \<Rightarrow> tool_adapter" where
  "demo_tools nm fn H n = local_adapter (register_tool nm fn (local_tools_new H n))"

record demo =
  dm_kernel :: "db kernel"
  dm_receiver :: receiver_runtime
  dm_qualification :: qualification
  dm_intent :: intent
  dm_receipts :: "string list"

definition current_revision :: "receiver_runtime \<Rightarrow> (desk, string) io" where
  "current_revision R dk =
     (bind_res (store_inspect (rr_host R) (rr_implementation R) (dk_rows dk)) (\<lambda>r. Inr (rp_revision r)), dk)"

definition context_input :: "receiver_context \<Rightarrow> string res" where
  "context_input ctx =
     (case cx_inputs ctx of [] \<Rightarrow> Inl (IndexError ''list index out of range'') | v # _ \<Rightarrow> Inr v)"

definition demo_memory ::
  "db kernel \<Rightarrow> receiver_context \<Rightarrow> (db world, memory \<times> intent \<times> string list) io"
where
  "demo_memory K ctx =
     bind_io (propose_memory K ''training'' ''session'' (Some [''normalize-lines-v1''])
       (Some [(''max_steps'', 4)]) None) (\<lambda>m.
     bind_io (lift (context_input ctx)) (\<lambda>v.
     bind_io (lift (intent_create (k_host K) ''normalize-lines-v1'' ''local-external'' [(''text'', JStr v)]
       None None [(''max_steps'', 4)])) (\<lambda>a.
     bind_io (verify K (mem_id m) (Some a)) (\<lambda>rcp.
     bind_io (lift (ensure (rcp_result rcp = Passed) (ValueError ''legacy promotion failed''))) (\<lambda>_.
     bind_io (promote K (mem_id m)) (\<lambda>m.
     ret (m, a, [rcp_id rcp])))))))"

text \<open>A text of lines, as \<open>"\n".join(...)\<close>.\<close>

definition feed_lines :: "string list \<Rightarrow> string" where
  "feed_lines xs = join [CHR 0x0A] xs"

definition first_proposal ::
  "memory \<Rightarrow> string \<Rightarrow> receiver_context \<Rightarrow> source list \<Rightarrow> source list \<Rightarrow> cost \<Rightarrow> proposal"
where
  "first_proposal m workflow ctx training evaluation c =
     \<lparr>pp_memory = mem_id m, pp_update = mem_update m, pp_workflow = workflow, pp_context = ctx,
      pp_training = training, pp_evaluation = evaluation, pp_cutoff = 2, pp_from = 3, pp_until = 100,
      pp_cost = c\<rparr>"

definition renewed_proposal ::
  "qualification \<Rightarrow> receiver_context \<Rightarrow> source list \<Rightarrow> int \<Rightarrow> cost \<Rightarrow> proposal"
where
  "renewed_proposal q ctx evaluation valid_from c =
     \<lparr>pp_memory = qu_memory q, pp_update = qu_update q, pp_workflow = qu_workflow q, pp_context = ctx,
      pp_training = qu_training q, pp_evaluation = evaluation, pp_cutoff = 2, pp_from = valid_from,
      pp_until = 100, pp_cost = c\<rparr>"

definition demo_kernel ::
  "fts_engine \<Rightarrow> host \<Rightarrow> litellm_module option \<Rightarrow> nat \<Rightarrow> db kernel"
where
  "demo_kernel E H litellm n =
     open_kernel E H (\<lambda>m. litellm_complete H litellm (Some m)) n None ''strict''
       (no_plugins\<lparr>pl_tools := Some (demo_tools ''normalize-lines-v1'' demo_normalize H n)\<rparr>)"

definition demo_setup ::
  "fts_engine \<Rightarrow> host \<Rightarrow> litellm_module option \<Rightarrow> alt \<Rightarrow> string \<Rightarrow> (desk, demo) io"
where
  "demo_setup E H litellm A implementation =
     bind_io (on_world draw) (\<lambda>n.
     let K = demo_kernel E H litellm n in
     bind_io (lift (demo_context implementation ''A'')) (\<lambda>ctx.
     bind_io (map_io (\<lambda>(i, text). on_world (demo_observe implementation K ctx text i ''training'' (''train-'' @ nat_text i)))
       [(1, feed_lines [''z'', ''a'']), (2, feed_lines [''c'', ''b'', ''c''])]) (\<lambda>training.
     bind_io (on_world (demo_memory K ctx)) (\<lambda>(m, a, receipts).
     bind_io (lift (context_input ctx)) (\<lambda>v.
     bind_io (on_world (demo_observe implementation K ctx v 3 ''evaluation'' ''check-A'')) (\<lambda>s.
     bind_io (lift (content_digest H m)) (\<lambda>workflow.
     bind_io (lift (demo_cost ''formation'' ''formation'')) (\<lambda>c.
     bind_io (lift (proposed_res (propose H A implementation
       (first_proposal m workflow ctx training [s] c)))) (\<lambda>q.
     bind_io (lift (demo_context implementation ''B'')) (\<lambda>other.
     bind_io (lift (receiver_runtime_new H A implementation (Some K) [ctx, other])) (\<lambda>R.
     bind_io (current_revision R) (\<lambda>expected.
     bind_io (admit R q 3 expected) (\<lambda>_.
     ret \<lparr>dm_kernel = K, dm_receiver = R, dm_qualification = q, dm_intent = a, dm_receipts = receipts\<rparr>)))))))))))))"

section \<open>The run\<close>

definition views_at :: "receiver_runtime \<Rightarrow> string \<Rightarrow> string \<Rightarrow> int \<Rightarrow> (desk, view list) io" where
  "views_at R receiver input_text now =
     bind_io (receiver_retrieve R receiver input_text now [] 8) (\<lambda>r. ret (rt_views r))"

definition services_now :: "receiver_runtime \<Rightarrow> (desk, string list) io" where
  "services_now R dk =
     (bind_res (store_inspect (rr_host R) (rr_implementation R) (dk_rows dk))
        (\<lambda>r. Inr (jn_services (rp_state r))), dk)"

definition must :: "bool \<Rightarrow> (desk, unit) io" where
  "must b = lift (assert_that b)"

text \<open>A kernel over another, new file, which shares the clock.\<close>

definition beside :: "(db world, 'a) io \<Rightarrow> (desk, 'a) io" where
  "beside m dk =
     (case m ((dk_world dk)\<lparr>w_store := empty_db\<rparr>) of
        (r, w) \<Rightarrow> (r, dk\<lparr>dk_world := (dk_world dk)\<lparr>w_tick := w_tick w\<rparr>\<rparr>))"

definition selected_plan :: "dict \<Rightarrow> json res" where
  "selected_plan economic =
     bind_res (item economic ''plans'') (\<lambda>p. bind_res (json_item p ''all'') (\<lambda>p. json_item p ''selected''))"

definition demo_use ::
  "receiver_runtime \<Rightarrow> demo \<Rightarrow> string \<Rightarrow> string \<Rightarrow> string \<Rightarrow> int \<Rightarrow> (desk, use_result) io"
where
  "demo_use R D input_text identity cost_id now =
     bind_io (lift (digest (rr_host R) (JDict (qualification_dump (dm_qualification D))))) (\<lambda>qid.
     bind_io (current_revision R) (\<lambda>expected.
     bind_io (lift (demo_cost cost_id ''use'')) (\<lambda>c.
     receiver_use R qid input_text identity now expected (dm_intent D) (dm_receipts D) c)))"

text \<open>Before any use: only A sees the memory, and an exposure is no service.\<close>

definition demo_expose ::
  "fts_engine \<Rightarrow> host \<Rightarrow> litellm_module option \<Rightarrow> alt \<Rightarrow> alt_planner \<Rightarrow> string \<Rightarrow> demo \<Rightarrow> string \<Rightarrow>
   (desk, json \<times> nat list) io"
where
  "demo_expose E H litellm A B implementation D v =
     (let R = dm_receiver D; q = dm_qualification D in
      bind_io (views_at R ''A'' v 4) (\<lambda>a.
      bind_io (views_at R ''B'' v 4) (\<lambda>b.
      bind_io (must (a \<noteq> [] \<and> b = [])) (\<lambda>_.
      bind_io (lift (compare H A B implementation q 4 ''10'' 16)) (\<lambda>economic.
      bind_io (lift (selected_plan economic)) (\<lambda>selected.
      bind_io (must (py_eq selected (strs_json [''scratch'']))) (\<lambda>_.
      bind_io (on_world (retrieve (dm_kernel D) [] ''admissible'' 8 None)) (\<lambda>legacy.
      bind_io (on_world draw) (\<lambda>n.
      bind_io (beside (retrieve (open_kernel E H (\<lambda>m. litellm_complete H litellm (Some m)) n None ''strict'' no_plugins)
        [] ''admissible'' 8 None)) (\<lambda>none.
      bind_io (\<lambda>dk. (check_view H A implementation (w_tick (dk_world dk)) (w_store (dk_world dk)) (dk_rows dk)
        (hd a) (qu_context q) v 4, dk)) (\<lambda>_.
      bind_io (run_qualified True R ''normalize'' ''A'' v 4) (\<lambda>_.
      bind_io (services_now R) (\<lambda>services.
      bind_io (must (services = [])) (\<lambda>_.
      ret (selected, [length none, length legacy, length a, length b])))))))))))))))"

text \<open>
  One use, its repetition and a faulty tool. When the use is a service, the file of the tool holds
  what it computed from the input.
\<close>

definition demo_uses :: "host \<Rightarrow> demo \<Rightarrow> string \<Rightarrow> (desk, unit) io" where
  "demo_uses H D v =
     (let R = dm_receiver D in
      bind_io (demo_use R D v ''use-1'' ''use-cost'' 5) (\<lambda>r.
      bind_io (must (us_service r \<and> normalize v = Inr (feed_lines [''a'', ''b'']))) (\<lambda>_.
      bind_io (demo_use R D v ''use-1'' ''use-cost'' 5) (\<lambda>again.
      bind_io (services_now R) (\<lambda>services.
      bind_io (must (us_status again = ''duplicate'' \<and> length services = 1)) (\<lambda>_.
      bind_io (on_world draw) (\<lambda>n.
      let faulty = R\<lparr>rr_kernel := Some ((dm_kernel D)\<lparr>k_tools :=
        demo_tools ''normalize-lines-v1'' faulty_tool H n\<rparr>)\<rparr> in
      bind_io (demo_use faulty D v ''negative-use'' ''negative-use-cost'' 6) (\<lambda>negative.
      bind_io (must (\<not> us_service negative)) (\<lambda>_.
      bind_io (views_at R ''A'' v 6) (\<lambda>views.
      must (views = [])))))))))))"

definition first_cost :: "qualification \<Rightarrow> cost res" where
  "first_cost q =
     (case qu_costs q of [] \<Rightarrow> Inl (IndexError ''list index out of range'') | c # _ \<Rightarrow> Inr c)"

text \<open>A new qualification of the same memory with fresh evidence, admitted and visible.\<close>

definition demo_requalify ::
  "host \<Rightarrow> alt \<Rightarrow> string \<Rightarrow> demo \<Rightarrow> receiver_context \<Rightarrow> string \<Rightarrow> nat \<Rightarrow> (desk, qualification) io"
where
  "demo_requalify H A implementation D ctx identity now =
     (let R = dm_receiver D; q = dm_qualification D in
      bind_io (lift (context_input ctx)) (\<lambda>v.
      bind_io (on_world (demo_observe implementation (dm_kernel D) ctx v now ''evaluation'' identity)) (\<lambda>s.
      bind_io (lift (first_cost q)) (\<lambda>c.
      bind_io (lift (proposed_res (propose H A implementation
        (renewed_proposal q ctx [s] (int now) c)))) (\<lambda>fresh.
      bind_io (current_revision R) (\<lambda>expected.
      bind_io (admit R fresh (int now) expected) (\<lambda>_.
      bind_io (views_at R (cx_receiver ctx) v (int now)) (\<lambda>views.
      bind_io (must (views \<noteq> [])) (\<lambda>_.
      ret fresh)))))))))"

definition demo_report :: "json \<Rightarrow> nat list \<Rightarrow> journal \<Rightarrow> json \<Rightarrow> dict" where
  "demo_report selected counts j schema =
     [(''version'', JStr ''oawm-example-v1''), (''synthetic'', JBool True),
      (''receiver_A_initial'', JStr ''eligible''), (''receiver_B_initial'', JStr ''blocked''),
      (''receiver_B_after_qualification'', JStr ''eligible''), (''refresh'', JStr ''restored''),
      (''withdrawal'', JStr ''both-blocked''), (''unique_services'', JInt (int (length (jn_services j)))),
      (''checked_negative_execution'', JBool True),
      (''finite_exposure_comparison'', JDict (zip [''no_memory'', ''legacy'', ''qualified_A'', ''qualified_B_initial'']
         (map (\<lambda>n. JInt (int n)) counts))),
      (''costed_ALT_selected'', selected), (''costs'', JDict (map (\<lambda>(k, d). (k, JDict d)) (jn_costs j))),
      (''context_exposure_is_service'', JBool False), (''native_CCR'', schema),
      (''host_admission_required'', JBool True), (''runtime_network'', JStr ''blocked''),
      (''execution_authority'', JNull), (''empirical_acceleration'', JNull)]"

definition demo_withdraw :: "string \<Rightarrow> receiver_runtime \<Rightarrow> string \<Rightarrow> string \<Rightarrow> (desk, journal) io" where
  "demo_withdraw implementation R v w =
     bind_io (current_revision R) (\<lambda>expected.
     bind_io (record_event R Withdraw ''withdraw-primitive''
       [(''dependency'', JStr implementation), (''reason'', JStr ''host withdrawal'')] 9 expected) (\<lambda>_.
     bind_io (views_at R ''A'' v 9) (\<lambda>a.
     bind_io (must (a = [])) (\<lambda>_.
     bind_io (views_at R ''B'' w 9) (\<lambda>b.
     bind_io (must (b = [])) (\<lambda>_ dk.
     (bind_res (store_inspect (rr_host R) (rr_implementation R) (dk_rows dk)) (\<lambda>r. Inr (rp_state r)), dk)))))))"

definition demo_run ::
  "fts_engine \<Rightarrow> host \<Rightarrow> litellm_module option \<Rightarrow> alt \<Rightarrow> alt_planner \<Rightarrow> ccr_validator \<Rightarrow> string \<Rightarrow> (desk, dict) io"
where
  "demo_run E H litellm A B validate implementation =
     bind_io (demo_setup E H litellm A implementation) (\<lambda>D.
     bind_io (lift (context_input (qu_context (dm_qualification D)))) (\<lambda>v.
     bind_io (demo_expose E H litellm A B implementation D v) (\<lambda>(selected, counts).
     bind_io (demo_uses H D v) (\<lambda>_.
     bind_io (demo_requalify H A implementation D (qu_context (dm_qualification D)) ''refresh-check'' 7) (\<lambda>refreshed.
     bind_io (lift (demo_context implementation ''B'')) (\<lambda>other.
     bind_io (demo_requalify H A implementation D other ''check-B'' 8) (\<lambda>_.
     bind_io (lift (ccr_proposal H A validate refreshed)) (\<lambda>handoff.
     bind_io (lift (context_input other)) (\<lambda>w.
     bind_io (demo_withdraw implementation (dm_receiver D) v w) (\<lambda>j.
     bind_io (lift (bind_res (item handoff ''native_task'') (\<lambda>t. json_item t ''schema_version''))) (\<lambda>schema.
     ret (demo_report selected counts j schema))))))))))))"

section \<open>The parts at work\<close>

text \<open>The registered contexts pass their own validation, for any digest of the tool.\<close>

lemma demo_context_valid:
  assumes "is_hash implementation" "is_id receiver"
  shows "\<exists>ctx. demo_context implementation receiver = Inr ctx \<and> cx_receiver ctx = receiver \<and>
    cx_inputs ctx = [demo_input] \<and> cx_dependencies ctx = [implementation] \<and> cx_expose ctx"
  using assms assms(1) [unfolded is_hash_def]
  by (simp add: demo_context_def context_of_dict_def only_fields_def required_def optional_def strict_str_def
      is_id_def is_id_char_def literal_def distinct_domain_def bounded_list_def strs_json_def list_value_def ensure_def
      demo_input_def)

text \<open>
  The tool of the demonstration returns the normal form; the faulty one returns, for every input it
  is given, a text that is not the normal form, so its outcome cannot be checked as a service.
\<close>

lemma demo_tools_differ:
  assumes "normalize t = Inr u"
  shows "demo_normalize [(''text'', JStr t)] cx = Inr [(''text'', JStr u)]"
    and "\<exists>v. faulty_tool [(''text'', JStr t)] cx = Inr [(''text'', JStr v)] \<and> v \<noteq> normal_form t"
proof -
  show "demo_normalize [(''text'', JStr t)] cx = Inr [(''text'', JStr u)]"
    by (simp add: demo_normalize_def text_tool_def assms)
  have "length (normal_form t) < length (t @ [CHR 0x0A] @ ''wrong'')"
    using length_normal_form [of t] by simp
  then have "t @ [CHR 0x0A] @ ''wrong'' \<noteq> normal_form t" by (metis less_irrefl)
  then show "\<exists>v. faulty_tool [(''text'', JStr t)] cx = Inr [(''text'', JStr v)] \<and> v \<noteq> normal_form t"
    by (simp add: faulty_tool_def text_tool_def)
qed

text \<open>A run whose withdrawal returns has shown both receivers without any view.\<close>

lemma views_at_empty:
  "views_at R receiver t now dk = (Inr x, dk') \<longleftrightarrow> dk' = dk \<and>
     (\<exists>r. retrieve_inner R receiver t now [] 8 (w_tick (dk_world dk)) (w_store (dk_world dk)) (dk_rows dk) = Inr r \<and>
       rt_views r = x)"
  by (auto simp: views_at_def bind_io_def receiver_retrieve_def ret_def split: sum.splits)

lemma demo_withdraw_blocks:
  assumes "demo_withdraw implementation R v w dk = (Inr j, dk')"
  shows "views_at R ''A'' v 9 dk' = (Inr [], dk')" "views_at R ''B'' w 9 dk' = (Inr [], dk')"
  using assms
  by (auto simp: demo_withdraw_def must_def assert_that_def ensure_def views_at_empty elim!: bind_io_InrE
      split: if_splits)

end
