(* ===== verification/Spec2Isabelle.thy ===== *)
theory Spec2Isabelle
  imports Strict_Json Tool_Properties Session_Witness Demonstration
begin

text \<open>
  A model of \<open>observable-agent-workflow-memory\<close> (OAWM), and the theorems that make it correct.
  Paths are below \<open>src/observable_agent_workflow_memory/\<close>.

  OAWM keeps what an agent observed in an append-only log and lets a workflow become memory only
  through evidence: an observation is an event; a proposer turns the events of a run into a
  candidate record; verification runs checkers and writes a receipt, which moves the record to the
  shadow or the quarantine lane; promotion needs a passing receipt for the present content of the
  record, writes a contract and certifies it; retrieval for an agent returns certified records
  only; a tool with external effects needs a receipt bound to the very action. The opt-in receiver
  (\<open>qualified/\<close>) reuses a certified workflow in one registered context: it reconstructs the
  qualification from source, decides eligibility afresh, and executes a use at most once, fenced by
  a hash-chained journal.

  \<^bold>\<open>How to read the model.\<close> A Python function that raises gives an \<open>error + 'a\<close>
  (\<open>'a res\<close>), a method that changes state an \<open>('s, 'a) io\<close>: a function from a state to a
  result and the next state, which is kept on the error side too. Strings are lists of characters, a
  dictionary is an association list in insertion order, a class is a record with its validation
  (\<open>..._of_dict\<close>) and its dump (\<open>..._dump\<close>). The state of a process is a \<open>world\<close>: the store and
  the number of the next draw from the clock and the random source. \<open>OAWM_Prelude\<close> holds the error
  monad, the state monad, the \<open>keeps\<close> rules for invariants (collection \<open>keeps_intros\<close>) and the
  evaluation rules of the error monad (\<open>res_simps\<close>); \<open>Python_Values\<close> and \<open>Model_Fields\<close> hold the
  Python and pydantic operations that several components share.

  \<^bold>\<open>Parts, in the order of the theories.\<close>
  \<^item> Canonical JSON (\<open>core/canonical.py\<close>, \<open>core/jsonio.py\<close>): \<open>Canonical_Json\<close> has the values, the
    canonical text, the digests and Python's decoder with the strict hooks. A finite float is the
    fraction it stands for, in the one form \<open>is_double\<close> accepts. \<open>Json_Roundtrip\<close> and
    \<open>Strict_Json\<close> show that canonical text is read back, that bytes bind the value up to key
    order, and that the strict loader loads what the text says and never lets a repeated key through.
  \<^item> Models (\<open>core/models.py\<close>, \<open>core/transitions.py\<close>, \<open>core/errors.py\<close>): \<open>Core_Models\<close>,
    \<open>Core_Create\<close>; round trips of every dump in \<open>Model_Roundtrip\<close>; what identifiers, content
    digests and receipts bind, and which histories of moves between lanes there are, in
    \<open>Identity_Properties\<close>, where \<open>lane_step\<close> says the steps of a life in words of its own.
  \<^item> Storage (\<open>ports/storage.py\<close>, \<open>adapters/sqlite_storage.py\<close>): \<open>Storage_Port\<close> is the port as a
    record of operations and the contract as the locales \<open>event_log\<close>, \<open>memory_table\<close>,
    \<open>receipt_log\<close>, \<open>contract_store\<close> and their union \<open>storage_backend\<close> over an abstract store.
    \<open>Sqlite_Storage\<close> is the adapter on tables of rows; \<open>Sqlite_Refinement\<close> has the abstraction
    and the invariant of the tables, and \<open>Sqlite_Backend\<close> interprets the contract on the adapter.
    \<open>Storage_Properties\<close>, \<open>Search_Properties\<close> and \<open>Sqlite_Success\<close> state it on the adapter's own
    functions, with when writes succeed. \<open>Storage_Contract\<close> is the check for plugin authors
    (\<open>testing/contracts.py\<close>). A theorem on success asks that the identifiers which that very call
    draws are unused in the file, and of no other identifier.
  \<^item> Checkers (\<open>adapters/jsonschema_checker.py\<close>, \<open>adapters/semantic_checkers.py\<close>,
    \<open>adapters/receipt_verifier.py\<close>): \<open>Checkers\<close>, \<open>Checker_Properties\<close>.
  \<^item> Promotion (\<open>runtime/promotion.py\<close>): \<open>Promotion\<close>, with what a returning call has done in
    \<open>Promotion_Effects\<close>.
  \<^item> Gate and tools (\<open>runtime/action_gate.py\<close>, \<open>adapters/local_tools.py\<close>, \<open>ports/tools.py\<close>,
    \<open>adapters/mock_llm.py\<close>): \<open>Action_Gate\<close>; \<open>Gate_Properties\<close> and \<open>Tool_Properties\<close> show when
    the gate opens and that nothing runs before it has.
  \<^item> Kernel (\<open>runtime/kernel.py\<close>, \<open>runtime/self_improvement.py\<close>, the default proposer and
    retriever): \<open>Kernel\<close>. The locale \<open>wired_kernel\<close> extends \<open>storage_backend\<close>; \<open>Kernel_Safety\<close>,
    \<open>Kernel_Invariants\<close> and \<open>Kernel_Reachable\<close> show that every operation keeps the invariant of
    the store and define the reachable states; \<open>Kernel_Open\<close> wires the kernel over SQLite and
    interprets the locale; \<open>Kernel_Properties\<close> states the guarantees on the adapter's reads.
    \<open>Promotion_Frame\<close> shows that only the promotion of a record adds to its promotions.
  \<^item> Plugins and command line (\<open>ports/plugins.py\<close>, \<open>adapters/litellm_provider.py\<close>,
    \<open>cli/app.py\<close>): \<open>Plugin_Loading\<close>, \<open>Command_Line\<close>. \<open>execute\<close> is one command, \<open>shell\<close> a session
    of them. \<open>Command_Properties\<close> and \<open>Command_Observe\<close> carry the kernel's invariant to sessions,
    show that only \<open>promote\<close> certifies and that \<open>observe\<close> records a file row by row, also up to a
    row that raises.
  \<^item> Wire format (\<open>qualified/wire.py\<close>): \<open>Qualified_Wire\<close>, with its bounds in \<open>Wire_Properties\<close> and
    its types in \<open>Wire_Types\<close>.
  \<^item> Journal (\<open>qualified/store.py\<close>): \<open>Qualified_Journal\<close>; invariants, order of a use, growth and the
    chain of digests in \<open>Journal_Invariants\<close> and \<open>Journal_Properties\<close>; \<open>Journal_Order\<close> and
    \<open>Journal_Durable\<close> show which rows an append adds, and that they are read back as the entries of
    the batch and replay alike.
  \<^item> Tool, reconstruction, proposal (\<open>qualified/native.py\<close>): \<open>Qualified_Normalize\<close> with the
    registered tool and its independent check, \<open>Qualified_Native\<close>, \<open>Qualified_Proposal\<close>;
    \<open>Qualified_Exports\<close> has the inert CCR task and the document for ALT's planner
    (\<open>qualified/economics.py\<close>), \<open>Qualified_Commands\<close> the journal file and \<open>qualified/cli.py\<close>.
  \<^item> Eligibility and receiver (\<open>qualified/eligibility.py\<close>, \<open>qualified/checker.py\<close>,
    \<open>qualified/runtime.py\<close>): \<open>Qualified_Eligibility\<close>, \<open>Receiver_Runtime\<close>, \<open>Receiver_Use\<close>. The state
    \<open>desk\<close> is a kernel's world with the journal rows beside it. A retrieval is of a file that has
    passed the guards of \<open>Store.readonly\<close> (the file is there, no write-ahead log is pending), which are
    \<open>store_readonly\<close> in \<open>Qualified_Commands\<close>. \<open>Eligibility_Properties\<close> has the conditions of a
    decision and the consumer's check of it; \<open>Use_Properties\<close> and \<open>Use_Crash\<close> show that a use runs a
    tool at most once and that a use that raises leaves its intent recorded; \<open>Receiver_Eligibility\<close>
    that views are returned and tools run on a fresh decision only, with everything the decision asks
    for in place. \<open>Receiver_Session\<close> lets
    operations of the receiver and commands of the kernel alternate and shows that the receiver is
    invisible to the kernel. \<open>Demonstration\<close> is \<open>qualified/example.py\<close>, one run through every part.
  \<^item> Witnesses: \<open>Concrete_Host\<close>, \<open>Witness_States\<close>, \<open>Kernel_Witnesses\<close>, \<open>Command_Witnesses\<close>,
    \<open>Journal_Witness\<close>, \<open>Flat_Journal\<close>, \<open>Flat_Rows\<close>, \<open>Durable_Witness\<close>, the small world of
    \<open>Lab_Tables\<close>, \<open>Lab_World\<close>, \<open>Lab_Decision\<close>, \<open>Lab_Journal\<close>, \<open>Lab_Use\<close>, and \<open>Use_Witness\<close>,
    \<open>Session_Witness\<close>.

  \<^bold>\<open>Parameters.\<close> \<open>host\<close>: the hash function, the text of floats, the clock, the random source, the
  messages of the schema library and the lenient conversions of pydantic; \<open>host_ok\<close> states that
  floats and dates read back, and no theorem assumes that the hash is injective: where it matters the
  conclusion is \<open>or a collision\<close>. \<open>fts_engine\<close>: the ranking and the order of a scan, with
  \<open>engine_ok\<close>. \<open>alt\<close>, \<open>alt_planner\<close>, \<open>ccr_validator\<close>, \<open>litellm_module\<close>: the companion packages.
  \<open>registry\<close>, \<open>terminal\<close>: installed entry points, files and the console. Model providers, checkers,
  proposers, tools and verifiers are arbitrary functions in the kernel theorems, save that a
  proposer may not propose certified records.

  \<^bold>\<open>Bounds and fuel.\<close> The decoder recurses with fuel \<open>2 * length text + 1\<close>; \<open>Strict_Json\<close>
  shows it is never used up. Lines are split with a measure on the rest of the text. The program's own limits (4096
  characters, 256 journal entries, 2000000 characters of journal, depth 24 and 50000 values, 32
  steps, 128 for the cap checker) are in the definitions as the code has them. Characters are those
  with a code below 256. The interpreter's limits on integer literals of more than 4300 digits and
  on the depth of recursion of its decoder are not modelled.

  \<^bold>\<open>Not modelled.\<close>
  \<^item> Input and output proper: connections, pragmas, creating directories, the SQL text. A transaction
    is a function on the rows that is dropped when it raises; one process works on a file at a time,
    and the receiver's journal and the kernel's tables are in that file.
  \<^item> Tools and model providers do not call back into the store while they run.
  \<^item> A storage plugin other than SQLite in \<open>AgentKernel.open\<close>; the kernel theorems themselves are
    over any storage that keeps the contract.
  \<^item> Option parsing and the layout of the console: a command returns what it hands over for printing.
  \<^item> \<open>examples/\<close>, \<open>scripts/\<close>: short calls of the operations above and release tooling, which
    hashes files, unpacks archives or runs other programs.
\<close>

end
